(* ===== verification/Kaguya_Prelude.thy ===== *)
theory Kaguya_Prelude
  imports Main "HOL-Library.Word"
begin

text \<open>
  What every component of the development shares: the integer widths of the
  Rust code, the string operations of the Rust standard library that the code
  calls, the outcome of a computation that can panic, and the contract of a printed form.

  A Rust \<^verbatim>\<open>String\<close> is a sequence of UTF-8 bytes and
  Isabelle's type \<^typ>\<open>string\<close> is a list of characters with the codes 0 to
  255, so one Isabelle character stands for one byte and \<^const>\<open>length\<close>
  is \<^verbatim>\<open>str::len\<close>.  A \<^verbatim>\<open>Result\<close> is a sum
  with the error on the left.
\<close>

type_synonym u8 = "8 word"
type_synonym u64 = "64 word"
type_synonym u128 = "128 word"

named_theorems str_simps \<open>rewrite rules for the string operations\<close>
named_theorems table_simps \<open>rewrite rules for hash maps and their retained entries\<close>

section \<open>Results and panics\<close>

text \<open>A computation of the source that may return, fail or panic.\<close>

datatype ('e, 'a) outcome = Ok 'a | Err 'e | Panic

text \<open>
  \<^verbatim>\<open>Iterator::collect\<close> into a \<^verbatim>\<open>Result<Vec<_>, _>\<close>:
  the items are computed from left to right, up to the first that is not a value.
\<close>

fun collect_outcomes :: "('e, 'a) outcome list \<Rightarrow> ('e, 'a list) outcome" where
  "collect_outcomes [] = Ok []"
| "collect_outcomes (Ok x # rs) =
     (case collect_outcomes rs of Ok xs \<Rightarrow> Ok (x # xs) | Err e \<Rightarrow> Err e | Panic \<Rightarrow> Panic)"
| "collect_outcomes (Err e # rs) = Err e"
| "collect_outcomes (Panic # rs) = Panic"

lemma collect_outcomes_map_Ok:
  "(\<And>x. x \<in> set xs \<Longrightarrow> f x = Ok (g x)) \<Longrightarrow> collect_outcomes (map f xs) = Ok (map g xs)"
  by (induction xs) auto

lemma collect_outcomes_Ok_iff:
  "collect_outcomes rs = Ok xs \<longleftrightarrow> rs = map Ok xs"
proof (induction rs arbitrary: xs)
  case Nil
  then show ?case by auto
next
  case (Cons r rs)
  then show ?case
    by (cases r; cases "collect_outcomes rs") (auto simp: Cons_eq_map_conv)
qed

lemma collect_outcomes_no_Panic:
  "Panic \<notin> set rs \<Longrightarrow> collect_outcomes rs \<noteq> Panic"
  by (induction rs rule: collect_outcomes.induct) (auto split: outcome.splits)

lemma collect_outcomes_Panic_append:
  "collect_outcomes (map Ok xs @ Panic # rs) = Panic"
  by (induction xs) auto

text \<open>The first value a function finds in a list, \<^verbatim>\<open>Iterator::find_map\<close>.\<close>

fun find_map :: "('a \<Rightarrow> 'b option) \<Rightarrow> 'a list \<Rightarrow> 'b option" where
  "find_map f [] = None"
| "find_map f (x # xs) = (case f x of Some y \<Rightarrow> Some y | None \<Rightarrow> find_map f xs)"

lemma find_map_Some_set: "find_map f xs = Some y \<Longrightarrow> \<exists>x \<in> set xs. f x = Some y"
  by (induction xs) (auto split: option.splits)

lemma find_map_None_iff [simp]: "find_map f xs = None \<longleftrightarrow> (\<forall>x \<in> set xs. f x = None)"
  by (induction xs) (auto split: option.splits)

text \<open>\<^verbatim>\<open>Iterator::filter_map\<close>, keeping the order.\<close>

definition filter_map :: "('a \<Rightarrow> 'b option) \<Rightarrow> 'a list \<Rightarrow> 'b list" where
  "filter_map f xs = concat (map (\<lambda>x. case f x of Some y \<Rightarrow> [y] | None \<Rightarrow> []) xs)"

lemma filter_map_simps [simp]:
  "filter_map f [] = []"
  "filter_map f (x # xs) = (case f x of Some y \<Rightarrow> y # filter_map f xs | None \<Rightarrow> filter_map f xs)"
  by (auto simp: filter_map_def split: option.splits)

lemma set_filter_map: "set (filter_map f xs) = {y. \<exists>x \<in> set xs. f x = Some y}"
  by (induction xs) (auto split: option.splits)

text \<open>\<^verbatim>\<open>Option::or_else\<close> and \<^verbatim>\<open>Option::filter\<close>.\<close>

definition or_else :: "'a option \<Rightarrow> 'a option \<Rightarrow> 'a option" where
  "or_else a b = (case a of Some x \<Rightarrow> Some x | None \<Rightarrow> b)"

definition opt_filter :: "('a \<Rightarrow> bool) \<Rightarrow> 'a option \<Rightarrow> 'a option" where
  "opt_filter p a = (case a of Some x \<Rightarrow> (if p x then Some x else None) | None \<Rightarrow> None)"

lemma or_else_simps [simp]: "or_else (Some x) b = Some x" "or_else None b = b"
  by (simp_all add: or_else_def)

lemma opt_filter_Some [simp]: "opt_filter p a = Some x \<longleftrightarrow> a = Some x \<and> p x"
  by (auto simp: opt_filter_def split: option.splits)

lemma opt_filter_simps [simp]:
  "opt_filter p None = None" "opt_filter p (Some x) = (if p x then Some x else None)"
  by (simp_all add: opt_filter_def)

section \<open>Strings of the standard library\<close>

fun strip_prefix :: "string \<Rightarrow> string \<Rightarrow> string option" where
  "strip_prefix [] s = Some s"
| "strip_prefix (p # ps) [] = None"
| "strip_prefix (p # ps) (c # cs) = (if p = c then strip_prefix ps cs else None)"

lemma strip_prefix_iff: "strip_prefix p s = Some r \<longleftrightarrow> s = p @ r"
  by (induction p s rule: strip_prefix.induct) auto

lemma strip_prefix_append [str_simps, simp]: "strip_prefix p (p @ r) = Some r"
  by (simp add: strip_prefix_iff)

text \<open>\<^verbatim>\<open>str::trim_end_matches(c)\<close>: drop every trailing \<^verbatim>\<open>c\<close>.\<close>

definition trim_end_matches :: "char \<Rightarrow> string \<Rightarrow> string" where
  "trim_end_matches c s = rev (dropWhile (\<lambda>x. x = c) (rev s))"

lemma trim_end_matches_Nil [str_simps, simp]: "trim_end_matches c [] = []"
  by (simp add: trim_end_matches_def)

lemma trim_end_matches_snoc [str_simps, simp]: "trim_end_matches c (s @ [c]) = trim_end_matches c s"
  by (simp add: trim_end_matches_def)

lemma trim_end_matches_other [str_simps]:
  "x \<noteq> c \<Longrightarrow> trim_end_matches c (s @ [x]) = s @ [x]"
  by (simp add: trim_end_matches_def)

lemma trim_end_matches_last: "trim_end_matches c s = [] \<or> last (trim_end_matches c s) \<noteq> c"
proof (induction s rule: rev_induct)
  case Nil
  then show ?case by simp
next
  case (snoc x s)
  then show ?case by (cases "x = c") (simp_all add: trim_end_matches_other)
qed

text \<open>\<^verbatim>\<open>str::split(c)\<close>: always at least one piece.\<close>

fun split_on :: "char \<Rightarrow> string \<Rightarrow> string list" where
  "split_on c [] = [[]]"
| "split_on c (x # xs) =
     (if x = c then [] # split_on c xs
      else (case split_on c xs of [] \<Rightarrow> [[x]] | p # ps \<Rightarrow> (x # p) # ps))"

lemma split_on_not_Nil [simp]: "split_on c s \<noteq> []"
  by (cases s) (auto split: list.splits)

lemma split_on_absent: "c \<notin> set s \<Longrightarrow> split_on c s = [s]"
  by (induction s) auto

lemma split_on_append: "c \<notin> set p \<Longrightarrow> split_on c (p @ c # s) = p # split_on c s"
  by (induction p) auto

lemma cut_at:
  "c \<notin> set a \<Longrightarrow> c \<notin> set a' \<Longrightarrow> a @ c # r = a' @ c # r' \<Longrightarrow> a = a' \<and> r = r'"
proof (induction a arbitrary: a')
  case Nil
  then show ?case by (cases a') auto
next
  case (Cons x a)
  then show ?case by (cases a') auto
qed

text \<open>
  \<^verbatim>\<open>str::trim\<close> on text of ASCII bytes: tab, line feed, vertical tab,
  form feed, carriage return and space are the ASCII white space.
\<close>

definition is_ascii_space :: "char \<Rightarrow> bool" where
  "is_ascii_space c \<longleftrightarrow> of_char c \<in> {9::nat, 10, 11, 12, 13, 32}"

definition str_trim :: "string \<Rightarrow> string" where
  "str_trim s = rev (dropWhile is_ascii_space (rev (dropWhile is_ascii_space s)))"

lemma str_trim_id:
  assumes "s = [] \<or> \<not> is_ascii_space (hd s)" and "s = [] \<or> \<not> is_ascii_space (last s)"
  shows "str_trim s = s"
proof (cases "s = []")
  case True
  then show ?thesis by (simp add: str_trim_def)
next
  case False
  with assms have "dropWhile is_ascii_space s = s" "dropWhile is_ascii_space (rev s) = rev s"
    by (auto simp: dropWhile_eq_self_iff hd_rev)
  then show ?thesis by (simp add: str_trim_def)
qed

text \<open>
  \<^verbatim>\<open>str::to_lowercase\<close>.  Text of ASCII bytes maps A to Z to a to z and
  keeps the rest; the Unicode tables that decide every other text are the argument
  \<^verbatim>\<open>uni\<close>.
\<close>

definition ascii_lower :: "char \<Rightarrow> char" where
  "ascii_lower c = (if 65 \<le> (of_char c :: nat) \<and> (of_char c :: nat) \<le> 90
                    then char_of ((of_char c :: nat) + 32) else c)"

definition is_ascii :: "string \<Rightarrow> bool" where
  "is_ascii s \<longleftrightarrow> (\<forall>c \<in> set s. (of_char c :: nat) < 128)"

definition to_lowercase :: "(string \<Rightarrow> string) \<Rightarrow> string \<Rightarrow> string" where
  "to_lowercase uni s = (if is_ascii s then map ascii_lower s else uni s)"

lemma ascii_lower_idem [simp]: "ascii_lower (ascii_lower c) = ascii_lower c"
  by (auto simp: ascii_lower_def of_char_of)

lemma ascii_lower_ascii: "(of_char c :: nat) < 128 \<Longrightarrow> (of_char (ascii_lower c) :: nat) < 128"
  by (auto simp: ascii_lower_def of_char_of)

lemma is_ascii_map_lower: "is_ascii s \<Longrightarrow> is_ascii (map ascii_lower s)"
  by (auto simp: is_ascii_def ascii_lower_ascii)

lemma to_lowercase_idem: "is_ascii s \<Longrightarrow> to_lowercase uni (to_lowercase uni s) = to_lowercase uni s"
  by (simp add: to_lowercase_def is_ascii_map_lower)

lemma to_lowercase_length [simp]: "is_ascii s \<Longrightarrow> length (to_lowercase uni s) = length s"
  by (simp add: to_lowercase_def)

text \<open>\<^verbatim>\<open>Path::join\<close> of a directory and a plain file name.\<close>

definition path_join :: "string \<Rightarrow> string \<Rightarrow> string" where
  "path_join dir f =
     (if dir = [] then f else if last dir = CHR ''/'' then dir @ f else dir @ ''/'' @ f)"

text \<open>Integers in decimal, as \<^verbatim>\<open>format!\<close> shows them.\<close>

fun dec :: "nat \<Rightarrow> string" where
  "dec n = (if n < 10 then [char_of (48 + n)] else dec (n div 10) @ [char_of (48 + n mod 10)])"

declare dec.simps [simp del]

definition dec_int :: "int \<Rightarrow> string" where
  "dec_int i = (if i < 0 then ''-'' @ dec (nat (- i)) else dec (nat i))"

text \<open>Printable ASCII: what a header value may hold.\<close>

definition is_visible :: "string \<Rightarrow> bool" where
  "is_visible s \<longleftrightarrow> (\<forall>c \<in> set s. 32 \<le> (of_char c :: nat) \<and> (of_char c :: nat) < 127)"

lemma is_visible_append [simp]: "is_visible (a @ b) \<longleftrightarrow> is_visible a \<and> is_visible b"
  by (auto simp: is_visible_def)

lemma is_visible_dec: "is_visible (dec n)"
proof (induction n rule: dec.induct)
  case (1 n)
  have "is_visible [char_of (48 + m)]" if "m < 10" for m :: nat
    using that by (simp add: is_visible_def of_char_of)
  with 1 show ?case by (subst dec.simps) auto
qed

lemma is_visible_dec_int: "is_visible (dec_int i)"
proof -
  have "is_visible ''-''" by (simp add: is_visible_def)
  then show ?thesis unfolding dec_int_def by (simp only: is_visible_append is_visible_dec split: if_split) simp
qed

section \<open>The contract of a printed form\<close>

text \<open>
  A value is printed and read back.  The reader may accept more than the printer
  writes; on the texts the printer writes (\<open>canon\<close>) the two are inverse.
\<close>

locale printed =
  fixes enc :: "'a \<Rightarrow> 'b" and dec :: "'b \<Rightarrow> 'a option" and canon :: "'b \<Rightarrow> bool"
  assumes dec_enc: "dec (enc a) = Some a"
    and canon_enc: "canon (enc a)"
    and enc_dec: "canon b \<Longrightarrow> dec b = Some a \<Longrightarrow> enc a = b"
begin

lemma enc_inj: "enc a = enc a' \<longleftrightarrow> a = a'"
  using dec_enc by (metis option.inject)

lemma enc_range: "range enc = {b. canon b \<and> dec b \<noteq> None}"
  using dec_enc canon_enc enc_dec by (fastforce simp: image_iff)

lemma dec_canon_inj: "canon b \<Longrightarrow> canon b' \<Longrightarrow> dec b = Some a \<Longrightarrow> dec b' = Some a \<Longrightarrow> b = b'"
  using enc_dec by metis

end

end
