(* ===== verification/Rebac_Store.thy ===== *)
theory Rebac_Store
  imports Kaguya_Prelude "HOL-Library.Multiset" "HOL-Library.Option_ord"
    "HOL-Library.Char_ord" "HOL-Library.List_Lexorder"
begin

text \<open>
  \<^verbatim>\<open>auth/src/store.rs\<close>: who may access which repository.  The three
  SQLite tables are lists of rows; the eight data-changing SQL statements of the file are
  the constructors of a datatype, with the effect the SQL text states.  SQLite itself is
  a parameter (\<open>sql_env\<close>): which statements fail in which state (a statement
  that fails changes nothing, SQLite's autocommit), and in which order, and how many of,
  the rows of a query are delivered (an unordered query has no fixed order, and the code's
  \<^verbatim>\<open>rows.flatten()\<close> drops rows whose reading fails).

  The abstract specification is an access policy: the created resources, a map from
  (subject, resource) to the role text, and the membership relation.
\<close>

section \<open>Roles\<close>

datatype role = Member | Owner

instantiation role :: linorder
begin

definition less_eq_role :: "role \<Rightarrow> role \<Rightarrow> bool" where
  "less_eq_role a b \<longleftrightarrow> a = Member \<or> b = Owner"

definition less_role :: "role \<Rightarrow> role \<Rightarrow> bool" where
  "less_role a b \<longleftrightarrow> a = Member \<and> b = Owner"

instance
proof
  fix a b c :: role
  show "(a < b) = (a \<le> b \<and> \<not> b \<le> a)"
    by (cases a; cases b) (simp_all add: less_eq_role_def less_role_def)
  show "a \<le> a" by (cases a) (simp_all add: less_eq_role_def)
  show "a \<le> b \<Longrightarrow> b \<le> c \<Longrightarrow> a \<le> c"
    by (cases a; cases b; cases c) (simp_all add: less_eq_role_def)
  show "a \<le> b \<Longrightarrow> b \<le> a \<Longrightarrow> a = b"
    by (cases a; cases b) (simp_all add: less_eq_role_def)
  show "a \<le> b \<or> b \<le> a" by (cases a; cases b) (simp_all add: less_eq_role_def)
qed

end

lemma role_order [simp]: "Member \<le> r" "r \<le> Owner" "Owner \<le> r \<longleftrightarrow> r = Owner" "Member < Owner"
  by (cases r; simp add: less_eq_role_def less_role_def)+

lemma max_role [simp]: "max Owner r = Owner" "max r Owner = Owner" "max Member r = r" "max r Member = r"
  by (cases r; simp add: max_def)+

fun as_str :: "role \<Rightarrow> string" where
  "as_str Owner = ''owner''"
| "as_str Member = ''member''"

definition role_parse :: "string \<Rightarrow> role option" where
  "role_parse s =
     (if s = ''owner'' then Some Owner
      else if s = ''member'' \<or> s = ''writer'' \<or> s = ''reader'' then Some Member
      else None)"

fun permissions :: "role \<Rightarrow> string list" where
  "permissions Owner = [''owner'', ''admin'', ''obliterate'', ''migrate'', ''read'', ''write'']"
| "permissions Member = [''read'', ''write'']"

interpretation role_text: printed as_str role_parse "\<lambda>s. s \<in> {''owner'', ''member''}"
proof
  fix r :: role and s :: string
  show "role_parse (as_str r) = Some r" "as_str r \<in> {''owner'', ''member''}"
    by (cases r; simp add: role_parse_def)+
  show "s \<in> {''owner'', ''member''} \<Longrightarrow> role_parse s = Some r \<Longrightarrow> as_str r = s"
    by (auto simp: role_parse_def split: if_splits)
qed

lemma role_parse_owner [simp]: "role_parse ''owner'' = Some Owner"
  by (simp add: role_parse_def)

lemma permissions_mono: "r \<le> r' \<Longrightarrow> set (permissions r) \<subseteq> set (permissions r')"
  by (cases r; cases r') auto

section \<open>Tables and statements\<close>

record resource_row =
  r_urc :: string
  r_name :: string
  r_created_at :: int

record grant_row =
  g_subject :: string
  g_urc :: string
  g_role :: string

record member_row =
  m_grp :: string
  m_subject :: string

record db =
  resources :: "resource_row list"
  grants :: "grant_row list"
  group_members :: "member_row list"

definition new_db :: db where
  "new_db = \<lparr>resources = [], grants = [], group_members = []\<rparr>"

datatype sql_stmt =
    InsertResource string string int  \<comment> \<open>\<^verbatim>\<open>INSERT OR IGNORE INTO resources\<close>\<close>
  | InsertOwner string string  \<comment> \<open>\<^verbatim>\<open>INSERT OR IGNORE INTO grants ... 'owner'\<close>\<close>
  | DeleteGrantsOf string
  | DeleteResource string
  | ReplaceGrant string string string  \<comment> \<open>\<^verbatim>\<open>INSERT OR REPLACE INTO grants\<close>\<close>
  | DeleteGrant string string
  | InsertMember string string
  | DeleteMember string string

definition grant_key :: "grant_row \<Rightarrow> string \<times> string" where
  "grant_key g = (g_subject g, g_urc g)"

definition member_key :: "member_row \<Rightarrow> string \<times> string" where
  "member_key m = (m_grp m, m_subject m)"

text \<open>The effect of a statement and the number of rows it changes.\<close>

fun exec_stmt :: "sql_stmt \<Rightarrow> db \<Rightarrow> db \<times> nat" where
  "exec_stmt (InsertResource urc name t) d =
     (if urc \<in> r_urc ` set (resources d) then (d, 0)
      else (d\<lparr>resources := resources d @ [\<lparr>r_urc = urc, r_name = name, r_created_at = t\<rparr>]\<rparr>, 1))"
| "exec_stmt (InsertOwner s urc) d =
     (if (s, urc) \<in> grant_key ` set (grants d) then (d, 0)
      else (d\<lparr>grants := grants d @ [\<lparr>g_subject = s, g_urc = urc, g_role = ''owner''\<rparr>]\<rparr>, 1))"
| "exec_stmt (DeleteGrantsOf urc) d =
     (d\<lparr>grants := filter (\<lambda>g. g_urc g \<noteq> urc) (grants d)\<rparr>,
      length (filter (\<lambda>g. g_urc g = urc) (grants d)))"
| "exec_stmt (DeleteResource urc) d =
     (d\<lparr>resources := filter (\<lambda>r. r_urc r \<noteq> urc) (resources d)\<rparr>,
      length (filter (\<lambda>r. r_urc r = urc) (resources d)))"
| "exec_stmt (ReplaceGrant s urc role) d =
     (d\<lparr>grants := filter (\<lambda>g. grant_key g \<noteq> (s, urc)) (grants d)
                   @ [\<lparr>g_subject = s, g_urc = urc, g_role = role\<rparr>]\<rparr>, 1)"
| "exec_stmt (DeleteGrant s urc) d =
     (d\<lparr>grants := filter (\<lambda>g. grant_key g \<noteq> (s, urc)) (grants d)\<rparr>,
      length (filter (\<lambda>g. grant_key g = (s, urc)) (grants d)))"
| "exec_stmt (InsertMember grp s) d =
     (if (grp, s) \<in> member_key ` set (group_members d) then (d, 0)
      else (d\<lparr>group_members := group_members d @ [\<lparr>m_grp = grp, m_subject = s\<rparr>]\<rparr>, 1))"
| "exec_stmt (DeleteMember grp s) d =
     (d\<lparr>group_members := filter (\<lambda>m. member_key m \<noteq> (grp, s)) (group_members d)\<rparr>,
      length (filter (\<lambda>m. member_key m = (grp, s)) (group_members d)))"

record sql_env =
  sql_fails :: "sql_stmt \<Rightarrow> db \<Rightarrow> string option"
  sql_order :: "nat \<Rightarrow> nat list"

text \<open>
  The rows of a query that the code receives: the rows at the positions SQLite chooses,
  each at most once, in its order; an ordered query keeps the order it states.
\<close>

definition deliver :: "sql_env \<Rightarrow> 'a list \<Rightarrow> 'a list" where
  "deliver env xs =
     map (\<lambda>i. xs ! i) (filter (\<lambda>i. i < length xs) (remdups (sql_order env (length xs))))"

definition deliver_ordered :: "sql_env \<Rightarrow> 'a list \<Rightarrow> 'a list" where
  "deliver_ordered env xs = nths xs (set (sql_order env (length xs)))"

text \<open>\<^verbatim>\<open>conn.execute\<close>.\<close>

definition execute :: "sql_env \<Rightarrow> sql_stmt \<Rightarrow> db \<Rightarrow> db \<times> (string + nat)" where
  "execute env st d =
     (case sql_fails env st d of
        Some e \<Rightarrow> (d, Inl e)
      | None \<Rightarrow> (let (d', n) = exec_stmt st d in (d', Inr n)))"

text \<open>
  The behaviour of a healthy SQLite: no statement fails, and every row of a query is
  delivered.
\<close>

definition no_faults :: "sql_env \<Rightarrow> bool" where
  "no_faults env \<longleftrightarrow> (\<forall>st d. sql_fails env st d = None)"

definition full_rows :: "sql_env \<Rightarrow> bool" where
  "full_rows env \<longleftrightarrow> (\<forall>n. {..<n} \<subseteq> set (sql_order env n))"

definition healthy :: sql_env where
  "healthy = \<lparr>sql_fails = (\<lambda>_ _. None), sql_order = (\<lambda>n. [0..<n])\<rparr>"

lemma healthy_ok [simp]: "no_faults healthy" "full_rows healthy"
  by (auto simp: healthy_def no_faults_def full_rows_def)

lemma set_deliver_sub: "set (deliver env xs) \<subseteq> set xs"
  by (auto simp: deliver_def)

lemma set_deliver:
  assumes "full_rows env"
  shows "set (deliver env xs) = set xs"
proof
  show "set (deliver env xs) \<subseteq> set xs" by (rule set_deliver_sub)
  show "set xs \<subseteq> set (deliver env xs)"
  proof
    fix x assume "x \<in> set xs"
    then obtain i where "i < length xs" "x = xs ! i" by (auto simp: in_set_conv_nth)
    moreover from assms this have "i \<in> set (sql_order env (length xs))"
      by (auto simp: full_rows_def)
    ultimately show "x \<in> set (deliver env xs)" by (simp add: deliver_def)
  qed
qed

lemma distinct_deliver: "distinct xs \<Longrightarrow> distinct (deliver env xs)"
  by (auto simp: deliver_def distinct_map inj_on_def nth_eq_iff_index_eq)

lemma deliver_ordered_full: "full_rows env \<Longrightarrow> deliver_ordered env xs = xs"
  by (auto simp: deliver_ordered_def full_rows_def intro!: nths_all)

section \<open>The operations of the store\<close>

text \<open>
  \<^verbatim>\<open>Store::open\<close>: the tables of an existing file are kept
  (\<^verbatim>\<open>CREATE TABLE IF NOT EXISTS\<close>); the first argument is the error of
  opening or of the schema, if any.
\<close>

definition store_open :: "string option \<Rightarrow> db option \<Rightarrow> string + db" where
  "store_open failure file =
     (case failure of Some e \<Rightarrow> Inl e
      | None \<Rightarrow> Inr (case file of None \<Rightarrow> new_db | Some d \<Rightarrow> d))"

definition record_owner ::
  "sql_env \<Rightarrow> int \<Rightarrow> string \<Rightarrow> string \<Rightarrow> string \<Rightarrow> db \<Rightarrow> db \<times> (string + unit)" where
  "record_owner env now owner urc_id name d =
     (case execute env (InsertResource urc_id name now) d of
        (d1, Inl e) \<Rightarrow> (d1, Inl e)
      | (d1, Inr created) \<Rightarrow>
          if created > 0
          then (case execute env (InsertOwner owner urc_id) d1 of
                  (d2, Inl e) \<Rightarrow> (d2, Inl e)
                | (d2, Inr _) \<Rightarrow> (d2, Inr ()))
          else (d1, Inr ()))"

definition delete_resource :: "sql_env \<Rightarrow> string \<Rightarrow> db \<Rightarrow> db \<times> (string + unit)" where
  "delete_resource env urc_id d =
     (case execute env (DeleteGrantsOf urc_id) d of
        (d1, Inl e) \<Rightarrow> (d1, Inl e)
      | (d1, Inr _) \<Rightarrow>
          (case execute env (DeleteResource urc_id) d1 of
             (d2, Inl e) \<Rightarrow> (d2, Inl e)
           | (d2, Inr _) \<Rightarrow> (d2, Inr ())))"

text \<open>The subject column of a grant that counts for a subject: its own id, or its groups.\<close>

definition group_subjects :: "string \<Rightarrow> db \<Rightarrow> string list" where
  "group_subjects subject d =
     map (\<lambda>m. ''group:'' @ m_grp m) (filter (\<lambda>m. m_subject m = subject) (group_members d))"

definition holds_for :: "string \<Rightarrow> db \<Rightarrow> grant_row \<Rightarrow> bool" where
  "holds_for subject d g \<longleftrightarrow> g_subject g = subject \<or> g_subject g \<in> set (group_subjects subject d)"

definition strongest :: "role option \<Rightarrow> string \<Rightarrow> role option" where
  "strongest best role =
     (case role_parse role of
        Some r \<Rightarrow> Some (case best of None \<Rightarrow> r | Some b \<Rightarrow> max b r)
      | None \<Rightarrow> best)"

definition role_for :: "sql_env \<Rightarrow> string \<Rightarrow> string \<Rightarrow> db \<Rightarrow> role option" where
  "role_for env subject urc_id d =
     foldl strongest None
       (deliver env (map g_role (filter (\<lambda>g. g_urc g = urc_id \<and> holds_for subject d g) (grants d))))"

definition accessible :: "sql_env \<Rightarrow> string \<Rightarrow> db \<Rightarrow> string list" where
  "accessible env subject d =
     deliver env (remdups (map g_urc (filter (holds_for subject d) (grants d))))"

definition store_grant :: "sql_env \<Rightarrow> string \<Rightarrow> string \<Rightarrow> role \<Rightarrow> db \<Rightarrow> db \<times> (string + unit)" where
  "store_grant env subject urc_id role d =
     (case execute env (ReplaceGrant subject urc_id (as_str role)) d of
        (d1, Inl e) \<Rightarrow> (d1, Inl e)
      | (d1, Inr _) \<Rightarrow> (d1, Inr ()))"

definition revoke :: "sql_env \<Rightarrow> string \<Rightarrow> string \<Rightarrow> db \<Rightarrow> db \<times> (string + nat)" where
  "revoke env subject urc_id d = execute env (DeleteGrant subject urc_id) d"

definition add_group_member :: "sql_env \<Rightarrow> string \<Rightarrow> string \<Rightarrow> db \<Rightarrow> db \<times> (string + unit)" where
  "add_group_member env grp subject d =
     (case execute env (InsertMember grp subject) d of
        (d1, Inl e) \<Rightarrow> (d1, Inl e)
      | (d1, Inr _) \<Rightarrow> (d1, Inr ()))"

definition remove_group_member :: "sql_env \<Rightarrow> string \<Rightarrow> string \<Rightarrow> db \<Rightarrow> db \<times> (string + nat)" where
  "remove_group_member env grp subject d = execute env (DeleteMember grp subject) d"

text \<open>\<^verbatim>\<open>ORDER BY subject\<close> compares the bytes of the text.\<close>

definition list_grants :: "sql_env \<Rightarrow> string \<Rightarrow> db \<Rightarrow> (string \<times> string) list" where
  "list_grants env urc_id d =
     deliver_ordered env
       (map (\<lambda>g. (g_subject g, g_role g))
         (sort_key g_subject (filter (\<lambda>g. g_urc g = urc_id) (grants d))))"

end
