(* ===== verification/Rebac_Policy.thy ===== *)
theory Rebac_Policy
  imports Rebac_Store
begin

text \<open>
  What the ReBAC store promises: the tables keep their primary keys and only role names,
  every statement implements an operation on the abstract access policy, and the role the
  store reports is the strongest one the policy gives, never a stronger one.
\<close>

section \<open>The table invariant\<close>

definition store_inv :: "db \<Rightarrow> bool" where
  "store_inv d \<longleftrightarrow>
     distinct (map r_urc (resources d)) \<and> distinct (map grant_key (grants d)) \<and>
     distinct (map member_key (group_members d)) \<and>
     (\<forall>g \<in> set (grants d). g_role g \<in> {''owner'', ''member''})"

text \<open>The statements of the source write only role names.\<close>

fun stmt_ok :: "sql_stmt \<Rightarrow> bool" where
  "stmt_ok (ReplaceGrant s u r) \<longleftrightarrow> r \<in> {''owner'', ''member''}"
| "stmt_ok _ \<longleftrightarrow> True"

lemma store_inv_new [simp]: "store_inv new_db"
  by (simp add: store_inv_def new_db_def)

lemma distinct_map_filter_snoc:
  "distinct (map f xs) \<Longrightarrow> distinct (map f (filter P xs @ [x])) \<longleftrightarrow> f x \<notin> f ` set (filter P xs)"
  by (auto simp: distinct_map_filter)

lemma exec_stmt_inv: "store_inv d \<Longrightarrow> stmt_ok st \<Longrightarrow> store_inv (fst (exec_stmt st d))"
  by (cases st)
    (auto simp: store_inv_def distinct_map_filter grant_key_def member_key_def)

lemma execute_inv: "store_inv d \<Longrightarrow> stmt_ok st \<Longrightarrow> store_inv (fst (execute env st d))"
  by (simp add: execute_def exec_stmt_inv split: option.split prod.split)
     (metis exec_stmt_inv fst_conv)

lemma execute_no_faults:
  "no_faults env \<Longrightarrow> execute env st d = (fst (exec_stmt st d), Inr (snd (exec_stmt st d)))"
  by (simp add: execute_def no_faults_def split: prod.split)

lemma stmt_ok_as_str [simp]: "stmt_ok (ReplaceGrant s u (as_str r))"
  using role_text.canon_enc [of r] by simp

named_theorems store_defs \<open>the operations of the store\<close>
declare record_owner_def [store_defs] delete_resource_def [store_defs] store_grant_def [store_defs]
  revoke_def [store_defs] add_group_member_def [store_defs] remove_group_member_def [store_defs]

section \<open>The abstract policy\<close>

record policy =
  p_created :: "string set"
  p_granted :: "string \<times> string \<Rightarrow> string option"
  p_members :: "(string \<times> string) set"

definition granted_map :: "grant_row list \<Rightarrow> string \<times> string \<Rightarrow> string option" where
  "granted_map gs = map_of (map (\<lambda>g. (grant_key g, g_role g)) gs)"

definition abs_db :: "db \<Rightarrow> policy" where
  "abs_db d = \<lparr>p_created = r_urc ` set (resources d),
     p_granted = granted_map (grants d),
     p_members = member_key ` set (group_members d)\<rparr>"

fun p_exec :: "sql_stmt \<Rightarrow> policy \<Rightarrow> policy" where
  "p_exec (InsertResource u n t) p = p\<lparr>p_created := insert u (p_created p)\<rparr>"
| "p_exec (InsertOwner s u) p =
     (if p_granted p (s, u) = None then p\<lparr>p_granted := (p_granted p)((s, u) \<mapsto> ''owner'')\<rparr> else p)"
| "p_exec (DeleteGrantsOf u) p =
     p\<lparr>p_granted := (\<lambda>k. if snd k = u then None else p_granted p k)\<rparr>"
| "p_exec (DeleteResource u) p = p\<lparr>p_created := p_created p - {u}\<rparr>"
| "p_exec (ReplaceGrant s u r) p = p\<lparr>p_granted := (p_granted p)((s, u) \<mapsto> r)\<rparr>"
| "p_exec (DeleteGrant s u) p = p\<lparr>p_granted := (p_granted p)((s, u) := None)\<rparr>"
| "p_exec (InsertMember g s) p = p\<lparr>p_members := insert (g, s) (p_members p)\<rparr>"
| "p_exec (DeleteMember g s) p = p\<lparr>p_members := p_members p - {(g, s)}\<rparr>"

text \<open>The subjects whose grants count for a subject, and the strongest of those grants.\<close>

definition policy_subjects :: "policy \<Rightarrow> string \<Rightarrow> string set" where
  "policy_subjects p s = insert s ((\<lambda>(g, _). ''group:'' @ g) ` {gm \<in> p_members p. snd gm = s})"

definition policy_role :: "policy \<Rightarrow> string \<Rightarrow> string \<Rightarrow> role option" where
  "policy_role p s u =
     Max (insert None ((\<lambda>k. Option.bind (p_granted p (k, u)) role_parse) ` policy_subjects p s))"

lemma granted_map_None: "granted_map gs k = None \<longleftrightarrow> k \<notin> grant_key ` set gs"
  by (auto simp: granted_map_def map_of_eq_None_iff image_image)

lemma granted_map_filter:
  "granted_map (filter (\<lambda>g. P (grant_key g)) gs) k = (if P k then granted_map gs k else None)"
  by (induction gs) (auto simp: granted_map_def)

lemma granted_map_snoc:
  "granted_map (gs @ [g]) k =
    (case granted_map gs k of Some r \<Rightarrow> Some r | None \<Rightarrow> if k = grant_key g then Some (g_role g) else None)"
  by (simp add: granted_map_def map_add_def split: option.split)

lemma granted_map_Some:
  assumes "distinct (map grant_key gs)"
  shows "granted_map gs k = Some r \<longleftrightarrow> (\<exists>g \<in> set gs. grant_key g = k \<and> g_role g = r)"
proof -
  have "distinct (map fst (map (\<lambda>g. (grant_key g, g_role g)) gs))"
    using assms by (simp add: comp_def)
  from map_of_eq_Some_iff [OF this, of k r] show ?thesis by (auto simp: granted_map_def)
qed

lemma exec_stmt_abs: "abs_db (fst (exec_stmt st d)) = p_exec st (abs_db d)"
proof (cases st)
  case (InsertOwner s u)
  have k: "(s, u) = grant_key \<lparr>g_subject = s, g_urc = u, g_role = r\<rparr>" for r
    by (simp add: grant_key_def)
  have "granted_map (grants d @ [\<lparr>g_subject = s, g_urc = u, g_role = ''owner''\<rparr>]) =
      (granted_map (grants d))((s, u) \<mapsto> ''owner'')" if "granted_map (grants d) (s, u) = None"
    using that by (auto simp: fun_eq_iff granted_map_snoc k [symmetric] split: option.split)
  with InsertOwner show ?thesis by (auto simp: abs_db_def granted_map_None)
next
  case (DeleteGrantsOf u)
  have "(\<lambda>g. g_urc g \<noteq> u) = (\<lambda>g. snd (grant_key g) \<noteq> u)" by (simp add: grant_key_def)
  with DeleteGrantsOf show ?thesis
    by (auto simp: abs_db_def fun_eq_iff granted_map_filter [where P = "\<lambda>k. snd k \<noteq> u"])
next
  case (ReplaceGrant s u r)
  have "grant_key \<lparr>g_subject = s, g_urc = u, g_role = r\<rparr> = (s, u)" by (simp add: grant_key_def)
  with ReplaceGrant show ?thesis
    by (auto simp: abs_db_def fun_eq_iff granted_map_snoc
        granted_map_filter [where P = "\<lambda>k. k \<noteq> (s, u)"] split: option.split)
next
  case (DeleteGrant s u)
  then show ?thesis
    by (auto simp: abs_db_def fun_eq_iff granted_map_filter [where P = "\<lambda>k. k \<noteq> (s, u)"])
qed (auto simp: abs_db_def member_key_def)

text \<open>C16. Every data-changing statement of the store, whatever the tables hold, is the operation of
  the same name on the abstract policy.\<close>

theorem exec_stmt_refines: "abs_db (fst (exec_stmt st d)) = p_exec st (abs_db d)"
  by (rule exec_stmt_abs)

section \<open>The reported role\<close>

lemma strongest_max: "strongest b t = max b (role_parse t)"
  by (auto simp: strongest_def max_def less_eq_option_def split: option.splits)

lemma foldl_strongest: "foldl strongest b ts = Max (insert b (role_parse ` set ts))"
proof (induction ts arbitrary: b)
  case Nil
  then show ?case by simp
next
  case (Cons t ts)
  have "Max (insert b (insert (role_parse t) (role_parse ` set ts)))
      = max b (Max (insert (role_parse t) (role_parse ` set ts)))"
    by (rule Max_insert) auto
  moreover have "Max (insert (max b (role_parse t)) (role_parse ` set ts))
      = max b (Max (insert (role_parse t) (role_parse ` set ts)))"
    by (cases "set ts = {}") (simp_all add: max.assoc)
  ultimately show ?case using Cons by (simp add: strongest_max)
qed

definition granted_roles :: "string \<Rightarrow> string \<Rightarrow> db \<Rightarrow> string list" where
  "granted_roles s u d = map g_role (filter (\<lambda>g. g_urc g = u \<and> holds_for s d g) (grants d))"

lemma role_for_Max: "role_for env s u d = Max (insert None (role_parse ` set (deliver env (granted_roles s u d))))"
  by (simp add: role_for_def granted_roles_def foldl_strongest)

lemma role_for_full:
  "full_rows env \<Longrightarrow> role_for env s u d = Max (insert None (role_parse ` set (granted_roles s u d)))"
  by (simp add: role_for_Max set_deliver)

lemma role_for_healthy: "full_rows env \<Longrightarrow> role_for env s u d = role_for healthy s u d"
  by (simp add: role_for_full)

lemma role_for_le_healthy: "role_for env s u d \<le> role_for healthy s u d"
  unfolding role_for_Max [of env] role_for_full [OF healthy_ok(2)]
  by (rule Max_mono) (auto dest: set_mp [OF set_deliver_sub])

lemma subjects_abs: "policy_subjects (abs_db d) s = insert s (set (group_subjects s d))"
  by (force simp: policy_subjects_def abs_db_def group_subjects_def member_key_def)

lemma holds_for_iff: "holds_for s d g \<longleftrightarrow> g_subject g \<in> policy_subjects (abs_db d) s"
  by (simp add: holds_for_def subjects_abs)

lemma granted_abs:
  "store_inv d \<Longrightarrow> p_granted (abs_db d) (k, u) = Some r \<longleftrightarrow>
    (\<exists>g \<in> set (grants d). g_subject g = k \<and> g_urc g = u \<and> g_role g = r)"
  by (auto simp: store_inv_def abs_db_def granted_map_Some grant_key_def)

lemma Some_eq_bind: "Some r = Option.bind a f \<longleftrightarrow> (\<exists>t. a = Some t \<and> f t = Some r)"
  by (cases a) auto

lemma policy_role_rows:
  assumes "store_inv d"
  shows "policy_role (abs_db d) s u = Max (insert None (role_parse ` set (granted_roles s u d)))"
proof -
  have "insert None ((\<lambda>k. Option.bind (p_granted (abs_db d) (k, u)) role_parse) ` policy_subjects (abs_db d) s)
      = insert None (role_parse ` set (granted_roles s u d))" (is "insert None ?A = insert None ?B")
  proof (intro set_eqI)
    fix r
    show "r \<in> insert None ?A \<longleftrightarrow> r \<in> insert None ?B"
    proof (cases r)
      case None
      then show ?thesis by simp
    next
      case (Some r')
      then have "r \<in> ?A \<longleftrightarrow> (\<exists>k t. k \<in> policy_subjects (abs_db d) s \<and>
          p_granted (abs_db d) (k, u) = Some t \<and> role_parse t = Some r')"
        by (auto simp: image_iff Some_eq_bind)
      also have "\<dots> \<longleftrightarrow> r \<in> ?B"
        using assms Some by (force simp: granted_abs granted_roles_def holds_for_iff image_iff)
      finally show ?thesis using Some by simp
    qed
  qed
  then show ?thesis by (simp add: policy_role_def)
qed

lemma role_for_abs:
  assumes "store_inv d" and "full_rows env"
  shows "role_for env s u d = policy_role (abs_db d) s u"
  using assms by (simp add: role_for_full policy_role_rows)

text \<open>C15. On tables that keep their invariant, with every row delivered, the role the store reports for
  a subject on a resource is the strongest role the policy gives to the subject itself or to
  a group it belongs to, and no role where there is none.\<close>

theorem role_for_policy:
  assumes "store_inv d" and "full_rows env"
  shows "role_for env s u d = policy_role (abs_db d) s u"
  using assms by (rule role_for_abs)

lemma role_for_le_policy:
  assumes "store_inv d"
  shows "role_for env s u d \<le> policy_role (abs_db d) s u"
  using role_for_le_healthy [of env s u d] assms
  by (simp add: role_for_full policy_role_rows)

text \<open>Whatever rows SQLite fails to deliver, the reported role never exceeds the one of the policy.\<close>

lemma role_for_never_more:
  assumes "store_inv d"
  shows "role_for env s u d \<le> policy_role (abs_db d) s u"
  using assms by (rule role_for_le_policy)

end
