(* ===== verification/Rebac_History.thy ===== *)
theory Rebac_History
  imports Rebac_Policy
begin

text \<open>
  The operations of the store one by one (who becomes owner, what a deletion, a grant or a
  membership changes and what it leaves alone, what a statement that fails half-way leaves
  behind), and runs of operations: the invariant of the tables, and where ownership comes from.
\<close>

section \<open>The policy's roles\<close>

definition policy_finite :: "policy \<Rightarrow> bool" where
  "policy_finite p \<longleftrightarrow> finite (p_members p)"

lemma policy_finite_abs [simp]: "policy_finite (abs_db d)"
  by (simp add: policy_finite_def abs_db_def)

lemma finite_subjects: "policy_finite p \<Longrightarrow> finite (policy_subjects p s)"
  by (simp add: policy_finite_def policy_subjects_def)

lemma policy_role_ge:
  "policy_finite p \<Longrightarrow> k \<in> policy_subjects p s \<Longrightarrow>
    Option.bind (p_granted p (k, u)) role_parse \<le> policy_role p s u"
  unfolding policy_role_def by (rule Max_ge) (auto simp: finite_subjects)

lemma policy_role_attained:
  assumes "policy_finite p" and "policy_role p s u = Some r"
  shows "\<exists>k \<in> policy_subjects p s. Option.bind (p_granted p (k, u)) role_parse = Some r"
proof -
  let ?A = "insert None ((\<lambda>k. Option.bind (p_granted p (k, u)) role_parse) ` policy_subjects p s)"
  have "Max ?A \<in> ?A" by (rule Max_in) (auto simp: finite_subjects assms(1))
  with assms(2) show ?thesis by (auto simp: policy_role_def)
qed

lemma Some_Owner_le: "Some Owner \<le> x \<longleftrightarrow> x = Some Owner"
  by (cases x) auto

lemma role_parse_Owner_iff: "role_parse t = Some Owner \<longleftrightarrow> t = ''owner''"
  by (simp add: role_parse_def)

lemma policy_role_Owner_iff:
  assumes "policy_finite p"
  shows "policy_role p s u = Some Owner \<longleftrightarrow>
    (\<exists>k \<in> policy_subjects p s. p_granted p (k, u) = Some ''owner'')"
proof
  assume "policy_role p s u = Some Owner"
  from policy_role_attained [OF assms this]
  show "\<exists>k \<in> policy_subjects p s. p_granted p (k, u) = Some ''owner''"
    by (simp add: bind_eq_Some_conv role_parse_Owner_iff)
next
  assume "\<exists>k \<in> policy_subjects p s. p_granted p (k, u) = Some ''owner''"
  then obtain k where k: "k \<in> policy_subjects p s" "p_granted p (k, u) = Some ''owner''" ..
  from policy_role_ge [OF assms k(1), of u] k(2) show "policy_role p s u = Some Owner"
    by (simp add: Some_Owner_le)
qed

lemma self_subject [simp]: "s \<in> policy_subjects p s"
  by (simp add: policy_subjects_def)

section \<open>Creation\<close>

lemma created_abs: "u \<in> p_created (abs_db d) \<longleftrightarrow> u \<in> r_urc ` set (resources d)"
  by (simp add: abs_db_def)

lemma record_owner_ok:
  assumes "no_faults env"
  shows "record_owner env now own u n d =
    (if u \<in> p_created (abs_db d) then d
     else fst (exec_stmt (InsertOwner own u) (fst (exec_stmt (InsertResource u n now) d))), Inr ())"
  by (simp add: record_owner_def execute_no_faults [OF assms] created_abs del: exec_stmt.simps(2))

lemma record_owner_abs:
  "no_faults env \<Longrightarrow> abs_db (fst (record_owner env now own u n d)) =
      (if u \<in> p_created (abs_db d) then abs_db d
       else p_exec (InsertOwner own u) (p_exec (InsertResource u n now) (abs_db d)))"
  by (simp add: record_owner_ok exec_stmt_abs del: exec_stmt.simps p_exec.simps)

lemma record_owner_inv:
  assumes "store_inv d"
  shows "store_inv (fst (record_owner env now own u n d))"
proof -
  have "store_inv (fst (execute env (InsertResource u n now) d))"
    using assms by (rule execute_inv) simp
  then show ?thesis
    by (auto simp: record_owner_def split: prod.split sum.split)
      (metis execute_inv fst_conv stmt_ok.simps(3))+
qed

lemma policy_role_created: "policy_role (p\<lparr>p_created := c\<rparr>) s u = policy_role p s u"
  by (simp add: policy_role_def policy_subjects_def)

lemma policy_role_insert_owner:
  assumes "policy_finite p"
  shows "policy_role (p_exec (InsertOwner own u) p) own u =
    (case p_granted p (own, u) of None \<Rightarrow> Some Owner | Some r \<Rightarrow> policy_role p own u)"
proof (cases "p_granted p (own, u)")
  case None
  with assms have "policy_finite (p_exec (InsertOwner own u) p)" by (simp add: policy_finite_def)
  from policy_role_Owner_iff [OF this, of own u] None show ?thesis
    by (auto intro!: bexI [of _ own])
qed simp

text \<open>Creating a resource that is already recorded changes nothing, whoever does it and whether or not
  SQLite fails.\<close>

lemma record_owner_existing:
  assumes "u \<in> p_created (abs_db d)"
  shows "fst (record_owner env now own u n d) = d"
  using assms by (auto simp: record_owner_def execute_def created_abs split: option.split)

lemma creator_role:
  assumes "store_inv d" and "no_faults env" and "full_rows env'" and "u \<notin> p_created (abs_db d)"
  shows "role_for env' own u (fst (record_owner env now own u n d)) =
    (case p_granted (abs_db d) (own, u) of None \<Rightarrow> Some Owner | Some r \<Rightarrow> role_for env' own u d)"
proof -
  let ?p = "p_exec (InsertResource u n now) (abs_db d)"
  have "role_for env' own u (fst (record_owner env now own u n d))
      = policy_role (p_exec (InsertOwner own u) ?p) own u"
    using assms record_owner_inv [OF assms(1)] by (simp add: role_for_abs record_owner_abs del: p_exec.simps)
  also have "\<dots> = (case p_granted ?p (own, u) of None \<Rightarrow> Some Owner | Some r \<Rightarrow> policy_role ?p own u)"
    by (rule policy_role_insert_owner) (simp add: policy_finite_def abs_db_def)
  finally show ?thesis
    using assms(1,3) by (simp add: role_for_abs policy_role_created split: option.split)
qed

text \<open>C25. The caller that creates an unrecorded resource becomes its owner, unless it already holds a direct
  grant there, which the creation keeps as it is.\<close>

theorem record_owner_role:
  assumes "store_inv d" and "no_faults env" and "full_rows env'" and "u \<notin> p_created (abs_db d)"
  shows "role_for env' own u (fst (record_owner env now own u n d)) =
    (case p_granted (abs_db d) (own, u) of None \<Rightarrow> Some Owner | Some r \<Rightarrow> role_for env' own u d)"
  by (rule creator_role [OF assms])

text \<open>C35. When the second statement of a creation fails, the resource stays recorded without the owner: the
  call reports the error, the grants are unchanged, and no later creation of the same resource,
  by the same caller or another, changes the tables any more.\<close>

theorem record_owner_half_done:
  assumes "u \<notin> p_created (abs_db d)"
    and "sql_fails env (InsertResource u n now) d = None"
    and "sql_fails env (InsertOwner own u) (fst (exec_stmt (InsertResource u n now) d)) = Some e"
  shows "let d' = fst (record_owner env now own u n d)
    in snd (record_owner env now own u n d) = Inl e \<and>
       p_granted (abs_db d') = p_granted (abs_db d) \<and>
       fst (record_owner env2 now2 own2 u n2 d') = d'"
proof -
  let ?d = "fst (exec_stmt (InsertResource u n now) d)"
  have r: "record_owner env now own u n d = (?d, Inl e)"
    using assms by (auto simp: record_owner_def execute_def created_abs split: option.split)
  have "abs_db ?d = p_exec (InsertResource u n now) (abs_db d)" by (rule exec_stmt_abs)
  then have "p_granted (abs_db ?d) = p_granted (abs_db d)" "u \<in> p_created (abs_db ?d)"
    by (simp_all del: exec_stmt.simps)
  with r show ?thesis by (simp add: Let_def record_owner_existing del: exec_stmt.simps)
qed

text \<open>
  Two consequences on concrete tables: a creator that holds a member grant on the unrecorded resource
  stays a member, and a subject whose id reads like a group's grant key holds that group's grants.
\<close>

lemma creator_stays_member:
  "let d = fst (store_grant healthy ''bob'' ''urc-1'' Member new_db)
   in role_for healthy ''bob'' ''urc-1'' (fst (record_owner healthy 0 ''bob'' ''urc-1'' ''x'' d)) = Some Member"
  by code_simp

lemma group_key_subject:
  "role_for healthy ''group:staff'' ''urc-1'' (fst (store_grant healthy ''group:staff'' ''urc-1'' Owner new_db)) = Some Owner"
  by code_simp

section \<open>Deletion, grants and memberships\<close>

lemma role_for_cong:
  assumes "granted_roles s u d = granted_roles s u d'"
  shows "role_for env s u d = role_for env s u d'"
  unfolding role_for_Max assms ..

lemma holds_for_members: "group_members d' = group_members d \<Longrightarrow> holds_for s d' = holds_for s d"
  by (simp add: fun_eq_iff holds_for_def group_subjects_def)

lemma granted_roles_filter:
  assumes "group_members d' = group_members d"
    and "filter (\<lambda>g. g_urc g = u \<and> holds_for s d g) (grants d') =
      filter (\<lambda>g. g_urc g = u \<and> holds_for s d g) (grants d)"
  shows "granted_roles s u d' = granted_roles s u d"
  unfolding granted_roles_def holds_for_members [OF assms(1)] assms(2) ..

lemma role_after_delete:
  "role_for env' s u' (fst (delete_resource env u d)) =
    (if u' = u \<and> sql_fails env (DeleteGrantsOf u) d = None then None else role_for env' s u' d)"
proof -
  let ?d = "fst (delete_resource env u d)"
  have m: "group_members ?d = group_members d"
    and g: "grants ?d = (if sql_fails env (DeleteGrantsOf u) d = None
      then filter (\<lambda>g. g_urc g \<noteq> u) (grants d) else grants d)"
    by (auto simp: delete_resource_def execute_def split: option.split)
  show ?thesis
  proof (cases "u' = u \<and> sql_fails env (DeleteGrantsOf u) d = None")
    case True
    with g have "granted_roles s u' ?d = []" by (auto simp: granted_roles_def filter_empty_conv)
    with True show ?thesis by (simp add: role_for_Max deliver_def)
  next
    case False
    have "granted_roles s u' ?d = granted_roles s u' d"
      by (rule granted_roles_filter [OF m]) (use False g in \<open>auto intro: filter_cong\<close>)
    from role_for_cong [OF this] False show ?thesis by auto
  qed
qed

text \<open>Deleting a resource ends every subject's access to it as soon as the first of its two statements
  succeeds, and never changes the access to another resource.\<close>

lemma delete_resource_role:
  "role_for env' s u' (fst (delete_resource env u d)) =
    (if u' = u \<and> sql_fails env (DeleteGrantsOf u) d = None then None else role_for env' s u' d)"
  by (rule role_after_delete)

lemma store_grant_state:
  "fst (store_grant env k u r d) =
    (if sql_fails env (ReplaceGrant k u (as_str r)) d = None
     then fst (exec_stmt (ReplaceGrant k u (as_str r)) d) else d)"
  by (auto simp: store_grant_def execute_def split: option.split)

lemma revoke_state:
  "fst (revoke env k u d) =
    (if sql_fails env (DeleteGrant k u) d = None then fst (exec_stmt (DeleteGrant k u) d) else d)"
  by (auto simp: revoke_def execute_def split: option.split)

lemma granted_frames:
  assumes "u' \<noteq> u \<or> k \<notin> policy_subjects (abs_db d) s"
  shows "role_for env' s u' (fst (store_grant env k u r d)) = role_for env' s u' d \<and>
         role_for env' s u' (fst (revoke env k u d)) = role_for env' s u' d"
proof
  have h: False if "grant_key g = (k, u)" "g_urc g = u'" "g_subject g \<in> policy_subjects (abs_db d) s" for g
    using assms that by (auto simp: grant_key_def)
  show "role_for env' s u' (fst (store_grant env k u r d)) = role_for env' s u' d"
    using assms by (intro role_for_cong granted_roles_filter)
      (auto simp: store_grant_state holds_for_iff intro!: filter_cong dest: h)
  show "role_for env' s u' (fst (revoke env k u d)) = role_for env' s u' d"
    by (intro role_for_cong granted_roles_filter)
      (auto simp: revoke_state holds_for_iff intro!: filter_cong dest: h)
qed

lemmas granted_frame = granted_frames [THEN conjunct1]

text \<open>C34. Granting or revoking a role to a subject or a group on one resource changes neither the access to
  any other resource nor the access of a subject that is not that subject or a member of that
  group.\<close>

theorem grant_revoke_frame:
  assumes "u' \<noteq> u \<or> k \<notin> policy_subjects (abs_db d) s"
  shows "role_for env' s u' (fst (store_grant env k u r d)) = role_for env' s u' d \<and>
         role_for env' s u' (fst (revoke env k u d)) = role_for env' s u' d"
  by (rule granted_frames [OF assms])

text \<open>The administrator's grant takes effect on the subject at once, and the strongest path wins: afterwards
  the subject has the granted role or the one of its groups, whichever is stronger; and the
  revocation of a direct grant reports whether there was one.\<close>

lemma grant_effective:
  assumes "store_inv d" and "no_faults env" and "full_rows env'"
  shows "Some r \<le> role_for env' k u (fst (store_grant env k u r d)) \<and>
    p_granted (abs_db (fst (store_grant env k u r d))) (k, u) = Some (as_str r) \<and>
    snd (revoke env k u (fst (store_grant env k u r d))) = Inr 1"
proof -
  let ?d = "fst (store_grant env k u r d)"
  have st: "?d = fst (exec_stmt (ReplaceGrant k u (as_str r)) d)"
    using assms(2) by (simp add: store_grant_state no_faults_def)
  then have g: "p_granted (abs_db ?d) (k, u) = Some (as_str r)"
    by (simp only: exec_stmt_abs) simp
  have inv: "store_inv ?d" unfolding st using assms(1) by (rule exec_stmt_inv) (rule stmt_ok_as_str)
  have "Some r \<le> policy_role (abs_db ?d) k u"
    using policy_role_ge [of "abs_db ?d" k k u] g role_text.dec_enc [of r] by simp
  moreover have "length (filter (\<lambda>g. grant_key g = (k, u)) (grants ?d)) = 1"
    by (simp add: st grant_key_def)
  ultimately show ?thesis
    using assms inv g by (simp add: role_for_abs revoke_def execute_no_faults)
qed

text \<open>C36. A grant made by the administrator does not record the resource.  So a resource whose owner was only
  granted (the documented way for repositories older than the store) is not reserved for that owner:
  whatever the tables hold, any other caller without a direct grant there, even one without any role,
  that creates the resource becomes an owner too, next to the granted one.\<close>

theorem granted_owner_not_reserved:
  assumes "store_inv d" and "no_faults env" and "full_rows env'"
    and "u \<notin> p_created (abs_db d)" and "m \<noteq> k" and "p_granted (abs_db d) (m, u) = None"
  shows "let d1 = fst (store_grant env k u Owner d); d2 = fst (record_owner env now m u n d1) in
    role_for env' k u d1 = Some Owner \<and>
    (k \<notin> policy_subjects (abs_db d) m \<longrightarrow> role_for env' m u d1 = role_for env' m u d) \<and>
    role_for env' m u d2 = Some Owner \<and> role_for env' k u d2 = Some Owner"
proof -
  let ?d1 = "fst (store_grant env k u Owner d)"
  let ?d2 = "fst (record_owner env now m u n ?d1)"
  have st: "?d1 = fst (exec_stmt (ReplaceGrant k u (as_str Owner)) d)"
    using assms(2) by (simp add: store_grant_state no_faults_def)
  have abs1: "abs_db ?d1 = p_exec (ReplaceGrant k u (as_str Owner)) (abs_db d)" unfolding st by (rule exec_stmt_abs)
  have inv1: "store_inv ?d1" unfolding st using assms(1) by (rule exec_stmt_inv) (rule stmt_ok_as_str)
  have new: "u \<notin> p_created (abs_db ?d1)" "p_granted (abs_db ?d1) (m, u) = None"
    using assms(4-6) by (simp_all add: abs1)
  have m: "role_for env' m u ?d2 = Some Owner" using creator_role [OF inv1 assms(2,3) new(1)] new(2) by simp
  have "p_granted (abs_db ?d2) (k, u) = Some ''owner''"
    using new(1) assms(5) by (simp add: record_owner_abs [OF assms(2)] abs1)
  then have "role_for env' k u ?d2 = Some Owner"
    using record_owner_inv [OF inv1] assms(3) by (auto simp: role_for_abs policy_role_Owner_iff intro!: bexI [of _ k])
  moreover have "role_for env' k u ?d1 = Some Owner"
    using policy_role_Owner_iff [of "abs_db ?d1" k u] inv1 assms(3)
    by (simp add: role_for_abs) (auto simp: abs1 intro!: bexI [of _ k])
  moreover have "role_for env' m u ?d1 = role_for env' m u d" if "k \<notin> policy_subjects (abs_db d) m"
    using that by (intro granted_frame) simp
  ultimately show ?thesis using m by (simp add: Let_def)
qed

text \<open>Adding a subject to a group gives it the group's role on every resource and takes nothing away.\<close>

lemma add_group_member_role:
  assumes "store_inv d" and "no_faults env" and "full_rows env'"
  shows "role_for env' s u (fst (add_group_member env g s d)) =
    max (role_for env' s u d) (Option.bind (p_granted (abs_db d) (''group:'' @ g, u)) role_parse)"
proof -
  let ?d = "fst (add_group_member env g s d)"
  let ?f = "\<lambda>k. Option.bind (p_granted (abs_db d) (k, u)) role_parse"
  have st: "?d = fst (exec_stmt (InsertMember g s) d)"
    using assms(2) by (simp add: add_group_member_def execute_no_faults)
  have inv: "store_inv ?d" unfolding st using assms(1) by (rule exec_stmt_inv) simp
  have abs: "abs_db ?d = (abs_db d)\<lparr>p_members := insert (g, s) (p_members (abs_db d))\<rparr>"
    unfolding st by (simp only: exec_stmt_abs p_exec.simps)
  have subj: "policy_subjects (abs_db ?d) s = insert (''group:'' @ g) (policy_subjects (abs_db d) s)"
    by (force simp: abs policy_subjects_def)
  have "Max (insert None (?f ` insert (''group:'' @ g) (policy_subjects (abs_db d) s)))
      = max (?f (''group:'' @ g)) (Max (insert None (?f ` policy_subjects (abs_db d) s)))"
    unfolding image_insert insert_commute [of None]
    by (rule Max_insert) (auto simp: finite_subjects)
  then have "policy_role (abs_db ?d) s u = max (?f (''group:'' @ g)) (policy_role (abs_db d) s u)"
    by (simp add: policy_role_def subj) (simp add: abs)
  with assms inv show ?thesis by (simp add: role_for_abs max.commute)
qed

section \<open>Listings\<close>

lemma Max_None_iff:
  fixes A :: "role option set"
  assumes "finite A"
  shows "Max (insert None A) \<noteq> None \<longleftrightarrow> (\<exists>x \<in> A. x \<noteq> None)"
proof -
  have m: "Max (insert None A) \<in> insert None A" using assms by (intro Max_in) auto
  have ge: "x \<le> Max (insert None A)" if "x \<in> A" for x using assms that by (intro Max_ge) auto
  show ?thesis
  proof
    assume "Max (insert None A) \<noteq> None"
    with m show "\<exists>x \<in> A. x \<noteq> None" by blast
  next
    assume "\<exists>x \<in> A. x \<noteq> None"
    then obtain x where "x \<in> A" "x \<noteq> None" ..
    with ge [of x] show "Max (insert None A) \<noteq> None"
      by (metis less_eq_option_None_is_None)
  qed
qed

text \<open>The listing of a subject's resources has no duplicates and holds exactly the resources on which the
  subject has a role.\<close>

lemma accessible_iff_role:
  assumes "store_inv d" and "full_rows env"
  shows "distinct (accessible env s d) \<and>
    (u \<in> set (accessible env s d) \<longleftrightarrow> role_for env s u d \<noteq> None)"
proof
  show "distinct (accessible env s d)"
    by (simp add: accessible_def distinct_deliver)
  have parse: "role_parse (g_role g) \<noteq> None" if "g \<in> set (grants d)" for g
    using assms(1) that by (auto simp: store_inv_def role_parse_def)
  have "role_for env s u d \<noteq> None \<longleftrightarrow> (\<exists>t \<in> set (granted_roles s u d). role_parse t \<noteq> None)"
    unfolding role_for_full [OF assms(2)] by (subst Max_None_iff) auto
  also have "\<dots> \<longleftrightarrow> u \<in> set (accessible env s d)"
    using parse by (auto simp: accessible_def set_deliver [OF assms(2)] granted_roles_def)
  finally show "u \<in> set (accessible env s d) \<longleftrightarrow> role_for env s u d \<noteq> None" by simp
qed

text \<open>The administrator's listing is in the order of the subjects and holds each grant on the resource
  with its role.\<close>

lemma list_grants_sorted:
  assumes "store_inv d" and "full_rows env"
  shows "sorted (map fst (list_grants env u d)) \<and>
    ((s, r) \<in> set (list_grants env u d) \<longleftrightarrow> p_granted (abs_db d) (s, u) = Some r)"
proof
  let ?xs = "map (\<lambda>g. (g_subject g, g_role g)) (sort_key g_subject (filter (\<lambda>g. g_urc g = u) (grants d)))"
  have "sorted (map fst ?xs)" by (simp add: comp_def)
  then show "sorted (map fst (list_grants env u d))"
    using assms(2) by (simp add: list_grants_def deliver_ordered_full)
  show "(s, r) \<in> set (list_grants env u d) \<longleftrightarrow> p_granted (abs_db d) (s, u) = Some r"
    using assms by (auto simp: list_grants_def deliver_ordered_full granted_abs)
qed

section \<open>Runs of operations\<close>

datatype store_op =
    RecordOwner int string string string
  | DeleteRes string
  | Grant string string role
  | Revoke string string
  | AddMember string string
  | RemoveMember string string

fun apply_op :: "sql_env \<Rightarrow> store_op \<Rightarrow> db \<Rightarrow> db" where
  "apply_op env (RecordOwner now own u n) d = fst (record_owner env now own u n d)"
| "apply_op env (DeleteRes u) d = fst (delete_resource env u d)"
| "apply_op env (Grant s u r) d = fst (store_grant env s u r d)"
| "apply_op env (Revoke s u) d = fst (revoke env s u d)"
| "apply_op env (AddMember g s) d = fst (add_group_member env g s d)"
| "apply_op env (RemoveMember g s) d = fst (remove_group_member env g s d)"

fun run_store :: "(sql_env \<times> store_op) list \<Rightarrow> db \<Rightarrow> db" where
  "run_store [] d = d"
| "run_store ((env, op) # ops) d = run_store ops (apply_op env op d)"

lemma delete_resource_inv: "store_inv d \<Longrightarrow> store_inv (fst (delete_resource env u d))"
proof -
  assume "store_inv d"
  then have "store_inv (fst (execute env (DeleteGrantsOf u) d))" by (rule execute_inv) simp
  then show ?thesis
    by (auto simp: delete_resource_def split: prod.split sum.split)
      (metis execute_inv fst_conv stmt_ok.simps(5))+
qed

lemma apply_op_inv: "store_inv d \<Longrightarrow> store_inv (apply_op env op d)"
proof (cases op)
  case (RecordOwner now own u n)
  then show "store_inv d \<Longrightarrow> store_inv (apply_op env op d)" by (simp add: record_owner_inv)
next
  case (DeleteRes u)
  then show "store_inv d \<Longrightarrow> store_inv (apply_op env op d)" by (simp add: delete_resource_inv)
next
  case (Grant s u r)
  then show "store_inv d \<Longrightarrow> store_inv (apply_op env op d)"
    using exec_stmt_inv [OF _ stmt_ok_as_str, of d s u r] by (simp add: store_grant_state del: exec_stmt.simps)
next
  case (Revoke s u)
  then show "store_inv d \<Longrightarrow> store_inv (apply_op env op d)"
    using exec_stmt_inv [of d "DeleteGrant s u"] by (simp add: revoke_state del: exec_stmt.simps)
next
  case (AddMember g s)
  then show "store_inv d \<Longrightarrow> store_inv (apply_op env op d)"
    using execute_inv [of d "InsertMember g s" env]
    by (auto simp: add_group_member_def split: prod.split sum.split)
next
  case (RemoveMember g s)
  then show "store_inv d \<Longrightarrow> store_inv (apply_op env op d)"
    using execute_inv [of d "DeleteMember g s" env] by (simp add: remove_group_member_def)
qed

lemma run_store_inv: "store_inv d \<Longrightarrow> store_inv (run_store ops d)"
  by (induction ops d rule: run_store.induct) (simp_all add: apply_op_inv)

text \<open>From the empty database, after any sequence of operations of the service and of the administrator,
  with any SQLite failures in between, the primary keys are unique and the role column holds only
  the two role names.\<close>

lemma store_runs_keep_inv: "store_inv (run_store ops new_db)"
  by (rule run_store_inv) simp

text \<open>The grant an operation writes, if any.\<close>

fun granted_by :: "store_op \<Rightarrow> (string \<times> string \<times> string) option" where
  "granted_by (RecordOwner now own u n) = Some (own, u, ''owner'')"
| "granted_by (Grant s u r) = Some (s, u, as_str r)"
| "granted_by _ = None"

lemma execute_abs:
  "p_granted (abs_db (fst (execute env st d))) k = Some r \<Longrightarrow>
    p_granted (abs_db d) k = Some r \<or> p_granted (p_exec st (abs_db d)) k = Some r"
  using exec_stmt_abs [of st d] by (auto simp: execute_def split: option.splits prod.splits)

lemma apply_op_granted:
  assumes "p_granted (abs_db (apply_op env op d)) (k, u) = Some r"
  shows "p_granted (abs_db d) (k, u) = Some r \<or> granted_by op = Some (k, u, r)"
proof (cases op)
  case (RecordOwner now own u' n)
  let ?d = "fst (execute env (InsertResource u' n now) d)"
  have 1: "p_granted (abs_db ?d) = p_granted (abs_db d)"
    using exec_stmt_abs [of "InsertResource u' n now" d]
    by (auto simp: execute_def split: option.splits prod.splits simp del: exec_stmt.simps)
  have "apply_op env op d \<in> {?d, fst (execute env (InsertOwner own u') ?d)}"
    by (auto simp: RecordOwner record_owner_def split: prod.splits sum.splits)
  with assms have "p_granted (abs_db d) (k, u) = Some r \<or>
      p_granted (p_exec (InsertOwner own u') (abs_db ?d)) (k, u) = Some r"
    using execute_abs [of env "InsertOwner own u'" ?d "(k, u)" r] 1 by auto
  then show ?thesis using 1 by (auto simp: RecordOwner split: if_splits)
next
  case (DeleteRes u')
  let ?d = "fst (execute env (DeleteGrantsOf u') d)"
  have "apply_op env op d \<in> {?d, fst (execute env (DeleteResource u') ?d)}"
    by (auto simp: DeleteRes delete_resource_def split: prod.splits sum.splits)
  with assms have "p_granted (abs_db ?d) (k, u) = Some r"
    using execute_abs [of env "DeleteResource u'" ?d "(k, u)" r] by auto
  then show ?thesis using execute_abs [of env "DeleteGrantsOf u'" d "(k, u)" r] by (auto split: if_splits)
next
  case (Grant s u' ro)
  have "apply_op env op d = fst (execute env (ReplaceGrant s u' (as_str ro)) d)"
    by (auto simp: Grant store_grant_def split: prod.split sum.split)
  with assms show ?thesis
    using execute_abs [of env "ReplaceGrant s u' (as_str ro)" d "(k, u)" r] by (auto simp: Grant split: if_splits)
next
  case (Revoke s u')
  with assms show ?thesis
    using execute_abs [of env "DeleteGrant s u'" d "(k, u)" r] by (auto simp: revoke_def split: if_splits)
next
  case (AddMember g s)
  have "apply_op env op d = fst (execute env (InsertMember g s) d)"
    by (auto simp: AddMember add_group_member_def split: prod.split sum.split)
  with assms show ?thesis using execute_abs [of env "InsertMember g s" d "(k, u)" r] by auto
next
  case (RemoveMember g s)
  with assms show ?thesis
    using execute_abs [of env "DeleteMember g s" d "(k, u)" r] by (auto simp: remove_group_member_def)
qed

lemma run_store_granted:
  "p_granted (abs_db (run_store ops d)) (k, u) = Some r \<Longrightarrow>
    p_granted (abs_db d) (k, u) = Some r \<or> (\<exists>op \<in> snd ` set ops. granted_by op = Some (k, u, r))"
proof (induction ops d rule: run_store.induct)
  case (2 env op ops d)
  then show ?case using apply_op_granted [of env op d k u r] by auto
qed simp

text \<open>Whoever the store reports as an owner after a run from the empty database is so through a grant,
  to the subject or to a group it is in at the end, that some operation of the run wrote: a
  creation of that resource or the administrator's grant of ownership.\<close>

lemma owner_provenance:
  assumes "role_for env s u (run_store ops new_db) = Some Owner"
  shows "\<exists>k \<in> policy_subjects (abs_db (run_store ops new_db)) s.
    \<exists>op \<in> snd ` set ops. granted_by op = Some (k, u, ''owner'')"
proof -
  let ?d = "run_store ops new_db"
  have "Some Owner \<le> policy_role (abs_db ?d) s u"
    using role_for_le_policy [OF store_runs_keep_inv, of env s u ops] assms by simp
  then obtain k where "k \<in> policy_subjects (abs_db ?d) s" "p_granted (abs_db ?d) (k, u) = Some ''owner''"
    by (auto simp: Some_Owner_le policy_role_Owner_iff)
  moreover have "p_granted (abs_db new_db) (k, u) = None"
    by (simp add: abs_db_def new_db_def granted_map_def)
  ultimately show ?thesis using run_store_granted [of ops new_db k u "''owner''"] by force
qed

section \<open>The contract the handlers rely on\<close>

text \<open>
  An authority reports roles that never exceed the rights behind them, and a role's
  permissions grow with the role.
\<close>

locale authority =
  fixes role_of :: "'sub \<Rightarrow> 'res \<Rightarrow> 's \<Rightarrow> 'r::linorder option"
    and right_of :: "'sub \<Rightarrow> 'res \<Rightarrow> 's \<Rightarrow> 'r option"
    and perm :: "'r \<Rightarrow> 'p list"
  assumes never_more: "role_of s u d \<le> right_of s u d"
    and perm_mono: "r \<le> r' \<Longrightarrow> set (perm r) \<subseteq> set (perm r')"
begin

lemma role_backed: "role_of s u d = Some r \<Longrightarrow> \<exists>r'. right_of s u d = Some r' \<and> r \<le> r'"
  using never_more [of s u d] by (cases "right_of s u d") auto

lemma no_right_no_role: "right_of s u d = None \<Longrightarrow> role_of s u d = None"
  using never_more [of s u d] by (simp add: less_eq_option_None_is_None)

lemma scope_backed:
  assumes "x \<in> set (filter_map (\<lambda>u. map_option (\<lambda>r. f u (perm r)) (role_of s u d)) us)"
  shows "\<exists>u \<in> set us. \<exists>ps r'. x = f u ps \<and> right_of s u d = Some r' \<and> set ps \<subseteq> set (perm r')"
proof -
  from assms obtain u r where u: "u \<in> set us" "role_of s u d = Some r" "x = f u (perm r)"
    by (auto simp: set_filter_map)
  moreover from role_backed [OF u(2)] obtain r' where "right_of s u d = Some r'" "r \<le> r'" by blast
  ultimately show ?thesis using perm_mono [of r r'] by blast
qed

end

interpretation rebac: authority "role_for env" "role_for healthy" permissions for env
  by unfold_locales (simp_all add: role_for_le_healthy permissions_mono)

end
