(* ===== verification/Expiring_Table.thy ===== *)
theory Expiring_Table
  imports Kaguya_Prelude
begin

text \<open>
  The contract of a keyed table whose entries expire, which three parts of the
  program keep: the device-flow login sessions of the auth service
  (\<^verbatim>\<open>auth/src/sessions.rs\<close>), and the pending logins and the browser
  sessions of the web frontend (\<^verbatim>\<open>web/src/main.rs\<close>).  A writer sweeps
  the expired entries, at one clock reading or at one per entry, and stamps the new entry at another
  (\<open>swept\<close> says that a sweep met a key no later than a time); a
  reader presents a credential and sees what the entry shows to it.  The lemmas on
  runs of operations are proved once here and used through an interpretation per table.
\<close>

section \<open>Hash maps\<close>

text \<open>\<^verbatim>\<open>HashMap::retain\<close>.\<close>

definition retain :: "('k \<Rightarrow> 'v \<Rightarrow> bool) \<Rightarrow> ('k \<rightharpoonup> 'v) \<Rightarrow> ('k \<rightharpoonup> 'v)" where
  "retain p m = (\<lambda>k. opt_filter (p k) (m k))"

lemma retain_apply [table_simps, simp]: "retain p m k = opt_filter (p k) (m k)"
  by (simp add: retain_def)

lemma retain_empty [table_simps, simp]: "retain p Map.empty = Map.empty"
  by (auto simp: retain_def)

lemma dom_retain: "dom (retain p m) \<subseteq> dom m"
  by (auto simp: dom_def)

lemma finite_dom_retain: "finite (dom m) \<Longrightarrow> finite (dom (retain p m))"
  by (rule finite_subset [OF dom_retain])

lemma ran_retain: "v \<in> ran (retain p m) \<Longrightarrow> v \<in> ran m \<and> (\<exists>k. p k v)"
  by (auto simp: ran_def)

section \<open>The contract\<close>

datatype ('s, 't, 'k, 'p, 'd) table_op = Put 's 't 'k 'p 'd | Del 'k

fun run_table ::
  "('s \<Rightarrow> 't \<Rightarrow> 'k \<Rightarrow> 'p \<Rightarrow> 'd \<Rightarrow> 'm \<Rightarrow> 'm) \<Rightarrow> ('k \<Rightarrow> 'm \<Rightarrow> 'm) \<Rightarrow>
   ('s, 't, 'k, 'p, 'd) table_op list \<Rightarrow> 'm \<Rightarrow> 'm" where
  "run_table put del [] m = m"
| "run_table put del (Put t1 t2 k p d # xs) m = run_table put del xs (put t1 t2 k p d m)"
| "run_table put del (Del k # xs) m = run_table put del xs (del k m)"

fun op_key :: "('s, 't, 'k, 'p, 'd) table_op \<Rightarrow> 'k" where
  "op_key (Put t1 t2 k p d) = k"
| "op_key (Del k) = k"

lemma run_table_append: "run_table put del (xs @ ys) m = run_table put del ys (run_table put del xs m)"
proof (induction xs arbitrary: m)
  case Nil
  then show ?case by simp
next
  case (Cons x xs)
  then show ?case by (cases x) simp_all
qed

locale expiring_table =
  fixes put :: "'s \<Rightarrow> 't::linorder \<Rightarrow> 'k \<Rightarrow> 'p \<Rightarrow> 'd \<Rightarrow> 'm \<Rightarrow> 'm"
    and swept :: "'s \<Rightarrow> 'k \<Rightarrow> 't \<Rightarrow> bool"
    and get :: "'t \<Rightarrow> 'k \<Rightarrow> 'c \<Rightarrow> 'm \<Rightarrow> 'r option"
    and del :: "'k \<Rightarrow> 'm \<Rightarrow> 'm"
    and deadline :: "'t \<Rightarrow> 'd \<Rightarrow> 't"
    and shown :: "'c \<Rightarrow> 'p \<Rightarrow> 'r option"
    and new :: "'m"
  assumes get_new: "get t k c new = None"
    and get_put_same:
      "get t k c (put t1 t2 k p d m) = (if t < deadline t2 d then shown c p else None)"
    and get_put_other: "k' \<noteq> k \<Longrightarrow> swept t1 k' t \<Longrightarrow> get t k' c (put t1 t2 k p d m) = get t k' c m"
    and get_put_sub: "k' \<noteq> k \<Longrightarrow> get t k' c (put t1 t2 k p d m) = Some r \<Longrightarrow> get t k' c m = Some r"
    and get_del_same: "get t k c (del k m) = None"
    and get_del_other: "k' \<noteq> k \<Longrightarrow> get t k' c (del k m) = get t k' c m"
    and get_antimono: "t \<le> t' \<Longrightarrow> get t' k c m = Some r \<Longrightarrow> get t k c m = Some r"
begin

lemma expired_stays: "t \<le> t' \<Longrightarrow> get t k c m = None \<Longrightarrow> get t' k c m = None"
  using get_antimono [of t t' k c m] by (cases "get t' k c m") auto

lemma dead_after_deadline: "deadline t2 d \<le> t \<Longrightarrow> get t k c (put t1 t2 k p d m) = None"
  by (simp add: get_put_same leD)

text \<open>What a reader sees after a run was there before it or was put by the run.\<close>

lemma get_run:
  assumes "get t k c (run_table put del xs m) = Some r"
  shows "get t k c m = Some r \<or>
    (\<exists>t1 t2 p d. Put t1 t2 k p d \<in> set xs \<and> t < deadline t2 d \<and> shown c p = Some r)"
  using assms
proof (induction xs arbitrary: m)
  case Nil
  then show ?case by simp
next
  case (Cons x xs)
  show ?case
  proof (cases x)
    case (Put t1 t2 k' p d)
    from Cons.prems Put have "get t k c (run_table put del xs (put t1 t2 k' p d m)) = Some r"
      by simp
    then consider (before) "get t k c (put t1 t2 k' p d m) = Some r"
      | (later) t1' t2' p' d' where "Put t1' t2' k p' d' \<in> set xs" "t < deadline t2' d'"
          "shown c p' = Some r"
      using Cons.IH by blast
    then show ?thesis
    proof cases
      case before
      with Put show ?thesis
        by (cases "k = k'") (auto simp: get_put_same dest: get_put_sub split: if_splits)
    next
      case later
      then show ?thesis by auto
    qed
  next
    case (Del k')
    from Cons.prems Del Cons.IH [of "del k' m"] show ?thesis
      by (cases "k = k'") (auto simp: get_del_same get_del_other)
  qed
qed

lemma get_run_new:
  "get t k c (run_table put del xs new) = Some r \<Longrightarrow>
    \<exists>t1 t2 p d. Put t1 t2 k p d \<in> set xs \<and> t < deadline t2 d \<and> shown c p = Some r"
  using get_run [of t k c xs new r] by (simp add: get_new)

text \<open>A deleted key stays deleted until it is put again.\<close>

lemma get_run_absent:
  "get t k c m = None \<Longrightarrow> \<forall>t1 t2 p d. Put t1 t2 k p d \<notin> set xs \<Longrightarrow>
    get t k c (run_table put del xs m) = None"
  using get_run [of t k c xs m] by (cases "get t k c (run_table put del xs m)") auto

lemma get_run_after_del:
  "\<forall>t1 t2 p d. Put t1 t2 k p d \<notin> set xs \<Longrightarrow> get t k c (run_table put del (Del k # xs) m) = None"
  by (simp add: get_run_absent get_del_same)

text \<open>A live entry survives a run that leaves its key alone and sweeps no later than the read.\<close>

lemma get_run_kept:
  assumes "\<forall>x \<in> set xs. op_key x \<noteq> k"
    and "\<forall>x \<in> set xs. \<forall>t1 t2 k' p d. x = Put t1 t2 k' p d \<longrightarrow> swept t1 k t"
  shows "get t k c (run_table put del xs m) = get t k c m"
  using assms
proof (induction xs arbitrary: m)
  case Nil
  then show ?case by simp
next
  case (Cons x xs)
  then show ?case
    by (cases x) (auto simp: get_put_other get_del_other)
qed

end

end
