(* ===== verification/Login_Sessions.thy ===== *)
theory Login_Sessions
  imports Expiring_Table
begin

text \<open>
  \<^verbatim>\<open>auth/src/sessions.rs\<close>: the in-memory table of device-flow logins.
  An \<^verbatim>\<open>Instant\<close> and a \<^verbatim>\<open>Duration\<close> are natural
  numbers of nanoseconds on the monotonic clock.  The code reads the clock twice in
  \<^verbatim>\<open>insert\<close> and in \<^verbatim>\<open>resolve\<close> (once in
  \<^verbatim>\<open>sweep\<close>), so both operations take the two readings.
\<close>

type_synonym instant = nat
type_synonym duration = nat

definition from_secs :: "nat \<Rightarrow> duration" where
  "from_secs s = s * 1000000000"

record session =
  device_code :: string
  token_endpoint :: string
  client_state :: string
  expires_at :: instant

type_synonym sessions = "string \<rightharpoonup> session"

definition sessions_new :: sessions where
  "sessions_new = Map.empty"

definition sweep :: "instant \<Rightarrow> sessions \<Rightarrow> sessions" where
  "sweep now m = retain (\<lambda>_ s. expires_at s > now) m"

definition sessions_insert ::
  "instant \<Rightarrow> instant \<Rightarrow> string \<Rightarrow> string \<Rightarrow> string \<Rightarrow> string \<Rightarrow> duration \<Rightarrow> sessions \<Rightarrow> sessions" where
  "sessions_insert t1 t2 session_code dc te cs ttl m =
     (sweep t1 m)(session_code \<mapsto>
       \<lparr>device_code = dc, token_endpoint = te, client_state = cs, expires_at = t2 + ttl\<rparr>)"

definition sessions_resolve ::
  "instant \<Rightarrow> instant \<Rightarrow> string \<Rightarrow> string \<Rightarrow> sessions \<Rightarrow> sessions \<times> (string \<times> string) option" where
  "sessions_resolve t1 t2 session_code cs m =
     (let m' = sweep t1 m in
      (m', case m' session_code of
             None \<Rightarrow> None
           | Some s \<Rightarrow>
               if client_state s = cs \<and> expires_at s > t2
               then Some (device_code s, token_endpoint s) else None))"

definition sessions_remove :: "string \<Rightarrow> sessions \<Rightarrow> sessions" where
  "sessions_remove session_code m = m(session_code := None)"

section \<open>The operations\<close>

lemma sweep_apply: "sweep t m k = opt_filter (\<lambda>s. expires_at s > t) (m k)"
  by (simp add: sweep_def)

lemmas session_defs =
  sessions_new_def sessions_insert_def sessions_resolve_def sessions_remove_def sweep_def

lemma resolve_Some_iff:
  assumes "t1 \<le> t2"
  shows "snd (sessions_resolve t1 t2 code cs m) = Some (dc, te) \<longleftrightarrow>
    (\<exists>s. m code = Some s \<and> client_state s = cs \<and> t2 < expires_at s \<and>
         device_code s = dc \<and> token_endpoint s = te)"
  using assms by (auto simp: session_defs Let_def opt_filter_def split: option.splits)

text \<open>The first clock reading decides only which entries are dropped.\<close>

lemma resolve_one_reading:
  "t1 \<le> t2 \<Longrightarrow> snd (sessions_resolve t1 t2 code cs m) = snd (sessions_resolve t2 t2 code cs m)"
  by (auto simp: session_defs Let_def opt_filter_def split: option.splits)

lemma resolve_table: "fst (sessions_resolve t1 t2 code cs m) = sweep t1 m"
  by (simp add: sessions_resolve_def Let_def)

lemma sweep_sweep: "sweep t (sweep t' m) = sweep (max t t') m"
  by (rule ext) (auto simp: sweep_apply opt_filter_def split: option.splits)

lemma finite_sessions:
  "finite (dom m) \<Longrightarrow> finite (dom (sweep t m))"
  "finite (dom m) \<Longrightarrow> finite (dom (sessions_insert t1 t2 k dc te cs ttl m))"
  "finite (dom m) \<Longrightarrow> finite (dom (sessions_remove k m))"
  by (simp_all add: session_defs finite_dom_retain)

section \<open>The table keeps the contract\<close>

interpretation login: expiring_table
  where put = "\<lambda>t1 t2 k (dc, te, cs) ttl m. sessions_insert t1 t2 k dc te cs ttl m"
    and swept = "\<lambda>t1 k t. t1 \<le> t"
    and get = "\<lambda>t k cs m. snd (sessions_resolve t t k cs m)"
    and del = sessions_remove
    and deadline = "\<lambda>t ttl. t + ttl"
    and shown = "\<lambda>cs (dc, te, cs'). if cs' = cs then Some (dc, te) else None"
    and new = sessions_new
  by unfold_locales
    (auto simp: session_defs Let_def opt_filter_def split: option.splits if_splits)

end
