(* ===== verification/Outside.thy ===== *)
theory Outside
  imports Kaguya_Prelude
begin

text \<open>
  The code that is not in the repository, as parameters: HTTP (\<^verbatim>\<open>reqwest\<close>),
  JSON (\<^verbatim>\<open>serde_json\<close>), the file system, RSA, SHA-256 and base64, and
  JSON web tokens (\<^verbatim>\<open>jsonwebtoken\<close>).  Each is a record of functions that the
  model's definitions take as an argument; nothing is assumed about them here.  Where a
  theorem needs the documented behaviour of a library, the behaviour is one of the predicates
  defined at the end of this theory and a hypothesis of the theorem.
  The records of claims that travel in tokens are the source's own types.
\<close>

section \<open>JSON and deserialisation\<close>

text \<open>An object is the list of its members; the ones the code builds are listed in the source's order.\<close>

datatype json =
    JNull | JBool bool | JNum int | JStr string | JArr "json list" | JObj "(string \<times> json) list"

record serde =
  parse_json :: "string \<Rightarrow> string + json"
  print_json :: "json \<Rightarrow> string"
  de_message :: "string \<Rightarrow> string"  \<comment> \<open>the error of a field that is missing, repeated or of another type\<close>

text \<open>
  What \<^verbatim>\<open>#[derive(Deserialize)]\<close> does with a field of a struct: the values found
  under its name; a required \<^verbatim>\<open>String\<close>; an \<^verbatim>\<open>Option<String>\<close>
  (absent and null are \<^verbatim>\<open>None\<close>); a \<^verbatim>\<open>u64\<close> with
  \<^verbatim>\<open>#[serde(default)]\<close>.  Unknown fields are ignored.
\<close>

fun field_values :: "json \<Rightarrow> string \<Rightarrow> json list option" where
  "field_values (JObj kvs) key = Some (map snd (filter (\<lambda>kv. fst kv = key) kvs))"
| "field_values _ key = None"

text \<open>
  A struct is also read from an array that lists its fields in order, where a last field with a default
  may be left out; the members are named here, as if the text were an object.
\<close>

definition struct_members :: "serde \<Rightarrow> string list \<Rightarrow> nat \<Rightarrow> json \<Rightarrow> string + json" where
  "struct_members sd names defaults j =
     (case j of
        JObj kvs \<Rightarrow> Inr j
      | JArr vs \<Rightarrow>
          if length names \<le> length vs + defaults \<and> length vs \<le> length names then Inr (JObj (zip names vs))
          else Inl (de_message sd [])
      | _ \<Rightarrow> Inl (de_message sd []))"

definition de_str :: "serde \<Rightarrow> json \<Rightarrow> string \<Rightarrow> string + string" where
  "de_str sd j key = (case field_values j key of Some [JStr s] \<Rightarrow> Inr s | _ \<Rightarrow> Inl (de_message sd key))"

definition de_opt_str :: "serde \<Rightarrow> json \<Rightarrow> string \<Rightarrow> string + string option" where
  "de_opt_str sd j key =
     (case field_values j key of
        Some [] \<Rightarrow> Inr None
      | Some [JNull] \<Rightarrow> Inr None
      | Some [JStr s] \<Rightarrow> Inr (Some s)
      | _ \<Rightarrow> Inl (de_message sd key))"

definition de_u64_default :: "serde \<Rightarrow> json \<Rightarrow> string \<Rightarrow> string + nat" where
  "de_u64_default sd j key =
     (case field_values j key of
        Some [] \<Rightarrow> Inr 0
      | Some [JNum n] \<Rightarrow> (if 0 \<le> n \<and> n < 2 ^ 64 then Inr (nat n) else Inl (de_message sd key))
      | _ \<Rightarrow> Inl (de_message sd key))"

section \<open>HTTP\<close>

text \<open>A request fails to be sent, or is answered with a status and a body, whose reading may fail.\<close>

datatype http_reply = SendFailed string | Reply nat "string + string"

record http =
  http_get :: "string \<Rightarrow> http_reply"
  http_post :: "string \<Rightarrow> (string \<times> string) list \<Rightarrow> http_reply"
  status_error :: "string \<Rightarrow> nat \<Rightarrow> string option"  \<comment> \<open>\<^verbatim>\<open>error_for_status\<close>\<close>

text \<open>\<^verbatim>\<open>send().await.and_then(|r| r.error_for_status())\<close>.\<close>

fun accept_reply :: "http \<Rightarrow> string \<Rightarrow> http_reply \<Rightarrow> string + (string + string)" where
  "accept_reply h url (SendFailed e) = Inl e"
| "accept_reply h url (Reply status body) =
     (case status_error h url status of Some e \<Rightarrow> Inl e | None \<Rightarrow> Inr body)"

text \<open>\<^verbatim>\<open>.json().await\<close> as a JSON value.\<close>

definition body_json :: "serde \<Rightarrow> string + string \<Rightarrow> string + json" where
  "body_json sd body = (case body of Inl e \<Rightarrow> Inl e | Inr text \<Rightarrow> parse_json sd text)"

text \<open>The discovery URL of an issuer; three places of the program build it.\<close>

definition discovery_url :: "string \<Rightarrow> string" where
  "discovery_url issuer = trim_end_matches CHR ''/'' issuer @ ''/.well-known/openid-configuration''"

lemma discovery_url_slash: "discovery_url (issuer @ ''/'') = discovery_url issuer"
  by (simp add: discovery_url_def)

section \<open>Files\<close>

type_synonym files = "string \<rightharpoonup> string"

text \<open>
  A write that fails leaves what it has written so far, or nothing; a path whose metadata cannot be
  read does not exist for \<^verbatim>\<open>Path::exists\<close>.
\<close>

record fs_env =
  mkdir_fails :: "string \<Rightarrow> string option"
  stat_fails :: "string \<Rightarrow> bool"
  read_fails :: "string \<Rightarrow> string option"
  write_fails :: "string \<Rightarrow> (string \<times> string option) option"

definition fs_healthy :: "fs_env \<Rightarrow> bool" where
  "fs_healthy fe \<longleftrightarrow>
     (\<forall>p. mkdir_fails fe p = None \<and> \<not> stat_fails fe p \<and> read_fails fe p = None \<and> write_fails fe p = None)"

definition fs_exists :: "fs_env \<Rightarrow> string \<Rightarrow> files \<Rightarrow> bool" where
  "fs_exists fe p fs \<longleftrightarrow> \<not> stat_fails fe p \<and> fs p \<noteq> None"

definition fs_read :: "fs_env \<Rightarrow> string \<Rightarrow> files \<Rightarrow> string + string" where
  "fs_read fe p fs =
     (case read_fails fe p of Some e \<Rightarrow> Inl e
      | None \<Rightarrow> (case fs p of Some c \<Rightarrow> Inr c | None \<Rightarrow> Inl ''No such file or directory''))"

definition fs_write :: "fs_env \<Rightarrow> string \<Rightarrow> string \<Rightarrow> files \<Rightarrow> files \<times> (string + unit)" where
  "fs_write fe p c fs =
     (case write_fails fe p of
        Some (e, left) \<Rightarrow> (fs(p := left), Inl e)
      | None \<Rightarrow> (fs(p \<mapsto> c), Inr ()))"

section \<open>Claims\<close>

record resource_grant =
  resource_id :: string
  permission :: "string list"

record minted_claims =
  mc_iss :: string
  mc_sub :: string
  mc_aud :: "string list"
  mc_iat :: u64
  mc_exp :: u64
  mc_name :: string
  mc_preferred_username :: string
  mc_is_service_account :: bool
  mc_resources :: "resource_grant list"

record identity_claims =
  ic_sub :: string
  ic_exp :: u64
  ic_preferred_username :: "string option"
  ic_name :: "string option"
  ic_email :: "string option"
  ic_email_verified :: "bool option"

text \<open>The identity claims that a minted token shows when it is read back as an identity.\<close>

definition identity_of :: "minted_claims \<Rightarrow> identity_claims" where
  "identity_of mc = \<lparr>ic_sub = mc_sub mc, ic_exp = mc_exp mc,
     ic_preferred_username = Some (mc_preferred_username mc), ic_name = Some (mc_name mc),
     ic_email = None, ic_email_verified = None\<rparr>"

section \<open>Cryptography and tokens\<close>

text \<open>\<open>'k\<close> stands for every kind of key material the code holds without looking into it.\<close>

record 'k crypto =
  b64 :: "string \<Rightarrow> string"  \<comment> \<open>base64url without padding\<close>
  sha256 :: "string \<Rightarrow> string"
  rsa_new :: "nat \<Rightarrow> string + 'k"
  rsa_to_pem :: "'k \<Rightarrow> string + string"
  rsa_from_pem :: "string \<Rightarrow> string + 'k"
  rsa_n :: "'k \<Rightarrow> string"
  rsa_e :: "'k \<Rightarrow> string"
  encoding_key_from_pem :: "string \<Rightarrow> string + 'k"

datatype algorithm = RS256 | OtherAlgorithm string

record jwt_header =
  h_alg :: algorithm
  h_kid :: "string option"

record validation =
  v_alg :: algorithm
  v_issuers :: "string list"
  v_audiences :: "string list"
  v_validate_exp :: bool

record 'k jwt =
  decode_header :: "string \<Rightarrow> string + string option"
  jwks_find :: "'k \<Rightarrow> string \<Rightarrow> 'k option"
  key_of_jwk :: "'k \<Rightarrow> string + 'k"
  jwk_of_json :: "json \<Rightarrow> string + 'k"
  jwks_of_json :: "json \<Rightarrow> string + 'k"
  jwt_decode :: "nat \<Rightarrow> string \<Rightarrow> 'k \<Rightarrow> validation \<Rightarrow> string + identity_claims"
  jwt_encode :: "jwt_header \<Rightarrow> minted_claims \<Rightarrow> 'k \<Rightarrow> string + string"

text \<open>
  The documented behaviour of \<^verbatim>\<open>jsonwebtoken\<close>: what a validation accepts at a time
  (the default leeway is 60 seconds), that a token encoded with a key is read back with the
  matching key when its claims are accepted, and that the matching key reads no other token
  (signatures cannot be forged).
\<close>

definition accepts :: "validation \<Rightarrow> nat \<Rightarrow> jwt_header \<Rightarrow> minted_claims \<Rightarrow> bool" where
  "accepts v now h mc \<longleftrightarrow>
     h_alg h = v_alg v \<and> mc_iss mc \<in> set (v_issuers v) \<and>
     set (mc_aud mc) \<inter> set (v_audiences v) \<noteq> {} \<and>
     (v_validate_exp v \<longrightarrow> now \<le> unat (mc_exp mc) + 60)"

definition decodes_own :: "'k jwt \<Rightarrow> 'k \<Rightarrow> 'k \<Rightarrow> bool" where
  "decodes_own J ek dk \<longleftrightarrow>
     (\<forall>h mc tok v now. jwt_encode J h mc ek = Inr tok \<longrightarrow> accepts v now h mc \<longrightarrow>
        jwt_decode J now tok dk v = Inr (identity_of mc))"

definition unforgeable :: "'k jwt \<Rightarrow> 'k \<Rightarrow> 'k \<Rightarrow> bool" where
  "unforgeable J ek dk \<longleftrightarrow>
     (\<forall>tok v now c. jwt_decode J now tok dk v = Inr c \<longrightarrow>
        (\<exists>h mc. jwt_encode J h mc ek = Inr tok \<and> accepts v now h mc \<and> c = identity_of mc))"

end
