(* ===== verification/Signing_Keys.thy ===== *)
theory Signing_Keys
  imports Outside
begin

text \<open>
  \<^verbatim>\<open>auth/src/keys.rs\<close> and the publication in
  \<^verbatim>\<open>auth/src/jwks.rs\<close>: the signing key on disk, its thumbprint and public JWK,
  the minting of Lore tokens, the fetch of the provider's key set and the file that loreserver
  reads.
\<close>

section \<open>The signer\<close>

definition KEY_FILE :: string where "KEY_FILE = ''signing_key.pem''"
definition JWKS_FILE :: string where "JWKS_FILE = ''jwks.json''"
definition RSA_BITS :: nat where "RSA_BITS = 2048"

record 'k signer =
  encoding_key :: 'k
  kid :: string
  own_jwk :: json

definition build_jwk :: "string \<Rightarrow> string \<Rightarrow> string \<Rightarrow> json" where
  "build_jwk key_id n e =
     JObj [(''kty'', JStr ''RSA''), (''use'', JStr ''sig''), (''alg'', JStr ''RS256''),
           (''kid'', JStr key_id), (''n'', JStr n), (''e'', JStr e)]"

text \<open>The text of the RFC 7638 thumbprint; a double quote is the character 34.\<close>

definition dq :: string where "dq = [char_of (34::nat)]"

definition canonical_jwk :: "string \<Rightarrow> string \<Rightarrow> string" where
  "canonical_jwk n e =
     ''{'' @ dq @ ''e'' @ dq @ '':'' @ dq @ e @ dq @ '','' @ dq @ ''kty'' @ dq @ '':'' @ dq @ ''RSA'' @ dq
     @ '','' @ dq @ ''n'' @ dq @ '':'' @ dq @ n @ dq @ ''}''"

definition thumbprint :: "'k crypto \<Rightarrow> string \<Rightarrow> string \<Rightarrow> string" where
  "thumbprint C n e = b64 C (sha256 C (canonical_jwk n e))"

definition from_pkcs8_pem :: "'k crypto \<Rightarrow> string \<Rightarrow> string + 'k signer" where
  "from_pkcs8_pem C pem =
     (case rsa_from_pem C pem of
        Inl err \<Rightarrow> Inl err
      | Inr private \<Rightarrow>
          let n = b64 C (rsa_n C private); e = b64 C (rsa_e C private);
              key_id = thumbprint C n e; jwk = build_jwk key_id n e
          in (case encoding_key_from_pem C pem of
                Inl err \<Rightarrow> Inl err
              | Inr ek \<Rightarrow> Inr \<lparr>encoding_key = ek, kid = key_id, own_jwk = jwk\<rparr>))"

definition load_or_generate ::
  "'k crypto \<Rightarrow> fs_env \<Rightarrow> string \<Rightarrow> files \<Rightarrow> files \<times> (string + 'k signer)" where
  "load_or_generate C fe dir fs =
     (case mkdir_fails fe dir of
        Some e \<Rightarrow> (fs, Inl e)
      | None \<Rightarrow>
          let key_path = path_join dir KEY_FILE in
          if fs_exists fe key_path fs
          then (case fs_read fe key_path fs of
                  Inl e \<Rightarrow> (fs, Inl e)
                | Inr pem \<Rightarrow> (fs, from_pkcs8_pem C pem))
          else (case rsa_new C RSA_BITS of
                  Inl e \<Rightarrow> (fs, Inl e)
                | Inr private \<Rightarrow>
                    (case rsa_to_pem C private of
                       Inl e \<Rightarrow> (fs, Inl e)
                     | Inr pem \<Rightarrow>
                         (case fs_write fe key_path pem fs of
                            (fs', Inl e) \<Rightarrow> (fs', Inl e)
                          | (fs', Inr _) \<Rightarrow> (fs', from_pkcs8_pem C pem)))))"

definition mint ::
  "'k jwt \<Rightarrow> nat \<Rightarrow> 'k signer \<Rightarrow> string \<Rightarrow> string \<Rightarrow> string \<Rightarrow> string \<Rightarrow> string \<Rightarrow> u64 \<Rightarrow>
   resource_grant list \<Rightarrow> string + string" where
  "mint J now_secs sg issuer audience subject name preferred_username exp' rs =
     jwt_encode J \<lparr>h_alg = RS256, h_kid = Some (kid sg)\<rparr>
       \<lparr>mc_iss = issuer, mc_sub = subject, mc_aud = [audience], mc_iat = of_nat now_secs, mc_exp = exp',
        mc_name = name, mc_preferred_username = preferred_username, mc_is_service_account = False,
        mc_resources = rs\<rparr>
       (encoding_key sg)"

section \<open>The provider's keys and our published file\<close>

text \<open>The one field of the discovery document that is read, \<^verbatim>\<open>DiscoveryDoc\<close>.\<close>

definition de_discovery_doc :: "serde \<Rightarrow> json \<Rightarrow> string + string" where
  "de_discovery_doc sd j =
     (case struct_members sd [''jwks_uri''] 0 j of Inl e \<Rightarrow> Inl e | Inr m \<Rightarrow> de_str sd m ''jwks_uri'')"

definition fetch_jwks :: "http \<Rightarrow> serde \<Rightarrow> string \<Rightarrow> string + json" where
  "fetch_jwks h sd issuer =
     (let url = discovery_url issuer in
      case accept_reply h url (http_get h url) of
        Inl e \<Rightarrow> Inl (''discovery '' @ url @ '': '' @ e)
      | Inr body \<Rightarrow>
          (case (case body_json sd body of Inl e \<Rightarrow> Inl e | Inr j \<Rightarrow> de_discovery_doc sd j) of
             Inl e \<Rightarrow> Inl (''discovery parse: '' @ e)
           | Inr jwks_uri \<Rightarrow>
               (case accept_reply h jwks_uri (http_get h jwks_uri) of
                  Inl e \<Rightarrow> Inl (''jwks '' @ jwks_uri @ '': '' @ e)
                | Inr body' \<Rightarrow>
                    (case body_json sd body' of
                       Inl e \<Rightarrow> Inl (''jwks parse: '' @ e)
                     | Inr j \<Rightarrow> Inr j))))"

definition publish :: "serde \<Rightarrow> fs_env \<Rightarrow> string \<Rightarrow> json \<Rightarrow> files \<Rightarrow> files \<times> (string + unit)" where
  "publish sd fe dir jwk fs =
     fs_write fe (path_join dir JWKS_FILE) (print_json sd (JObj [(''keys'', JArr [jwk])])) fs"

section \<open>Properties\<close>

text \<open>The thumbprint hashes different texts for different keys: the canonical text determines both
  members of an RSA key whose members hold no double quote, as no base64url text does.\<close>

lemma canonical_jwk_inj:
  assumes "char_of (34::nat) \<notin> set n" and "char_of (34::nat) \<notin> set e"
    and "char_of (34::nat) \<notin> set n'" and "char_of (34::nat) \<notin> set e'"
    and "canonical_jwk n e = canonical_jwk n' e'"
  shows "n = n' \<and> e = e'"
proof -
  let ?q = "char_of (34::nat) :: char"
  let ?s = "'','' @ dq @ ''kty'' @ dq @ '':'' @ dq @ ''RSA'' @ dq @ '','' @ dq @ ''n'' @ dq @ '':'' @ dq"
  from assms(5) have "e @ ?q # ?s @ n @ ?q # ''}'' = e' @ ?q # ?s @ n' @ ?q # ''}''"
    by (simp add: canonical_jwk_def dq_def)
  from cut_at [OF assms(2,4) this] have "e = e'" "n @ ?q # ''}'' = n' @ ?q # ''}''" by simp_all
  with cut_at [OF assms(1,3) this(2)] show ?thesis by simp
qed

lemma path_join_files_differ: "path_join dir KEY_FILE \<noteq> path_join dir JWKS_FILE"
  by (simp add: path_join_def KEY_FILE_def JWKS_FILE_def)

lemma load_Inr_file:
  assumes "load_or_generate C fe dir fs = (fs', Inr sg)"
  shows "\<exists>pem. fs' (path_join dir KEY_FILE) = Some pem \<and> from_pkcs8_pem C pem = Inr sg"
  using assms
  by (auto simp: load_or_generate_def Let_def fs_exists_def fs_read_def fs_write_def
      split: option.splits if_splits sum.splits prod.splits)

lemma from_pkcs8_pem_rsa_new [simp]: "from_pkcs8_pem (C\<lparr>rsa_new := f\<rparr>) pem = from_pkcs8_pem C pem"
  by (auto simp: from_pkcs8_pem_def thumbprint_def Let_def split: sum.split)

lemma load_existing:
  assumes "fs_healthy fe" and "fs (path_join dir KEY_FILE) = Some pem"
  shows "load_or_generate C fe dir fs = (fs, from_pkcs8_pem C pem)"
  using assms by (simp add: load_or_generate_def fs_healthy_def fs_exists_def fs_read_def)

text \<open>C31. A signing key survives restarts: after a start that succeeded, generating or loading, every later
  start on a healthy file system, even one that publishes the key set in between and draws other
  random numbers, leaves the files alone and yields the same signer, so the same key id and JWK.\<close>

theorem signing_key_stable:
  assumes "load_or_generate C fe dir fs = (fs', Inr sg)" and "fs_healthy fe'"
  shows "load_or_generate (C\<lparr>rsa_new := other_random\<rparr>) fe' dir (fst (publish sd fe'' dir jwk fs'))
    = (fst (publish sd fe'' dir jwk fs'), Inr sg)"
proof -
  from load_Inr_file [OF assms(1)] obtain pem
    where pem: "fs' (path_join dir KEY_FILE) = Some pem" "from_pkcs8_pem C pem = Inr sg" by blast
  then have "fst (publish sd fe'' dir jwk fs') (path_join dir KEY_FILE) = Some pem"
    by (auto simp: publish_def fs_write_def path_join_files_differ split: option.split)
  with pem(2) show ?thesis by (simp add: load_existing [OF assms(2)])
qed

text \<open>An existing key file is never overwritten by a start, whatever fails, unless its metadata cannot be read.\<close>

lemma key_file_kept:
  assumes "fs (path_join dir KEY_FILE) = Some pem" and "\<not> stat_fails fe (path_join dir KEY_FILE)"
  shows "fst (load_or_generate C fe dir fs) = fs"
  using assms by (auto simp: load_or_generate_def Let_def fs_exists_def fs_read_def split: option.split)

text \<open>Every loaded signer carries its own public key in the JWK it publishes, under the RFC 7638
  thumbprint of that key as key id.\<close>

lemma signer_jwk:
  assumes "from_pkcs8_pem C pem = Inr sg"
  shows "\<exists>k. rsa_from_pem C pem = Inr k \<and>
    kid sg = thumbprint C (b64 C (rsa_n C k)) (b64 C (rsa_e C k)) \<and>
    own_jwk sg = build_jwk (kid sg) (b64 C (rsa_n C k)) (b64 C (rsa_e C k))"
  using assms by (auto simp: from_pkcs8_pem_def Let_def split: sum.splits)

text \<open>On a healthy file system the published file reads back as a key set with our key alone.\<close>

lemma published_set:
  assumes "fs_healthy fe" and "\<forall>j. parse_json sd (print_json sd j) = Inr j"
  shows "\<exists>text. fst (publish sd fe dir jwk fs) (path_join dir JWKS_FILE) = Some text \<and>
    parse_json sd text = Inr (JObj [(''keys'', JArr [jwk])])"
  using assms by (simp add: publish_def fs_write_def fs_healthy_def)

end
