(* ===== verification/Token_Verify.thy ===== *)
theory Token_Verify
  imports Signing_Keys
begin

text \<open>
  \<^verbatim>\<open>auth/src/verify.rs\<close>: who a bearer token belongs to.  The verifier of the
  provider's tokens keeps one piece of state, the cached key set; its operations take the cache
  and return it.  The clock is the number of seconds the JWT library compares expiries with.
\<close>

section \<open>The canonical account id\<close>

definition canonical_subject :: "(string \<Rightarrow> string) \<Rightarrow> identity_claims \<Rightarrow> string" where
  "canonical_subject uni c =
     (case (ic_email c, ic_email_verified c) of
        (Some email, Some True) \<Rightarrow> if email \<noteq> [] then to_lowercase uni email else ic_sub c
      | _ \<Rightarrow> ic_sub c)"

section \<open>Verification\<close>

datatype verify_error = Malformed string | UnknownKid string | Jwks string | Invalid string

fun verify_error_text :: "verify_error \<Rightarrow> string" where
  "verify_error_text (Malformed m) = ''malformed token: '' @ m"
| "verify_error_text (UnknownKid k) = ''no IdP key for kid '' @ k"
| "verify_error_text (Jwks m) = ''IdP JWKS unavailable: '' @ m"
| "verify_error_text (Invalid m) = ''token rejected: '' @ m"

definition token_kid :: "'k jwt \<Rightarrow> string \<Rightarrow> verify_error + string" where
  "token_kid J token =
     (case decode_header J token of
        Inl e \<Rightarrow> Inl (Malformed e)
      | Inr None \<Rightarrow> Inl (Malformed ''no kid in header'')
      | Inr (Some k) \<Rightarrow> Inr k)"

definition verify_with_jwks ::
  "'k jwt \<Rightarrow> nat \<Rightarrow> string \<Rightarrow> 'k \<Rightarrow> string \<Rightarrow> string list \<Rightarrow> verify_error + identity_claims" where
  "verify_with_jwks J now token jwks issuer audiences =
     (case token_kid J token of
        Inl e \<Rightarrow> Inl e
      | Inr k \<Rightarrow>
          (case jwks_find J jwks k of
             None \<Rightarrow> Inl (UnknownKid k)
           | Some jwk \<Rightarrow>
               (case key_of_jwk J jwk of
                  Inl e \<Rightarrow> Inl (Jwks (''bad jwk '' @ k @ '': '' @ e))
                | Inr key \<Rightarrow>
                    (case jwt_decode J now token key
                            \<lparr>v_alg = RS256, v_issuers = [issuer], v_audiences = audiences,
                             v_validate_exp = True\<rparr> of
                       Inl e \<Rightarrow> Inl (Invalid e)
                     | Inr c \<Rightarrow> Inr c))))"

record oidc_verifier =
  ov_issuer :: string
  ov_audiences :: "string list"

definition oidc_fetch :: "'k jwt \<Rightarrow> http \<Rightarrow> serde \<Rightarrow> string \<Rightarrow> verify_error + 'k" where
  "oidc_fetch J h sd issuer =
     (case fetch_jwks h sd issuer of
        Inl e \<Rightarrow> Inl (Jwks e)
      | Inr value \<Rightarrow>
          (case jwks_of_json J value of
             Inl e \<Rightarrow> Inl (Jwks (''jwks parse: '' @ e))
           | Inr ks \<Rightarrow> Inr ks))"

text \<open>\<^verbatim>\<open>OidcVerifier::verify\<close>, with the cached key set before and after.\<close>

definition oidc_verify ::
  "'k jwt \<Rightarrow> http \<Rightarrow> serde \<Rightarrow> nat \<Rightarrow> oidc_verifier \<Rightarrow> string \<Rightarrow> 'k option \<Rightarrow>
   'k option \<times> (verify_error + identity_claims)" where
  "oidc_verify J h sd now ov token cache =
     (case token_kid J token of
        Inl e \<Rightarrow> (cache, Inl e)
      | Inr k \<Rightarrow>
          (case opt_filter (\<lambda>ks. jwks_find J ks k \<noteq> None) cache of
             Some ks \<Rightarrow> (cache, verify_with_jwks J now token ks (ov_issuer ov) (ov_audiences ov))
           | None \<Rightarrow>
               (case oidc_fetch J h sd (ov_issuer ov) of
                  Inl e \<Rightarrow> (cache, Inl e)
                | Inr fetched \<Rightarrow>
                    (Some fetched,
                     verify_with_jwks J now token fetched (ov_issuer ov) (ov_audiences ov)))))"

record 'k self_verifier =
  sv_key :: 'k
  sv_issuer :: string
  sv_audience :: string

definition self_verifier_new ::
  "'k jwt \<Rightarrow> json \<Rightarrow> string \<Rightarrow> string \<Rightarrow> verify_error + 'k self_verifier" where
  "self_verifier_new J jwk issuer audience =
     (case jwk_of_json J jwk of
        Inl e \<Rightarrow> Inl (Jwks (''own jwk: '' @ e))
      | Inr k \<Rightarrow>
          (case key_of_jwk J k of
             Inl e \<Rightarrow> Inl (Jwks (''own jwk key: '' @ e))
           | Inr key \<Rightarrow> Inr \<lparr>sv_key = key, sv_issuer = issuer, sv_audience = audience\<rparr>))"

definition self_claims :: "'k jwt \<Rightarrow> nat \<Rightarrow> 'k self_verifier \<Rightarrow> string \<Rightarrow> identity_claims option" where
  "self_claims J now sv token =
     (case jwt_decode J now token (sv_key sv)
             \<lparr>v_alg = RS256, v_issuers = [sv_issuer sv], v_audiences = [sv_audience sv],
              v_validate_exp = True\<rparr> of
        Inl e \<Rightarrow> None
      | Inr c \<Rightarrow> Some c)"

record 'k identity =
  id_self :: "'k self_verifier"
  id_oidc :: oidc_verifier

definition id_claims ::
  "'k jwt \<Rightarrow> http \<Rightarrow> serde \<Rightarrow> nat \<Rightarrow> 'k identity \<Rightarrow> string \<Rightarrow> 'k option \<Rightarrow>
   'k option \<times> (verify_error + identity_claims)" where
  "id_claims J h sd now ident bearer cache =
     (case self_claims J now (id_self ident) bearer of
        Some c \<Rightarrow> (cache, Inr c)
      | None \<Rightarrow> oidc_verify J h sd now (id_oidc ident) bearer cache)"

definition id_subject ::
  "'k jwt \<Rightarrow> http \<Rightarrow> serde \<Rightarrow> nat \<Rightarrow> 'k identity \<Rightarrow> string \<Rightarrow> 'k option \<Rightarrow>
   'k option \<times> (verify_error + string)" where
  "id_subject J h sd now ident bearer cache =
     (case id_claims J h sd now ident bearer cache of
        (cache', Inl e) \<Rightarrow> (cache', Inl e)
      | (cache', Inr c) \<Rightarrow> (cache', Inr (ic_sub c)))"

section \<open>The contract of a verifier\<close>

text \<open>
  A verifier accepts a token only after the library has decoded it with a trusted key, the
  algorithm pinned, and one issuer, the given audiences and the expiry checked.
\<close>

locale pinned_verifier =
  fixes J :: "'k jwt" and check :: "nat \<Rightarrow> string \<Rightarrow> identity_claims option"
    and trusted :: "'k \<Rightarrow> bool" and issuer :: string and audiences :: "string list"
  assumes pinned: "check now token = Some c \<Longrightarrow>
    \<exists>k. trusted k \<and> jwt_decode J now token k
      \<lparr>v_alg = RS256, v_issuers = [issuer], v_audiences = audiences, v_validate_exp = True\<rparr> = Inr c"
begin

text \<open>Where every trusted key belongs to a signer, an accepted token was encoded by a signer.\<close>

lemma accepted_genuine:
  assumes "\<And>k. trusted k \<Longrightarrow> \<exists>ek. signs ek \<and> unforgeable J ek k" and "check now token = Some c"
  shows "\<exists>ek h mc. signs ek \<and> jwt_encode J h mc ek = Inr token \<and> c = identity_of mc \<and>
    h_alg h = RS256 \<and> mc_iss mc = issuer \<and> set (mc_aud mc) \<inter> set audiences \<noteq> {} \<and>
    now \<le> unat (mc_exp mc) + 60"
proof -
  from pinned [OF assms(2)] obtain k where k: "trusted k" and d: "jwt_decode J now token k
      \<lparr>v_alg = RS256, v_issuers = [issuer], v_audiences = audiences, v_validate_exp = True\<rparr> = Inr c"
    by blast
  from assms(1) [OF k] obtain ek where "signs ek" and u: "unforgeable J ek k" by blast
  moreover from u d obtain h mc where "jwt_encode J h mc ek = Inr token" "c = identity_of mc"
    and "accepts \<lparr>v_alg = RS256, v_issuers = [issuer], v_audiences = audiences, v_validate_exp = True\<rparr> now h mc"
    unfolding unforgeable_def by blast
  ultimately show ?thesis by (auto simp: accepts_def)
qed

lemma rejected_unsigned:
  "\<forall>k. trusted k \<longrightarrow> (\<exists>e. jwt_decode J now token k
      \<lparr>v_alg = RS256, v_issuers = [issuer], v_audiences = audiences, v_validate_exp = True\<rparr> = Inl e) \<Longrightarrow>
    check now token = None"
  using pinned [of now token] by (cases "check now token") fastforce+

end

interpretation own: pinned_verifier J "\<lambda>now token. self_claims J now sv token" "\<lambda>k. k = sv_key sv"
    "sv_issuer sv" "[sv_audience sv]" for J :: "'k jwt" and sv
  by unfold_locales (auto simp: self_claims_def split: sum.splits)

definition set_key :: "'k jwt \<Rightarrow> 'k \<Rightarrow> 'k \<Rightarrow> bool" where
  "set_key J jwks key \<longleftrightarrow> (\<exists>k jwk. jwks_find J jwks k = Some jwk \<and> key_of_jwk J jwk = Inr key)"

definition right_of :: "'a + 'b \<Rightarrow> 'b option" where
  "right_of x = (case x of Inl _ \<Rightarrow> None | Inr b \<Rightarrow> Some b)"

lemma right_of_Some [simp]: "right_of x = Some b \<longleftrightarrow> x = Inr b"
  by (simp add: right_of_def split: sum.split)

interpretation provider: pinned_verifier J
    "\<lambda>now token. right_of (verify_with_jwks J now token jwks issuer audiences)" "set_key J jwks"
    issuer audiences for J :: "'k jwt" and jwks issuer audiences
  by unfold_locales
    (fastforce simp: verify_with_jwks_def set_key_def split: sum.splits option.splits)

section \<open>Properties\<close>

text \<open>Two verified ASCII emails that differ in case only are one account; without a non-empty verified email
  the account is the connector's subject.\<close>

lemma canonical_subject_cases:
  "canonical_subject uni c =
    (if ic_email_verified c = Some True \<and> ic_email c \<noteq> None \<and> ic_email c \<noteq> Some []
     then to_lowercase uni (the (ic_email c)) else ic_sub c)"
  by (auto simp: canonical_subject_def split: option.splits bool.splits)

text \<open>The fallback subject and the emails share one name space: an identity without an email whose
  connector subject is the lower-cased email of another person gets that person's account.\<close>

lemma canonical_subject_collision:
  "\<exists>a b. ic_email a = Some ''Ann@x.org'' \<and> ic_email_verified a = Some True \<and>
    ic_email b = None \<and> ic_sub b \<noteq> ic_sub a \<and>
    canonical_subject uni a = canonical_subject uni b"
proof -
  let ?a = "\<lparr>ic_sub = ''c1'', ic_exp = 0, ic_preferred_username = None, ic_name = None,
     ic_email = Some ''Ann@x.org'', ic_email_verified = Some True\<rparr>"
  let ?b = "\<lparr>ic_sub = ''ann@x.org'', ic_exp = 0, ic_preferred_username = None, ic_name = None,
     ic_email = None, ic_email_verified = None\<rparr>"
  have "is_ascii ''Ann@x.org''" "map ascii_lower ''Ann@x.org'' = ''ann@x.org''" by code_simp+
  then have "canonical_subject uni ?a = canonical_subject uni ?b"
    by (simp add: canonical_subject_def to_lowercase_def del: list.map)
  then show ?thesis by (intro exI [of _ ?a] exI [of _ ?b]) simp
qed

end
