(* ===== verification/Device_Flow.thy ===== *)
theory Device_Flow
  imports Outside
begin

text \<open>
  \<^verbatim>\<open>auth/src/oidc_device.rs\<close>: the client of the provider's device flow
  (RFC 8628).  Starting a login and polling it are functions of the HTTP and JSON parameters;
  the classification of a token answer is the source's pure function.
\<close>

definition SCOPE :: string where "SCOPE = ''openid profile email''"

text \<open>The three answers of the provider and how they are read.\<close>

record discovery =
  di_device_authorization_endpoint :: string
  di_token_endpoint :: string

definition de_discovery :: "serde \<Rightarrow> json \<Rightarrow> string + discovery" where
  "de_discovery sd j =
     (case struct_members sd [''device_authorization_endpoint'', ''token_endpoint''] 0 j of
        Inl e \<Rightarrow> Inl e
      | Inr m \<Rightarrow>
          (case (de_str sd m ''device_authorization_endpoint'', de_str sd m ''token_endpoint'') of
             (Inr d, Inr t) \<Rightarrow> Inr \<lparr>di_device_authorization_endpoint = d, di_token_endpoint = t\<rparr>
           | (Inl e, _) \<Rightarrow> Inl e
           | (_, Inl e) \<Rightarrow> Inl e))"

record device_code_response =
  dr_device_code :: string
  dr_verification_uri_complete :: "string option"
  dr_verification_uri :: "string option"
  dr_expires_in :: nat

definition de_device_code_response :: "serde \<Rightarrow> json \<Rightarrow> string + device_code_response" where
  "de_device_code_response sd j =
     (case struct_members sd
             [''device_code'', ''verification_uri_complete'', ''verification_uri'', ''expires_in''] 1 j of
        Inl e \<Rightarrow> Inl e
      | Inr m \<Rightarrow>
          (case (de_str sd m ''device_code'', de_opt_str sd m ''verification_uri_complete'',
                 de_opt_str sd m ''verification_uri'', de_u64_default sd m ''expires_in'') of
             (Inr code, Inr complete, Inr plain, Inr secs) \<Rightarrow>
               Inr \<lparr>dr_device_code = code, dr_verification_uri_complete = complete,
                    dr_verification_uri = plain, dr_expires_in = secs\<rparr>
           | (Inl e, _) \<Rightarrow> Inl e
           | (_, Inl e, _) \<Rightarrow> Inl e
           | (_, _, Inl e, _) \<Rightarrow> Inl e
           | (_, _, _, Inl e) \<Rightarrow> Inl e))"

record token_response =
  tr_id_token :: "string option"
  tr_access_token :: "string option"
  tr_error :: "string option"

definition de_token_response :: "serde \<Rightarrow> json \<Rightarrow> string + token_response" where
  "de_token_response sd j =
     (case struct_members sd [''id_token'', ''access_token'', ''error''] 0 j of
        Inl e \<Rightarrow> Inl e
      | Inr m \<Rightarrow>
          (case (de_opt_str sd m ''id_token'', de_opt_str sd m ''access_token'', de_opt_str sd m ''error'') of
             (Inr i, Inr a, Inr e) \<Rightarrow> Inr \<lparr>tr_id_token = i, tr_access_token = a, tr_error = e\<rparr>
           | (Inl e, _) \<Rightarrow> Inl e
           | (_, Inl e, _) \<Rightarrow> Inl e
           | (_, _, Inl e) \<Rightarrow> Inl e))"

record device_start =
  ds_device_code :: string
  ds_login_url :: string
  ds_token_endpoint :: string
  ds_expires_in :: nat

datatype poll = Pending | Token string | Denied string

record device_login =
  dl_issuer :: string
  dl_client_id :: string

definition device_discovery :: "http \<Rightarrow> serde \<Rightarrow> device_login \<Rightarrow> string + discovery" where
  "device_discovery h sd dl =
     (let url = discovery_url (dl_issuer dl) in
      case accept_reply h url (http_get h url) of
        Inl e \<Rightarrow> Inl (''discovery '' @ url @ '': '' @ e)
      | Inr body \<Rightarrow>
          (case body_json sd body of
             Inl e \<Rightarrow> Inl (''discovery parse: '' @ e)
           | Inr j \<Rightarrow>
               (case de_discovery sd j of Inl e \<Rightarrow> Inl (''discovery parse: '' @ e) | Inr d \<Rightarrow> Inr d)))"

definition device_flow_start :: "http \<Rightarrow> serde \<Rightarrow> device_login \<Rightarrow> string + device_start" where
  "device_flow_start h sd dl =
     (case device_discovery h sd dl of
        Inl e \<Rightarrow> Inl e
      | Inr disco \<Rightarrow>
          (case accept_reply h (di_device_authorization_endpoint disco)
                  (http_post h (di_device_authorization_endpoint disco)
                    [(''client_id'', dl_client_id dl), (''scope'', SCOPE)]) of
             Inl e \<Rightarrow> Inl (''device authorization: '' @ e)
           | Inr body \<Rightarrow>
               (case body_json sd body of
                  Inl e \<Rightarrow> Inl (''device authorization parse: '' @ e)
                | Inr j \<Rightarrow>
                    (case de_device_code_response sd j of
                       Inl e \<Rightarrow> Inl (''device authorization parse: '' @ e)
                     | Inr resp \<Rightarrow>
                         (case or_else (dr_verification_uri_complete resp) (dr_verification_uri resp) of
                            None \<Rightarrow> Inl ''device authorization returned no verification URI''
                          | Some login_url \<Rightarrow>
                              Inr \<lparr>ds_device_code = dr_device_code resp, ds_login_url = login_url,
                                   ds_token_endpoint = di_token_endpoint disco,
                                   ds_expires_in = dr_expires_in resp\<rparr>)))))"

definition classify :: "string option \<Rightarrow> string option \<Rightarrow> string option \<Rightarrow> poll" where
  "classify id_token access_token err =
     (case opt_filter (\<lambda>t. t \<noteq> []) id_token of
        Some t \<Rightarrow> Token t
      | None \<Rightarrow>
          (case opt_filter (\<lambda>t. t \<noteq> []) access_token of
             Some t \<Rightarrow> Token t
           | None \<Rightarrow>
               (case err of
                  None \<Rightarrow> Pending
                | Some e \<Rightarrow>
                    if e = ''authorization_pending'' \<or> e = ''slow_down'' then Pending else Denied e)))"

text \<open>One poll: the body is read whatever the status is.\<close>

definition device_flow_poll ::
  "http \<Rightarrow> serde \<Rightarrow> device_login \<Rightarrow> string \<Rightarrow> string \<Rightarrow> string + poll" where
  "device_flow_poll h sd dl tok_endpoint code =
     (case http_post h tok_endpoint
             [(''grant_type'', ''urn:ietf:params:oauth:grant-type:device_code''),
              (''device_code'', code), (''client_id'', dl_client_id dl)] of
        SendFailed e \<Rightarrow> Inl (''token poll: '' @ e)
      | Reply status (Inl e) \<Rightarrow> Inl (''token read: '' @ e)
      | Reply status (Inr text) \<Rightarrow>
          (case parse_json sd text of
             Inl e \<Rightarrow> Inl (''token parse: '' @ e)
           | Inr j \<Rightarrow>
               (case de_token_response sd j of
                  Inl e \<Rightarrow> Inl (''token parse: '' @ e)
                | Inr parsed \<Rightarrow> Inr (classify (tr_id_token parsed) (tr_access_token parsed) (tr_error parsed)))))"

section \<open>Properties\<close>

text \<open>A token answer is classified by three exclusive rules: a non-empty id token wins, then a non-empty
  access token; without either, only an error other than the two that mean to keep polling ends the
  login.\<close>

lemma classify_cases:
  "(classify i a e = Token t \<longleftrightarrow>
      t \<noteq> [] \<and> (i = Some t \<or> (i \<in> {None, Some []} \<and> a = Some t))) \<and>
   (classify i a e = Denied m \<longleftrightarrow>
      i \<in> {None, Some []} \<and> a \<in> {None, Some []} \<and> e = Some m \<and>
      m \<noteq> ''authorization_pending'' \<and> m \<noteq> ''slow_down'') \<and>
   (classify i a e = Pending \<longleftrightarrow>
      i \<in> {None, Some []} \<and> a \<in> {None, Some []} \<and>
      e \<in> {None, Some ''authorization_pending'', Some ''slow_down''})"
  by (cases i; cases a; cases e) (auto simp: classify_def)

text \<open>The HTTP status of the token endpoint does not matter to a poll: the provider's pending answers come
  with status 400 and are classified like any other.\<close>

lemma poll_ignores_status:
  assumes "\<And>u f. http_post h' u f =
      (case http_post h u f of SendFailed e \<Rightarrow> SendFailed e | Reply st b \<Rightarrow> Reply (code st) b)"
  shows "device_flow_poll h' sd dl te dc = device_flow_poll h sd dl te dc"
  by (simp add: device_flow_poll_def assms split: http_reply.split sum.split)

lemma start_has_url:
  assumes "device_flow_start h sd dl = Inr st"
  shows "\<exists>d. device_discovery h sd dl = Inr d \<and> di_token_endpoint d = ds_token_endpoint st"
  using assms by (auto simp: device_flow_start_def split: sum.splits option.splits prod.splits)

end
