(* ===== verification/Hex_Codec.thy ===== *)
theory Hex_Codec
  imports Kaguya_Prelude
begin

text \<open>
  Hexadecimal text: \<^verbatim>\<open>hex\<close> and \<^verbatim>\<open>from_hex\<close> of
  \<^verbatim>\<open>web/src/lore.rs\<close> (repository ids), and the random identifiers of
  \<^verbatim>\<open>auth/src/main.rs\<close> and \<^verbatim>\<open>web/src/oidc.rs\<close>
  (session codes, login states, cookie values).  The number formats
  \<^verbatim>\<open>{:02x}\<close> and \<^verbatim>\<open>{:032x}\<close> and
  \<^verbatim>\<open>u8::from_str_radix\<close> are those of the Rust standard library.
\<close>

section \<open>Formatting\<close>

definition hex_digit :: "nat \<Rightarrow> char" where
  "hex_digit d = (if d < 10 then char_of (48 + d) else char_of (87 + d))"

fun hex_digits :: "nat \<Rightarrow> string" where
  "hex_digits n = (if n < 16 then [hex_digit n] else hex_digits (n div 16) @ [hex_digit (n mod 16)])"

declare hex_digits.simps [simp del]

text \<open>The format \<^verbatim>\<open>{:0Wx}\<close>: lower case, padded with zeros to the width.\<close>

definition fmt_hex :: "nat \<Rightarrow> nat \<Rightarrow> string" where
  "fmt_hex w n = (let ds = hex_digits n in replicate (w - length ds) CHR ''0'' @ ds)"

fun hex_fixed :: "nat \<Rightarrow> nat \<Rightarrow> string" where
  "hex_fixed 0 n = []"
| "hex_fixed (Suc w) n = hex_fixed w (n div 16) @ [hex_digit (n mod 16)]"

lemma length_hex_fixed [simp]: "length (hex_fixed w n) = w"
  by (induction w arbitrary: n) auto

lemma hex_digit_0: "hex_digit 0 = CHR ''0''"
  by code_simp

lemma hex_fixed_0: "hex_fixed w 0 = replicate w CHR ''0''"
  by (induction w) (auto simp: hex_digit_0 replicate_append_same)

lemma length_hex_digits: "n < 16 ^ w \<Longrightarrow> 0 < w \<Longrightarrow> length (hex_digits n) \<le> w"
proof (induction w arbitrary: n)
  case 0
  then show ?case by simp
next
  case (Suc w)
  then show ?case
    by (cases "n < 16"; cases w) (auto simp: hex_digits.simps [of n] less_mult_imp_div_less mult.commute)
qed

lemma hex_fixed_hex_digits:
  "length (hex_digits n) \<le> w \<Longrightarrow>
    hex_fixed w n = replicate (w - length (hex_digits n)) CHR ''0'' @ hex_digits n"
proof (induction w arbitrary: n)
  case 0
  then show ?case by (auto simp: hex_digits.simps [of n] split: if_splits)
next
  case (Suc w)
  show ?case
  proof (cases "n < 16")
    case True
    then show ?thesis by (simp add: hex_digits.simps [of n] hex_fixed_0)
  next
    case False
    with Suc.prems Suc.IH [of "n div 16"] show ?thesis by (simp add: hex_digits.simps [of n])
  qed
qed

lemma fmt_hex_fixed: "n < 16 ^ w \<Longrightarrow> 0 < w \<Longrightarrow> fmt_hex w n = hex_fixed w n"
  by (simp add: fmt_hex_def Let_def hex_fixed_hex_digits length_hex_digits)

section \<open>Reading digits\<close>

definition to_digit :: "char \<Rightarrow> nat option" where
  "to_digit c =
     (let n = of_char c in
      if 48 \<le> n \<and> n \<le> 57 then Some (n - 48)
      else if 97 \<le> n \<and> n \<le> 102 then Some (n - 87)
      else if 65 \<le> n \<and> n \<le> 70 then Some (n - 55) else None)"

definition is_lower_hex :: "char \<Rightarrow> bool" where
  "is_lower_hex c \<longleftrightarrow> (48 \<le> (of_char c :: nat) \<and> (of_char c :: nat) \<le> 57) \<or>
                     (97 \<le> (of_char c :: nat) \<and> (of_char c :: nat) \<le> 102)"

lemma to_digit_hex_digit: "d < 16 \<Longrightarrow> to_digit (hex_digit d) = Some d"
  by (simp add: to_digit_def hex_digit_def Let_def of_char_of)

lemma is_lower_hex_digit: "d < 16 \<Longrightarrow> is_lower_hex (hex_digit d)"
  by (simp add: is_lower_hex_def hex_digit_def of_char_of)

lemma to_digit_bound: "to_digit c = Some d \<Longrightarrow> d < 16"
  by (auto simp: to_digit_def Let_def split: if_splits)

lemma hex_digit_to_digit: "is_lower_hex c \<Longrightarrow> to_digit c = Some d \<Longrightarrow> hex_digit d = c"
  by (auto simp: is_lower_hex_def to_digit_def hex_digit_def Let_def split: if_splits)

lemma to_digit_ascii: "to_digit c = Some d \<Longrightarrow> (of_char c :: nat) < 128"
  by (auto simp: to_digit_def Let_def split: if_splits)

datatype int_error = EmptyInt | InvalidDigit | PosOverflow

fun int_error_msg :: "int_error \<Rightarrow> string" where
  "int_error_msg EmptyInt = ''cannot parse integer from empty string''"
| "int_error_msg InvalidDigit = ''invalid digit found in string''"
| "int_error_msg PosOverflow = ''number too large to fit in target type''"

fun parse_digits :: "nat \<Rightarrow> string \<Rightarrow> int_error + u8" where
  "parse_digits acc [] = Inr (of_nat acc)"
| "parse_digits acc (c # cs) =
     (case to_digit c of
        None \<Rightarrow> Inl InvalidDigit
      | Some d \<Rightarrow> if acc * 16 + d > 255 then Inl PosOverflow else parse_digits (acc * 16 + d) cs)"

text \<open>\<^verbatim>\<open>u8::from_str_radix(s, 16)\<close>: one leading plus sign is accepted.\<close>

fun from_str_radix_u8 :: "string \<Rightarrow> int_error + u8" where
  "from_str_radix_u8 [] = Inl EmptyInt"
| "from_str_radix_u8 [c] = (if c = CHR ''+'' \<or> c = CHR ''-'' then Inl InvalidDigit else parse_digits 0 [c])"
| "from_str_radix_u8 (c # cs) = (if c = CHR ''+'' then parse_digits 0 cs else parse_digits 0 (c # cs))"

section \<open>The two functions of the source\<close>

definition hex :: "u8 list \<Rightarrow> string" where
  "hex bytes = concat (map (\<lambda>b. fmt_hex 2 (unat b)) bytes)"

text \<open>
  A slice \<^verbatim>\<open>&s[i..j]\<close> panics when an end is out of range or inside a
  UTF-8 sequence; a byte from 128 to 191 continues a sequence.
\<close>

definition is_char_boundary :: "string \<Rightarrow> nat \<Rightarrow> bool" where
  "is_char_boundary s i \<longleftrightarrow>
     i = 0 \<or> i = length s \<or>
     (i < length s \<and> \<not> (128 \<le> (of_char (s ! i) :: nat) \<and> (of_char (s ! i) :: nat) < 192))"

definition str_slice :: "string \<Rightarrow> nat \<Rightarrow> nat \<Rightarrow> string option" where
  "str_slice s i j =
     (if i \<le> j \<and> is_char_boundary s i \<and> is_char_boundary s j then Some (take (j - i) (drop i s)) else None)"

definition from_hex_at :: "string \<Rightarrow> nat \<Rightarrow> (string, u8) outcome" where
  "from_hex_at s i =
     (case str_slice s i (i + 2) of
        None \<Rightarrow> Panic
      | Some t \<Rightarrow> (case from_str_radix_u8 t of
                    Inl e \<Rightarrow> Err (''bad hex: '' @ int_error_msg e)
                  | Inr b \<Rightarrow> Ok b))"

definition from_hex :: "string \<Rightarrow> (string, u8 list) outcome" where
  "from_hex s =
     (if odd (length s) then Err ''odd-length hex''
      else collect_outcomes (map (from_hex_at s) (map (\<lambda>k. 2 * k) [0..<length s div 2])))"

text \<open>
  The random identifiers: \<^verbatim>\<open>random_id\<close> of the auth service and
  \<^verbatim>\<open>random_state\<close> of the web frontend print 128 random bits.
\<close>

definition random_id :: "u128 \<Rightarrow> string" where
  "random_id r = fmt_hex 32 (unat r)"

definition random_state :: "u128 \<Rightarrow> string" where
  "random_state r = fmt_hex 32 (unat r)"

section \<open>Bytes\<close>

lemma unat_u8: "unat (b :: u8) < 256"
  using unsigned_less [of b, where 'a = nat] by simp

lemma fmt_hex_byte:
  "fmt_hex 2 (unat (b :: u8)) = [hex_digit (unat b div 16), hex_digit (unat b mod 16)]"
proof -
  have "unat b < 16 ^ 2" using unat_u8 [of b] by simp
  then show ?thesis by (simp add: fmt_hex_fixed numeral_2_eq_2)
qed

lemma unat_of_nat_u8: "n < 256 \<Longrightarrow> unat (of_nat n :: u8) = n"
  by (simp add: unat_of_nat take_bit_eq_mod)

lemma unat_byte_div: "unat (b :: u8) div 16 < 16"
  using unat_u8 [of b] by (simp add: less_mult_imp_div_less)

lemmas byte_digits = unat_byte_div to_digit_hex_digit is_lower_hex_digit

lemma sign_not_hex_digit: "d < 16 \<Longrightarrow> hex_digit d \<noteq> CHR ''+''" "d < 16 \<Longrightarrow> hex_digit d \<noteq> CHR ''-''"
  using is_lower_hex_digit [of d] by (auto simp: is_lower_hex_def)

lemma from_str_radix_byte: "from_str_radix_u8 (fmt_hex 2 (unat b)) = Inr b"
proof -
  have "unat b < 256" using unat_u8 [of b] by simp
  moreover have "hex_digit (unat b div 16) \<noteq> CHR ''+''"
    by (simp add: sign_not_hex_digit unat_byte_div)
  ultimately show ?thesis
    by (simp add: fmt_hex_byte byte_digits div_mult_mod_eq)
qed

lemma length_hex [simp]: "length (hex bs) = 2 * length bs"
  by (induction bs) (simp_all add: hex_def fmt_hex_byte)

lemma hex_simps: "hex [] = []" "hex (b # bs) = fmt_hex 2 (unat b) @ hex bs"
  by (simp_all add: hex_def)

lemma hex_lower: "c \<in> set (hex bs) \<Longrightarrow> is_lower_hex c"
  by (induction bs) (auto simp: hex_simps fmt_hex_byte byte_digits)

lemma take_drop_hex: "k < length bs \<Longrightarrow> take 2 (drop (2 * k) (hex bs)) = fmt_hex 2 (unat (bs ! k))"
proof (induction bs arbitrary: k)
  case Nil
  then show ?case by simp
next
  case (Cons b bs)
  then show ?case by (cases k) (simp_all add: hex_simps fmt_hex_byte)
qed

text \<open>On ASCII text every index up to the length is a boundary.\<close>

lemma ascii_boundary: "is_ascii s \<Longrightarrow> i \<le> length s \<Longrightarrow> is_char_boundary s i"
  by (auto simp: is_ascii_def is_char_boundary_def dest!: bspec [where x = "s ! i"])

lemma is_ascii_hex: "is_ascii (hex bs)"
  using hex_lower [of _ bs] by (fastforce simp: is_ascii_def is_lower_hex_def)

lemma ascii_slice:
  "is_ascii s \<Longrightarrow> Suc (Suc i) \<le> length s \<Longrightarrow> str_slice s i (Suc (Suc i)) = Some (take 2 (drop i s))"
  by (simp add: str_slice_def ascii_boundary)

lemma from_hex_at_hex: "k < length bs \<Longrightarrow> from_hex_at (hex bs) (2 * k) = Ok (bs ! k)"
  by (simp add: from_hex_at_def ascii_slice is_ascii_hex take_drop_hex from_str_radix_byte)

lemma from_hex_hex: "from_hex (hex bs) = Ok bs"
proof -
  have "collect_outcomes (map (from_hex_at (hex bs) \<circ> (\<lambda>k. 2 * k)) [0..<length bs])
      = Ok (map (\<lambda>k. bs ! k) [0..<length bs])"
    by (rule collect_outcomes_map_Ok) (simp add: from_hex_at_hex)
  then show ?thesis by (simp add: from_hex_def map_nth)
qed

text \<open>Reading lower-case text and printing it again gives the text back.\<close>

lemma read_pair:
  assumes "from_str_radix_u8 [c, c'] = Inr b" and "is_lower_hex c" and "is_lower_hex c'"
  shows "fmt_hex 2 (unat b) = [c, c']"
proof -
  have "c \<noteq> CHR ''+''" using assms(2) by (auto simp: is_lower_hex_def)
  with assms(1) obtain d d' where d: "to_digit c = Some d" "to_digit c' = Some d'"
    and b: "b = of_nat (d * 16 + d')"
    by (auto split: option.splits if_splits)
  from d have "d < 16" "d' < 16" by (auto dest: to_digit_bound)
  then have "unat b = d * 16 + d'" unfolding b by (intro unat_of_nat_u8) simp
  with \<open>d' < 16\<close> have "unat b div 16 = d" "unat b mod 16 = d'" by simp_all
  with d assms(2,3) show ?thesis unfolding fmt_hex_byte by (simp add: hex_digit_to_digit)
qed

lemma length_2_two_elems: "length xs = 2 \<Longrightarrow> \<exists>x y. xs = [x, y]"
  by (auto simp: numeral_2_eq_2 length_Suc_conv)

lemma pairs_of_even:
  "even (length s) \<Longrightarrow> s = concat (map (\<lambda>k. take 2 (drop (2 * k) s)) [0..<length s div 2])"
proof (induction s rule: induct_list012)
  case (3 x y s)
  have *: "[0..<length (x # y # s) div 2] = 0 # map Suc [0..<length s div 2]"
    by (simp add: upt_conv_Cons map_Suc_upt del: upt_Suc)
  from 3 show ?case unfolding * by (simp add: comp_def del: upt_Suc)
qed auto

lemma from_hex_Ok_nth:
  assumes "from_hex s = Ok bs" and "k < length bs"
  shows "from_hex_at s (2 * k) = Ok (bs ! k)" and "length s = 2 * length bs"
proof -
  from assms(1) have e: "even (length s)"
    and m: "map (from_hex_at s) (map (\<lambda>k. 2 * k) [0..<length s div 2]) = map Ok bs"
    by (auto simp: from_hex_def collect_outcomes_Ok_iff split: if_splits)
  from arg_cong [OF m, of length] have l: "length s div 2 = length bs" by simp
  with e show "length s = 2 * length bs" by auto
  from arg_cong [OF m, of "\<lambda>xs. xs ! k"] l assms(2) show "from_hex_at s (2 * k) = Ok (bs ! k)"
    by simp
qed

lemma from_hex_length: "from_hex s = Ok bs \<Longrightarrow> length s = 2 * length bs"
proof (cases bs)
  case Nil
  then show "from_hex s = Ok bs \<Longrightarrow> length s = 2 * length bs"
    by (auto simp: from_hex_def collect_outcomes_Ok_iff split: if_splits)
next
  case (Cons b bs')
  then show "from_hex s = Ok bs \<Longrightarrow> length s = 2 * length bs"
    using from_hex_Ok_nth(2) [of s bs 0] by simp
qed

lemma from_hex_at_Ok:
  "from_hex_at s i = Ok b \<longleftrightarrow>
    (\<exists>t. str_slice s i (i + 2) = Some t \<and> from_str_radix_u8 t = Inr b)"
  by (auto simp: from_hex_at_def split: option.splits sum.splits)

lemma hex_from_hex:
  assumes "from_hex s = Ok bs" and low: "\<forall>c \<in> set s. is_lower_hex c"
  shows "hex bs = s"
proof -
  have len: "length s = 2 * length bs" using assms(1) by (rule from_hex_length)
  have "fmt_hex 2 (unat (bs ! k)) = take 2 (drop (2 * k) s)" if k: "k < length bs" for k
  proof -
    from k len have "length (take 2 (drop (2 * k) s)) = 2" by simp
    then obtain c c' where cc: "take 2 (drop (2 * k) s) = [c, c']"
      by (metis length_2_two_elems)
    then have "c \<in> set s" "c' \<in> set s"
      by (metis in_set_dropD in_set_takeD list.set_intros)+
    moreover from from_hex_Ok_nth(1) [OF assms(1) k] cc
    have "from_str_radix_u8 [c, c'] = Inr (bs ! k)"
      by (auto simp: from_hex_at_Ok str_slice_def split: if_splits)
    ultimately show ?thesis using low cc by (simp add: read_pair)
  qed
  then have "map (\<lambda>b. fmt_hex 2 (unat b)) bs = map (\<lambda>k. take 2 (drop (2 * k) s)) [0..<length bs]"
    by (intro nth_equalityI) simp_all
  then have "hex bs = concat (map (\<lambda>k. take 2 (drop (2 * k) s)) [0..<length bs])"
    by (simp add: hex_def)
  also have "\<dots> = s" using len pairs_of_even [of s] by simp
  finally show ?thesis .
qed

text \<open>ASCII text never panics; any other text may.\<close>

lemma from_hex_ascii: "is_ascii s \<Longrightarrow> from_hex s \<noteq> Panic"
proof -
  assume "is_ascii s"
  then have "from_hex_at s (2 * k) \<noteq> Panic" if "k < length s div 2" for k
    using that by (auto simp: from_hex_at_def ascii_slice split: sum.splits)
  then have "Panic \<notin> set (map (from_hex_at s) (map (\<lambda>k. 2 * k) [0..<length s div 2]))"
    by (auto simp: image_iff) (metis)
  then show ?thesis by (simp add: from_hex_def collect_outcomes_no_Panic)
qed

interpretation repo_id: printed hex "\<lambda>s. case from_hex s of Ok bs \<Rightarrow> Some bs | _ \<Rightarrow> None"
  "\<lambda>s. \<forall>c \<in> set s. is_lower_hex c"
  by unfold_locales
    (auto simp: from_hex_hex hex_lower intro: hex_from_hex split: outcome.splits)

text \<open>C37. Repository ids survive their printed form: the reader gives back the bytes the printer was given,
  an even-length text of lower-case digits is the printed form of what the reader gives for it, and
  the reader never panics on ASCII text.\<close>

theorem repo_id_roundtrip:
  "from_hex (hex bs) = Ok bs \<and>
   (from_hex s = Ok bs \<and> (\<forall>c \<in> set s. is_lower_hex c) \<longrightarrow> s = hex bs) \<and>
   (is_ascii s \<longrightarrow> from_hex s \<noteq> Panic)"
  using from_hex_hex hex_from_hex from_hex_ascii by metis

text \<open>A byte pair that cuts a UTF-8 sequence panics, and a plus sign counts as a digit's place.\<close>

lemma from_hex_odd_inputs:
  "from_hex [CHR ''a'', CHR 0xC3, CHR 0xA9, CHR ''b''] = Panic" "from_hex ''+f'' = Ok [15]"
  by code_simp+

section \<open>Random identifiers\<close>

lemma hex_digit_inj: "d < 16 \<Longrightarrow> d' < 16 \<Longrightarrow> hex_digit d = hex_digit d' \<longleftrightarrow> d = d'"
  using to_digit_hex_digit by (metis option.inject)

lemma hex_fixed_inj:
  "n < 16 ^ w \<Longrightarrow> m < 16 ^ w \<Longrightarrow> hex_fixed w n = hex_fixed w m \<Longrightarrow> n = m"
proof (induction w arbitrary: n m)
  case 0
  then show ?case by simp
next
  case (Suc w)
  then have "hex_fixed w (n div 16) = hex_fixed w (m div 16)" "n mod 16 = m mod 16"
    by (simp_all add: hex_digit_inj)
  with Suc have "n div 16 = m div 16" by (simp add: less_mult_imp_div_less mult.commute)
  with \<open>n mod 16 = m mod 16\<close> show ?case by (metis div_mult_mod_eq)
qed

lemma hex_fixed_lower: "c \<in> set (hex_fixed w n) \<Longrightarrow> is_lower_hex c"
  by (induction w arbitrary: n) (auto simp: is_lower_hex_digit)

lemma random_id_fixed: "random_id r = hex_fixed 32 (unat r)"
  using unsigned_less [of r, where 'a = nat] by (simp add: random_id_def fmt_hex_fixed)

lemma random_state_id: "random_state = random_id"
  by (rule ext) (simp add: random_id_def random_state_def)

lemma random_id_length [simp]: "length (random_id r) = 32"
  by (simp add: random_id_fixed)

lemma random_id_lower: "c \<in> set (random_id r) \<Longrightarrow> is_lower_hex c"
  by (auto simp: random_id_fixed hex_fixed_lower)

lemma random_id_inj: "random_id r = random_id r' \<longleftrightarrow> r = r'"
proof
  assume "random_id r = random_id r'"
  then have "unat r = unat r'"
    using unsigned_less [of r, where 'a = nat] unsigned_less [of r', where 'a = nat]
    by (auto simp: random_id_fixed intro: hex_fixed_inj [of _ 32])
  then show "r = r'" using word_eq_iff_unsigned by blast
qed simp

end
