(* ===== verification/Auth_Service.thy ===== *)
theory Auth_Service
  imports Rebac_History Login_Sessions Token_Verify Device_Flow Hex_Codec
begin

text \<open>
  The RPC handlers of \<^verbatim>\<open>auth/src/main.rs\<close>: the ReBAC API loreserver calls
  and the login and exchange API the clients call.  The state is the database, the login sessions
  and the verifier's cached key set; a handler takes what the outside world does during the call
  (\<open>outside\<close>), the configuration, the authorization metadata of the request and the
  request's fields, and returns the new state and a reply or a status.  Here a handler runs from start to
  end without another task in between: every lock it takes again is found as it was left, and one
  \<open>outside\<close> serves the whole call.  \<^verbatim>\<open>Auth_Sections\<close> cuts the same handlers at each of those places, and
  is the model of what happens when requests overlap.
\<close>

section \<open>State, configuration, outside world\<close>

record 'k outside =
  o_jwt :: "'k jwt"
  o_http :: http
  o_serde :: serde
  o_sql :: sql_env
  o_now :: nat  \<comment> \<open>wall clock, in seconds\<close>
  o_instant1 :: instant
  o_instant2 :: instant
  o_random :: u128
  o_unicode_lower :: "string \<Rightarrow> string"
  o_to_str :: "string \<Rightarrow> string option"  \<comment> \<open>a header value as text\<close>

record 'k auth_config =
  ac_signer :: "'k signer"
  ac_identity :: "'k identity"
  ac_device :: device_login
  ac_issuer :: string
  ac_audience :: string

record 'k auth_state =
  as_db :: db
  as_sessions :: sessions
  as_cache :: "'k option"

datatype status =
    Unauthenticated string | Internal string | PermissionDenied string | NotFound string
  | Unimplemented string

record resource_permission =
  rp_resource_id :: string
  rp_permission :: "string list"

record user_token =
  ut_token :: string
  ut_expires_at :: int
  ut_user_id :: string
  ut_user_name :: string

section \<open>Helpers\<close>

definition grant :: "string \<Rightarrow> role \<Rightarrow> resource_permission" where
  "grant rid r = \<lparr>rp_resource_id = rid, rp_permission = permissions r\<rparr>"

definition bearer :: "(string \<Rightarrow> string option) \<Rightarrow> string option \<Rightarrow> string" where
  "bearer to_str md =
     (case Option.bind (Option.bind md to_str) (strip_prefix ''Bearer '') of
        None \<Rightarrow> [] | Some t \<Rightarrow> t)"

definition display_names :: "identity_claims \<Rightarrow> string \<times> string" where
  "display_names c =
     (let shown = (case or_else (or_else (ic_name c) (ic_preferred_username c)) (ic_email c) of
                     Some n \<Rightarrow> n | None \<Rightarrow> ic_sub c);
          preferred = (case or_else (ic_preferred_username c) (ic_email c) of
                         Some n \<Rightarrow> n | None \<Rightarrow> shown)
      in (shown, preferred))"

text \<open>\<^verbatim>\<open>self.identity.subject\<close> and \<^verbatim>\<open>self.identity.claims\<close> of a handler.\<close>

definition caller_claims ::
  "'k outside \<Rightarrow> 'k auth_config \<Rightarrow> string \<Rightarrow> 'k auth_state \<Rightarrow>
   'k auth_state \<times> (verify_error + identity_claims)" where
  "caller_claims w cfg token st =
     (case id_claims (o_jwt w) (o_http w) (o_serde w) (o_now w) (ac_identity cfg) token (as_cache st) of
        (cache, r) \<Rightarrow> (st\<lparr>as_cache := cache\<rparr>, r))"

definition caller ::
  "'k outside \<Rightarrow> 'k auth_config \<Rightarrow> string option \<Rightarrow> 'k auth_state \<Rightarrow>
   'k auth_state \<times> (verify_error + string)" where
  "caller w cfg md st =
     (case id_subject (o_jwt w) (o_http w) (o_serde w) (o_now w) (ac_identity cfg)
             (bearer (o_to_str w) md) (as_cache st) of
        (cache, r) \<Rightarrow> (st\<lparr>as_cache := cache\<rparr>, r))"

definition provider_claims ::
  "'k outside \<Rightarrow> 'k auth_config \<Rightarrow> string \<Rightarrow> 'k auth_state \<Rightarrow>
   'k auth_state \<times> (verify_error + identity_claims)" where
  "provider_claims w cfg token st =
     (case oidc_verify (o_jwt w) (o_http w) (o_serde w) (o_now w) (id_oidc (ac_identity cfg)) token
             (as_cache st) of
        (cache, r) \<Rightarrow> (st\<lparr>as_cache := cache\<rparr>, r))"

section \<open>The ReBAC API\<close>

definition create_resource ::
  "'k outside \<Rightarrow> 'k auth_config \<Rightarrow> string option \<Rightarrow> string \<Rightarrow> string \<Rightarrow> 'k auth_state \<Rightarrow>
   'k auth_state \<times> (status + unit)" where
  "create_resource w cfg md rid rname st =
     (case caller w cfg md st of
        (st1, Inl e) \<Rightarrow> (st1, Inl (Unauthenticated ''invalid token''))
      | (st1, Inr sub) \<Rightarrow>
          (case record_owner (o_sql w) (int (o_now w)) sub rid rname (as_db st1) of
             (d, Inl e) \<Rightarrow> (st1\<lparr>as_db := d\<rparr>, Inl (Internal ''store error''))
           | (d, Inr _) \<Rightarrow> (st1\<lparr>as_db := d\<rparr>, Inr ())))"

definition delete_resource_rpc ::
  "'k outside \<Rightarrow> 'k auth_config \<Rightarrow> string option \<Rightarrow> string \<Rightarrow> 'k auth_state \<Rightarrow>
   'k auth_state \<times> (status + unit)" where
  "delete_resource_rpc w cfg md rid st =
     (case caller w cfg md st of
        (st1, Inl e) \<Rightarrow> (st1, Inl (Unauthenticated ''invalid token''))
      | (st1, Inr sub) \<Rightarrow>
          if role_for (o_sql w) sub rid (as_db st1) \<noteq> Some Owner
          then (st1, Inl (PermissionDenied ''not an owner of this resource''))
          else (case delete_resource (o_sql w) rid (as_db st1) of
                  (d, Inl e) \<Rightarrow> (st1\<lparr>as_db := d\<rparr>, Inl (Internal ''store error''))
                | (d, Inr _) \<Rightarrow> (st1\<lparr>as_db := d\<rparr>, Inr ())))"

fun check_ids ::
  "(string \<Rightarrow> role option) \<Rightarrow> string list \<Rightarrow> resource_permission list \<Rightarrow> resource_permission list \<Rightarrow>
   resource_permission list \<times> resource_permission list" where
  "check_ids role_of [] allowed denied = (allowed, denied)"
| "check_ids role_of (rid # ids) allowed denied =
     (case role_of rid of
        Some r \<Rightarrow> check_ids role_of ids (allowed @ [grant rid r]) denied
      | None \<Rightarrow> check_ids role_of ids allowed (denied @ [\<lparr>rp_resource_id = rid, rp_permission = []\<rparr>]))"

text \<open>The request's \<^verbatim>\<open>target_user\<close> is not read.\<close>

definition check_user_permission ::
  "'k outside \<Rightarrow> 'k auth_config \<Rightarrow> string option \<Rightarrow> string list \<Rightarrow> string option \<Rightarrow> 'k auth_state \<Rightarrow>
   'k auth_state \<times> (status + (resource_permission list \<times> resource_permission list))" where
  "check_user_permission w cfg md ids target_user st =
     (case caller w cfg md st of
        (st1, Inl e) \<Rightarrow> (st1, Inl (Unauthenticated ''invalid token''))
      | (st1, Inr sub) \<Rightarrow>
          (st1, Inr (check_ids (\<lambda>rid. role_for (o_sql w) sub rid (as_db st1)) ids [] [])))"

text \<open>Uninterrupted: the source takes the store's lock for the ids and anew for the role on each of them
  (\<^verbatim>\<open>lookup_user_permissions_act\<close>).\<close>

definition lookup_user_permissions ::
  "'k outside \<Rightarrow> 'k auth_config \<Rightarrow> string option \<Rightarrow> 'k auth_state \<Rightarrow>
   'k auth_state \<times> (status + resource_permission list)" where
  "lookup_user_permissions w cfg md st =
     (case caller w cfg md st of
        (st1, Inl e) \<Rightarrow> (st1, Inl (Unauthenticated ''invalid token''))
      | (st1, Inr sub) \<Rightarrow>
          (st1, Inr (map (\<lambda>rid. grant rid (case role_for (o_sql w) sub rid (as_db st1) of
                                            Some r \<Rightarrow> r | None \<Rightarrow> Member))
                         (accessible (o_sql w) sub (as_db st1)))))"

section \<open>Login\<close>

definition clamp :: "nat \<Rightarrow> nat \<Rightarrow> nat \<Rightarrow> nat" where
  "clamp lo hi n = (if n < lo then lo else if n > hi then hi else n)"

definition start_auth_session ::
  "'k outside \<Rightarrow> 'k auth_config \<Rightarrow> string \<Rightarrow> 'k auth_state \<Rightarrow>
   'k auth_state \<times> (status + (string \<times> string))" where
  "start_auth_session w cfg cs st =
     (case device_flow_start (o_http w) (o_serde w) (ac_device cfg) of
        Inl e \<Rightarrow> (st, Inl (Internal ''could not start login''))
      | Inr start \<Rightarrow>
          let session_code = random_id (o_random w);
              ttl = from_secs (clamp 60 600 (ds_expires_in start))
          in (st\<lparr>as_sessions := sessions_insert (o_instant1 w) (o_instant2 w) session_code
                    (ds_device_code start) (ds_token_endpoint start) cs ttl (as_sessions st)\<rparr>,
              Inr (session_code, ds_login_url start)))"

text \<open>The user token two handlers mint from a verified identity of the provider.\<close>

definition authn_token ::
  "'k outside \<Rightarrow> 'k auth_config \<Rightarrow> identity_claims \<Rightarrow> status + user_token" where
  "authn_token w cfg c =
     (let subject = canonical_subject (o_unicode_lower w) c;
          (shown, preferred) = display_names c
      in case mint (o_jwt w) (o_now w) (ac_signer cfg) (ac_issuer cfg) (ac_audience cfg) subject
                shown preferred (ic_exp c) [] of
           Inl e \<Rightarrow> Inl (Internal ''token issuance failed'')
         | Inr authn \<Rightarrow>
             Inr \<lparr>ut_token = authn, ut_expires_at = sint (ic_exp c), ut_user_id = subject,
                  ut_user_name = shown\<rparr>)"

text \<open>Uninterrupted: the source awaits the provider after it has resolved the session, and the verifier
  before it removes it (\<^verbatim>\<open>get_auth_session_act\<close>).\<close>

definition get_auth_session ::
  "'k outside \<Rightarrow> 'k auth_config \<Rightarrow> string \<Rightarrow> string \<Rightarrow> 'k auth_state \<Rightarrow>
   'k auth_state \<times> (status + user_token option)" where
  "get_auth_session w cfg code cs st =
     (case sessions_resolve (o_instant1 w) (o_instant2 w) code cs (as_sessions st) of
        (m, None) \<Rightarrow> (st\<lparr>as_sessions := m\<rparr>, Inl (NotFound ''unknown or expired login session''))
      | (m, Some (dc, te)) \<Rightarrow>
          let st1 = st\<lparr>as_sessions := m\<rparr> in
          case device_flow_poll (o_http w) (o_serde w) (ac_device cfg) te dc of
            Inr Pending \<Rightarrow> (st1, Inr None)
          | Inr (Token id_token) \<Rightarrow>
              (case provider_claims w cfg id_token st1 of
                 (st2, Inl e) \<Rightarrow> (st2, Inl (Internal ''login token invalid''))
               | (st2, Inr c) \<Rightarrow>
                   let st3 = st2\<lparr>as_sessions := sessions_remove code (as_sessions st2)\<rparr> in
                   (case authn_token w cfg c of
                      Inl s \<Rightarrow> (st3, Inl s)
                    | Inr ut \<Rightarrow> (st3, Inr (Some ut))))
          | Inr (Denied e) \<Rightarrow>
              (st1\<lparr>as_sessions := sessions_remove code (as_sessions st1)\<rparr>,
               Inl (PermissionDenied (''login not completed: '' @ e)))
          | Inl e \<Rightarrow> (st1, Inl (Internal ''login poll failed'')))"

section \<open>Exchange\<close>

definition exchange_external_token ::
  "'k outside \<Rightarrow> 'k auth_config \<Rightarrow> string \<Rightarrow> 'k auth_state \<Rightarrow>
   'k auth_state \<times> (status + user_token)" where
  "exchange_external_token w cfg external st =
     (if external = [] then (st, Inl (Unauthenticated ''missing external token''))
      else (case provider_claims w cfg external st of
              (st1, Inl e) \<Rightarrow> (st1, Inl (Unauthenticated ''invalid external token''))
            | (st1, Inr c) \<Rightarrow> (st1, authn_token w cfg c)))"

definition resource_scope :: "sql_env \<Rightarrow> string \<Rightarrow> db \<Rightarrow> string list \<Rightarrow> resource_grant list" where
  "resource_scope env sub d ids =
     filter_map (\<lambda>rid. map_option (\<lambda>r. \<lparr>resource_id = rid, permission = permissions r\<rparr>)
                                  (role_for env sub rid d)) ids"

definition exchange_multiresource ::
  "'k outside \<Rightarrow> 'k auth_config \<Rightarrow> string option \<Rightarrow> string list \<Rightarrow> 'k auth_state \<Rightarrow>
   'k auth_state \<times> (status + user_token)" where
  "exchange_multiresource w cfg md requested st =
     (let token = bearer (o_to_str w) md in
      if token = [] then (st, Inl (Unauthenticated ''missing bearer token''))
      else (case caller_claims w cfg token st of
              (st1, Inl e) \<Rightarrow> (st1, Inl (Unauthenticated ''invalid identity token''))
            | (st1, Inr c) \<Rightarrow>
                let rs = resource_scope (o_sql w) (ic_sub c) (as_db st1) requested;
                    (shown, preferred) = display_names c
                in (case mint (o_jwt w) (o_now w) (ac_signer cfg) (ac_issuer cfg) (ac_audience cfg)
                            (ic_sub c) shown preferred (ic_exp c) rs of
                      Inl e \<Rightarrow> (st1, Inl (Internal ''token issuance failed''))
                    | Inr minted \<Rightarrow>
                        (st1, Inr \<lparr>ut_token = minted, ut_expires_at = sint (ic_exp c),
                                   ut_user_id = ic_sub c, ut_user_name = shown\<rparr>))))"

section \<open>The RPCs without state\<close>

definition health_check :: "status + string" where
  "health_check = Inr ''ok''"

definition get_user_info :: "status + (string \<times> string) list" where
  "get_user_info = Inr []"

definition refresh_auth_session :: "status + unit" where
  "refresh_auth_session = Inl (Unimplemented ''refresh_auth_session'')"

definition verify_user :: "status + unit" where
  "verify_user = Inl (Unimplemented ''verify_user'')"

definition exchange_api_key :: "status + unit" where
  "exchange_api_key = Inl (Unimplemented ''exchange_api_key_for_user_token'')"

definition get_user_id :: "status + unit" where
  "get_user_id = Inl (Unimplemented ''get_user_id'')"

definition get_provider_user_id :: "status + unit" where
  "get_provider_user_id = Inl (Unimplemented ''get_provider_user_id'')"

section \<open>The service\<close>

text \<open>The dispatch of the two APIs.\<close>

datatype rpc =
    CreateResource string string
  | DeleteResourceReq string
  | HealthCheck
  | CheckUserPermission "string list" "string option"
  | LookupUserPermissions
  | GetUserInfo
  | StartAuthSession string
  | GetAuthSession string string
  | RefreshAuthSession
  | VerifyUser
  | ExchangeExternal string
  | ExchangeApiKey
  | ExchangeMultiresource "string list"
  | GetUserId
  | GetProviderUserId

datatype reply =
    Done | Health string | Checked "resource_permission list" "resource_permission list"
  | Listed "resource_permission list" | Users "(string \<times> string) list" | Started string string
  | Session "user_token option" | Issued user_token

definition map_reply :: "('a \<Rightarrow> 'b) \<Rightarrow> 's \<times> (status + 'a) \<Rightarrow> 's \<times> (status + 'b)" where
  "map_reply f r = (fst r, case snd r of Inl s \<Rightarrow> Inl s | Inr a \<Rightarrow> Inr (f a))"

fun serve ::
  "'k outside \<Rightarrow> 'k auth_config \<Rightarrow> string option \<Rightarrow> rpc \<Rightarrow> 'k auth_state \<Rightarrow>
   'k auth_state \<times> (status + reply)" where
  "serve w cfg md (CreateResource rid rname) st = map_reply (\<lambda>_. Done) (create_resource w cfg md rid rname st)"
| "serve w cfg md (DeleteResourceReq rid) st = map_reply (\<lambda>_. Done) (delete_resource_rpc w cfg md rid st)"
| "serve w cfg md HealthCheck st = map_reply Health (st, health_check)"
| "serve w cfg md (CheckUserPermission ids target) st =
     map_reply (\<lambda>(al, de). Checked al de) (check_user_permission w cfg md ids target st)"
| "serve w cfg md LookupUserPermissions st = map_reply Listed (lookup_user_permissions w cfg md st)"
| "serve w cfg md GetUserInfo st = map_reply Users (st, get_user_info)"
| "serve w cfg md (StartAuthSession cs) st =
     map_reply (\<lambda>(code, url). Started code url) (start_auth_session w cfg cs st)"
| "serve w cfg md (GetAuthSession code cs) st = map_reply Session (get_auth_session w cfg code cs st)"
| "serve w cfg md RefreshAuthSession st = map_reply (\<lambda>_. Done) (st, refresh_auth_session)"
| "serve w cfg md VerifyUser st = map_reply (\<lambda>_. Done) (st, verify_user)"
| "serve w cfg md (ExchangeExternal external) st =
     map_reply Issued (exchange_external_token w cfg external st)"
| "serve w cfg md ExchangeApiKey st = map_reply (\<lambda>_. Done) (st, exchange_api_key)"
| "serve w cfg md (ExchangeMultiresource ids) st =
     map_reply Issued (exchange_multiresource w cfg md ids st)"
| "serve w cfg md GetUserId st = map_reply (\<lambda>_. Done) (st, get_user_id)"
| "serve w cfg md GetProviderUserId st = map_reply (\<lambda>_. Done) (st, get_provider_user_id)"

end
