(* ===== verification/Auth_Properties.thy ===== *)
theory Auth_Properties
  imports Auth_Service
begin

text \<open>
  What the handlers of the auth service guarantee: who is asked, what an answer or a minted token
  may carry, which handlers change the database and for whom, and how a login session is used up.
\<close>

section \<open>The parts of the state a caller's verification touches\<close>

lemma caller_claims_frame:
  "caller_claims w cfg token st = (st1, r) \<Longrightarrow> as_db st1 = as_db st \<and> as_sessions st1 = as_sessions st"
  by (auto simp: caller_claims_def split: prod.splits)

lemma caller_frame:
  "caller w cfg md st = (st1, r) \<Longrightarrow> as_db st1 = as_db st \<and> as_sessions st1 = as_sessions st"
  by (auto simp: caller_def split: prod.splits)

lemma provider_claims_frame:
  "provider_claims w cfg token st = (st1, r) \<Longrightarrow> as_db st1 = as_db st \<and> as_sessions st1 = as_sessions st"
  by (auto simp: provider_claims_def split: prod.splits)

lemmas frames = caller_claims_frame caller_frame provider_claims_frame

lemma caller_from_claims:
  "caller w cfg md st =
    (case caller_claims w cfg (bearer (o_to_str w) md) st of
       (st1, Inl e) \<Rightarrow> (st1, Inl e) | (st1, Inr c) \<Rightarrow> (st1, Inr (ic_sub c)))"
  by (simp add: caller_def caller_claims_def id_subject_def split: prod.split sum.split)

section \<open>Permission checks and listings\<close>

lemma check_ids_eq:
  "check_ids f ids al de =
    (al @ filter_map (\<lambda>rid. map_option (grant rid) (f rid)) ids,
     de @ map (\<lambda>rid. \<lparr>rp_resource_id = rid, rp_permission = []\<rparr>) (filter (\<lambda>rid. f rid = None) ids))"
  by (induction f ids al de rule: check_ids.induct) (auto split: option.splits)

text \<open>A permission check answers for the subject of the bearer, never for the request's target user: the
  requested ids with a role are allowed with that role's permissions, all others are denied, both
  in the order of the request.\<close>

lemma check_user_permission_partition:
  "snd (check_user_permission w cfg md ids target st) =
    (case snd (caller w cfg md st) of
       Inl e \<Rightarrow> Inl (Unauthenticated ''invalid token'')
     | Inr sub \<Rightarrow>
         Inr (filter_map (\<lambda>rid. map_option (grant rid) (role_for (o_sql w) sub rid (as_db st))) ids,
              map (\<lambda>rid. \<lparr>rp_resource_id = rid, rp_permission = []\<rparr>)
                (filter (\<lambda>rid. role_for (o_sql w) sub rid (as_db st) = None) ids)))"
  by (auto simp: check_user_permission_def check_ids_eq dest: frames split: prod.split sum.split)

text \<open>In one step, on one state of the tables, the listing for a caller holds exactly the resources on which
  the caller has a role, once each, with the permissions of that role.  For a listing that the
  administrator overtakes see \<^verbatim>\<open>Auth_Reads\<close> and \<^verbatim>\<open>Auth_Races\<close>.\<close>

lemma lookup_exact:
  assumes "store_inv (as_db st)" and "full_rows (o_sql w)" and "snd (caller w cfg md st) = Inr sub"
  shows "\<exists>rids. distinct rids \<and>
    set rids = {rid. role_for (o_sql w) sub rid (as_db st) \<noteq> None} \<and>
    snd (lookup_user_permissions w cfg md st) =
      Inr (map (\<lambda>rid. grant rid (the (role_for (o_sql w) sub rid (as_db st)))) rids)"
proof (intro exI conjI)
  let ?rids = "accessible (o_sql w) sub (as_db st)"
  show "distinct ?rids" and "set ?rids = {rid. role_for (o_sql w) sub rid (as_db st) \<noteq> None}"
    using accessible_iff_role [OF assms(1,2)] by blast+
  then have "map (\<lambda>rid. grant rid (case role_for (o_sql w) sub rid (as_db st) of Some r \<Rightarrow> r | None \<Rightarrow> Member)) ?rids
      = map (\<lambda>rid. grant rid (the (role_for (o_sql w) sub rid (as_db st)))) ?rids"
    by (intro map_cong refl) auto
  moreover from assms(3) obtain st1 where c: "caller w cfg md st = (st1, Inr sub)"
    by (cases "caller w cfg md st") auto
  moreover from caller_frame [OF c] have "as_db st1 = as_db st" by simp
  ultimately show "snd (lookup_user_permissions w cfg md st) =
      Inr (map (\<lambda>rid. grant rid (the (role_for (o_sql w) sub rid (as_db st)))) ?rids)"
    by (simp only: lookup_user_permissions_def c prod.case sum.case snd_conv)
qed

section \<open>Exchange\<close>

lemma resource_scope_backed:
  assumes "g \<in> set (resource_scope env sub d ids)"
  shows "resource_id g \<in> set ids \<and>
    (\<exists>r. role_for healthy sub (resource_id g) d = Some r \<and> set (permission g) \<subseteq> set (permissions r))"
proof -
  from assms have "g \<in> set (filter_map (\<lambda>u. map_option (\<lambda>r. (\<lambda>u ps. \<lparr>resource_id = u, permission = ps\<rparr>) u (permissions r))
      (role_for env sub u d)) ids)"
    by (simp add: resource_scope_def)
  from rebac.scope_backed [OF this] show ?thesis by auto
qed

lemma scoped_token:
  assumes "exchange_multiresource w cfg md ids st = (st', Inr ut)"
  shows "as_db st' = as_db st \<and> (\<exists>c rs.
    snd (caller_claims w cfg (bearer (o_to_str w) md) st) = Inr c \<and>
    mint (o_jwt w) (o_now w) (ac_signer cfg) (ac_issuer cfg) (ac_audience cfg) (ic_sub c)
      (fst (display_names c)) (snd (display_names c)) (ic_exp c) rs = Inr (ut_token ut) \<and>
    ut_user_id ut = ic_sub c \<and> ut_expires_at ut = sint (ic_exp c) \<and>
    (\<forall>g \<in> set rs. resource_id g \<in> set ids \<and>
       (\<exists>r. role_for healthy (ic_sub c) (resource_id g) (as_db st) = Some r \<and>
            set (permission g) \<subseteq> set (permissions r))))"
proof -
  obtain st1 c where cc: "caller_claims w cfg (bearer (o_to_str w) md) st = (st1, Inr c)"
    using assms by (auto simp: exchange_multiresource_def Let_def split: if_splits prod.splits sum.splits)
  note f = caller_claims_frame [OF cc]
  let ?rs = "resource_scope (o_sql w) (ic_sub c) (as_db st) ids"
  from assms f have "st' = st1" "ut_user_id ut = ic_sub c" "ut_expires_at ut = sint (ic_exp c)"
    "mint (o_jwt w) (o_now w) (ac_signer cfg) (ac_issuer cfg) (ac_audience cfg) (ic_sub c)
      (fst (display_names c)) (snd (display_names c)) (ic_exp c) ?rs = Inr (ut_token ut)"
    by (auto simp: exchange_multiresource_def Let_def cc split: if_splits prod.splits sum.splits)
  with f cc resource_scope_backed [of _ "o_sql w" "ic_sub c" "as_db st" ids]
  show ?thesis by (intro conjI exI [of _ c] exI [of _ ?rs]) auto
qed

text \<open>C7. A scoped token is minted only for a verified bearer.  It carries the bearer's subject and expiry, our
  issuer and audience, and grants that are all requested resources on which the tables give the
  subject a role, each with no permission beyond that role's; the database is not changed.\<close>

theorem exchange_scope:
  assumes "exchange_multiresource w cfg md ids st = (st', Inr ut)"
  shows "as_db st' = as_db st \<and> (\<exists>c rs.
    snd (caller_claims w cfg (bearer (o_to_str w) md) st) = Inr c \<and>
    mint (o_jwt w) (o_now w) (ac_signer cfg) (ac_issuer cfg) (ac_audience cfg) (ic_sub c)
      (fst (display_names c)) (snd (display_names c)) (ic_exp c) rs = Inr (ut_token ut) \<and>
    ut_user_id ut = ic_sub c \<and> ut_expires_at ut = sint (ic_exp c) \<and>
    (\<forall>g \<in> set rs. resource_id g \<in> set ids \<and>
       (\<exists>r. role_for healthy (ic_sub c) (resource_id g) (as_db st) = Some r \<and>
            set (permission g) \<subseteq> set (permissions r))))"
  using assms by (rule scoped_token)

lemma display_names_identity_of [simp]:
  "display_names (identity_of mc) = (mc_name mc, mc_preferred_username mc)"
  by (simp add: display_names_def identity_of_def Let_def)

text \<open>C24. A token this service minted, presented as the bearer while it is valid, is exchanged for a token of
  the same subject, names, issuer and audience that expires at the same second: no chain of
  exchanges outlives the identity it started from.  What the presented token was scoped to is not
  looked at: the new scope is computed from the tables alone.\<close>

theorem re_exchange:
  assumes own: "decodes_own (o_jwt w) (encoding_key (ac_signer cfg)) (sv_key (id_self (ac_identity cfg)))"
    and tok: "jwt_encode (o_jwt w) \<lparr>h_alg = RS256, h_kid = k\<rparr> mc (encoding_key (ac_signer cfg))
        = Inr (bearer (o_to_str w) md)"
    and ours: "mc_iss mc = ac_issuer cfg" "mc_aud mc = [ac_audience cfg]"
      "sv_issuer (id_self (ac_identity cfg)) = ac_issuer cfg"
      "sv_audience (id_self (ac_identity cfg)) = ac_audience cfg"
    and live: "o_now w \<le> unat (mc_exp mc) + 60" and nonempty: "bearer (o_to_str w) md \<noteq> []"
  shows "exchange_multiresource w cfg md ids st =
    (st, case jwt_encode (o_jwt w) \<lparr>h_alg = RS256, h_kid = Some (kid (ac_signer cfg))\<rparr>
                (mc\<lparr>mc_iat := of_nat (o_now w), mc_is_service_account := False,
                    mc_resources := resource_scope (o_sql w) (mc_sub mc) (as_db st) ids\<rparr>)
                (encoding_key (ac_signer cfg)) of
           Inl e \<Rightarrow> Inl (Internal ''token issuance failed'')
         | Inr minted \<Rightarrow> Inr \<lparr>ut_token = minted, ut_expires_at = sint (mc_exp mc),
                              ut_user_id = mc_sub mc, ut_user_name = mc_name mc\<rparr>)"
proof -
  let ?v = "\<lparr>v_alg = RS256, v_issuers = [ac_issuer cfg], v_audiences = [ac_audience cfg],
     v_validate_exp = True\<rparr>"
  have "accepts ?v (o_now w) \<lparr>h_alg = RS256, h_kid = k\<rparr> mc"
    using ours live by (simp add: accepts_def)
  with own tok have "jwt_decode (o_jwt w) (o_now w) (bearer (o_to_str w) md)
      (sv_key (id_self (ac_identity cfg))) ?v = Inr (identity_of mc)"
    unfolding decodes_own_def by blast
  then have c: "caller_claims w cfg (bearer (o_to_str w) md) st = (st, Inr (identity_of mc))"
    using ours by (simp add: caller_claims_def id_claims_def self_claims_def)
  have i: "ic_sub (identity_of mc) = mc_sub mc" "ic_exp (identity_of mc) = mc_exp mc"
    by (simp_all add: identity_of_def)
  have m: "\<lparr>mc_iss = ac_issuer cfg, mc_sub = mc_sub mc, mc_aud = [ac_audience cfg], mc_iat = t,
      mc_exp = mc_exp mc, mc_name = mc_name mc, mc_preferred_username = mc_preferred_username mc,
      mc_is_service_account = b, mc_resources = rs\<rparr>
      = mc\<lparr>mc_iat := t, mc_is_service_account := b, mc_resources := rs\<rparr>" for t b rs
    using ours by (cases mc) simp
  show ?thesis
    using nonempty by (simp add: exchange_multiresource_def Let_def c i mint_def m split: sum.split)
qed

section \<open>Changes to the database\<close>

text \<open>C30. A request whose bearer is not verified is refused as unauthenticated by each of the handlers that
  act for a caller, and changes neither the database nor the login sessions.\<close>

theorem unauthenticated_refused:
  assumes "snd (caller w cfg md st) = Inl e"
    and "req \<in> {CreateResource rid rname, DeleteResourceReq rid, CheckUserPermission ids target,
                LookupUserPermissions, ExchangeMultiresource ids}"
  shows "(\<exists>m. snd (serve w cfg md req st) = Inl (Unauthenticated m)) \<and>
    as_db (fst (serve w cfg md req st)) = as_db st \<and>
    as_sessions (fst (serve w cfg md req st)) = as_sessions st"
proof -
  obtain st1 e1 where c: "caller w cfg md st = (st1, Inl e1)"
      and cc: "caller_claims w cfg (bearer (o_to_str w) md) st = (st1, Inl e1)"
    using assms(1) by (auto simp: caller_from_claims split: prod.splits sum.splits)
  from caller_frame [OF c] assms(2) show ?thesis
    by (auto simp: create_resource_def delete_resource_rpc_def check_user_permission_def
        lookup_user_permissions_def exchange_multiresource_def map_reply_def Let_def c cc)
qed

lemma delete_by_owner:
  assumes "as_db (fst (serve w cfg md (DeleteResourceReq rid) st)) \<noteq> as_db st"
  shows "\<exists>sub. snd (caller w cfg md st) = Inr sub \<and> role_for healthy sub rid (as_db st) = Some Owner"
proof -
  obtain st1 r where c: "caller w cfg md st = (st1, r)" by (cases "caller w cfg md st")
  from assms caller_frame [OF c] obtain sub where "r = Inr sub" "role_for (o_sql w) sub rid (as_db st) = Some Owner"
    by (auto simp: delete_resource_rpc_def map_reply_def c split: sum.splits if_splits)
  with c show ?thesis
    using role_for_le_healthy [of "o_sql w" sub rid "as_db st"] by (auto simp: Some_Owner_le)
qed

lemma serve_db:
  "as_db (fst (serve w cfg md req st)) = as_db st \<or>
   (\<exists>rid sub. snd (caller w cfg md st) = Inr sub \<and>
     ((\<exists>rname. req = CreateResource rid rname \<and> as_db (fst (serve w cfg md req st)) =
         fst (record_owner (o_sql w) (int (o_now w)) sub rid rname (as_db st))) \<or>
      (req = DeleteResourceReq rid \<and> as_db (fst (serve w cfg md req st)) =
         fst (delete_resource (o_sql w) rid (as_db st)))))"
proof (cases req)
  case (CreateResource rid rname)
  then show ?thesis
    by (auto simp: create_resource_def map_reply_def dest: frames split: prod.splits sum.splits)
next
  case (DeleteResourceReq rid)
  then show ?thesis
    by (auto simp: delete_resource_rpc_def map_reply_def dest: frames split: prod.splits sum.splits)
qed (auto simp: map_reply_def check_user_permission_def lookup_user_permissions_def
    start_auth_session_def get_auth_session_def exchange_external_token_def
    exchange_multiresource_def Let_def dest!: frames
    split: prod.splits sum.splits poll.splits option.splits)

text \<open>The database changes only in the creation of a resource that is not recorded, by a verified caller,
  or in the deletion of a resource of which the verified caller is an owner by the tables.\<close>

lemma db_changes:
  assumes "as_db (fst (serve w cfg md req st)) \<noteq> as_db st"
  shows "\<exists>rid sub. snd (caller w cfg md st) = Inr sub \<and>
    ((\<exists>rname. req = CreateResource rid rname \<and> rid \<notin> p_created (abs_db (as_db st))) \<or>
     (req = DeleteResourceReq rid \<and> role_for healthy sub rid (as_db st) = Some Owner))"
  using serve_db [of w cfg md req st] assms record_owner_existing delete_by_owner by fastforce

end
