(* ===== verification/Auth_Login.thy ===== *)
theory Auth_Login
  imports Auth_Properties
begin

text \<open>
  The life of a login session, the genuineness of every bearer the service accepts, the verifier's
  cache of the provider's keys, and what a request can do to anybody's role.
\<close>

section \<open>Roles and requests\<close>

lemma record_owner_rows:
  "group_members (fst (record_owner env now own rid n d)) = group_members d \<and>
   (grants (fst (record_owner env now own rid n d)) = grants d \<or>
    grants (fst (record_owner env now own rid n d)) =
      grants d @ [\<lparr>g_subject = own, g_urc = rid, g_role = ''owner''\<rparr>])"
  by (auto simp: record_owner_def execute_def split: option.split)

lemma record_owner_frame:
  assumes "u \<noteq> rid \<or> own \<notin> policy_subjects (abs_db d) s"
  shows "role_for env' s u (fst (record_owner env now own rid n d)) = role_for env' s u d"
  using record_owner_rows [of env now own rid n d] assms
  by (intro role_for_cong granted_roles_filter) (auto simp: holds_for_iff)

text \<open>C6. No request to the service raises anybody's role on a resource, except the creation of that resource,
  not recorded before, by a verified caller that is the subject itself or, by its id, a group of
  the subject.\<close>

theorem request_no_promotion:
  "role_for healthy s u (as_db (fst (serve w cfg md req st))) \<le> role_for healthy s u (as_db st) \<or>
   (\<exists>rname sub. req = CreateResource u rname \<and> snd (caller w cfg md st) = Inr sub \<and>
      sub \<in> policy_subjects (abs_db (as_db st)) s \<and> u \<notin> p_created (abs_db (as_db st)))"
  using serve_db [of w cfg md req st]
proof (elim disjE exE conjE)
  fix rid sub rname
  assume c: "snd (caller w cfg md st) = Inr sub" and r: "req = CreateResource rid rname"
    and d: "as_db (fst (serve w cfg md req st)) =
      fst (record_owner (o_sql w) (int (o_now w)) sub rid rname (as_db st))"
  show ?thesis
  proof (cases "u = rid \<and> sub \<in> policy_subjects (abs_db (as_db st)) s \<and> u \<notin> p_created (abs_db (as_db st))")
    case True
    with c r show ?thesis by blast
  next
    case False
    then show ?thesis
      by (cases "rid \<in> p_created (abs_db (as_db st))")
        (auto simp: d record_owner_existing record_owner_frame)
  qed
next
  fix rid sub
  assume "as_db (fst (serve w cfg md req st)) = fst (delete_resource (o_sql w) rid (as_db st))"
  then show ?thesis by (simp add: role_after_delete)
qed simp

section \<open>Login sessions\<close>

lemma from_secs_mono: "a \<le> b \<Longrightarrow> from_secs a \<le> from_secs b"
  by (simp add: from_secs_def)

lemma resolve_inserted:
  assumes "t1 \<le> t2" and "i1 \<le> t2"
  shows "snd (sessions_resolve t1 t2 code' cs' (sessions_insert i1 i2 code dc te cs ttl m)) =
    (if code' = code then (if cs' = cs \<and> t2 < i2 + ttl then Some (dc, te) else None)
     else snd (sessions_resolve t1 t2 code' cs' m))"
  using assms by (auto simp: session_defs Let_def opt_filter_def split: option.splits)

text \<open>C27. A started login lives for the lifetime the provider names, forced into one to ten minutes: until then,
  and no longer, a poll with its new session code and the client state it was started with resolves to
  the provider's device code, and no other client state does; polls with any other session code
  resolve to exactly what they did without the new login.\<close>

theorem login_lifetime:
  assumes "start_auth_session w cfg cs st = (st', Inr (code, url))" and "t1 \<le> t2" and "o_instant1 w \<le> t2"
  shows "\<exists>ds. device_flow_start (o_http w) (o_serde w) (ac_device cfg) = Inr ds \<and>
    url = ds_login_url ds \<and> code = random_id (o_random w) \<and>
    (let lifetime = from_secs (max 60 (min 600 (ds_expires_in ds))) in
     snd (sessions_resolve t1 t2 code' cs' (as_sessions st')) =
       (if code' = code
        then (if cs' = cs \<and> t2 < o_instant2 w + lifetime
              then Some (ds_device_code ds, ds_token_endpoint ds) else None)
        else snd (sessions_resolve t1 t2 code' cs' (as_sessions st))))"
proof -
  from assms(1) obtain ds where ds: "device_flow_start (o_http w) (o_serde w) (ac_device cfg) = Inr ds"
    "url = ds_login_url ds" "code = random_id (o_random w)" and st': "as_sessions st' = sessions_insert (o_instant1 w) (o_instant2 w)
      code (ds_device_code ds) (ds_token_endpoint ds) cs (from_secs (clamp 60 600 (ds_expires_in ds)))
      (as_sessions st)"
    by (auto simp: start_auth_session_def Let_def split: sum.splits)
  have "clamp 60 600 (ds_expires_in ds) = max 60 (min 600 (ds_expires_in ds))" by (simp add: clamp_def)
  then show ?thesis
    using ds resolve_inserted [OF assms(2,3)] by (intro exI [of _ ds]) (simp add: st' Let_def)
qed

lemma get_auth_session_code:
  assumes "snd (get_auth_session w cfg code cs st) = Inr (Some ut) \<or>
    snd (get_auth_session w cfg code cs st) = Inl (PermissionDenied m)"
  shows "as_sessions (fst (get_auth_session w cfg code cs st)) code = None"
  using assms
  by (auto simp: get_auth_session_def Let_def sessions_remove_def authn_token_def
      split: prod.splits option.splits sum.splits poll.splits)

lemma get_auth_session_unknown:
  "as_sessions st code = None \<Longrightarrow>
    snd (get_auth_session w cfg code cs st) = Inl (NotFound ''unknown or expired login session'')"
  by (simp add: get_auth_session_def sessions_resolve_def Let_def sweep_apply)

text \<open>Once a poll has handed out the token, or has reported that the provider refused, the next poll with
  that session code is answered as unknown.  For polls that overlap, and for all later ones, see
  \<^verbatim>\<open>Auth_Single_Use\<close>.\<close>

lemma login_single_use:
  assumes "snd (get_auth_session w cfg code cs st) = Inr (Some ut) \<or>
    snd (get_auth_session w cfg code cs st) = Inl (PermissionDenied m)"
  shows "snd (get_auth_session w' cfg code cs' (fst (get_auth_session w cfg code cs st)))
    = Inl (NotFound ''unknown or expired login session'')"
  by (rule get_auth_session_unknown) (rule get_auth_session_code [OF assms])

text \<open>C13. A poll hands out a token only for a live session with the caller's client state, after the provider's
  token endpoint answered the session's device code with a token that the provider's verifier
  accepts; the token is for the canonical account of that identity, expires with it, and carries no
  grants.\<close>

theorem login_token:
  assumes "snd (get_auth_session w cfg code cs st) = Inr (Some ut)" and "o_instant1 w \<le> o_instant2 w"
  shows "\<exists>s id_token c. as_sessions st code = Some s \<and> client_state s = cs \<and>
    o_instant2 w < expires_at s \<and>
    device_flow_poll (o_http w) (o_serde w) (ac_device cfg) (token_endpoint s) (device_code s)
      = Inr (Token id_token) \<and>
    snd (provider_claims w cfg id_token st) = Inr c \<and>
    mint (o_jwt w) (o_now w) (ac_signer cfg) (ac_issuer cfg) (ac_audience cfg)
      (canonical_subject (o_unicode_lower w) c) (fst (display_names c)) (snd (display_names c))
      (ic_exp c) [] = Inr (ut_token ut) \<and>
    ut_user_id ut = canonical_subject (o_unicode_lower w) c"
proof -
  from assms(1) obtain m dc te where r: "sessions_resolve (o_instant1 w) (o_instant2 w) code cs (as_sessions st)
      = (m, Some (dc, te))"
    by (auto simp: get_auth_session_def split: prod.splits option.splits)
  then have "snd (sessions_resolve (o_instant1 w) (o_instant2 w) code cs (as_sessions st)) = Some (dc, te)"
    by simp
  then obtain s where s: "as_sessions st code = Some s" "client_state s = cs"
    "o_instant2 w < expires_at s" "device_code s = dc" "token_endpoint s = te"
    unfolding resolve_Some_iff [OF assms(2)] by blast
  from assms(1) r obtain id_token where t: "device_flow_poll (o_http w) (o_serde w) (ac_device cfg) te dc
      = Inr (Token id_token)"
    by (auto simp: get_auth_session_def Let_def split: sum.splits poll.splits)
  have "snd (provider_claims w cfg id_token (st\<lparr>as_sessions := m\<rparr>)) = snd (provider_claims w cfg id_token st)"
    by (simp add: provider_claims_def split: prod.split)
  with assms(1) r t obtain c where "snd (provider_claims w cfg id_token st) = Inr c"
    "authn_token w cfg c = Inr ut"
    by (auto simp: get_auth_session_def Let_def split: prod.splits sum.splits)
  with s t show ?thesis
    by (auto simp: authn_token_def Let_def split: prod.splits sum.splits)
qed

text \<open>Over any sequence of insertions and removals, what resolving a session code yields was inserted under
  that code with that client state and has not expired.\<close>

lemma session_provenance:
  assumes "snd (sessions_resolve t t code cs
      (run_table (\<lambda>t1 t2 k (dc, te, cs) ttl m. sessions_insert t1 t2 k dc te cs ttl m)
        sessions_remove ops sessions_new)) = Some (dc, te)"
  shows "\<exists>t1 t2 ttl. Put t1 t2 code (dc, te, cs) ttl \<in> set ops \<and> t < t2 + ttl"
  using login.get_run_new [OF assms] by (auto split: if_splits)

section \<open>Genuine bearers\<close>

text \<open>C8. If nobody can forge our signatures, every bearer the service accepts is a token our key encoded, for
  our issuer and audience and not expired, or a token that the pinned verification accepts under
  the cached or a freshly fetched key set of the provider.\<close>

theorem accepted_bearer_genuine:
  assumes "unforgeable (o_jwt w) ek (sv_key (id_self (ac_identity cfg)))"
    and "snd (caller_claims w cfg token st) = Inr c"
  shows "(\<exists>h mc. jwt_encode (o_jwt w) h mc ek = Inr token \<and> c = identity_of mc \<and>
      mc_iss mc = sv_issuer (id_self (ac_identity cfg)) \<and>
      sv_audience (id_self (ac_identity cfg)) \<in> set (mc_aud mc) \<and> o_now w \<le> unat (mc_exp mc) + 60) \<or>
    (\<exists>jwks. (as_cache st = Some jwks \<or>
        oidc_fetch (o_jwt w) (o_http w) (o_serde w) (ov_issuer (id_oidc (ac_identity cfg))) = Inr jwks) \<and>
      verify_with_jwks (o_jwt w) (o_now w) token jwks (ov_issuer (id_oidc (ac_identity cfg)))
        (ov_audiences (id_oidc (ac_identity cfg))) = Inr c)"
proof (cases "self_claims (o_jwt w) (o_now w) (id_self (ac_identity cfg)) token")
  case None
  with assms(2) show ?thesis
    by (auto simp: caller_claims_def id_claims_def oidc_verify_def
        split: prod.splits sum.splits option.splits dest: sym [of "Some _" "as_cache st"])
next
  case (Some c')
  with assms(2) have "c' = c" by (simp add: caller_claims_def id_claims_def)
  with own.accepted_genuine [where signs = "\<lambda>k. k = ek", OF _ Some] assms(1)
  show ?thesis by fastforce
qed

section \<open>The cache of the provider's keys\<close>

text \<open>The cached key set saves the fetch exactly when it holds the token's key id: then the verdict does not
  depend on the network and the cache stays; otherwise the set is fetched once, the verdict is the
  fetched set's, and a fetched set replaces the cache even when the token is rejected.\<close>

lemma oidc_verify_cache:
  assumes "token_kid J token = Inr k"
  shows "oidc_verify J h sd now ov token cache =
    (if \<exists>ks. cache = Some ks \<and> jwks_find J ks k \<noteq> None
     then (cache, verify_with_jwks J now token (the cache) (ov_issuer ov) (ov_audiences ov))
     else case oidc_fetch J h sd (ov_issuer ov) of
        Inl e \<Rightarrow> (cache, Inl e)
      | Inr ks \<Rightarrow> (Some ks, verify_with_jwks J now token ks (ov_issuer ov) (ov_audiences ov)))"
  using assms by (auto simp: oidc_verify_def opt_filter_def split: option.splits)

text \<open>A token whose key id is not in the provider's freshly fetched set is rejected as unknown, whatever the
  cache holds, unless the cache still has that key id.\<close>

lemma unknown_kid_rejected:
  assumes "token_kid J token = Inr k" and "oidc_fetch J h sd (ov_issuer ov) = Inr ks"
    and "jwks_find J ks k = None" and "\<forall>old. cache = Some old \<longrightarrow> jwks_find J old k = None"
  shows "oidc_verify J h sd now ov token cache = (Some ks, Inl (UnknownKid k))"
proof -
  from assms(4) have "opt_filter (\<lambda>ks. jwks_find J ks k \<noteq> None) cache = None"
    by (cases cache) auto
  with assms(1-3) show ?thesis by (simp add: oidc_verify_def verify_with_jwks_def)
qed

end
