(* ===== verification/Auth_Main.thy ===== *)
theory Auth_Main
  imports Auth_Login
begin

text \<open>
  The rest of \<^verbatim>\<open>auth/src/main.rs\<close>: the administrator's commands, the start of the
  service, and the whole service as a step relation over requests, administrator's commands (another
  process on the same database) and restarts, with the invariant of its reachable states.
\<close>

section \<open>The administrator's commands\<close>

definition bad_role_text :: string where
  "bad_role_text =
     ''role must be '' @ [CHR 0x27] @ ''owner'' @ [CHR 0x27] @ '' or '' @ [CHR 0x27] @ ''member'' @ [CHR 0x27]"

text \<open>
  \<^verbatim>\<open>run_admin\<close> on the command word and the remaining arguments, with the lines it
  prints on standard output.
\<close>

definition run_admin ::
  "sql_env \<Rightarrow> string \<Rightarrow> string list \<Rightarrow> db \<Rightarrow> db \<times> string list \<times> (string + unit)" where
  "run_admin env cmd args d =
     (case (cmd, args) of
        (c, [subject, urc, role_name]) \<Rightarrow>
          if c = ''grant''
          then (case role_parse role_name of
                  None \<Rightarrow> (d, [], Inl bad_role_text)
                | Some r \<Rightarrow>
                    (case store_grant env subject urc r d of
                       (d1, Inl e) \<Rightarrow> (d1, [], Inl e)
                     | (d1, Inr _) \<Rightarrow>
                         (d1, [''granted '' @ as_str r @ '' on '' @ urc @ '' to '' @ subject], Inr ())))
          else (d, [], Inl ''invalid admin command'')
      | (c, [a, b]) \<Rightarrow>
          if c = ''revoke''
          then (case revoke env a b d of
                  (d1, Inl e) \<Rightarrow> (d1, [], Inl e)
                | (d1, Inr n) \<Rightarrow> (d1, [''removed '' @ dec n @ '' grant(s) for '' @ a @ '' on '' @ b], Inr ()))
          else if c = ''group-add''
          then (case add_group_member env a b d of
                  (d1, Inl e) \<Rightarrow> (d1, [], Inl e)
                | (d1, Inr _) \<Rightarrow> (d1, [''added '' @ b @ '' to group '' @ a], Inr ()))
          else if c = ''group-del''
          then (case remove_group_member env a b d of
                  (d1, Inl e) \<Rightarrow> (d1, [], Inl e)
                | (d1, Inr n) \<Rightarrow>
                    (d1, [''removed '' @ dec n @ '' membership(s) of '' @ b @ '' in group '' @ a], Inr ()))
          else (d, [], Inl ''invalid admin command'')
      | (c, [urc]) \<Rightarrow>
          if c = ''ls''
          then (d, map (\<lambda>(s, r). r @ [char_of (9::nat)] @ s) (list_grants env urc d), Inr ())
          else (d, [], Inl ''invalid admin command'')
      | _ \<Rightarrow> (d, [], Inl ''invalid admin command''))"

text \<open>The operation of the store that a command runs, if any.\<close>

definition admin_op :: "string \<Rightarrow> string list \<Rightarrow> store_op option" where
  "admin_op cmd args =
     (case args of
        [a, b, r] \<Rightarrow> if cmd = ''grant'' then map_option (Grant a b) (role_parse r) else None
      | [a, b] \<Rightarrow> if cmd = ''revoke'' then Some (Revoke a b)
                  else if cmd = ''group-add'' then Some (AddMember a b)
                  else if cmd = ''group-del'' then Some (RemoveMember a b) else None
      | _ \<Rightarrow> None)"

lemma run_admin_op:
  "fst (run_admin env cmd args d) =
    (case admin_op cmd args of Some op \<Rightarrow> apply_op env op d | None \<Rightarrow> d)"
proof (cases args)
  case (Cons a as)
  then show ?thesis
  proof (cases as)
    case (Cons b bs)
    note 1 = \<open>args = a # as\<close> Cons
    then show ?thesis
    proof (cases bs)
      case Nil
      with 1 show ?thesis
        by (simp add: run_admin_def admin_op_def split: prod.split sum.split)
    next
      case (Cons r rs)
      with 1 show ?thesis
        by (cases rs) (simp_all add: run_admin_def admin_op_def split: prod.split sum.split option.split)
    qed
  qed (simp add: run_admin_def admin_op_def)
qed (simp add: run_admin_def admin_op_def)

section \<open>Starting the service\<close>

definition env_required :: "(string \<rightharpoonup> string) \<Rightarrow> string \<Rightarrow> string + string" where
  "env_required vars key =
     (case vars key of None \<Rightarrow> Inl (''missing required env var '' @ key) | Some v \<Rightarrow> Inr v)"

definition db_path :: "(string \<rightharpoonup> string) \<Rightarrow> string" where
  "db_path vars = (case vars ''KAGUYA_DB_PATH'' of None \<Rightarrow> ''/data/rebac.db'' | Some p \<Rightarrow> p)"

definition oidc_audiences :: "(string \<rightharpoonup> string) \<Rightarrow> string \<Rightarrow> string list" where
  "oidc_audiences vars audience =
     (case vars ''KAGUYA_WEB_AUDIENCE'' of
        Some web \<Rightarrow> if web \<noteq> [] then [audience, web] else [audience]
      | None \<Rightarrow> [audience])"

text \<open>
  \<^verbatim>\<open>main\<close> with arguments: the administrator's command on the database of
  that path, which is created when there is none; the result has the lines printed and the error.
\<close>

definition admin_main ::
  "(string \<Rightarrow> string option) \<Rightarrow> sql_env \<Rightarrow> (string \<rightharpoonup> string) \<Rightarrow> string \<Rightarrow> string list \<Rightarrow>
   (string \<rightharpoonup> db) \<Rightarrow> (string \<rightharpoonup> db) \<times> string list \<times> (string + unit)" where
  "admin_main open_fails env vars cmd args dbs =
     (case store_open (open_fails (db_path vars)) (dbs (db_path vars)) of
        Inl e \<Rightarrow> (dbs, [], Inl e)
      | Inr d \<Rightarrow>
          (case run_admin env cmd args d of
             (d1, out, r) \<Rightarrow> (dbs(db_path vars \<mapsto> d1), out, r)))"

text \<open>
  \<^verbatim>\<open>main\<close> without arguments, up to serving: the files afterwards and, unless it stops
  with an error, the configuration and first state of the service.  The databases are given by path;
  opening one may fail.
\<close>

definition auth_main ::
  "'k crypto \<Rightarrow> 'k jwt \<Rightarrow> serde \<Rightarrow> fs_env \<Rightarrow> (string \<Rightarrow> string option) \<Rightarrow> (string \<rightharpoonup> db) \<Rightarrow>
   (string \<rightharpoonup> string) \<Rightarrow> files \<Rightarrow> files \<times> (string + 'k auth_config \<times> 'k auth_state)" where
  "auth_main C J sd fe open_fails dbs vars fs =
     (case env_required vars ''KAGUYA_OIDC_ISSUER'' of
        Inl e \<Rightarrow> (fs, Inl e)
      | Inr oidc_issuer \<Rightarrow>
     (case env_required vars ''KAGUYA_JWT_AUDIENCE'' of
        Inl e \<Rightarrow> (fs, Inl e)
      | Inr audience \<Rightarrow>
     (case env_required vars ''KAGUYA_AUTH_ISSUER'' of
        Inl e \<Rightarrow> (fs, Inl e)
      | Inr auth_issuer \<Rightarrow>
     (let keys_dir = (case vars ''KAGUYA_KEYS_DIR'' of None \<Rightarrow> ''/keys'' | Some p \<Rightarrow> p) in
      case load_or_generate C fe keys_dir fs of
        (fs1, Inl e) \<Rightarrow> (fs1, Inl e)
      | (fs1, Inr sg) \<Rightarrow>
     (case publish sd fe keys_dir (own_jwk sg) fs1 of
        (fs2, Inl e) \<Rightarrow> (fs2, Inl e)
      | (fs2, Inr _) \<Rightarrow>
     (case store_open (open_fails (db_path vars)) (dbs (db_path vars)) of
        Inl e \<Rightarrow> (fs2, Inl e)
      | Inr d \<Rightarrow>
     (case self_verifier_new J (own_jwk sg) auth_issuer audience of
        Inl e \<Rightarrow> (fs2, Inl (verify_error_text e))
      | Inr sv \<Rightarrow>
          (fs2, Inr (\<lparr>ac_signer = sg,
              ac_identity = \<lparr>id_self = sv,
                id_oidc = \<lparr>ov_issuer = oidc_issuer, ov_audiences = oidc_audiences vars audience\<rparr>\<rparr>,
              ac_device = \<lparr>dl_issuer = oidc_issuer, dl_client_id = audience\<rparr>,
              ac_issuer = auth_issuer, ac_audience = audience\<rparr>,
            \<lparr>as_db = d, as_sessions = sessions_new, as_cache = None\<rparr>)))))))))"

text \<open>C33. An administrator's command runs one operation of the store, that of its name with its arguments in
  order, on the database of the configured path and on no other; a command with an unknown name,
  another number of arguments or an unknown role, and the listing, leave its tables alone, and a
  database that cannot be opened is not touched.\<close>

theorem admin_main_db:
  "fst (admin_main open_fails env vars cmd args dbs) =
    (if open_fails (db_path vars) \<noteq> None then dbs
     else let d = (case dbs (db_path vars) of None \<Rightarrow> new_db | Some d \<Rightarrow> d)
          in dbs(db_path vars \<mapsto> (case admin_op cmd args of Some op \<Rightarrow> apply_op env op d | None \<Rightarrow> d)))"
  using run_admin_op [of env cmd args]
  by (auto simp: admin_main_def store_open_def Let_def split: option.split prod.split) (metis fst_conv)+

text \<open>A configuration whose own verifier checks what its signer stamps.\<close>

definition config_ok :: "'k jwt \<Rightarrow> 'k auth_config \<Rightarrow> bool" where
  "config_ok J cfg \<longleftrightarrow>
     sv_issuer (id_self (ac_identity cfg)) = ac_issuer cfg \<and>
     sv_audience (id_self (ac_identity cfg)) = ac_audience cfg \<and>
     ac_audience cfg \<in> set (ov_audiences (id_oidc (ac_identity cfg))) \<and>
     ov_issuer (id_oidc (ac_identity cfg)) = dl_issuer (ac_device cfg) \<and>
     dl_client_id (ac_device cfg) = ac_audience cfg \<and>
     (\<exists>k. jwk_of_json J (own_jwk (ac_signer cfg)) = Inr k \<and>
          key_of_jwk J k = Inr (sv_key (id_self (ac_identity cfg))))"

text \<open>C32. A start that succeeds runs on what is configured and stored: the issuer and the audience are the
  configured ones, the key set on disk in the configured directory has the signer's JWK alone, the
  service's own verifier checks the issuer and audience its signer stamps with the published key, the
  provider's tokens are accepted for the audience, the database is the one stored under the configured
  path, with all it holds, or a new one when there is none, and nothing else is remembered.\<close>

theorem auth_main_consistent:
  assumes "auth_main C J sd fe open_fails dbs vars fs = (fs', Inr (cfg, st))"
  shows "config_ok J cfg \<and> vars ''KAGUYA_AUTH_ISSUER'' = Some (ac_issuer cfg) \<and>
    vars ''KAGUYA_JWT_AUDIENCE'' = Some (ac_audience cfg) \<and>
    vars ''KAGUYA_OIDC_ISSUER'' = Some (ov_issuer (id_oidc (ac_identity cfg))) \<and>
    fs' (path_join (case vars ''KAGUYA_KEYS_DIR'' of None \<Rightarrow> ''/keys'' | Some dir \<Rightarrow> dir) JWKS_FILE) =
      Some (print_json sd (JObj [(''keys'', JArr [own_jwk (ac_signer cfg)])])) \<and>
    as_db st = (case dbs (db_path vars) of None \<Rightarrow> new_db | Some d \<Rightarrow> d) \<and>
    as_sessions st = sessions_new \<and> as_cache st = None"
  using assms
  by (auto simp: auth_main_def Let_def config_ok_def self_verifier_new_def oidc_audiences_def env_required_def
      publish_def fs_write_def store_open_def split: sum.splits prod.splits option.splits if_splits)

section \<open>The service as a state machine\<close>

datatype 'k event =
    Request "'k outside" "string option" rpc
  | Admin sql_env string "string list"
  | Restart

inductive auth_step :: "'k auth_config \<Rightarrow> 'k event \<Rightarrow> 'k auth_state \<Rightarrow> 'k auth_state \<Rightarrow> bool" for cfg where
  request: "auth_step cfg (Request w md req) st (fst (serve w cfg md req st))"
| admin: "auth_step cfg (Admin env cmd args) st (st\<lparr>as_db := fst (run_admin env cmd args (as_db st))\<rparr>)"
| restart: "auth_step cfg Restart st \<lparr>as_db = as_db st, as_sessions = sessions_new, as_cache = None\<rparr>"

inductive auth_run :: "'k auth_config \<Rightarrow> 'k event list \<Rightarrow> 'k auth_state \<Rightarrow> 'k auth_state \<Rightarrow> bool" for cfg where
  stop: "auth_run cfg [] st st"
| step: "auth_run cfg evs st st1 \<Longrightarrow> auth_step cfg ev st1 st2 \<Longrightarrow> auth_run cfg (evs @ [ev]) st st2"

inductive_cases request_stepE: "auth_step cfg (Request w md req) st st'"
inductive_cases admin_stepE: "auth_step cfg (Admin env cmd args) st st'"
inductive_cases restart_stepE: "auth_step cfg Restart st st'"
inductive_simps auth_run_Nil: "auth_run cfg [] st st'"

lemmas auth_stepEs = request_stepE admin_stepE restart_stepE

text \<open>The steps are a function of the event, so a run can be executed.\<close>

fun do_event :: "'k auth_config \<Rightarrow> 'k event \<Rightarrow> 'k auth_state \<Rightarrow> 'k auth_state" where
  "do_event cfg (Request w md req) st = fst (serve w cfg md req st)"
| "do_event cfg (Admin env cmd args) st = st\<lparr>as_db := fst (run_admin env cmd args (as_db st))\<rparr>"
| "do_event cfg Restart st = \<lparr>as_db = as_db st, as_sessions = sessions_new, as_cache = None\<rparr>"

lemma auth_step_iff: "auth_step cfg ev st st' \<longleftrightarrow> st' = do_event cfg ev st"
  by (cases ev) (auto elim: auth_stepEs intro: auth_step.intros)

lemma auth_run_fold: "auth_run cfg evs st st' \<longleftrightarrow> st' = fold (do_event cfg) evs st"
proof
  show "auth_run cfg evs st st' \<Longrightarrow> st' = fold (do_event cfg) evs st"
    by (induction rule: auth_run.induct) (simp_all add: auth_step_iff)
  have "auth_run cfg evs st (fold (do_event cfg) evs st)"
  proof (induction evs rule: rev_induct)
    case Nil
    then show ?case by (simp add: auth_run_Nil)
  next
    case (snoc ev evs)
    then show ?case by (auto intro: auth_run.step simp: auth_step_iff)
  qed
  then show "st' = fold (do_event cfg) evs st \<Longrightarrow> auth_run cfg evs st st'" by simp
qed

text \<open>The first state of a service over an empty database.\<close>

definition fresh_state :: "'k auth_state" where
  "fresh_state = \<lparr>as_db = new_db, as_sessions = sessions_new, as_cache = None\<rparr>"

text \<open>The operation of the store an event may run: by a verified caller, or by the administrator.\<close>

inductive event_op :: "'k auth_config \<Rightarrow> 'k event \<Rightarrow> 'k auth_state \<Rightarrow> sql_env \<Rightarrow> store_op \<Rightarrow> bool" for cfg where
  created: "snd (caller w cfg md st) = Inr sub \<Longrightarrow>
    event_op cfg (Request w md (CreateResource rid rname)) st (o_sql w)
      (RecordOwner (int (o_now w)) sub rid rname)"
| deleted: "snd (caller w cfg md st) = Inr sub \<Longrightarrow>
    event_op cfg (Request w md (DeleteResourceReq rid)) st (o_sql w) (DeleteRes rid)"
| administered: "admin_op cmd args = Some op \<Longrightarrow> event_op cfg (Admin env cmd args) st env op"

lemma auth_step_db:
  assumes "auth_step cfg ev st st'"
  shows "as_db st' = as_db st \<or> (\<exists>env op. event_op cfg ev st env op \<and> as_db st' = apply_op env op (as_db st))"
  using assms
proof cases
  case (request w md req)
  from serve_db [of w cfg md req st] show ?thesis
  proof (elim disjE exE conjE)
    fix rid sub rname
    assume "snd (caller w cfg md st) = Inr sub" and "req = CreateResource rid rname"
      and "as_db (fst (serve w cfg md req st)) =
        fst (record_owner (o_sql w) (int (o_now w)) sub rid rname (as_db st))"
    with created [of w cfg md st sub rid rname] request show ?thesis
      by (intro disjI2 exI [of _ "o_sql w"] exI [of _ "RecordOwner (int (o_now w)) sub rid rname"]) simp
  next
    fix rid sub
    assume "snd (caller w cfg md st) = Inr sub" and "req = DeleteResourceReq rid"
      and "as_db (fst (serve w cfg md req st)) = fst (delete_resource (o_sql w) rid (as_db st))"
    with deleted [of w cfg md st sub rid] request show ?thesis
      by (intro disjI2 exI [of _ "o_sql w"] exI [of _ "DeleteRes rid"]) simp
  qed (simp add: request)
next
  case (admin env cmd args)
  then show ?thesis
    by (auto simp: run_admin_op intro: event_op.intros split: option.split)
qed simp

text \<open>Session codes are the service's own random identifiers.\<close>

definition codes_ok :: "sessions \<Rightarrow> bool" where
  "codes_ok m \<longleftrightarrow> finite (dom m) \<and>
     (\<forall>code \<in> dom m. length code = 32 \<and> (\<forall>c \<in> set code. is_lower_hex c))"

lemma codes_ok_ops:
  "codes_ok sessions_new"
  "codes_ok m \<Longrightarrow> codes_ok (sweep t m)"
  "codes_ok m \<Longrightarrow> codes_ok (sessions_remove code m)"
  "codes_ok m \<Longrightarrow> codes_ok (sessions_insert t1 t2 (random_id r) dc te cs ttl m)"
  using finite_sessions [of m]
  by (auto simp: codes_ok_def random_id_lower sweep_apply session_defs split: if_splits)

lemma serve_codes_ok: "codes_ok (as_sessions st) \<Longrightarrow> codes_ok (as_sessions (fst (serve w cfg md req st)))"
proof (cases req)
  case (GetAuthSession code cs)
  have "fst (sessions_resolve (o_instant1 w) (o_instant2 w) code cs (as_sessions st)) =
      sweep (o_instant1 w) (as_sessions st)" by (rule resolve_table)
  then show "codes_ok (as_sessions st) \<Longrightarrow> ?thesis"
    unfolding GetAuthSession
    by (auto simp: map_reply_def get_auth_session_def Let_def codes_ok_ops dest!: frames
        split: prod.splits sum.splits poll.splits option.splits)
qed (auto simp: map_reply_def create_resource_def delete_resource_rpc_def check_user_permission_def
    lookup_user_permissions_def start_auth_session_def exchange_external_token_def
    exchange_multiresource_def codes_ok_ops Let_def dest!: frames split: prod.splits sum.splits)

definition auth_inv :: "'k auth_state \<Rightarrow> bool" where
  "auth_inv st \<longleftrightarrow> store_inv (as_db st) \<and> codes_ok (as_sessions st)"

lemma auth_step_inv: "auth_step cfg ev st st' \<Longrightarrow> auth_inv st \<Longrightarrow> auth_inv st'"
proof -
  assume s: "auth_step cfg ev st st'" and i: "auth_inv st"
  from auth_step_db [OF s] i have "store_inv (as_db st')" by (auto simp: auth_inv_def apply_op_inv)
  moreover from s i have "codes_ok (as_sessions st')"
    by cases (auto simp: auth_inv_def serve_codes_ok codes_ok_ops)
  ultimately show "auth_inv st'" by (simp add: auth_inv_def)
qed

lemma auth_run_keeps:
  assumes "auth_run cfg evs st st'" and "auth_inv st"
  shows "auth_inv st'"
  using assms by (induction rule: auth_run.induct) (auto intro: auth_step_inv)

text \<open>In every state the service reaches, over any requests, administrator's commands, failures and
  restarts, the tables keep their invariant and every login session has a code of 32 hexadecimal
  digits.\<close>

lemma auth_run_inv:
  assumes "auth_run cfg evs st st'" and "auth_inv st"
  shows "auth_inv st'"
  using assms by (rule auth_run_keeps)

end
