(* ===== verification/Web_Store.thy ===== *)
theory Web_Store
  imports Expiring_Table Hex_Codec
begin

text \<open>
  The state of the web frontend (\<^verbatim>\<open>web/src/main.rs\<close>): the pending logins and the
  browser sessions, both keyed by random identifiers, and the cookie that carries a session id.
  Times are the \<^verbatim>\<open>i64\<close> seconds of \<^verbatim>\<open>now()\<close>, as integers; the
  wall clock is read anew at each place of the code that reads it, so an operation takes one argument
  per reading; a \<^verbatim>\<open>retain\<close> pass reads it for every entry, and takes a function of the key.
\<close>

section \<open>Pending logins and sessions\<close>

definition PENDING_TTL :: int where "PENDING_TTL = 600"

record web_session =
  ws_token :: string
  ws_user_name :: string
  ws_sub :: string
  ws_expires_at :: int

record pending =
  pd_verifier :: string
  pd_expires_at :: int

record web_store =
  w_sessions :: "string \<rightharpoonup> web_session"
  w_pending :: "string \<rightharpoonup> pending"

definition web_store_default :: web_store where
  "web_store_default = \<lparr>w_sessions = Map.empty, w_pending = Map.empty\<rparr>"

definition start_login ::
  "(string \<Rightarrow> int) \<Rightarrow> int \<Rightarrow> string \<Rightarrow> string \<Rightarrow> (string \<rightharpoonup> pending) \<Rightarrow> (string \<rightharpoonup> pending)" where
  "start_login now_at t2 state verifier m =
     (retain (\<lambda>k p. pd_expires_at p > now_at k) m)
       (state \<mapsto> \<lparr>pd_verifier = verifier, pd_expires_at = t2 + PENDING_TTL\<rparr>)"

definition take_pending ::
  "int \<Rightarrow> string \<Rightarrow> (string \<rightharpoonup> pending) \<Rightarrow> (string \<rightharpoonup> pending) \<times> string option" where
  "take_pending now state m =
     (m(state := None), map_option pd_verifier (opt_filter (\<lambda>p. pd_expires_at p > now) (m state)))"

definition session_create ::
  "(string \<Rightarrow> int) \<Rightarrow> string \<Rightarrow> web_session \<Rightarrow> (string \<rightharpoonup> web_session) \<Rightarrow> (string \<rightharpoonup> web_session)" where
  "session_create now_at sid s m = (retain (\<lambda>k s. ws_expires_at s > now_at k) m)(sid \<mapsto> s)"

definition session_get ::
  "int \<Rightarrow> string \<Rightarrow> (string \<rightharpoonup> web_session) \<Rightarrow> (string \<times> string \<times> string) option" where
  "session_get now sid m =
     map_option (\<lambda>s. (ws_token s, ws_user_name s, ws_sub s))
       (opt_filter (\<lambda>s. ws_expires_at s > now) (m sid))"

definition session_remove :: "string \<Rightarrow> (string \<rightharpoonup> web_session) \<Rightarrow> (string \<rightharpoonup> web_session)" where
  "session_remove sid m = m(sid := None)"

lemmas pending_defs = start_login_def take_pending_def PENDING_TTL_def
lemmas web_session_defs = session_create_def session_get_def session_remove_def

text \<open>Both tables keep the contract of an expiring table.\<close>

interpretation logins: expiring_table
  where put = "\<lambda>t1 t2 state verifier (_ :: unit) m. start_login t1 t2 state verifier m"
    and swept = "\<lambda>now_at k t. now_at k \<le> t"
    and get = "\<lambda>t state (_ :: unit) m. snd (take_pending t state m)"
    and del = "\<lambda>state m. fst (take_pending 0 state m)"
    and deadline = "\<lambda>t _. t + PENDING_TTL"
    and shown = "\<lambda>_ verifier. Some verifier"
    and new = "Map.empty"
  by unfold_locales
    (auto simp: pending_defs opt_filter_def split: option.splits if_splits)

interpretation browser: expiring_table
  where put = "\<lambda>t1 t2 sid (tok, un, sub) e m. session_create t1 sid
      \<lparr>ws_token = tok, ws_user_name = un, ws_sub = sub, ws_expires_at = e\<rparr> m"
    and swept = "\<lambda>now_at k t. now_at k \<le> t"
    and get = "\<lambda>t sid (_ :: unit) m. session_get t sid m"
    and del = session_remove
    and deadline = "\<lambda>t e. e :: int"
    and shown = "\<lambda>_ p. Some p"
    and new = "Map.empty"
  by unfold_locales
    (auto simp: web_session_defs opt_filter_def split: option.splits if_splits)

section \<open>The cookie\<close>

definition COOKIE :: string where "COOKIE = ''kw_session''"

text \<open>The id in the request's cookie header, given as the raw header value.\<close>

definition session_id :: "(string \<Rightarrow> string option) \<Rightarrow> string option \<Rightarrow> string option" where
  "session_id to_str header =
     Option.bind (Option.bind header to_str)
       (\<lambda>cookie. find_map (strip_prefix (COOKIE @ ''='')) (map str_trim (split_on CHR '';'' cookie)))"

definition session_cookie :: "string \<Rightarrow> int \<Rightarrow> string" where
  "session_cookie sid max_age =
     COOKIE @ ''='' @ sid @ ''; HttpOnly; Secure; SameSite=Lax; Path=/; Max-Age='' @ dec_int max_age"

definition clear_cookie :: string where
  "clear_cookie = COOKIE @ ''=; HttpOnly; Secure; SameSite=Lax; Path=/; Max-Age=0''"

text \<open>A browser joins the cookies it sends with a semicolon and a space.\<close>

fun cookie_header :: "string list \<Rightarrow> string" where
  "cookie_header [] = []"
| "cookie_header [c] = c"
| "cookie_header (c # cs) = c @ ''; '' @ cookie_header cs"

lemma split_cookie_header:
  "cs \<noteq> [] \<Longrightarrow> \<forall>c \<in> set cs. CHR '';'' \<notin> set c \<Longrightarrow>
    map str_trim (split_on CHR '';'' (cookie_header cs)) = map str_trim cs"
proof (induction cs rule: cookie_header.induct)
  case (3 c c' cs)
  let ?r = "cookie_header (c' # cs)"
  have sp: "str_trim (CHR '' '' # p) = str_trim p" for p
    by (simp add: str_trim_def is_ascii_space_def)
  have "split_on CHR '';'' (CHR '' '' # ?r) = (case split_on CHR '';'' ?r of p # ps \<Rightarrow> (CHR '' '' # p) # ps)"
    by (cases "split_on CHR '';'' ?r") auto
  moreover obtain p ps where p: "split_on CHR '';'' ?r = p # ps"
    by (cases "split_on CHR '';'' ?r") auto
  ultimately have "map str_trim (split_on CHR '';'' (CHR '' '' # ?r)) = map str_trim (split_on CHR '';'' ?r)"
    by (simp add: sp)
  with 3 show ?case by (simp add: split_on_append)
qed (auto simp: split_on_absent)

lemma lower_hex_not_space: "is_lower_hex c \<Longrightarrow> \<not> is_ascii_space c" "is_lower_hex c \<Longrightarrow> c \<noteq> CHR '';''"
  by (auto simp: is_lower_hex_def is_ascii_space_def)

lemma find_map_skip: "\<forall>x \<in> set xs. f x = None \<Longrightarrow> find_map f (xs @ y # ys) = (case f y of Some z \<Rightarrow> Some z | None \<Rightarrow> find_map f ys)"
  by (induction xs) auto

text \<open>The cookie the frontend sets comes back as the session id, wherever the browser puts it among its
  other cookies, as long as no earlier one has the same name.\<close>

lemma session_id_sent:
  assumes "to_str h = Some (cookie_header (before @ (COOKIE @ ''='' @ random_state r) # after))"
    and "\<forall>c \<in> set (before @ after). CHR '';'' \<notin> set c"
    and "\<forall>c \<in> set before. strip_prefix (COOKIE @ ''='') (str_trim c) = None"
  shows "session_id to_str (Some h) = Some (random_state r)"
proof -
  let ?c = "COOKIE @ ''='' @ random_state r"
  have low: "\<forall>x \<in> set (random_state r). is_lower_hex x" by (simp add: random_state_id random_id_lower)
  have ne: "random_state r \<noteq> []"
    using random_id_length [of r] by (metis list.size(3) random_state_id zero_neq_numeral)
  have trim: "str_trim ?c = ?c"
  proof (rule str_trim_id)
    show "?c = [] \<or> \<not> is_ascii_space (hd ?c)" by (simp add: COOKIE_def is_ascii_space_def)
    have "last ?c = last (random_state r)" using ne by simp
    then show "?c = [] \<or> \<not> is_ascii_space (last ?c)"
      using low ne last_in_set [OF ne] by (simp add: lower_hex_not_space)
  qed
  have semi: "CHR '';'' \<notin> set ?c"
    using low lower_hex_not_space(2) [of "CHR '';''"] by (auto simp: COOKIE_def)
  have "map str_trim (split_on CHR '';'' (cookie_header (before @ ?c # after)))
      = map str_trim before @ ?c # map str_trim after"
    using split_cookie_header [of "before @ ?c # after"] assms(2) semi trim by simp
  with assms(1,3) show ?thesis
    by (simp add: session_id_def find_map_skip strip_prefix_append [of "COOKIE @ ''=''", simplified])
qed

end
