(* ===== verification/Web_Clients.thy ===== *)
theory Web_Clients
  imports Web_Store Auth_Service
begin

text \<open>
  The three clients of the web frontend: the OpenID provider
  (\<^verbatim>\<open>web/src/oidc.rs\<close>), the auth service
  (\<^verbatim>\<open>web/src/authsvc.rs\<close>) and loreserver
  (\<^verbatim>\<open>web/src/lore.rs\<close>).  The URL parser, the check of header values and
  the remote ends of the gRPC calls are parameters.  The remote auth service has a state
  of type \<open>'a\<close>, which a call changes; the root theory puts the model of the auth
  service itself in its place.
\<close>

section \<open>Outside code\<close>

record 'u urls =
  url_parse :: "string \<Rightarrow> string + 'u"
  append_pair :: "'u \<Rightarrow> string \<Rightarrow> string \<Rightarrow> 'u"
  url_to_string :: "'u \<Rightarrow> string"

text \<open>The metadata of a gRPC request: text entries and binary entries.\<close>

record metadata =
  md_ascii :: "string \<rightharpoonup> string"
  md_bin :: "string \<rightharpoonup> u8 list"

definition no_metadata :: metadata where
  "no_metadata = \<lparr>md_ascii = Map.empty, md_bin = Map.empty\<rparr>"

record 'a auth_api =
  aa_connect :: "string \<Rightarrow> string option"
  aa_exchange_external :: "string \<Rightarrow> string \<Rightarrow> 'a \<Rightarrow> 'a \<times> (string + user_token option)"
  aa_exchange_multi :: "metadata \<Rightarrow> string list \<Rightarrow> 'a \<Rightarrow> 'a \<times> (string + user_token option)"

record repository =
  r_id :: "u8 list"
  r_name :: string
  r_description :: string
  r_default_branch_name :: string

text \<open>A repository list is answered by a stream of messages, each of which may be an error.\<close>

record lore_api =
  la_connect :: "string \<Rightarrow> string option"
  la_repository_list :: "metadata \<Rightarrow> string option \<Rightarrow> string + (string + repository option) list"

section \<open>The OpenID client\<close>

record oidc =
  oc_issuer :: string
  oc_client_id :: string
  oc_redirect_uri :: string

record oidc_endpoints =
  oe_authorization_endpoint :: string
  oe_token_endpoint :: string

definition de_oidc_endpoints :: "serde \<Rightarrow> json \<Rightarrow> string + oidc_endpoints" where
  "de_oidc_endpoints sd j =
     (case struct_members sd [''authorization_endpoint'', ''token_endpoint''] 0 j of
        Inl e \<Rightarrow> Inl e
      | Inr m \<Rightarrow>
          (case (de_str sd m ''authorization_endpoint'', de_str sd m ''token_endpoint'') of
             (Inr a, Inr t) \<Rightarrow> Inr \<lparr>oe_authorization_endpoint = a, oe_token_endpoint = t\<rparr>
           | (Inl e, _) \<Rightarrow> Inl e
           | (_, Inl e) \<Rightarrow> Inl e))"

text \<open>The one field of \<^verbatim>\<open>TokenResponse\<close>.\<close>

definition de_oidc_token :: "serde \<Rightarrow> json \<Rightarrow> string + string" where
  "de_oidc_token sd j =
     (case struct_members sd [''id_token''] 0 j of Inl e \<Rightarrow> Inl e | Inr m \<Rightarrow> de_str sd m ''id_token'')"

definition oidc_discovery :: "http \<Rightarrow> serde \<Rightarrow> oidc \<Rightarrow> string + oidc_endpoints" where
  "oidc_discovery h sd oc =
     (let url = discovery_url (oc_issuer oc) in
      case accept_reply h url (http_get h url) of
        Inl e \<Rightarrow> Inl (''discovery '' @ url @ '': '' @ e)
      | Inr body \<Rightarrow>
          (case body_json sd body of
             Inl e \<Rightarrow> Inl (''discovery parse: '' @ e)
           | Inr j \<Rightarrow>
               (case de_oidc_endpoints sd j of Inl e \<Rightarrow> Inl (''discovery parse: '' @ e) | Inr d \<Rightarrow> Inr d)))"

text \<open>The query of the login page's address.\<close>

definition authorize_pairs :: "oidc \<Rightarrow> string \<Rightarrow> string \<Rightarrow> (string \<times> string) list" where
  "authorize_pairs oc state challenge =
     [(''response_type'', ''code''),
      (''client_id'', oc_client_id oc),
      (''redirect_uri'', oc_redirect_uri oc),
      (''scope'', ''openid profile email''),
      (''state'', state),
      (''code_challenge'', challenge),
      (''code_challenge_method'', ''S256'')]"

definition authorize_url ::
  "http \<Rightarrow> serde \<Rightarrow> 'u urls \<Rightarrow> oidc \<Rightarrow> string \<Rightarrow> string \<Rightarrow> string + string" where
  "authorize_url h sd U oc state challenge =
     (case oidc_discovery h sd oc of
        Inl e \<Rightarrow> Inl e
      | Inr disco \<Rightarrow>
          (case url_parse U (oe_authorization_endpoint disco) of
             Inl e \<Rightarrow> Inl (''authorize url: '' @ e)
           | Inr u \<Rightarrow>
               Inr (url_to_string U
                 (foldl (\<lambda>u (k, v). append_pair U u k v) u (authorize_pairs oc state challenge)))))"

definition exchange_code :: "http \<Rightarrow> serde \<Rightarrow> oidc \<Rightarrow> string \<Rightarrow> string \<Rightarrow> string + string" where
  "exchange_code h sd oc code verifier =
     (case oidc_discovery h sd oc of
        Inl e \<Rightarrow> Inl e
      | Inr disco \<Rightarrow>
          (case accept_reply h (oe_token_endpoint disco)
                  (http_post h (oe_token_endpoint disco)
                    [(''grant_type'', ''authorization_code''),
                     (''code'', code),
                     (''redirect_uri'', oc_redirect_uri oc),
                     (''client_id'', oc_client_id oc),
                     (''code_verifier'', verifier)]) of
             Inl e \<Rightarrow> Inl (''token exchange: '' @ e)
           | Inr body \<Rightarrow>
               (case body_json sd body of
                  Inl e \<Rightarrow> Inl (''token parse: '' @ e)
                | Inr j \<Rightarrow>
                    (case de_oidc_token sd j of
                       Inl e \<Rightarrow> Inl (''token parse: '' @ e)
                     | Inr t \<Rightarrow> Inr t))))"

text \<open>The 32 random bytes of a verifier are given as a text of 32 byte characters.\<close>

definition code_verifier :: "'k crypto \<Rightarrow> string \<Rightarrow> string" where
  "code_verifier cr bytes = b64 cr bytes"

definition code_challenge :: "'k crypto \<Rightarrow> string \<Rightarrow> string" where
  "code_challenge cr verifier = b64 cr (sha256 cr verifier)"

section \<open>The auth client\<close>

record issued =
  is_token :: string
  is_user_id :: string
  is_user_name :: string
  is_expires_at :: int

text \<open>
  \<^verbatim>\<open>bearer\<close> of the auth client and \<^verbatim>\<open>set_bearer\<close> of the
  lore client; \<open>hv\<close> says which texts are header values.
\<close>

definition client_bearer :: "(string \<Rightarrow> bool) \<Rightarrow> string \<Rightarrow> metadata \<Rightarrow> string + metadata" where
  "client_bearer hv token md =
     (let value = ''Bearer '' @ token in
      if hv value then Inr (md\<lparr>md_ascii := (md_ascii md)(''authorization'' \<mapsto> value)\<rparr>)
      else Inl ''invalid bearer token'')"

definition set_bearer :: "(string \<Rightarrow> bool) \<Rightarrow> string \<Rightarrow> metadata \<Rightarrow> string + metadata" where
  "set_bearer hv token md =
     (let value = ''Bearer '' @ token in
      if hv value then Inr (md\<lparr>md_ascii := (md_ascii md)(''authorization'' \<mapsto> value)\<rparr>)
      else Inl ''invalid bearer token'')"

definition set_repo_scope ::
  "(string \<Rightarrow> bool) \<Rightarrow> string \<Rightarrow> u8 list \<Rightarrow> metadata \<Rightarrow> string + metadata" where
  "set_repo_scope hv token rid md =
     (case set_bearer hv token md of
        Inl e \<Rightarrow> Inl e
      | Inr md1 \<Rightarrow>
          Inr (md1\<lparr>md_bin := (md_bin md1)(''lore-partition-bin'' \<mapsto> rid, ''urc-repository-id-bin'' \<mapsto> rid)\<rparr>))"

definition auth_connect :: "'a auth_api \<Rightarrow> string \<Rightarrow> string + unit" where
  "auth_connect A endpoint =
     (case aa_connect A endpoint of Some e \<Rightarrow> Inl (''auth connect: '' @ e) | None \<Rightarrow> Inr ())"

definition exchange_external ::
  "'a auth_api \<Rightarrow> string \<Rightarrow> string \<Rightarrow> 'a \<Rightarrow> 'a \<times> (string + issued)" where
  "exchange_external A endpoint id_token st =
     (case auth_connect A endpoint of
        Inl e \<Rightarrow> (st, Inl e)
      | Inr _ \<Rightarrow>
          (case aa_exchange_external A id_token ''external'' st of
             (st1, Inl e) \<Rightarrow> (st1, Inl (''exchange_external: '' @ e))
           | (st1, Inr resp) \<Rightarrow>
               (case opt_filter (\<lambda>t. ut_token t \<noteq> []) resp of
                  None \<Rightarrow> (st1, Inl ''auth service returned no user token'')
                | Some t \<Rightarrow>
                    (st1, Inr \<lparr>is_token = ut_token t, is_user_id = ut_user_id t,
                               is_user_name = ut_user_name t, is_expires_at = ut_expires_at t\<rparr>))))"

definition exchange_resource ::
  "(string \<Rightarrow> bool) \<Rightarrow> 'a auth_api \<Rightarrow> string \<Rightarrow> string \<Rightarrow> string \<Rightarrow> 'a \<Rightarrow> 'a \<times> (string + string)" where
  "exchange_resource hv A endpoint authn rid st =
     (case auth_connect A endpoint of
        Inl e \<Rightarrow> (st, Inl e)
      | Inr _ \<Rightarrow>
          (case client_bearer hv authn no_metadata of
             Inl e \<Rightarrow> (st, Inl e)
           | Inr md \<Rightarrow>
               (case aa_exchange_multi A md [rid] st of
                  (st1, Inl e) \<Rightarrow> (st1, Inl (''exchange_resource: '' @ e))
                | (st1, Inr resp) \<Rightarrow>
                    (case opt_filter (\<lambda>t. t \<noteq> []) (map_option ut_token resp) of
                       None \<Rightarrow> (st1, Inl ''auth service returned no scoped token'')
                     | Some t \<Rightarrow> (st1, Inr t)))))"

section \<open>The lore client\<close>

record repo_summary =
  rs_id :: string
  rs_name :: string
  rs_description :: string
  rs_default_branch :: string

definition summary_of :: "repository \<Rightarrow> repo_summary" where
  "summary_of r = \<lparr>rs_id = hex (r_id r), rs_name = r_name r, rs_description = r_description r,
     rs_default_branch = r_default_branch_name r\<rparr>"

text \<open>The loop over the stream, which ends at the first error or at the end of the stream.\<close>

fun read_repos :: "(string + repository option) list \<Rightarrow> repo_summary list \<Rightarrow> string + repo_summary list" where
  "read_repos [] repos = Inr repos"
| "read_repos (Inl e # msgs) repos = Inl (''repository_list stream: '' @ e)"
| "read_repos (Inr None # msgs) repos = read_repos msgs repos"
| "read_repos (Inr (Some r) # msgs) repos = read_repos msgs (repos @ [summary_of r])"

definition list_repos ::
  "(string \<Rightarrow> bool) \<Rightarrow> lore_api \<Rightarrow> string \<Rightarrow> string \<Rightarrow> string + repo_summary list" where
  "list_repos hv L endpoint token =
     (case la_connect L endpoint of
        Some e \<Rightarrow> Inl (''lore connect: '' @ e)
      | None \<Rightarrow>
          (case set_bearer hv token no_metadata of
             Inl e \<Rightarrow> Inl e
           | Inr md \<Rightarrow>
               (case la_repository_list L md None of
                  Inl e \<Rightarrow> Inl (''repository_list: '' @ e)
                | Inr stream \<Rightarrow> read_repos stream [])))"

section \<open>Properties\<close>

lemma read_repos_Inr:
  "read_repos msgs acc = Inr rs \<longleftrightarrow>
    (\<exists>ms. msgs = map Inr ms \<and> rs = acc @ filter_map (map_option summary_of) ms)"
proof (induction msgs acc rule: read_repos.induct)
  case (1 acc)
  then show ?case by auto
next
  case (2 e msgs acc)
  then show ?case by (auto simp: Cons_eq_map_conv)
next
  case (3 msgs acc)
  then show ?case by (fastforce simp: Cons_eq_map_conv)
next
  case (4 r msgs acc)
  then show ?case by (fastforce simp: Cons_eq_map_conv)
qed

lemma list_repos_Inr:
  "list_repos hv L endpoint token = Inr rs \<longleftrightarrow>
    la_connect L endpoint = None \<and> hv (''Bearer '' @ token) \<and>
    (\<exists>ms. la_repository_list L \<lparr>md_ascii = [''authorization'' \<mapsto> ''Bearer '' @ token], md_bin = Map.empty\<rparr> None
            = Inr (map Inr ms) \<and>
          rs = filter_map (map_option summary_of) ms \<and>
          map (\<lambda>s. from_hex (rs_id s)) rs = map Ok (filter_map (map_option r_id) ms))"
proof -
  have ids: "map (\<lambda>s. from_hex (rs_id s)) (filter_map (map_option summary_of) ms)
      = map Ok (filter_map (map_option r_id) ms)" for ms
    by (induction ms) (auto simp: summary_of_def from_hex_hex split: option.split)
  show ?thesis
    by (auto simp: list_repos_def set_bearer_def Let_def no_metadata_def read_repos_Inr ids
        split: option.splits sum.splits)
qed

text \<open>The repositories shown are exactly those of the stream, in order, with their identifiers printed so
  that the hexadecimal reader gives them back; an error anywhere in the stream shows none.\<close>

lemma list_repos_all_or_nothing:
  "list_repos hv L endpoint token = Inr rs \<longleftrightarrow>
    la_connect L endpoint = None \<and> hv (''Bearer '' @ token) \<and>
    (\<exists>ms. la_repository_list L \<lparr>md_ascii = [''authorization'' \<mapsto> ''Bearer '' @ token], md_bin = Map.empty\<rparr> None
            = Inr (map Inr ms) \<and>
          rs = filter_map (map_option summary_of) ms \<and>
          map (\<lambda>s. from_hex (rs_id s)) rs = map Ok (filter_map (map_option r_id) ms))"
  by (rule list_repos_Inr)

lemma exchange_external_Inr:
  "exchange_external A endpoint tok st = (st1, Inr i) \<longleftrightarrow>
    aa_connect A endpoint = None \<and>
    (\<exists>t. aa_exchange_external A tok ''external'' st = (st1, Inr (Some t)) \<and> ut_token t \<noteq> [] \<and>
         i = \<lparr>is_token = ut_token t, is_user_id = ut_user_id t, is_user_name = ut_user_name t,
              is_expires_at = ut_expires_at t\<rparr>)"
  by (auto simp: exchange_external_def auth_connect_def opt_filter_def
      split: option.splits sum.splits prod.splits if_splits)

lemma exchange_resource_Inr:
  "exchange_resource hv A endpoint authn rid st = (st1, Inr tok) \<longleftrightarrow>
    aa_connect A endpoint = None \<and> hv (''Bearer '' @ authn) \<and> tok \<noteq> [] \<and>
    (\<exists>t. aa_exchange_multi A \<lparr>md_ascii = [''authorization'' \<mapsto> ''Bearer '' @ authn], md_bin = Map.empty\<rparr>
           [rid] st = (st1, Inr (Some t)) \<and> ut_token t = tok)"
  by (auto simp: exchange_resource_def auth_connect_def client_bearer_def no_metadata_def Let_def
      opt_filter_def split: option.splits sum.splits prod.splits if_splits)

text \<open>A scoped request carries the caller's token and the repository id under both names.\<close>

lemma set_repo_scope_Inr:
  "set_repo_scope hv token rid md = Inr md' \<longleftrightarrow>
    hv (''Bearer '' @ token) \<and>
    md' = \<lparr>md_ascii = (md_ascii md)(''authorization'' \<mapsto> ''Bearer '' @ token),
           md_bin = (md_bin md)(''lore-partition-bin'' \<mapsto> rid, ''urc-repository-id-bin'' \<mapsto> rid)\<rparr>"
  by (cases md) (auto simp: set_repo_scope_def set_bearer_def Let_def)

end
