(* ===== verification/Web_App.thy ===== *)
theory Web_App
  imports Web_Clients
begin

text \<open>
  The handlers of \<^verbatim>\<open>web/src/main.rs\<close> and the frontend as a whole.  A handler is
  a function of what the outside world does during the request (\<open>web_outside\<close>: libraries,
  remote services, the successive clock readings and the random bits drawn), the configuration, the
  request and the state, and returns the state and the response.  A handler that panics is the
  response \<open>HandlerPanic\<close>.  The log lines on standard error are left out.
\<close>

section \<open>State, configuration, outside world\<close>

datatype body = EmptyBody | Text string | JsonBody json

datatype response = Response nat "(string \<times> string) list" body | HandlerPanic

record ('k, 'u, 'a) web_outside =
  wo_http :: http
  wo_serde :: serde
  wo_crypto :: "'k crypto"
  wo_urls :: "'u urls"
  wo_header_value :: "string \<Rightarrow> bool"  \<comment> \<open>texts that are header values\<close>
  wo_to_str :: "string \<Rightarrow> string option"
  wo_auth :: "'a auth_api"
  wo_lore :: lore_api
  wo_static :: "string \<Rightarrow> response"  \<comment> \<open>the static files\<close>
  wo_clock :: "nat \<Rightarrow> int"  \<comment> \<open>the readings of \<^verbatim>\<open>now()\<close>, by place\<close>
  wo_sweep :: "string \<Rightarrow> int"  \<comment> \<open>those of a \<^verbatim>\<open>retain\<close> pass, by the key of the entry it visits\<close>
  wo_random :: u128
  wo_bytes :: string  \<comment> \<open>32 random bytes\<close>

record web_config =
  wc_oidc :: oidc
  wc_auth_endpoint :: string
  wc_lore_endpoint :: string
  wc_static_dir :: string
  wc_listen :: string

record 'a web_state =
  wt_store :: web_store
  wt_auth :: 'a  \<comment> \<open>the state of the remote auth service\<close>

definition web_initial :: "'a \<Rightarrow> 'a web_state" where
  "web_initial a = \<lparr>wt_store = web_store_default, wt_auth = a\<rparr>"

section \<open>Helpers\<close>

definition live_session ::
  "('k, 'u, 'a) web_outside \<Rightarrow> string option \<Rightarrow> 'a web_state \<Rightarrow> (string \<times> string \<times> string) option" where
  "live_session w cookies st =
     Option.bind (session_id (wo_to_str w) cookies)
       (\<lambda>sid. session_get (wo_clock w 0) sid (w_sessions (wt_store st)))"

definition redirect :: "(string \<Rightarrow> bool) \<Rightarrow> string \<Rightarrow> string option \<Rightarrow> response" where
  "redirect hv location set_cookie =
     (let headers = (''location'', location) #
            (case set_cookie of None \<Rightarrow> [] | Some c \<Rightarrow> [(''set-cookie'', c)])
      in if list_all (\<lambda>(_, v). hv v) headers then Response 303 headers EmptyBody else HandlerPanic)"

definition summary_json :: "repo_summary \<Rightarrow> json" where
  "summary_json r = JObj
     [(''id'', JStr (rs_id r)), (''name'', JStr (rs_name r)), (''description'', JStr (rs_description r)),
      (''default_branch'', JStr (rs_default_branch r))]"

section \<open>The handlers\<close>

definition login ::
  "('k, 'u, 'a) web_outside \<Rightarrow> web_config \<Rightarrow> 'a web_state \<Rightarrow> 'a web_state \<times> response" where
  "login w cfg st =
     (let state = random_state (wo_random w);
          verifier = code_verifier (wo_crypto w) (wo_bytes w);
          challenge = code_challenge (wo_crypto w) verifier;
          s = wt_store st;
          st1 = st\<lparr>wt_store := s\<lparr>w_pending :=
                    start_login (wo_sweep w) (wo_clock w 1) state verifier (w_pending s)\<rparr>\<rparr>
      in case authorize_url (wo_http w) (wo_serde w) (wo_urls w) (wc_oidc cfg) state challenge of
           Inr url \<Rightarrow> (st1, redirect (wo_header_value w) url None)
         | Inl e \<Rightarrow> (st1, Response 502 [] (Text ''login unavailable'')))"

text \<open>The expiry of a new session and the age of its cookie, from the clock readings of the callback.\<close>

definition session_expiry :: "int \<Rightarrow> int \<Rightarrow> int \<Rightarrow> int" where
  "session_expiry t1 t2 expires = (if expires > t1 then expires else t2 + 3600)"

definition cookie_age :: "int \<Rightarrow> int \<Rightarrow> int" where
  "cookie_age expiry t = max (expiry - t) 0"

text \<open>The second half of \<^verbatim>\<open>callback\<close>, once the pending login is taken.\<close>

definition finish_login ::
  "('k, 'u, 'a) web_outside \<Rightarrow> web_config \<Rightarrow> string \<Rightarrow> string \<Rightarrow> 'a web_state \<Rightarrow> 'a web_state \<times> response" where
  "finish_login w cfg code verifier st =
     (case exchange_code (wo_http w) (wo_serde w) (wc_oidc cfg) code verifier of
        Inl e \<Rightarrow> (st, redirect (wo_header_value w) ''/?login=failed'' None)
      | Inr id_token \<Rightarrow>
          (case exchange_external (wo_auth w) (wc_auth_endpoint cfg) id_token (wt_auth st) of
             (a, Inl e) \<Rightarrow>
               (st\<lparr>wt_auth := a\<rparr>, redirect (wo_header_value w) ''/?login=failed'' None)
           | (a, Inr i) \<Rightarrow>
               (let expiry = session_expiry (wo_clock w 1) (wo_clock w 2) (is_expires_at i);
                    sid = random_state (wo_random w);
                    s = wt_store st;
                    s1 = s\<lparr>w_sessions := session_create (wo_sweep w) sid
                           \<lparr>ws_token = is_token i, ws_user_name = is_user_name i,
                            ws_sub = is_user_id i, ws_expires_at = expiry\<rparr> (w_sessions s)\<rparr>
                in (st\<lparr>wt_auth := a, wt_store := s1\<rparr>,
                    redirect (wo_header_value w) ''/''
                      (Some (session_cookie sid (cookie_age expiry (wo_clock w 4))))))))"

definition callback ::
  "('k, 'u, 'a) web_outside \<Rightarrow> web_config \<Rightarrow> string option \<Rightarrow> string option \<Rightarrow> string option \<Rightarrow>
   'a web_state \<Rightarrow> 'a web_state \<times> response" where
  "callback w cfg code state err st =
     (case err of
        Some e \<Rightarrow> (st, redirect (wo_header_value w) ''/?login=failed'' None)
      | None \<Rightarrow>
          (case (code, state) of
             (Some c, Some s) \<Rightarrow>
               (case take_pending (wo_clock w 0) s (w_pending (wt_store st)) of
                  (m, None) \<Rightarrow>
                    (st\<lparr>wt_store := (wt_store st)\<lparr>w_pending := m\<rparr>\<rparr>,
                     redirect (wo_header_value w) ''/?login=failed'' None)
                | (m, Some verifier) \<Rightarrow>
                    finish_login w cfg c verifier (st\<lparr>wt_store := (wt_store st)\<lparr>w_pending := m\<rparr>\<rparr>))
           | _ \<Rightarrow> (st, redirect (wo_header_value w) ''/?login=failed'' None)))"

definition logout ::
  "('k, 'u, 'a) web_outside \<Rightarrow> string option \<Rightarrow> 'a web_state \<Rightarrow> 'a web_state \<times> response" where
  "logout w cookies st =
     (let st1 = (case session_id (wo_to_str w) cookies of
                   None \<Rightarrow> st
                 | Some sid \<Rightarrow>
                     st\<lparr>wt_store := (wt_store st)\<lparr>w_sessions :=
                        session_remove sid (w_sessions (wt_store st))\<rparr>\<rparr>)
      in (st1, redirect (wo_header_value w) ''/'' (Some clear_cookie)))"

definition me :: "('k, 'u, 'a) web_outside \<Rightarrow> string option \<Rightarrow> 'a web_state \<Rightarrow> response" where
  "me w cookies st =
     (case live_session w cookies st of
        Some (_, user_name, sub) \<Rightarrow>
          Response 200 [] (JsonBody (JObj [(''user_name'', JStr user_name), (''sub'', JStr sub)]))
      | None \<Rightarrow> Response 401 [] (Text ''not logged in''))"

definition repos ::
  "('k, 'u, 'a) web_outside \<Rightarrow> web_config \<Rightarrow> string option \<Rightarrow> 'a web_state \<Rightarrow> response" where
  "repos w cfg cookies st =
     (case live_session w cookies st of
        None \<Rightarrow> Response 401 [] (Text ''not logged in'')
      | Some (token, _, _) \<Rightarrow>
          (case list_repos (wo_header_value w) (wo_lore w) (wc_lore_endpoint cfg) token of
             Inr l \<Rightarrow> Response 200 [] (JsonBody (JArr (map summary_json l)))
           | Inl e \<Rightarrow> Response 502 [] (Text ''could not list repositories'')))"

section \<open>The frontend\<close>

text \<open>A GET request: its path, the three query fields a callback has, and its cookie header.\<close>

record web_request =
  wr_path :: string
  wr_code :: "string option"
  wr_state :: "string option"
  wr_error :: "string option"
  wr_cookies :: "string option"

definition web_serve ::
  "('k, 'u, 'a) web_outside \<Rightarrow> web_config \<Rightarrow> web_request \<Rightarrow> 'a web_state \<Rightarrow> 'a web_state \<times> response" where
  "web_serve w cfg r st =
     (if wr_path r = ''/healthz'' then (st, Response 200 [] (Text ''ok''))
      else if wr_path r = ''/auth/login'' then login w cfg st
      else if wr_path r = ''/auth/callback'' then callback w cfg (wr_code r) (wr_state r) (wr_error r) st
      else if wr_path r = ''/auth/logout'' then logout w (wr_cookies r) st
      else if wr_path r = ''/api/me'' then (st, me w (wr_cookies r) st)
      else if wr_path r = ''/api/repos'' then (st, repos w cfg (wr_cookies r) st)
      else (st, wo_static w (wr_path r)))"

fun web_run ::
  "web_config \<Rightarrow> (('k, 'u, 'a) web_outside \<times> web_request) list \<Rightarrow> 'a web_state \<Rightarrow> 'a web_state" where
  "web_run cfg [] st = st"
| "web_run cfg ((w, r) # evs) st = web_run cfg evs (fst (web_serve w cfg r st))"

definition env_or :: "(string \<rightharpoonup> string) \<Rightarrow> string \<Rightarrow> string \<Rightarrow> string" where
  "env_or vars key dflt = (case vars key of Some v \<Rightarrow> v | None \<Rightarrow> dflt)"

definition env_req :: "(string \<rightharpoonup> string) \<Rightarrow> string \<Rightarrow> string + string" where
  "env_req vars key =
     (case vars key of Some v \<Rightarrow> Inr v | None \<Rightarrow> Inl (''missing required env var '' @ key))"

text \<open>\<^verbatim>\<open>main\<close> up to serving; \<open>bind\<close> gives the error of the listener.\<close>

definition web_main ::
  "(string \<Rightarrow> string option) \<Rightarrow> (string \<rightharpoonup> string) \<Rightarrow> string + web_config" where
  "web_main bind vars =
     (case env_req vars ''KAGUYA_WEB_OIDC_ISSUER'' of
        Inl e \<Rightarrow> Inl e
      | Inr issuer \<Rightarrow>
     (case env_req vars ''KAGUYA_WEB_CLIENT_ID'' of
        Inl e \<Rightarrow> Inl e
      | Inr client_id \<Rightarrow>
     (case env_req vars ''KAGUYA_WEB_REDIRECT_URI'' of
        Inl e \<Rightarrow> Inl e
      | Inr redirect_uri \<Rightarrow>
          (let listen = env_or vars ''KAGUYA_WEB_LISTEN'' ''0.0.0.0:8090'' in
           case bind listen of
             Some e \<Rightarrow> Inl e
           | None \<Rightarrow>
               Inr \<lparr>wc_oidc = \<lparr>oc_issuer = issuer, oc_client_id = client_id, oc_redirect_uri = redirect_uri\<rparr>,
                    wc_auth_endpoint = env_or vars ''KAGUYA_WEB_AUTH_GRPC'' ''http://auth:8080'',
                    wc_lore_endpoint = env_or vars ''KAGUYA_WEB_LORE_GRPC'' ''http://lore:41337'',
                    wc_static_dir = env_or vars ''KAGUYA_WEB_STATIC_DIR'' ''static'',
                    wc_listen = listen\<rparr>))))"

end
