(* ===== verification/Web_Properties.thy ===== *)
theory Web_Properties
  imports Web_App
begin

text \<open>
  What the frontend guarantees over a whole history of requests.  The two tables of its state are
  run as the expiring tables of \<^verbatim>\<open>Web_Store\<close>: \<open>pending_ops\<close> and \<open>session_ops\<close> give the table
  operations a request performs, and the contract of the tables does the rest.
\<close>

section \<open>Requests as table operations\<close>

abbreviation run_pending ::
  "(string \<Rightarrow> int, int, string, string, unit) table_op list \<Rightarrow> (string \<rightharpoonup> pending) \<Rightarrow> (string \<rightharpoonup> pending)" where
  "run_pending \<equiv> run_table (\<lambda>t1 t2 state verifier (_ :: unit) m. start_login t1 t2 state verifier m)
     (\<lambda>state m. fst (take_pending 0 state m))"

abbreviation run_browser ::
  "(string \<Rightarrow> int, int, string, string \<times> string \<times> string, int) table_op list \<Rightarrow> (string \<rightharpoonup> web_session) \<Rightarrow> (string \<rightharpoonup> web_session)" where
  "run_browser \<equiv> run_table (\<lambda>t1 t2 sid (tok, un, sub) e m. session_create t1 sid
      \<lparr>ws_token = tok, ws_user_name = un, ws_sub = sub, ws_expires_at = e\<rparr> m) session_remove"

abbreviation pendings :: "'a web_state \<Rightarrow> (string \<rightharpoonup> pending)" where
  "pendings st \<equiv> w_pending (wt_store st)"

abbreviation browser_sessions :: "'a web_state \<Rightarrow> (string \<rightharpoonup> web_session)" where
  "browser_sessions st \<equiv> w_sessions (wt_store st)"

definition callback_state :: "web_request \<Rightarrow> (string \<times> string) option" where
  "callback_state r =
     (if wr_path r = ''/auth/callback'' \<and> wr_error r = None
      then Option.bind (wr_code r) (\<lambda>c. map_option (\<lambda>s. (c, s)) (wr_state r)) else None)"

definition pending_ops ::
  "('k, 'u, 'a) web_outside \<times> web_request \<Rightarrow> (string \<Rightarrow> int, int, string, string, unit) table_op list" where
  "pending_ops = (\<lambda>(w, r).
     if wr_path r = ''/auth/login''
     then [Put (wo_sweep w) (wo_clock w 1) (random_state (wo_random w))
             (code_verifier (wo_crypto w) (wo_bytes w)) ()]
     else case callback_state r of None \<Rightarrow> [] | Some (c, s) \<Rightarrow> [Del s])"

text \<open>The login a callback completes: what the auth service issued.\<close>

definition completes ::
  "('k, 'u, 'a) web_outside \<Rightarrow> web_config \<Rightarrow> web_request \<Rightarrow> 'a web_state \<Rightarrow> issued option" where
  "completes w cfg r st =
     (case callback_state r of
        None \<Rightarrow> None
      | Some (c, s) \<Rightarrow>
          (case snd (take_pending (wo_clock w 0) s (pendings st)) of
             None \<Rightarrow> None
           | Some v \<Rightarrow>
               (case exchange_code (wo_http w) (wo_serde w) (wc_oidc cfg) c v of
                  Inl e \<Rightarrow> None
                | Inr t \<Rightarrow> right_of (snd (exchange_external (wo_auth w) (wc_auth_endpoint cfg) t (wt_auth st))))))"

definition session_ops ::
  "('k, 'u, 'a) web_outside \<Rightarrow> web_config \<Rightarrow> web_request \<Rightarrow> 'a web_state \<Rightarrow>
   (string \<Rightarrow> int, int, string, string \<times> string \<times> string, int) table_op list" where
  "session_ops w cfg r st =
     (if wr_path r = ''/auth/logout''
      then (case session_id (wo_to_str w) (wr_cookies r) of None \<Rightarrow> [] | Some sid \<Rightarrow> [Del sid])
      else (case completes w cfg r st of
              None \<Rightarrow> []
            | Some i \<Rightarrow>
                [Put (wo_sweep w) 0 (random_state (wo_random w))
                   (is_token i, is_user_name i, is_user_id i)
                   (session_expiry (wo_clock w 1) (wo_clock w 2) (is_expires_at i))]))"

fun session_trace ::
  "web_config \<Rightarrow> (('k, 'u, 'a) web_outside \<times> web_request) list \<Rightarrow> 'a web_state \<Rightarrow>
   (string \<Rightarrow> int, int, string, string \<times> string \<times> string, int) table_op list" where
  "session_trace cfg [] st = []"
| "session_trace cfg ((w, r) # evs) st =
     session_ops w cfg r st @ session_trace cfg evs (fst (web_serve w cfg r st))"

lemma take_pending_eq:
  "take_pending t s m = (m(s := None), snd (take_pending t s m))"
  by (simp add: take_pending_def)

lemma pendings_finish [simp]: "pendings (fst (finish_login w cfg c v st)) = pendings st"
  by (simp add: finish_login_def Let_def split: sum.split prod.split)

lemma callback_none:
  "callback_state r = None \<Longrightarrow> wr_path r = ''/auth/callback'' \<Longrightarrow>
    callback w cfg (wr_code r) (wr_state r) (wr_error r) st
      = (st, redirect (wo_header_value w) ''/?login=failed'' None)"
  by (auto simp: callback_state_def callback_def bind_eq_None_conv split: option.splits)

lemma callback_some:
  "callback_state r = Some (c, s) \<Longrightarrow>
    callback w cfg (wr_code r) (wr_state r) (wr_error r) st =
     (let st1 = st\<lparr>wt_store := (wt_store st)\<lparr>w_pending := (pendings st)(s := None)\<rparr>\<rparr> in
      case snd (take_pending (wo_clock w 0) s (pendings st)) of
        None \<Rightarrow> (st1, redirect (wo_header_value w) ''/?login=failed'' None)
      | Some v \<Rightarrow> finish_login w cfg c v st1)"
  by (subst (asm) callback_state_def, simp add: callback_def split: if_splits)
    (auto simp: bind_eq_Some_conv take_pending_def split: option.splits)

lemma callback_state_path: "callback_state r = Some cs \<Longrightarrow> wr_path r = ''/auth/callback''"
  by (simp add: callback_state_def split: if_splits)

lemma pending_serve:
  "pendings (fst (web_serve w cfg r st)) = run_pending (pending_ops (w, r)) (pendings st)"
proof (cases "callback_state r")
  case None
  then show ?thesis
    by (auto simp: web_serve_def pending_ops_def login_def logout_def callback_none Let_def
        split: sum.split option.split)
next
  case (Some cs)
  obtain c s where cs: "cs = (c, s)" by (cases cs)
  from Some cs show ?thesis
    by (simp add: callback_state_path web_serve_def pending_ops_def callback_some take_pending_def Let_def
        split: option.split)
qed

lemma pending_run:
  "pendings (web_run cfg evs st) = run_pending (concat (map pending_ops evs)) (pendings st)"
proof (induction evs arbitrary: st)
  case (Cons e evs)
  then show ?case by (cases e) (simp add: pending_serve run_table_append)
qed simp

lemma sessions_finish:
  "browser_sessions (fst (finish_login w cfg c v st)) =
    (case exchange_code (wo_http w) (wo_serde w) (wc_oidc cfg) c v of
       Inl e \<Rightarrow> browser_sessions st
     | Inr t \<Rightarrow>
         (case snd (exchange_external (wo_auth w) (wc_auth_endpoint cfg) t (wt_auth st)) of
            Inl e \<Rightarrow> browser_sessions st
          | Inr i \<Rightarrow> session_create (wo_sweep w) (random_state (wo_random w))
              \<lparr>ws_token = is_token i, ws_user_name = is_user_name i, ws_sub = is_user_id i,
               ws_expires_at = session_expiry (wo_clock w 1) (wo_clock w 2) (is_expires_at i)\<rparr>
              (browser_sessions st)))"
  by (simp add: finish_login_def Let_def split: sum.split prod.split)

lemma sessions_serve:
  "browser_sessions (fst (web_serve w cfg r st)) = run_browser (session_ops w cfg r st) (browser_sessions st)"
proof (cases "callback_state r")
  case None
  then show ?thesis
    by (auto simp: web_serve_def session_ops_def completes_def login_def logout_def callback_none Let_def
        split: sum.split option.split)
next
  case (Some cs)
  obtain c s where cs: "cs = (c, s)" by (cases cs)
  from Some cs show ?thesis
    by (auto simp: callback_state_path web_serve_def session_ops_def completes_def callback_some Let_def
        sessions_finish right_of_def split: option.split sum.split)
qed

lemma sessions_run:
  "browser_sessions (web_run cfg evs st) = run_browser (session_trace cfg evs st) (browser_sessions st)"
proof (induction evs arbitrary: st)
  case (Cons e evs)
  then show ?case by (cases e) (simp add: sessions_serve run_table_append)
qed simp

lemma trace_position:
  "op \<in> set (session_trace cfg evs st) \<Longrightarrow>
    \<exists>xs w r ys. evs = xs @ (w, r) # ys \<and> op \<in> set (session_ops w cfg r (web_run cfg xs st))"
proof (induction evs arbitrary: st)
  case (Cons e evs)
  obtain w r where e: "e = (w, r)" by (cases e)
  from Cons.prems e consider "op \<in> set (session_ops w cfg r st)"
    | "op \<in> set (session_trace cfg evs (fst (web_serve w cfg r st)))" by auto
  then show ?case
  proof cases
    case 1
    with e show ?thesis by (intro exI [of _ "[]"]) auto
  next
    case 2
    from Cons.IH [OF this] obtain xs w' r' ys where "evs = xs @ (w', r') # ys"
      and "op \<in> set (session_ops w' cfg r' (web_run cfg xs (fst (web_serve w cfg r st))))" by blast
    with e show ?thesis by (intro exI [of _ "(w, r) # xs"]) auto
  qed
qed simp


section \<open>Pending logins\<close>

lemma put_in_pending_ops:
  "Put t1 t2 s v u \<in> set (concat (map pending_ops evs)) \<longleftrightarrow>
    (\<exists>(w, r) \<in> set evs. wr_path r = ''/auth/login'' \<and> t1 = wo_sweep w \<and> t2 = wo_clock w 1 \<and>
       s = random_state (wo_random w) \<and> v = code_verifier (wo_crypto w) (wo_bytes w))"
  by (fastforce simp: pending_ops_def split: option.splits prod.splits if_splits)

lemma login_serve:
  "wr_path r = ''/auth/login'' \<Longrightarrow> web_serve w cfg r st = login w cfg st"
  "callback_state r = Some (c, s) \<Longrightarrow>
    web_serve w cfg r st = callback w cfg (wr_code r) (wr_state r) (wr_error r) st"
  by (auto simp: web_serve_def dest: callback_state_path)

text \<open>A live state was drawn by a login of the run, and shows that login's verifier.\<close>

lemma pending_from_login:
  assumes "snd (take_pending t s (pendings (web_run cfg evs (web_initial a)))) = Some v"
  shows "\<exists>(w, r) \<in> set evs. wr_path r = ''/auth/login'' \<and> s = random_state (wo_random w) \<and>
    v = code_verifier (wo_crypto w) (wo_bytes w) \<and> t < wo_clock w 1 + PENDING_TTL"
proof -
  have "pendings (web_run cfg evs (web_initial a)) = run_pending (concat (map pending_ops evs)) Map.empty"
    by (simp add: pending_run web_initial_def web_store_default_def)
  with assms logins.get_run_new [of t s "concat (map pending_ops evs)" v]
  obtain t1 t2 where "Put t1 t2 s v () \<in> set (concat (map pending_ops evs))" and "t < t2 + PENDING_TTL"
    by auto
  then show ?thesis unfolding put_in_pending_ops by blast
qed

lemma pending_used:
  assumes "callback_state r = Some (c, s)"
    and "\<forall>(w', r') \<in> set evs. wr_path r' = ''/auth/login'' \<longrightarrow> random_state (wo_random w') \<noteq> s"
  shows "snd (take_pending t s (pendings (web_run cfg evs (fst (web_serve w cfg r st))))) = None"
proof -
  have "pending_ops (w, r) = [Del s]"
    using assms(1) callback_state_path [OF assms(1)] by (simp add: pending_ops_def)
  then have "pendings (web_run cfg evs (fst (web_serve w cfg r st)))
      = run_pending (Del s # concat (map pending_ops evs)) (pendings st)"
    by (simp add: pending_run pending_serve)
  moreover have "\<forall>t1 t2 p d. Put t1 t2 s p d \<notin> set (concat (map pending_ops evs))"
    using assms(2) unfolding put_in_pending_ops by fastforce
  ultimately show ?thesis
    using logins.get_run_after_del [of s "concat (map pending_ops evs)" t "pendings st"] by simp
qed

text \<open>A login's state works once: once a callback has presented it, whatever happened to that
  callback, every later callback with it is sent back as failed and opens no session, until a login
  draws the same 128 random bits again.\<close>

lemma login_state_single_use:
  assumes "callback_state r = Some (c, s)" and "callback_state r2 = Some (c2, s)"
    and "\<forall>(w', r') \<in> set evs. wr_path r' = ''/auth/login'' \<longrightarrow> random_state (wo_random w') \<noteq> s"
  shows "snd (web_serve w2 cfg r2 (web_run cfg evs (fst (web_serve w cfg r st))))
      = redirect (wo_header_value w2) ''/?login=failed'' None \<and>
    browser_sessions (fst (web_serve w2 cfg r2 (web_run cfg evs (fst (web_serve w cfg r st)))))
      = browser_sessions (web_run cfg evs (fst (web_serve w cfg r st)))"
  using pending_used [OF assms(1,3), of "wo_clock w2 0" cfg w st] assms(2)
  by (simp add: login_serve callback_some Let_def)

text \<open>C19. A login is completed with its own verifier: a callback that presents a login's state within
  ten minutes exchanges its code with the verifier whose challenge that login put into the provider's
  address, whatever other requests come between that neither present nor draw the state and that
  do not sweep it at a clock ahead of the callback's.\<close>

theorem login_then_callback:
  assumes "wr_path r1 = ''/auth/login''" and "s = random_state (wo_random w1)"
    and "v = code_verifier (wo_crypto w1) (wo_bytes w1)"
    and "callback_state r2 = Some (c, s)" and "wo_clock w2 0 < wo_clock w1 1 + 600"
    and "\<forall>(w, r) \<in> set evs. wr_path r = ''/auth/login'' \<longrightarrow>
           random_state (wo_random w) \<noteq> s \<and> wo_sweep w s \<le> wo_clock w2 0"
    and "\<forall>(w, r) \<in> set evs. \<forall>c'. callback_state r \<noteq> Some (c', s)"
    and "st1 = web_run cfg evs (fst (web_serve w1 cfg r1 st))"
  shows "snd (web_serve w1 cfg r1 st) =
      (case authorize_url (wo_http w1) (wo_serde w1) (wo_urls w1) (wc_oidc cfg) s
              (code_challenge (wo_crypto w1) v) of
         Inr url \<Rightarrow> redirect (wo_header_value w1) url None
       | Inl e \<Rightarrow> Response 502 [] (Text ''login unavailable'')) \<and>
    web_serve w2 cfg r2 st1 =
      finish_login w2 cfg c v (st1\<lparr>wt_store := (wt_store st1)\<lparr>w_pending := (pendings st1)(s := None)\<rparr>\<rparr>)"
proof
  show "snd (web_serve w1 cfg r1 st) =
      (case authorize_url (wo_http w1) (wo_serde w1) (wo_urls w1) (wc_oidc cfg) s
              (code_challenge (wo_crypto w1) v) of
         Inr url \<Rightarrow> redirect (wo_header_value w1) url None
       | Inl e \<Rightarrow> Response 502 [] (Text ''login unavailable''))"
    using assms(1-3) by (simp add: login_serve login_def Let_def split: sum.split)
  let ?ops = "concat (map pending_ops evs)" and ?t = "wo_clock w2 0"
  have "\<forall>x \<in> set ?ops. op_key x \<noteq> s \<and> (\<forall>t1 t2 k p d. x = Put t1 t2 k p d \<longrightarrow> t1 s \<le> ?t)"
    using assms(6,7) by (fastforce simp: pending_ops_def split: option.splits if_splits)
  then have kept: "snd (take_pending ?t s (run_pending ?ops m)) = snd (take_pending ?t s m)" for m
    using logins.get_run_kept [of ?ops s ?t m] by blast
  have "snd (take_pending ?t s (pendings st1)) = Some v"
    using assms(1-3,5) unfolding assms(8) pending_run kept pending_serve
    by (simp add: pending_ops_def logins.get_put_same [simplified] PENDING_TTL_def)
  with assms(4) show "web_serve w2 cfg r2 st1 =
      finish_login w2 cfg c v (st1\<lparr>wt_store := (wt_store st1)\<lparr>w_pending := (pendings st1)(s := None)\<rparr>\<rparr>)"
    by (simp add: login_serve callback_some Let_def)
qed

section \<open>Sessions\<close>

lemma completes_Some:
  "completes w cfg r st = Some i \<longleftrightarrow>
    (\<exists>c s v t a. callback_state r = Some (c, s) \<and>
       snd (take_pending (wo_clock w 0) s (pendings st)) = Some v \<and>
       exchange_code (wo_http w) (wo_serde w) (wc_oidc cfg) c v = Inr t \<and>
       exchange_external (wo_auth w) (wc_auth_endpoint cfg) t (wt_auth st) = (a, Inr i))"
  unfolding completes_def prod.case_eq_if
  by (auto split: option.split sum.split) (metis surjective_pairing)+

lemma put_in_session_ops:
  "Put t1 t2 sid p e \<in> set (session_ops w cfg r st) \<longleftrightarrow>
    (\<exists>i. completes w cfg r st = Some i \<and> t1 = wo_sweep w \<and> t2 = 0 \<and> sid = random_state (wo_random w) \<and>
       p = (is_token i, is_user_name i, is_user_id i) \<and>
       e = session_expiry (wo_clock w 1) (wo_clock w 2) (is_expires_at i))"
proof (cases "wr_path r = ''/auth/logout''")
  case True
  then have "completes w cfg r st = None"
    by (simp add: completes_def callback_state_def)
  with True show ?thesis by (simp add: session_ops_def split: option.split)
next
  case False
  then show ?thesis by (cases "completes w cfg r st") (auto simp: session_ops_def)
qed

lemma session_origin:
  assumes "session_get t sid (browser_sessions (web_run cfg evs (web_initial a))) = Some (tok, name, sub)"
  shows "\<exists>xs w r ys c wl rl id_token a' i.
    evs = xs @ (w, r) # ys \<and> sid = random_state (wo_random w) \<and>
    (wl, rl) \<in> set xs \<and> wr_path rl = ''/auth/login'' \<and>
    callback_state r = Some (c, random_state (wo_random wl)) \<and>
    wo_clock w 0 < wo_clock wl 1 + PENDING_TTL \<and>
    exchange_code (wo_http w) (wo_serde w) (wc_oidc cfg) c
      (code_verifier (wo_crypto wl) (wo_bytes wl)) = Inr id_token \<and>
    exchange_external (wo_auth w) (wc_auth_endpoint cfg) id_token
      (wt_auth (web_run cfg xs (web_initial a))) = (a', Inr i) \<and>
    tok = is_token i \<and> name = is_user_name i \<and> sub = is_user_id i \<and>
    t < session_expiry (wo_clock w 1) (wo_clock w 2) (is_expires_at i)"
proof -
  have "browser_sessions (web_run cfg evs (web_initial a))
      = run_browser (session_trace cfg evs (web_initial a)) Map.empty"
    by (simp add: sessions_run web_initial_def web_store_default_def)
  with assms browser.get_run_new [of t sid "session_trace cfg evs (web_initial a)"]
  obtain t1 t2 e where op: "Put t1 t2 sid (tok, name, sub) e \<in> set (session_trace cfg evs (web_initial a))"
    and "t < e" by fastforce
  from trace_position [OF op] obtain xs w r ys where evs: "evs = xs @ (w, r) # ys"
    and "Put t1 t2 sid (tok, name, sub) e \<in> set (session_ops w cfg r (web_run cfg xs (web_initial a)))"
    by blast
  then obtain i c s v idt a' where *: "sid = random_state (wo_random w)" "tok = is_token i"
      "name = is_user_name i" "sub = is_user_id i"
      "e = session_expiry (wo_clock w 1) (wo_clock w 2) (is_expires_at i)"
    and cs: "callback_state r = Some (c, s)"
    and pend: "snd (take_pending (wo_clock w 0) s (pendings (web_run cfg xs (web_initial a)))) = Some v"
    and ex: "exchange_code (wo_http w) (wo_serde w) (wc_oidc cfg) c v = Inr idt"
      "exchange_external (wo_auth w) (wc_auth_endpoint cfg) idt
         (wt_auth (web_run cfg xs (web_initial a))) = (a', Inr i)"
    unfolding put_in_session_ops completes_Some by blast
  from pending_from_login [OF pend] obtain wl rl where "(wl, rl) \<in> set xs" "wr_path rl = ''/auth/login''"
      "s = random_state (wo_random wl)" "v = code_verifier (wo_crypto wl) (wo_bytes wl)"
      "wo_clock w 0 < wo_clock wl 1 + PENDING_TTL" by blast
  with evs * cs ex \<open>t < e\<close> show ?thesis by blast
qed

text \<open>C5. Every session of a reachable state comes from a completed login: the session's id was drawn by
  a callback that presented a state drawn by an earlier login, whose code the provider exchanged, with
  that login's verifier, for an identity token, for which the auth service issued the session's token,
  name and subject; and it is shown only before the expiry that callback computed.\<close>

theorem web_session_provenance:
  assumes "session_get t sid (browser_sessions (web_run cfg evs (web_initial a))) = Some (tok, name, sub)"
  shows "\<exists>xs w r ys c wl rl id_token a' i.
    evs = xs @ (w, r) # ys \<and> sid = random_state (wo_random w) \<and>
    (wl, rl) \<in> set xs \<and> wr_path rl = ''/auth/login'' \<and>
    callback_state r = Some (c, random_state (wo_random wl)) \<and>
    wo_clock w 0 < wo_clock wl 1 + PENDING_TTL \<and>
    exchange_code (wo_http w) (wo_serde w) (wc_oidc cfg) c
      (code_verifier (wo_crypto wl) (wo_bytes wl)) = Inr id_token \<and>
    exchange_external (wo_auth w) (wc_auth_endpoint cfg) id_token
      (wt_auth (web_run cfg xs (web_initial a))) = (a', Inr i) \<and>
    tok = is_token i \<and> name = is_user_name i \<and> sub = is_user_id i \<and>
    t < session_expiry (wo_clock w 1) (wo_clock w 2) (is_expires_at i)"
  using assms by (rule session_origin)


lemma live_session_iff:
  "live_session w h st = Some p \<longleftrightarrow>
    (\<exists>sid. session_id (wo_to_str w) h = Some sid \<and>
           session_get (wo_clock w 0) sid (browser_sessions st) = Some p)"
  by (auto simp: live_session_def bind_eq_Some_conv)

text \<open>The two data endpoints answer only a live session and change nothing: without one both answer
  401; with one, the profile shows its name and subject and the repository list is what loreserver
  gives to the session's token.\<close>

lemma api_answers:
  assumes "wr_path r = ''/api/me'' \<or> wr_path r = ''/api/repos''"
  shows "web_serve w cfg r st = (st,
    case live_session w (wr_cookies r) st of
      None \<Rightarrow> Response 401 [] (Text ''not logged in'')
    | Some (tok, name, sub) \<Rightarrow>
        if wr_path r = ''/api/me''
        then Response 200 [] (JsonBody (JObj [(''user_name'', JStr name), (''sub'', JStr sub)]))
        else (case list_repos (wo_header_value w) (wo_lore w) (wc_lore_endpoint cfg) tok of
                Inl e \<Rightarrow> Response 502 [] (Text ''could not list repositories'')
              | Inr l \<Rightarrow> Response 200 [] (JsonBody (JArr (map summary_json l)))))"
  using assms by (auto simp: web_serve_def me_def repos_def split: option.split)

text \<open>C38. A repository list is shown only to the account it belongs to: in a reachable state the list request is
  refused with 401 unless its cookie names a live session; an answer of 200 holds exactly the repositories
  that loreserver returned for the token stored in that session as the authorization.  That token is the
  one the auth service issued, together with the name and subject of the session, to the earlier callback
  that drew the session's id, in the state that callback met, for the identity token that the provider
  returned for the callback's code and the verifier of the login whose state it presented.  Whatever the
  answer, nothing changes.\<close>

theorem repos_for_session:
  assumes "wr_path r = ''/api/repos''" and "st = web_run cfg evs (web_initial a)"
  shows "fst (web_serve w cfg r st) = st \<and>
    (live_session w (wr_cookies r) st = None \<longrightarrow>
       snd (web_serve w cfg r st) = Response 401 [] (Text ''not logged in'')) \<and>
    (\<forall>hs b. snd (web_serve w cfg r st) = Response 200 hs b \<longrightarrow>
       (\<exists>sid tok name sub ms xs w1 r1 ys c wl rl id_token a' i.
          session_id (wo_to_str w) (wr_cookies r) = Some sid \<and>
          session_get (wo_clock w 0) sid (browser_sessions st) = Some (tok, name, sub) \<and>
          la_repository_list (wo_lore w)
            \<lparr>md_ascii = [''authorization'' \<mapsto> ''Bearer '' @ tok], md_bin = Map.empty\<rparr> None = Inr (map Inr ms) \<and>
          b = JsonBody (JArr (map summary_json (filter_map (map_option summary_of) ms))) \<and>
          evs = xs @ (w1, r1) # ys \<and> sid = random_state (wo_random w1) \<and>
          (wl, rl) \<in> set xs \<and> wr_path rl = ''/auth/login'' \<and>
          callback_state r1 = Some (c, random_state (wo_random wl)) \<and>
          exchange_code (wo_http w1) (wo_serde w1) (wc_oidc cfg) c
            (code_verifier (wo_crypto wl) (wo_bytes wl)) = Inr id_token \<and>
          exchange_external (wo_auth w1) (wc_auth_endpoint cfg) id_token
            (wt_auth (web_run cfg xs (web_initial a))) = (a', Inr i) \<and>
          tok = is_token i \<and> name = is_user_name i \<and> sub = is_user_id i))"
proof (intro conjI allI impI)
  note ans = api_answers [of r w cfg st, OF disjI2 [OF assms(1)]]
  have p: "wr_path r \<noteq> ''/api/me''" using assms(1) by simp
  show "fst (web_serve w cfg r st) = st" by (simp add: ans)
  show "snd (web_serve w cfg r st) = Response 401 [] (Text ''not logged in'')"
    if "live_session w (wr_cookies r) st = None" using that by (simp add: ans)
  fix hs b assume "snd (web_serve w cfg r st) = Response 200 hs b"
  then obtain tok name sub l where live: "live_session w (wr_cookies r) st = Some (tok, name, sub)"
    and l: "list_repos (wo_header_value w) (wo_lore w) (wc_lore_endpoint cfg) tok = Inr l"
    and b: "b = JsonBody (JArr (map summary_json l))"
    by (auto simp: ans p split: option.splits sum.splits)
  from live obtain sid where sid: "session_id (wo_to_str w) (wr_cookies r) = Some sid"
    and get: "session_get (wo_clock w 0) sid (browser_sessions st) = Some (tok, name, sub)"
    unfolding live_session_iff by blast
  from l obtain ms where ms: "la_repository_list (wo_lore w)
      \<lparr>md_ascii = [''authorization'' \<mapsto> ''Bearer '' @ tok], md_bin = Map.empty\<rparr> None = Inr (map Inr ms)"
      "l = filter_map (map_option summary_of) ms"
    unfolding list_repos_Inr by blast
  with sid get b session_origin [OF get [unfolded assms(2)]] show "\<exists>sid tok name sub ms xs w1 r1 ys c wl rl id_token a' i.
      session_id (wo_to_str w) (wr_cookies r) = Some sid \<and>
      session_get (wo_clock w 0) sid (browser_sessions st) = Some (tok, name, sub) \<and>
      la_repository_list (wo_lore w)
        \<lparr>md_ascii = [''authorization'' \<mapsto> ''Bearer '' @ tok], md_bin = Map.empty\<rparr> None = Inr (map Inr ms) \<and>
      b = JsonBody (JArr (map summary_json (filter_map (map_option summary_of) ms))) \<and>
      evs = xs @ (w1, r1) # ys \<and> sid = random_state (wo_random w1) \<and>
      (wl, rl) \<in> set xs \<and> wr_path rl = ''/auth/login'' \<and>
      callback_state r1 = Some (c, random_state (wo_random wl)) \<and>
      exchange_code (wo_http w1) (wo_serde w1) (wc_oidc cfg) c
        (code_verifier (wo_crypto wl) (wo_bytes wl)) = Inr id_token \<and>
      exchange_external (wo_auth w1) (wc_auth_endpoint cfg) id_token
        (wt_auth (web_run cfg xs (web_initial a))) = (a', Inr i) \<and>
      tok = is_token i \<and> name = is_user_name i \<and> sub = is_user_id i"
    by blast
qed

text \<open>Logging out ends the session for good: no later request that carries its cookie is answered
  from a session, whatever happens in between, until a login completes with the same 128 random bits.\<close>

lemma logout_final:
  assumes "wr_path r = ''/auth/logout''" and "session_id (wo_to_str w) (wr_cookies r) = Some sid"
    and "\<forall>(w', r') \<in> set evs. wr_path r' = ''/auth/callback'' \<longrightarrow> random_state (wo_random w') \<noteq> sid"
    and "session_id (wo_to_str w2) h = Some sid"
  shows "live_session w2 h (web_run cfg evs (fst (web_serve w cfg r st))) = None"
proof -
  let ?st1 = "fst (web_serve w cfg r st)"
  have "Put t1 t2 sid p e \<notin> set (session_trace cfg evs ?st1)" for t1 t2 p e
  proof
    assume "Put t1 t2 sid p e \<in> set (session_trace cfg evs ?st1)"
    from trace_position [OF this] obtain xs w' r' ys where "evs = xs @ (w', r') # ys"
      and "Put t1 t2 sid p e \<in> set (session_ops w' cfg r' (web_run cfg xs ?st1))" by blast
    then have "(w', r') \<in> set evs" "sid = random_state (wo_random w')" "wr_path r' = ''/auth/callback''"
      by (auto simp: put_in_session_ops completes_Some dest: callback_state_path)
    with assms(3) show False by fastforce
  qed
  moreover have "browser_sessions (web_run cfg evs ?st1)
      = run_browser (Del sid # session_trace cfg evs ?st1) (browser_sessions st)"
    using assms(1,2) by (simp add: sessions_run sessions_serve session_ops_def)
  ultimately have "session_get (wo_clock w2 0) sid (browser_sessions (web_run cfg evs ?st1)) = None"
    using browser.get_run_after_del [of sid "session_trace cfg evs ?st1" "wo_clock w2 0" "browser_sessions st"]
    by simp
  with assms(4) show ?thesis by (simp add: live_session_def)
qed


text \<open>C28. A login that completes logs the browser in: the answer sets the session's cookie, and a browser that
  sends the cookie back among its others is shown the issued name and subject until the token's expiry
  or, where the auth service issued a token that has already expired, for an hour.\<close>

theorem completed_login_shows:
  assumes "completes w cfg r st = Some i"
    and "wo_to_str w2 h = Some (cookie_header (before @ (COOKIE @ ''='' @ random_state (wo_random w)) # after))"
    and "\<forall>c \<in> set (before @ after). CHR '';'' \<notin> set c"
    and "\<forall>c \<in> set before. strip_prefix (COOKIE @ ''='') (str_trim c) = None"
  shows "(\<exists>age \<ge> 0. snd (web_serve w cfg r st) =
      redirect (wo_header_value w) ''/'' (Some (session_cookie (random_state (wo_random w)) age))) \<and>
    live_session w2 (Some h) (fst (web_serve w cfg r st)) =
      (if wo_clock w2 0 < (if is_expires_at i > wo_clock w 1 then is_expires_at i else wo_clock w 2 + 3600)
       then Some (is_token i, is_user_name i, is_user_id i) else None)"
proof -
  from assms(1) obtain c s v t a where cs: "callback_state r = Some (c, s)"
    and v: "snd (take_pending (wo_clock w 0) s (pendings st)) = Some v"
    and t: "exchange_code (wo_http w) (wo_serde w) (wc_oidc cfg) c v = Inr t"
    and a: "exchange_external (wo_auth w) (wc_auth_endpoint cfg) t (wt_auth st) = (a, Inr i)"
    unfolding completes_Some by blast
  have "\<exists>age \<ge> 0. snd (web_serve w cfg r st) =
      redirect (wo_header_value w) ''/'' (Some (session_cookie (random_state (wo_random w)) age))"
    using cs v t a
    by (intro exI [of _ "cookie_age (session_expiry (wo_clock w 1) (wo_clock w 2) (is_expires_at i)) (wo_clock w 4)"])
      (simp add: login_serve callback_some finish_login_def Let_def cookie_age_def)
  moreover have "wr_path r \<noteq> ''/auth/logout''" using callback_state_path [OF cs] by simp
  then have "browser_sessions (fst (web_serve w cfg r st)) =
      session_create (wo_sweep w) (random_state (wo_random w))
        \<lparr>ws_token = is_token i, ws_user_name = is_user_name i, ws_sub = is_user_id i,
         ws_expires_at = session_expiry (wo_clock w 1) (wo_clock w 2) (is_expires_at i)\<rparr>
        (browser_sessions st)"
    using assms(1) by (simp add: sessions_serve session_ops_def)
  ultimately show ?thesis
    using session_id_sent [where to_str = "wo_to_str w2" and h = h and before = before and after = after
        and r = "wo_random w"] assms(2-4)
    by (simp add: live_session_def web_session_defs session_expiry_def)
qed

section \<open>Panics and overflows\<close>

lemma redirect_visible:
  assumes "\<And>s. is_visible s \<Longrightarrow> hv s" and "is_visible l" and "\<And>c. sc = Some c \<Longrightarrow> is_visible c"
  shows "redirect hv l sc \<noteq> HandlerPanic"
  using assms by (cases sc) (auto simp: redirect_def)

lemma lower_hex_visible: "(\<And>c. c \<in> set s \<Longrightarrow> is_lower_hex c) \<Longrightarrow> is_visible s"
  by (fastforce simp: is_visible_def is_lower_hex_def)

lemma is_visible_cookies: "is_visible (session_cookie (random_state r) n)" "is_visible clear_cookie"
proof -
  have v: "is_visible (COOKIE @ ''='')" "is_visible ''; HttpOnly; Secure; SameSite=Lax; Path=/; Max-Age=''"
      "is_visible clear_cookie"
    by code_simp+
  then show "is_visible clear_cookie" by simp
  from v show "is_visible (session_cookie (random_state r) n)"
    unfolding session_cookie_def is_visible_append
    by (auto simp: is_visible_dec_int random_state_id random_id_lower intro!: lower_hex_visible)
qed

text \<open>No request makes a handler panic: every address and cookie the frontend puts into a redirect is a
  header value, given that the URL library prints addresses in printable ASCII and that every
  printable ASCII text is a header value.\<close>

lemma web_never_panics:
  assumes "\<And>s. is_visible s \<Longrightarrow> wo_header_value w s"
    and "\<And>u. is_visible (url_to_string (wo_urls w) u)"
    and "wo_static w (wr_path r) \<noteq> HandlerPanic"
  shows "snd (web_serve w cfg r st) \<noteq> HandlerPanic"
proof -
  have vis: "is_visible ''/?login=failed''" "is_visible ''/''" by code_simp+
  have r: "redirect (wo_header_value w) ''/?login=failed'' None \<noteq> HandlerPanic"
    "redirect (wo_header_value w) ''/'' (Some clear_cookie) \<noteq> HandlerPanic"
    "redirect (wo_header_value w) ''/'' (Some (session_cookie (random_state b) n)) \<noteq> HandlerPanic" for b n
    by (rule redirect_visible [OF assms(1)]; use vis in \<open>auto simp: is_visible_cookies\<close>)+
  have url: "redirect (wo_header_value w) l None \<noteq> HandlerPanic"
    if "authorize_url h sd (wo_urls w) oc s c = Inr l" for h sd oc s c l
    using that assms(2)
    by (intro redirect_visible [OF assms(1)]) (auto simp: authorize_url_def split: sum.splits prod.splits)
  have login: "snd (login w cfg st) \<noteq> HandlerPanic"
    using url by (auto simp: login_def Let_def split: sum.split)
  have finish: "snd (finish_login w cfg c v st') \<noteq> HandlerPanic" for c v st'
    using r by (auto simp: finish_login_def Let_def split: sum.split prod.split)
  have "snd (callback w cfg c s e st) \<noteq> HandlerPanic" for c s e
    using r finish by (auto simp: callback_def split: option.split prod.split)
  with login r assms(3) show ?thesis
    by (auto simp: web_serve_def logout_def me_def repos_def Let_def split: option.split sum.split)
qed

definition is_i64 :: "int \<Rightarrow> bool" where
  "is_i64 n \<longleftrightarrow> - (2 ^ 63) \<le> n \<and> n < 2 ^ 63"

text \<open>The times fit their 64-bit integers: with clock readings of less than two to the sixty-second
  seconds and any 64-bit expiry from the auth service, the deadline of a pending login, the expiry
  of a session and the age of its cookie are computed without overflow, and the age is not negative.\<close>

lemma web_times_in_range:
  assumes "0 \<le> t1" "t1 < 2 ^ 62" and "0 \<le> t2" "t2 < 2 ^ 62" and "0 \<le> t4" "t4 < 2 ^ 62"
    and "is_i64 e"
  shows "is_i64 (t1 + PENDING_TTL) \<and> is_i64 (t2 + 3600) \<and> is_i64 (session_expiry t1 t2 e) \<and>
    is_i64 (session_expiry t1 t2 e - t4) \<and> 0 \<le> cookie_age (session_expiry t1 t2 e) t4 \<and>
    is_i64 (cookie_age (session_expiry t1 t2 e) t4)"
  using assms by (auto simp: is_i64_def PENDING_TTL_def session_expiry_def cookie_age_def max_def)

end
