(* ===== verification/Example_World.thy ===== *)
theory Example_World
  imports Auth_Main Web_Properties
begin

text \<open>
  A small concrete outside world, on which the theorems of the development are applied: a JWT library
  that knows two tokens of ours and one of the provider, an HTTP library that answers with a discovery
  document, a device authorization, a token answer or a key set, a healthy SQLite, and a frontend whose
  auth service issues one token.
\<close>

section \<open>Tokens\<close>

definition ex_claims :: identity_claims where
  "ex_claims = \<lparr>ic_sub = ''c1'', ic_exp = 5000, ic_preferred_username = None, ic_name = Some ''Ann'',
     ic_email = Some ''Ann@x'', ic_email_verified = Some True\<rparr>"

definition ex_header :: jwt_header where
  "ex_header = \<lparr>h_alg = RS256, h_kid = Some ''ours''\<rparr>"

definition ex_minted :: minted_claims where
  "ex_minted = \<lparr>mc_iss = ''S'', mc_sub = ''ann@x'', mc_aud = [''A''], mc_iat = 1000, mc_exp = 5000,
     mc_name = ''Ann'', mc_preferred_username = ''Ann@x'', mc_is_service_account = False, mc_resources = []\<rparr>"

definition ex_scoped :: minted_claims where
  "ex_scoped = ex_minted\<lparr>mc_resources := [\<lparr>resource_id = ''urc-1'', permission = permissions Owner\<rparr>]\<rparr>"

definition ex_encode :: "jwt_header \<Rightarrow> minted_claims \<Rightarrow> string \<Rightarrow> string + string" where
  "ex_encode h mc k =
     (if h \<noteq> ex_header \<or> k \<noteq> ''sk'' then Inl ''unknown''
      else if mc = ex_minted then Inr ''tok1'' else if mc = ex_scoped then Inr ''tok2'' else Inl ''unknown'')"

definition ex_open :: "string \<Rightarrow> minted_claims option" where
  "ex_open tok = (if tok = ''tok1'' then Some ex_minted else if tok = ''tok2'' then Some ex_scoped else None)"

definition ex_decode :: "nat \<Rightarrow> string \<Rightarrow> string \<Rightarrow> validation \<Rightarrow> string + identity_claims" where
  "ex_decode now tok key v =
     (if key = ''own''
      then (case ex_open tok of
              None \<Rightarrow> Inl ''bad signature''
            | Some mc \<Rightarrow> if accepts v now ex_header mc then Inr (identity_of mc) else Inl ''rejected'')
      else if key = ''idp'' \<and> tok = ''idtok'' then Inr ex_claims else Inl ''bad signature'')"

definition ex_jwt :: "string jwt" where
  "ex_jwt = \<lparr>decode_header = (\<lambda>_. Inr (Some ''k1'')),
     jwks_find = (\<lambda>ks k. if k = ''k1'' then Some ks else None),
     key_of_jwk = (\<lambda>k. Inr k), jwk_of_json = (\<lambda>_. Inr ''own''), jwks_of_json = (\<lambda>_. Inr ''idp''),
     jwt_decode = ex_decode, jwt_encode = ex_encode\<rparr>"

lemma ex_minted_scoped: "ex_minted \<noteq> ex_scoped"
  by (simp add: ex_scoped_def ex_minted_def)

lemma ex_encode_Inr:
  "ex_encode h mc k = Inr tok \<longleftrightarrow> h = ex_header \<and> k = ''sk'' \<and> ex_open tok = Some mc"
  using ex_minted_scoped by (auto simp: ex_encode_def ex_open_def)

lemma ex_decodes_own: "decodes_own ex_jwt ''sk'' ''own''"
  by (auto simp: decodes_own_def ex_jwt_def ex_encode_Inr ex_decode_def)

lemma ex_unforgeable: "unforgeable ex_jwt ''sk'' ''own''"
  by (fastforce simp: unforgeable_def ex_jwt_def ex_encode_Inr ex_decode_def split: option.splits if_splits)

section \<open>The auth service's world\<close>

definition ex_parse :: "string \<Rightarrow> string + json" where
  "ex_parse s =
     (if s = ''disc'' then Inr (JObj [(''jwks_uri'', JStr ''J''), (''authorization_endpoint'', JStr ''Z''),
        (''token_endpoint'', JStr ''T''), (''device_authorization_endpoint'', JStr ''V'')])
      else if s = ''dev'' then Inr (JObj [(''device_code'', JStr ''dc''), (''verification_uri'', JStr ''page'')])
      else if s = ''tok'' then Inr (JObj [(''id_token'', JStr ''idtok'')])
      else if s = ''keys'' then Inr (JObj []) else Inl ''not JSON'')"

definition ex_serde :: serde where
  "ex_serde = \<lparr>parse_json = ex_parse, print_json = (\<lambda>_. ''printed''), de_message = (\<lambda>k. k)\<rparr>"

definition ex_http :: http where
  "ex_http = \<lparr>http_get = (\<lambda>u. Reply 200 (Inr (if u = ''J'' then ''keys'' else ''disc''))),
     http_post = (\<lambda>u f. Reply 200 (Inr (if u = ''V'' then ''dev'' else ''tok''))),
     status_error = (\<lambda>u n. if n < 400 then None else Some ''status'')\<rparr>"

definition ex_outside :: "string outside" where
  "ex_outside = \<lparr>o_jwt = ex_jwt, o_http = ex_http, o_serde = ex_serde, o_sql = healthy, o_now = 1000,
     o_instant1 = 1, o_instant2 = 2, o_random = 7, o_unicode_lower = id, o_to_str = Some\<rparr>"

definition ex_config :: "string auth_config" where
  "ex_config = \<lparr>ac_signer = \<lparr>encoding_key = ''sk'', kid = ''ours'', own_jwk = JNull\<rparr>,
     ac_identity = \<lparr>id_self = \<lparr>sv_key = ''own'', sv_issuer = ''S'', sv_audience = ''A''\<rparr>,
       id_oidc = \<lparr>ov_issuer = ''I'', ov_audiences = [''A'']\<rparr>\<rparr>,
     ac_device = \<lparr>dl_issuer = ''I'', dl_client_id = ''A''\<rparr>, ac_issuer = ''S'', ac_audience = ''A''\<rparr>"

text \<open>A database in which ann owns one repository.\<close>

definition ex_db :: db where
  "ex_db = \<lparr>resources = [\<lparr>r_urc = ''urc-1'', r_name = ''one'', r_created_at = 900\<rparr>],
     grants = [\<lparr>g_subject = ''ann@x'', g_urc = ''urc-1'', g_role = ''owner''\<rparr>], group_members = []\<rparr>"

definition ex_state :: "string auth_state" where
  "ex_state = \<lparr>as_db = ex_db, as_sessions = sessions_new, as_cache = Some ''idp''\<rparr>"

text \<open>The same with a login session waiting.\<close>

definition ex_waiting :: "string auth_state" where
  "ex_waiting = ex_state\<lparr>as_sessions := [''code'' \<mapsto>
     \<lparr>device_code = ''dc'', token_endpoint = ''T'', client_state = ''cs'', expires_at = 100\<rparr>]\<rparr>"

lemmas ex_world = ex_outside_def ex_config_def ex_state_def ex_waiting_def

lemma ex_serde_simps [simp]:
  "parse_json ex_serde = ex_parse" "de_message ex_serde k = k"
  by (simp_all add: ex_serde_def)

lemma ex_outside_simps [simp]:
  "o_jwt ex_outside = ex_jwt" "o_http ex_outside = ex_http" "o_serde ex_outside = ex_serde"
  "o_sql ex_outside = healthy" "o_now ex_outside = 1000" "o_instant1 ex_outside = 1"
  "o_instant2 ex_outside = 2" "o_random ex_outside = 7" "o_unicode_lower ex_outside = id"
  "o_to_str ex_outside = Some"
  by (simp_all add: ex_outside_def)

lemma ex_config_simps [simp]:
  "ac_issuer ex_config = ''S''" "ac_audience ex_config = ''A''"
  "ac_signer ex_config = \<lparr>encoding_key = ''sk'', kid = ''ours'', own_jwk = JNull\<rparr>"
  "ac_device ex_config = \<lparr>dl_issuer = ''I'', dl_client_id = ''A''\<rparr>"
  "ac_identity ex_config = \<lparr>id_self = \<lparr>sv_key = ''own'', sv_issuer = ''S'', sv_audience = ''A''\<rparr>,
       id_oidc = \<lparr>ov_issuer = ''I'', ov_audiences = [''A'']\<rparr>\<rparr>"
  by (simp_all add: ex_config_def)

lemma ex_config_ok: "config_ok ex_jwt ex_config"
  by (simp add: config_ok_def ex_jwt_def)

lemma ex_db_inv: "store_inv ex_db" "store_inv (as_db ex_state)"
  by (simp_all add: store_inv_def ex_db_def ex_state_def)

text \<open>The bearer of ann, and what the provider's verifier says of the identity token.\<close>

lemma ex_own_claims: "caller_claims ex_outside ex_config ''tok1'' st = (st, Inr (identity_of ex_minted))"
proof -
  have "accepts \<lparr>v_alg = RS256, v_issuers = [''S''], v_audiences = [''A''], v_validate_exp = True\<rparr> 1000 ex_header ex_minted"
    by (simp add: accepts_def ex_header_def ex_minted_def)
  then show ?thesis
    by (simp add: caller_claims_def id_claims_def self_claims_def ex_jwt_def ex_decode_def ex_open_def)
qed

lemma ex_bearer: "bearer Some (Some ''Bearer tok1'') = ''tok1''"
  by (simp add: bearer_def)

lemma ex_caller: "caller ex_outside ex_config (Some ''Bearer tok1'') st = (st, Inr ''ann@x'')"
  by (simp add: caller_def id_subject_def id_claims_def self_claims_def ex_jwt_def ex_decode_def
      bearer_def ex_open_def accepts_def ex_header_def ex_minted_def identity_of_def)

lemma ex_no_caller: "snd (caller ex_outside ex_config None ex_state) = Inl (Invalid ''bad signature'')"
  by (simp add: caller_def id_subject_def id_claims_def self_claims_def oidc_verify_def token_kid_def
      verify_with_jwks_def ex_jwt_def ex_decode_def ex_open_def bearer_def ex_state_def)

lemma ex_provider: "provider_claims ex_outside ex_config ''idtok'' ex_state = (ex_state, Inr ex_claims)"
  by (simp add: provider_claims_def oidc_verify_def token_kid_def verify_with_jwks_def
      ex_jwt_def ex_decode_def ex_state_def)

lemma ex_subject: "canonical_subject id ex_claims = ''ann@x''"
  by code_simp

lemma ex_mint: "mint ex_jwt 1000 \<lparr>encoding_key = ''sk'', kid = ''ours'', own_jwk = JNull\<rparr> ''S'' ''A''
    ''ann@x'' ''Ann'' ''Ann@x'' 5000 [] = Inr ''tok1''"
  by (simp add: mint_def ex_jwt_def ex_encode_def ex_header_def ex_minted_def)

lemma ex_authn: "authn_token ex_outside ex_config ex_claims =
    Inr \<lparr>ut_token = ''tok1'', ut_expires_at = 5000, ut_user_id = ''ann@x'', ut_user_name = ''Ann''\<rparr>"
  by (simp add: authn_token_def ex_subject display_names_def Let_def)
    (simp add: ex_claims_def ex_mint)


lemma ex_roles:
  "role_for healthy ''ann@x'' ''urc-1'' ex_db = Some Owner" "role_for healthy ''ann@x'' ''urc-2'' ex_db = None"
  by code_simp+

lemma ex_scope_exchanged:
  assumes s: "resource_scope healthy ''ann@x'' ex_db ids = mc_resources ex_scoped" and "as_db st = ex_db"
  shows "exchange_multiresource ex_outside ex_config (Some ''Bearer tok1'') ids st =
    (st, Inr \<lparr>ut_token = ''tok2'', ut_expires_at = 5000, ut_user_id = ''ann@x'', ut_user_name = ''Ann''\<rparr>)"
proof -
  have m: "mint ex_jwt 1000 \<lparr>encoding_key = ''sk'', kid = ''ours'', own_jwk = JNull\<rparr> ''S'' ''A''
      ''ann@x'' ''Ann'' ''Ann@x'' 5000 (mc_resources ex_scoped) = Inr ''tok2''"
    by (simp add: mint_def ex_jwt_def ex_encode_def ex_header_def ex_scoped_def ex_minted_def)
  have i: "ic_sub (identity_of ex_minted) = ''ann@x''" "ic_exp (identity_of ex_minted) = 5000"
      "mc_name ex_minted = ''Ann''" "mc_preferred_username ex_minted = ''Ann@x''"
    by (simp_all add: identity_of_def ex_minted_def)
  show ?thesis
    by (simp add: exchange_multiresource_def ex_bearer Let_def ex_own_claims i s m assms(2))
qed

lemma ex_scopes:
  "resource_scope healthy ''ann@x'' ex_db [''urc-1''] = mc_resources ex_scoped"
  "resource_scope healthy ''ann@x'' ex_db [''urc-1'', ''urc-2''] = mc_resources ex_scoped"
  by (simp_all add: resource_scope_def ex_roles ex_scoped_def)

lemma ex_exchange:
  "exchange_multiresource ex_outside ex_config (Some ''Bearer tok1'') [''urc-1'', ''urc-2''] ex_state =
    (ex_state, Inr \<lparr>ut_token = ''tok2'', ut_expires_at = 5000, ut_user_id = ''ann@x'', ut_user_name = ''Ann''\<rparr>)"
  by (rule ex_scope_exchanged [OF ex_scopes(2)]) (simp add: ex_state_def)

lemma ex_poll: "device_flow_poll ex_http ex_serde \<lparr>dl_issuer = ''I'', dl_client_id = ''A''\<rparr> ''T'' ''dc'' = Inr (Token ''idtok'')"
  by (simp add: device_flow_poll_def ex_http_def ex_parse_def de_token_response_def struct_members_def
      de_opt_str_def classify_def)

lemma ex_login:
  "snd (get_auth_session ex_outside ex_config ''code'' ''cs'' ex_waiting) =
    Inr (Some \<lparr>ut_token = ''tok1'', ut_expires_at = 5000, ut_user_id = ''ann@x'', ut_user_name = ''Ann''\<rparr>)"
proof -
  have p: "snd (provider_claims ex_outside ex_config ''idtok'' (ex_waiting\<lparr>as_sessions := m\<rparr>)) = Inr ex_claims" for m
    by (simp add: provider_claims_def oidc_verify_def token_kid_def verify_with_jwks_def
        ex_jwt_def ex_decode_def ex_waiting_def ex_state_def)
  obtain st2 where "provider_claims ex_outside ex_config ''idtok'' (ex_waiting\<lparr>as_sessions :=
      fst (sessions_resolve 1 2 ''code'' ''cs'' (as_sessions ex_waiting))\<rparr>) = (st2, Inr ex_claims)"
    using p by (metis surjective_pairing)
  moreover have "sessions_resolve 1 2 ''code'' ''cs'' (as_sessions ex_waiting) =
      (fst (sessions_resolve 1 2 ''code'' ''cs'' (as_sessions ex_waiting)), Some (''dc'', ''T''))"
    by (simp add: sessions_resolve_def Let_def sweep_apply ex_waiting_def)
  ultimately show ?thesis
    by (cases "sessions_resolve 1 2 ''code'' ''cs'' (as_sessions ex_waiting)")
      (simp add: get_auth_session_def ex_poll ex_authn Let_def)
qed

section \<open>The frontend's world\<close>

definition ex_crypto :: "string crypto" where
  "ex_crypto = \<lparr>b64 = id, sha256 = rev, rsa_new = (\<lambda>_. Inr ''rsa''), rsa_to_pem = (\<lambda>_. Inr ''pem''),
     rsa_from_pem = (\<lambda>_. Inr ''rsa''), rsa_n = (\<lambda>_. ''n''), rsa_e = (\<lambda>_. ''e''),
     encoding_key_from_pem = (\<lambda>_. Inr ''sk'')\<rparr>"

definition ex_urls :: "string urls" where
  "ex_urls = \<lparr>url_parse = (\<lambda>s. Inr s), append_pair = (\<lambda>u k v. u), url_to_string = (\<lambda>u. ''https:'')\<rparr>"

definition ex_auth :: "unit auth_api" where
  "ex_auth = \<lparr>aa_connect = (\<lambda>_. None),
     aa_exchange_external = (\<lambda>tok ty st. (st, Inr (Some \<lparr>ut_token = ''tok1'', ut_expires_at = 5000,
        ut_user_id = ''ann@x'', ut_user_name = ''Ann''\<rparr>))),
     aa_exchange_multi = (\<lambda>md ids st. (st, Inr None))\<rparr>"

definition ex_lore :: lore_api where
  "ex_lore = \<lparr>la_connect = (\<lambda>_. None), la_repository_list = (\<lambda>md c. Inr [])\<rparr>"

text \<open>The clock shows 1000 during the whole request, and a given number is drawn.\<close>

definition ex_web :: "'a auth_api \<Rightarrow> u128 \<Rightarrow> (string, string, 'a) web_outside" where
  "ex_web A n = \<lparr>wo_http = ex_http, wo_serde = ex_serde, wo_crypto = ex_crypto, wo_urls = ex_urls,
     wo_header_value = is_visible, wo_to_str = Some, wo_auth = A, wo_lore = ex_lore,
     wo_static = (\<lambda>_. Response 404 [] EmptyBody), wo_clock = (\<lambda>_. 1000), wo_sweep = (\<lambda>_. 1000), wo_random = n, wo_bytes = ''bytes''\<rparr>"

lemma ex_web_simps [simp]:
  "wo_http (ex_web A n) = ex_http" "wo_serde (ex_web A n) = ex_serde" "wo_crypto (ex_web A n) = ex_crypto"
  "wo_urls (ex_web A n) = ex_urls" "wo_header_value (ex_web A n) = is_visible" "wo_to_str (ex_web A n) = Some"
  "wo_auth (ex_web A n) = A" "wo_lore (ex_web A n) = ex_lore"
  "wo_static (ex_web A n) p = Response 404 [] EmptyBody" "wo_clock (ex_web A n) k = 1000" "wo_sweep (ex_web A n) = (\<lambda>_. 1000)"
  "wo_random (ex_web A n) = n" "wo_bytes (ex_web A n) = ''bytes''"
  by (simp_all add: ex_web_def)

definition ex_web_config :: web_config where
  "ex_web_config = \<lparr>wc_oidc = \<lparr>oc_issuer = ''I'', oc_client_id = ''W'', oc_redirect_uri = ''R''\<rparr>,
     wc_auth_endpoint = ''E'', wc_lore_endpoint = ''L'', wc_static_dir = ''static'', wc_listen = ''0''\<rparr>"

definition ex_login_request :: web_request where
  "ex_login_request = \<lparr>wr_path = ''/auth/login'', wr_code = None, wr_state = None, wr_error = None, wr_cookies = None\<rparr>"

definition ex_callback_request :: "u128 \<Rightarrow> web_request" where
  "ex_callback_request n = \<lparr>wr_path = ''/auth/callback'', wr_code = Some ''ac'', wr_state = Some (random_state n),
     wr_error = None, wr_cookies = None\<rparr>"

definition ex_cookie_request :: "string \<Rightarrow> u128 \<Rightarrow> web_request" where
  "ex_cookie_request path n = \<lparr>wr_path = path, wr_code = None, wr_state = None, wr_error = None,
     wr_cookies = Some (COOKIE @ ''='' @ random_state n)\<rparr>"

lemma ex_callback_state [simp]: "callback_state (ex_callback_request n) = Some (''ac'', random_state n)"
  by (simp add: callback_state_def ex_callback_request_def)

lemma ex_callback_path [simp]: "wr_path (ex_callback_request n) = ''/auth/callback''"
  by (simp add: ex_callback_request_def)

lemma ex_discovery [simp]: "discovery_url ''I'' \<noteq> ''J''"
  by code_simp

lemma ex_code: "exchange_code ex_http ex_serde (wc_oidc ex_web_config) c v = Inr ''idtok''"
  by (simp add: exchange_code_def oidc_discovery_def ex_http_def ex_parse_def body_json_def de_str_def
      de_oidc_endpoints_def de_oidc_token_def struct_members_def Let_def ex_web_config_def)

lemma ex_pending:
  "pendings (fst (web_serve (ex_web A n) ex_web_config ex_login_request st)) =
    start_login (\<lambda>_. 1000) 1000 (random_state n) ''bytes'' (pendings st)"
  by (simp add: pending_serve pending_ops_def ex_login_request_def code_verifier_def ex_crypto_def)

lemma ex_taken:
  "snd (take_pending 1000 (random_state n)
     (pendings (fst (web_serve (ex_web A n) ex_web_config ex_login_request st)))) = Some ''bytes''"
  unfolding ex_pending by (simp add: take_pending_def start_login_def PENDING_TTL_def)

definition ex_issued :: issued where
  "ex_issued = \<lparr>is_token = ''tok1'', is_user_id = ''ann@x'', is_user_name = ''Ann'', is_expires_at = 5000\<rparr>"

text \<open>The callback after a login completes it.\<close>

lemma ex_completes:
  "completes (ex_web ex_auth m) ex_web_config (ex_callback_request n)
     (fst (web_serve (ex_web ex_auth n) ex_web_config ex_login_request st)) = Some ex_issued"
  by (simp add: completes_def ex_taken ex_code exchange_external_def auth_connect_def ex_auth_def ex_issued_def)

end
