(* ===== verification/Witnesses.thy ===== *)
theory Witnesses
  imports Example_World
begin

text \<open>
  The properties that have hypotheses, each applied in the example world, where its hypotheses hold.
\<close>

section \<open>The store\<close>

definition ex_blind :: sql_env where
  "ex_blind = \<lparr>sql_fails = (\<lambda>_ _. None), sql_order = (\<lambda>_. [])\<rparr>"

definition ex_no_grants :: sql_env where
  "ex_no_grants = \<lparr>sql_fails = (\<lambda>st d. case st of InsertOwner s u \<Rightarrow> Some ''disk full'' | _ \<Rightarrow> None),
     sql_order = (\<lambda>n. [0..<n])\<rparr>"

lemma role_for_policy_witness:
  "role_for healthy ''ann@x'' ''urc-1'' ex_db = policy_role (abs_db ex_db) ''ann@x'' ''urc-1''"
  by (rule role_for_policy) (simp_all add: ex_db_inv)

lemma role_for_never_more_witness:
  "role_for ex_blind ''ann@x'' ''urc-1'' ex_db \<le> policy_role (abs_db ex_db) ''ann@x'' ''urc-1''"
  by (rule role_for_never_more) (simp add: ex_db_inv)

lemma record_owner_role_witness:
  "role_for healthy ''bob'' ''urc-2'' (fst (record_owner healthy 0 ''bob'' ''urc-2'' ''two'' ex_db)) = Some Owner"
proof -
  have n: "''urc-2'' \<notin> p_created (abs_db ex_db)" "p_granted (abs_db ex_db) (''bob'', ''urc-2'') = None"
    by (simp_all add: abs_db_def ex_db_def granted_map_def grant_key_def)
  show ?thesis
    using record_owner_role [OF ex_db_inv(1) healthy_ok n(1), of "''bob''" 0 "''two''"] n(2) by simp
qed

lemma granted_owner_not_reserved_witness:
  "let d1 = fst (store_grant healthy ''bob'' ''urc-2'' Owner ex_db);
       d2 = fst (record_owner healthy 1000 ''mallory'' ''urc-2'' ''two'' d1) in
   role_for healthy ''bob'' ''urc-2'' d1 = Some Owner \<and> role_for healthy ''mallory'' ''urc-2'' d1 = None \<and>
   role_for healthy ''mallory'' ''urc-2'' d2 = Some Owner \<and> role_for healthy ''bob'' ''urc-2'' d2 = Some Owner"
proof -
  have n: "''urc-2'' \<notin> p_created (abs_db ex_db)" "p_granted (abs_db ex_db) (''mallory'', ''urc-2'') = None"
    "''bob'' \<notin> policy_subjects (abs_db ex_db) ''mallory''"
    by (simp_all add: abs_db_def ex_db_def granted_map_def grant_key_def policy_subjects_def)
  have "role_for healthy ''mallory'' ''urc-2'' ex_db = None" by code_simp
  with granted_owner_not_reserved [OF ex_db_inv(1) healthy_ok n(1) _ n(2), of "''bob''" 1000 "''two''"] n(3)
  show ?thesis by (simp add: Let_def)
qed

lemma record_owner_half_done_witness:
  "snd (record_owner ex_no_grants 0 ''bob'' ''urc-2'' ''two'' ex_db) = Inl ''disk full'' \<and>
   fst (record_owner healthy 9 ''bob'' ''urc-2'' ''two'' (fst (record_owner ex_no_grants 0 ''bob'' ''urc-2'' ''two'' ex_db)))
     = fst (record_owner ex_no_grants 0 ''bob'' ''urc-2'' ''two'' ex_db)"
proof -
  have "''urc-2'' \<notin> p_created (abs_db ex_db)"
    and "sql_fails ex_no_grants (InsertResource ''urc-2'' ''two'' 0) ex_db = None"
    and "sql_fails ex_no_grants (InsertOwner ''bob'' ''urc-2'')
      (fst (exec_stmt (InsertResource ''urc-2'' ''two'' 0) ex_db)) = Some ''disk full''"
    by (simp_all add: abs_db_def ex_db_def ex_no_grants_def)
  from record_owner_half_done [OF this, of healthy 9 "''bob''" "''two''"] show ?thesis
    unfolding Let_def by blast
qed

lemma grant_revoke_frame_witness:
  "role_for healthy ''ann@x'' ''urc-1'' (fst (store_grant healthy ''bob'' ''urc-1'' Member ex_db))
     = role_for healthy ''ann@x'' ''urc-1'' ex_db \<and>
   role_for healthy ''ann@x'' ''urc-1'' (fst (revoke healthy ''bob'' ''urc-1'' ex_db))
     = role_for healthy ''ann@x'' ''urc-1'' ex_db"
  by (rule grant_revoke_frame) (simp add: policy_subjects_def abs_db_def ex_db_def)

lemma grant_effective_witness:
  "Some Member \<le> role_for healthy ''bob'' ''urc-1'' (fst (store_grant healthy ''bob'' ''urc-1'' Member ex_db)) \<and>
   p_granted (abs_db (fst (store_grant healthy ''bob'' ''urc-1'' Member ex_db))) (''bob'', ''urc-1'') = Some (as_str Member) \<and>
   snd (revoke healthy ''bob'' ''urc-1'' (fst (store_grant healthy ''bob'' ''urc-1'' Member ex_db))) = Inr 1"
  by (rule grant_effective) (simp_all add: ex_db_inv)

lemma add_group_member_role_witness:
  "role_for healthy ''bob'' ''urc-1'' (fst (add_group_member healthy ''g'' ''bob'' ex_db)) =
    max (role_for healthy ''bob'' ''urc-1'' ex_db)
      (Option.bind (p_granted (abs_db ex_db) (''group:'' @ ''g'', ''urc-1'')) role_parse)"
  by (rule add_group_member_role) (simp_all add: ex_db_inv)

lemma list_grants_sorted_witness:
  "sorted (map fst (list_grants healthy ''urc-1'' ex_db)) \<and>
   ((''ann@x'', ''owner'') \<in> set (list_grants healthy ''urc-1'' ex_db) \<longleftrightarrow>
     p_granted (abs_db ex_db) (''ann@x'', ''urc-1'') = Some ''owner'')"
  by (rule list_grants_sorted) (simp_all add: ex_db_inv)

section \<open>The auth service\<close>

definition ex_creation :: "string event" where
  "ex_creation = Request ex_outside (Some ''Bearer tok1'') (CreateResource ''urc-9'' ''nine'')"

definition ex_created :: "string auth_state" where
  "ex_created = fst (serve ex_outside ex_config (Some ''Bearer tok1'') (CreateResource ''urc-9'' ''nine'') fresh_state)"

lemma ex_creation_run: "auth_run ex_config [ex_creation] fresh_state ex_created"
proof -
  have "auth_run ex_config ([] @ [ex_creation]) fresh_state ex_created"
    unfolding ex_creation_def ex_created_def
    by (rule auth_run.step [OF auth_run.stop auth_step.request])
  then show ?thesis by simp
qed

lemma ex_created_db:
  "as_db ex_created = fst (record_owner healthy 1000 ''ann@x'' ''urc-9'' ''nine'' new_db)"
  by (simp add: ex_created_def map_reply_def create_resource_def ex_caller fresh_state_def split: prod.split sum.split)

lemma auth_run_inv_witness: "auth_inv ex_created"
  by (rule auth_run_inv [OF ex_creation_run]) (simp add: auth_inv_def fresh_state_def codes_ok_ops)

lemma exchange_scope_witness:
  "as_db ex_state = as_db ex_state \<and> (\<exists>c rs.
    snd (caller_claims ex_outside ex_config (bearer Some (Some ''Bearer tok1'')) ex_state) = Inr c \<and>
    mint ex_jwt 1000 (ac_signer ex_config) ''S'' ''A'' (ic_sub c)
      (fst (display_names c)) (snd (display_names c)) (ic_exp c) rs = Inr ''tok2'' \<and>
    ''ann@x'' = ic_sub c \<and> 5000 = sint (ic_exp c) \<and>
    (\<forall>g \<in> set rs. resource_id g \<in> set [''urc-1'', ''urc-2''] \<and>
       (\<exists>r. role_for healthy (ic_sub c) (resource_id g) (as_db ex_state) = Some r \<and>
            set (permission g) \<subseteq> set (permissions r))))"
  using exchange_scope [OF ex_exchange] by simp

lemma accepted_bearer_genuine_witness:
  "(\<exists>h mc. jwt_encode ex_jwt h mc ''sk'' = Inr ''tok1'' \<and> identity_of ex_minted = identity_of mc \<and>
      mc_iss mc = ''S'' \<and> ''A'' \<in> set (mc_aud mc) \<and> 1000 \<le> unat (mc_exp mc) + 60) \<or>
   (\<exists>jwks. (as_cache ex_state = Some jwks \<or> oidc_fetch ex_jwt ex_http ex_serde ''I'' = Inr jwks) \<and>
      verify_with_jwks ex_jwt 1000 ''tok1'' jwks ''I'' [''A''] = Inr (identity_of ex_minted))"
  using accepted_bearer_genuine [of ex_outside "''sk''" ex_config "''tok1''" ex_state "identity_of ex_minted"]
  by (simp add: ex_unforgeable ex_own_claims)

lemma login_token_witness:
  "\<exists>s id_token c. as_sessions ex_waiting ''code'' = Some s \<and> client_state s = ''cs'' \<and>
    2 < expires_at s \<and>
    device_flow_poll ex_http ex_serde (ac_device ex_config) (token_endpoint s) (device_code s)
      = Inr (Token id_token) \<and>
    snd (provider_claims ex_outside ex_config id_token ex_waiting) = Inr c \<and>
    mint ex_jwt 1000 (ac_signer ex_config) ''S'' ''A''
      (canonical_subject id c) (fst (display_names c)) (snd (display_names c)) (ic_exp c) [] = Inr ''tok1'' \<and>
    ''ann@x'' = canonical_subject id c"
  using login_token [OF ex_login] by simp

lemma login_single_use_witness:
  "snd (get_auth_session ex_outside ex_config ''code'' ''cs''
      (fst (get_auth_session ex_outside ex_config ''code'' ''cs'' ex_waiting)))
    = Inl (NotFound ''unknown or expired login session'')"
  by (rule login_single_use [OF disjI1 [OF ex_login]])

lemma ex_start: "device_flow_start ex_http ex_serde (ac_device ex_config) =
    Inr \<lparr>ds_device_code = ''dc'', ds_login_url = ''page'', ds_token_endpoint = ''T'', ds_expires_in = 0\<rparr>"
  by (simp add: device_flow_start_def device_discovery_def ex_http_def ex_parse_def body_json_def de_str_def
      de_opt_str_def de_u64_default_def de_discovery_def de_device_code_response_def struct_members_def Let_def)

lemma login_lifetime_witness:
  "\<exists>ds. device_flow_start ex_http ex_serde (ac_device ex_config) = Inr ds \<and> ''page'' = ds_login_url ds \<and>
    snd (sessions_resolve 3 4 (random_id 7) ''cs''
      (as_sessions (fst (start_auth_session ex_outside ex_config ''cs'' ex_waiting)))) =
      Some (ds_device_code ds, ds_token_endpoint ds)"
proof -
  have "start_auth_session ex_outside ex_config ''cs'' ex_waiting =
      (fst (start_auth_session ex_outside ex_config ''cs'' ex_waiting), Inr (random_id 7, ''page''))"
    by (simp add: start_auth_session_def ex_start [simplified] Let_def)
  from login_lifetime [OF this, of 3 4 "random_id 7" "''cs''"] show ?thesis
    by (simp add: ex_start [simplified] from_secs_def Let_def)
qed

lemma lookup_exact_witness:
  "\<exists>rids. distinct rids \<and>
    set rids = {rid. role_for healthy ''ann@x'' rid (as_db ex_state) \<noteq> None} \<and>
    snd (lookup_user_permissions ex_outside ex_config (Some ''Bearer tok1'') ex_state) =
      Inr (map (\<lambda>rid. grant rid (the (role_for healthy ''ann@x'' rid (as_db ex_state)))) rids)"
  using lookup_exact [of ex_state ex_outside ex_config "Some ''Bearer tok1''" "''ann@x''"]
  by (simp add: ex_db_inv ex_caller)

lemma re_exchange_witness:
  "exchange_multiresource ex_outside ex_config (Some ''Bearer tok1'') [] ex_state =
    (ex_state, case jwt_encode ex_jwt \<lparr>h_alg = RS256, h_kid = Some ''ours''\<rparr>
        (ex_minted\<lparr>mc_iat := of_nat 1000, mc_is_service_account := False,
          mc_resources := resource_scope healthy (mc_sub ex_minted) (as_db ex_state) []\<rparr>) ''sk'' of
       Inl e \<Rightarrow> Inl (Internal ''token issuance failed'')
     | Inr minted \<Rightarrow> Inr \<lparr>ut_token = minted, ut_expires_at = sint (mc_exp ex_minted),
                          ut_user_id = mc_sub ex_minted, ut_user_name = mc_name ex_minted\<rparr>)"
  using re_exchange [where w = ex_outside and cfg = ex_config and k = "Some ''ours''" and mc = ex_minted
      and md = "Some ''Bearer tok1''" and st = ex_state and ids = "[]"]
  by (simp add: ex_decodes_own ex_bearer) (simp add: ex_jwt_def ex_encode_def ex_header_def ex_minted_def)

lemma unauthenticated_refused_witness:
  "(\<exists>m. snd (serve ex_outside ex_config None LookupUserPermissions ex_state) = Inl (Unauthenticated m)) \<and>
    as_db (fst (serve ex_outside ex_config None LookupUserPermissions ex_state)) = as_db ex_state \<and>
    as_sessions (fst (serve ex_outside ex_config None LookupUserPermissions ex_state)) = as_sessions ex_state"
  by (rule unauthenticated_refused [OF ex_no_caller]) simp

lemma db_changes_witness:
  "\<exists>rid sub. snd (caller ex_outside ex_config (Some ''Bearer tok1'') fresh_state) = Inr sub \<and>
    ((\<exists>rname. CreateResource ''urc-9'' ''nine'' = CreateResource rid rname \<and>
        rid \<notin> p_created (abs_db (as_db (fresh_state :: string auth_state)))) \<or>
     (CreateResource ''urc-9'' ''nine'' = DeleteResourceReq rid \<and>
        role_for healthy sub rid (as_db (fresh_state :: string auth_state)) = Some Owner))"
proof (rule db_changes)
  have "fst (record_owner healthy 1000 ''ann@x'' ''urc-9'' ''nine'' new_db) \<noteq> new_db" by code_simp
  then show "as_db (fst (serve ex_outside ex_config (Some ''Bearer tok1'') (CreateResource ''urc-9'' ''nine'') fresh_state))
      \<noteq> as_db fresh_state"
    using ex_created_db by (simp add: ex_created_def fresh_state_def)
qed


lemma request_no_promotion_witness:
  "role_for healthy ''bob'' ''urc-9'' (as_db ex_created) \<le> role_for healthy ''bob'' ''urc-9'' new_db"
  using request_no_promotion [of "''bob''" "''urc-9''" ex_outside ex_config "Some ''Bearer tok1''"
      "CreateResource ''urc-9'' ''nine''" fresh_state]
  by (auto simp: ex_created_def ex_caller policy_subjects_def abs_db_def new_db_def fresh_state_def
      simp del: serve.simps)

definition ex_fs :: fs_env where
  "ex_fs = \<lparr>mkdir_fails = (\<lambda>_. None), stat_fails = (\<lambda>_. False), read_fails = (\<lambda>_. None), write_fails = (\<lambda>_. None)\<rparr>"

definition ex_signer :: "string signer" where
  "ex_signer = \<lparr>encoding_key = ''sk'', kid = thumbprint ex_crypto ''n'' ''e'',
     own_jwk = build_jwk (thumbprint ex_crypto ''n'' ''e'') ''n'' ''e''\<rparr>"

lemma ex_fs_healthy: "fs_healthy ex_fs"
  by (simp add: fs_healthy_def ex_fs_def)

lemma ex_load: "load_or_generate ex_crypto ex_fs dir Map.empty =
    ([path_join dir KEY_FILE \<mapsto> ''pem''], Inr ex_signer)"
  by (simp add: load_or_generate_def ex_fs_def fs_exists_def fs_write_def Let_def from_pkcs8_pem_def
      ex_crypto_def ex_signer_def thumbprint_def)

lemma signing_key_stable_witness:
  "load_or_generate (ex_crypto\<lparr>rsa_new := (\<lambda>_. Inl ''no entropy'')\<rparr>) ex_fs ''/keys''
      (fst (publish ex_serde ex_fs ''/keys'' JNull [path_join ''/keys'' KEY_FILE \<mapsto> ''pem'']))
    = (fst (publish ex_serde ex_fs ''/keys'' JNull [path_join ''/keys'' KEY_FILE \<mapsto> ''pem'']), Inr ex_signer)"
  by (rule signing_key_stable [OF ex_load ex_fs_healthy])

definition ex_vars :: "string \<rightharpoonup> string" where
  "ex_vars = [''KAGUYA_OIDC_ISSUER'' \<mapsto> ''I'', ''KAGUYA_JWT_AUDIENCE'' \<mapsto> ''A'', ''KAGUYA_AUTH_ISSUER'' \<mapsto> ''S'']"

definition ex_started :: "files \<times> (string + string auth_config \<times> string auth_state)" where
  "ex_started = auth_main ex_crypto ex_jwt ex_serde ex_fs (\<lambda>_. None) [db_path ex_vars \<mapsto> ex_db] ex_vars Map.empty"

definition ex_start_config :: "string auth_config" where
  "ex_start_config = ex_config\<lparr>ac_signer := ex_signer\<rparr>"

lemma ex_start_eq:
  "auth_main ex_crypto ex_jwt ex_serde ex_fs (\<lambda>_. None) [db_path ex_vars \<mapsto> ex_db] ex_vars Map.empty =
    (fst ex_started, Inr (ex_start_config, fresh_state\<lparr>as_db := ex_db\<rparr>))"
  by (simp add: ex_started_def auth_main_def env_required_def ex_vars_def ex_load publish_def fs_write_def
      store_open_def self_verifier_new_def ex_jwt_def oidc_audiences_def ex_start_config_def ex_config_def
      fresh_state_def Let_def)
    (simp add: ex_fs_def)

lemma auth_main_consistent_witness:
  "config_ok ex_jwt ex_start_config \<and> ex_vars ''KAGUYA_AUTH_ISSUER'' = Some ''S'' \<and>
    fst ex_started (path_join ''/keys'' JWKS_FILE) =
      Some (print_json ex_serde (JObj [(''keys'', JArr [own_jwk ex_signer])])) \<and>
    as_db (fresh_state\<lparr>as_db := ex_db\<rparr> :: string auth_state) = ex_db"
  using auth_main_consistent [OF ex_start_eq] by (simp add: ex_start_config_def ex_vars_def)

lemma canonical_jwk_inj_witness: "''AQAB'' = ''AQAB'' \<and> ''xyz'' = ''xyz''"
  by (rule canonical_jwk_inj) (simp_all add: char_of_def)

section \<open>The frontend\<close>

lemma repo_id_roundtrip_witness:
  "from_hex (hex [10, 255]) = Ok [10, 255] \<and> ''0aff'' = hex [10, 255] \<and> from_hex ''0aff'' \<noteq> Panic"
proof -
  have "from_hex ''0aff'' = Ok [10, 255]" "\<forall>c \<in> set ''0aff''. is_lower_hex c" "is_ascii ''0aff''"
    by code_simp+
  with repo_id_roundtrip [of "[10, 255]" "''0aff''"] show ?thesis by blast
qed

definition ex_first :: "unit web_state" where
  "ex_first = fst (web_serve (ex_web ex_auth 5) ex_web_config ex_login_request (web_initial ()))"

definition ex_second :: "unit web_state" where
  "ex_second = fst (web_serve (ex_web ex_auth 9) ex_web_config (ex_callback_request 5) ex_first)"

lemma ex_second_run:
  "web_run ex_web_config [(ex_web ex_auth 5, ex_login_request), (ex_web ex_auth 9, ex_callback_request 5)]
     (web_initial ()) = ex_second"
  by (simp add: ex_second_def ex_first_def)

lemma ex_first_completes:
  "completes (ex_web ex_auth 9) ex_web_config (ex_callback_request 5) ex_first = Some ex_issued"
  unfolding ex_first_def by (rule ex_completes)

lemma ex_second_sessions:
  "browser_sessions ex_second = [random_state 9 \<mapsto>
     \<lparr>ws_token = ''tok1'', ws_user_name = ''Ann'', ws_sub = ''ann@x'', ws_expires_at = 5000\<rparr>]"
proof -
  have "browser_sessions ex_first = Map.empty"
    by (simp add: ex_first_def sessions_serve session_ops_def completes_def callback_state_def
        ex_login_request_def web_initial_def web_store_default_def)
  then show ?thesis
    by (simp add: ex_second_def sessions_serve session_ops_def ex_first_completes
        ex_issued_def session_create_def session_expiry_def)
qed

lemma web_session_provenance_witness:
  "\<exists>xs w r ys c wl rl id_token a' i.
    [(ex_web ex_auth 5, ex_login_request), (ex_web ex_auth 9, ex_callback_request 5)] = xs @ (w, r) # ys \<and>
    random_state 9 = random_state (wo_random w) \<and>
    (wl, rl) \<in> set xs \<and> wr_path rl = ''/auth/login'' \<and>
    callback_state r = Some (c, random_state (wo_random wl)) \<and>
    wo_clock w 0 < wo_clock wl 1 + PENDING_TTL \<and>
    exchange_code (wo_http w) (wo_serde w) (wc_oidc ex_web_config) c
      (code_verifier (wo_crypto wl) (wo_bytes wl)) = Inr id_token \<and>
    exchange_external (wo_auth w) (wc_auth_endpoint ex_web_config) id_token
      (wt_auth (web_run ex_web_config xs (web_initial ()))) = (a', Inr i) \<and>
    ''tok1'' = is_token i \<and> ''Ann'' = is_user_name i \<and> ''ann@x'' = is_user_id i \<and>
    1000 < session_expiry (wo_clock w 1) (wo_clock w 2) (is_expires_at i)"
proof (rule web_session_provenance)
  show "session_get 1000 (random_state 9) (browser_sessions (web_run ex_web_config
      [(ex_web ex_auth 5, ex_login_request), (ex_web ex_auth 9, ex_callback_request 5)] (web_initial ())))
      = Some (''tok1'', ''Ann'', ''ann@x'')"
    unfolding ex_second_run ex_second_sessions by (simp add: session_get_def)
qed

lemma login_then_callback_witness:
  "snd (web_serve (ex_web ex_auth 5) ex_web_config ex_login_request (web_initial ())) =
      (case authorize_url (wo_http (ex_web ex_auth 5)) (wo_serde (ex_web ex_auth 5)) (wo_urls (ex_web ex_auth 5))
              (wc_oidc ex_web_config) (random_state 5)
              (code_challenge (wo_crypto (ex_web ex_auth 5)) ''bytes'') of
         Inr url \<Rightarrow> redirect (wo_header_value (ex_web ex_auth 5)) url None
       | Inl e \<Rightarrow> Response 502 [] (Text ''login unavailable'')) \<and>
    web_serve (ex_web ex_auth 9) ex_web_config (ex_callback_request 5) ex_first =
      finish_login (ex_web ex_auth 9) ex_web_config ''ac'' ''bytes''
        (ex_first\<lparr>wt_store := (wt_store ex_first)\<lparr>w_pending := (pendings ex_first)(random_state 5 := None)\<rparr>\<rparr>)"
  by (rule login_then_callback [where evs = "[]"])
    (simp_all add: ex_login_request_def code_verifier_def ex_crypto_def ex_first_def)

lemma login_state_single_use_witness:
  "snd (web_serve (ex_web ex_auth 11) ex_web_config (ex_callback_request 5) (web_run ex_web_config [] ex_second))
      = redirect (wo_header_value (ex_web ex_auth 11)) ''/?login=failed'' None \<and>
    browser_sessions (fst (web_serve (ex_web ex_auth 11) ex_web_config (ex_callback_request 5) (web_run ex_web_config [] ex_second)))
      = browser_sessions (web_run ex_web_config [] ex_second)"
  using login_state_single_use [where w = "ex_web ex_auth 9" and r = "ex_callback_request 5" and st = ex_first
      and ?w2.0 = "ex_web ex_auth 11" and ?r2.0 = "ex_callback_request 5" and evs = "[]" and cfg = ex_web_config
      and c = "''ac''" and ?c2.0 = "''ac''" and s = "random_state 5"]
  by (simp add: ex_second_def)

lemma ex_cookie_id: "session_id Some (Some (COOKIE @ ''='' @ random_state n)) = Some (random_state n)"
  using session_id_sent [where to_str = Some and before = "[]" and after = "[]" and r = n] by simp

lemmas ex_cookie_simps = ex_cookie_id ex_cookie_id [simplified]

text \<open>A loreserver that lists one repository, for ann's token alone.\<close>

definition ex_repository :: repository where
  "ex_repository = \<lparr>r_id = [10, 255], r_name = ''one'', r_description = [], r_default_branch_name = ''main''\<rparr>"

definition ex_repo_web :: "(string, string, unit) web_outside" where
  "ex_repo_web = (ex_web ex_auth 1)\<lparr>wo_lore := ex_lore\<lparr>la_repository_list :=
     \<lambda>md c. if md_ascii md ''authorization'' = Some ''Bearer tok1'' then Inr [Inr (Some ex_repository)] else Inl ''denied''\<rparr>\<rparr>"

lemma ex_repos:
  "snd (web_serve ex_repo_web ex_web_config (ex_cookie_request ''/api/repos'' 9) ex_second) =
    Response 200 [] (JsonBody (JArr [summary_json (summary_of ex_repository)]))"
proof -
  have "live_session ex_repo_web (Some (COOKIE @ ''='' @ random_state 9)) ex_second = Some (''tok1'', ''Ann'', ''ann@x'')"
    by (simp add: live_session_def ex_repo_web_def ex_cookie_simps ex_second_sessions session_get_def)
  moreover have "list_repos is_visible (wo_lore ex_repo_web) e ''tok1'' = Inr [summary_of ex_repository]" for e
    by (simp add: list_repos_def ex_repo_web_def ex_lore_def set_bearer_def no_metadata_def is_visible_def)
  moreover have "wo_header_value ex_repo_web = is_visible" by (simp add: ex_repo_web_def)
  ultimately show ?thesis
    using api_answers [of "ex_cookie_request ''/api/repos'' 9" ex_repo_web ex_web_config ex_second]
    by (simp add: ex_cookie_request_def)
qed

lemma repos_for_session_witness:
  "\<exists>ms xs w1 r1 ys c wl rl id_token a' i.
     session_get 1000 (random_state 9) (browser_sessions ex_second) = Some (''tok1'', ''Ann'', ''ann@x'') \<and>
     la_repository_list (wo_lore ex_repo_web)
       \<lparr>md_ascii = [''authorization'' \<mapsto> ''Bearer tok1''], md_bin = Map.empty\<rparr> None = Inr (map Inr ms) \<and>
     [summary_json (summary_of ex_repository)] = map summary_json (filter_map (map_option summary_of) ms) \<and>
     [(ex_web ex_auth 5, ex_login_request), (ex_web ex_auth 9, ex_callback_request 5)] = xs @ (w1, r1) # ys \<and>
     random_state 9 = random_state (wo_random w1) \<and> (wl, rl) \<in> set xs \<and> wr_path rl = ''/auth/login'' \<and>
     callback_state r1 = Some (c, random_state (wo_random wl)) \<and>
     exchange_code (wo_http w1) (wo_serde w1) (wc_oidc ex_web_config) c
       (code_verifier (wo_crypto wl) (wo_bytes wl)) = Inr id_token \<and>
     exchange_external (wo_auth w1) (wc_auth_endpoint ex_web_config) id_token
       (wt_auth (web_run ex_web_config xs (web_initial ()))) = (a', Inr i) \<and> ''tok1'' = is_token i"
proof -
  have p: "wr_path (ex_cookie_request ''/api/repos'' 9) = ''/api/repos''"
    by (simp add: ex_cookie_request_def)
  have "session_id (wo_to_str ex_repo_web) (wr_cookies (ex_cookie_request ''/api/repos'' 9)) = Some (random_state 9)"
    by (simp add: ex_repo_web_def ex_cookie_request_def ex_cookie_simps)
  moreover have g: "session_get (wo_clock ex_repo_web 0) (random_state 9) (browser_sessions ex_second) =
      Some (''tok1'', ''Ann'', ''ann@x'')"
    by (simp add: ex_repo_web_def ex_second_sessions session_get_def)
  ultimately show ?thesis
    using repos_for_session [OF p ex_second_run [symmetric], THEN conjunct2, THEN conjunct2, rule_format, OF ex_repos]
    by (fastforce simp: ex_second_sessions session_get_def)
qed

lemma logout_final_witness:
  "live_session (ex_web ex_auth 1) (Some (COOKIE @ ''='' @ random_state 9))
     (web_run ex_web_config [] (fst (web_serve (ex_web ex_auth 1) ex_web_config
       (ex_cookie_request ''/auth/logout'' 9) ex_second))) = None"
  by (rule logout_final) (simp_all add: ex_cookie_request_def ex_cookie_simps)

lemma completed_login_shows_witness:
  "(\<exists>age \<ge> 0. snd (web_serve (ex_web ex_auth 9) ex_web_config (ex_callback_request 5) ex_first) =
      redirect is_visible ''/'' (Some (session_cookie (random_state 9) age))) \<and>
    live_session (ex_web ex_auth 1) (Some (COOKIE @ ''='' @ random_state 9))
      (fst (web_serve (ex_web ex_auth 9) ex_web_config (ex_callback_request 5) ex_first)) =
      Some (''tok1'', ''Ann'', ''ann@x'')"
  using completed_login_shows [where w = "ex_web ex_auth 9" and cfg = ex_web_config and r = "ex_callback_request 5"
      and st = ex_first and i = ex_issued and ?w2.0 = "ex_web ex_auth 1" and h = "COOKIE @ ''='' @ random_state 9"
      and before = "[]" and after = "[]"] ex_first_completes
  by (simp add: ex_issued_def)

lemma web_never_panics_witness:
  "snd (web_serve (ex_web ex_auth 9) ex_web_config (ex_callback_request 5) ex_first) \<noteq> HandlerPanic"
proof (rule web_never_panics)
  show "is_visible (url_to_string (wo_urls (ex_web ex_auth 9)) u)" for u
    by (simp add: ex_urls_def is_visible_def)
qed simp_all

lemma web_times_in_range_witness:
  "is_i64 (1000 + PENDING_TTL) \<and> is_i64 (1001 + 3600) \<and> is_i64 (session_expiry 1000 1001 5000) \<and>
    is_i64 (session_expiry 1000 1001 5000 - 1002) \<and> 0 \<le> cookie_age (session_expiry 1000 1001 5000) 1002 \<and>
    is_i64 (cookie_age (session_expiry 1000 1001 5000) 1002)"
  by (rule web_times_in_range) (simp_all add: is_i64_def)

end
