(* ===== verification/Sections.thy ===== *)
theory Sections
  imports Kaguya_Prelude
begin

text \<open>
  Handlers that run concurrently.  A handler is a resumption: it has returned, or it has an atomic
  section to run next (the code between two points where another task may run: an
  \<^verbatim>\<open>await\<close>, or the release of a lock) and goes on depending on what that section saw.
  A pool holds the handlers in flight; a schedule starts handlers, lets one of them run its next
  section, or lets the environment change the shared state.  The rules of this theory show an
  invariant of the shared state, and a property of the replies, section by section.
\<close>

section \<open>Handlers as sections\<close>

text \<open>\<open>'s\<close> is the shared state, \<open>'w\<close> what the outside world does during a section, \<open>'r\<close> the reply.\<close>

datatype ('s, 'w, 'r) act =
    Return 'r
  | Step "'w \<Rightarrow> 's \<Rightarrow> 's" "'w \<Rightarrow> 's \<Rightarrow> ('s, 'w, 'r) act"

lemma act_induct [case_names Return Step, induct type: act]:
  fixes P :: "('s, 'w, 'r) act \<Rightarrow> bool"
  assumes "\<And>r. P (Return r)" and "\<And>g k. (\<And>w s. P (k w s)) \<Longrightarrow> P (Step g k)"
  shows "P a"
proof (rule act.induct)
  fix g :: "'w \<Rightarrow> 's \<Rightarrow> 's" and k :: "'w \<Rightarrow> 's \<Rightarrow> ('s, 'w, 'r) act"
  assume ih: "\<And>f a. f \<in> range k \<Longrightarrow> a \<in> range f \<Longrightarrow> P a"
  show "P (Step g k)" by (rule assms(2)) (rule ih [OF rangeI rangeI])
qed (rule assms(1))

definition atomic :: "('w \<Rightarrow> 's \<Rightarrow> 's \<times> ('s, 'w, 'r) act) \<Rightarrow> ('s, 'w, 'r) act" where
  "atomic h = Step (\<lambda>w s. fst (h w s)) (\<lambda>w s. snd (h w s))"

primrec bind_act :: "('s, 'w, 'r) act \<Rightarrow> ('r \<Rightarrow> ('s, 'w, 't) act) \<Rightarrow> ('s, 'w, 't) act" where
  "bind_act (Return r) f = f r"
| "bind_act (Step g k) f = Step g (\<lambda>w s. bind_act (k w s) f)"

definition map_act :: "('r \<Rightarrow> 't) \<Rightarrow> ('s, 'w, 'r) act \<Rightarrow> ('s, 'w, 't) act" where
  "map_act f a = bind_act a (\<lambda>r. Return (f r))"

lemma bind_atomic [simp]:
  "bind_act (atomic h) f = atomic (\<lambda>w s. (fst (h w s), bind_act (snd (h w s)) f))"
  by (simp add: atomic_def)

lemma bind_assoc: "bind_act (bind_act a f) g = bind_act a (\<lambda>r. bind_act (f r) g)"
  by (induction a) simp_all

text \<open>A handler that no other interrupts, in one world.\<close>

primrec alone :: "'w \<Rightarrow> ('s, 'w, 'r) act \<Rightarrow> 's \<Rightarrow> 's \<times> 'r" where
  "alone w (Return r) s = (s, r)"
| "alone w (Step g k) s = alone w (k w s) (g w s)"

lemma alone_atomic [simp]: "alone w (atomic h) s = alone w (snd (h w s)) (fst (h w s))"
  by (simp add: atomic_def)

lemma alone_bind [simp]:
  "alone w (bind_act a f) s = (case alone w a s of (s', r) \<Rightarrow> alone w (f r) s')"
  by (induction a arbitrary: s) simp_all

lemma alone_map [simp]: "alone w (map_act f a) s = (fst (alone w a s), f (snd (alone w a s)))"
  by (simp add: map_act_def split: prod.split)

section \<open>Safe handlers\<close>

text \<open>
  In worlds that satisfy \<open>W\<close>, every section keeps the invariant \<open>I\<close> and changes the
  state within \<open>G\<close>, whatever states with the invariant the other handlers leave in between,
  and the reply satisfies \<open>R\<close>.
\<close>

primrec safe ::
  "('w \<Rightarrow> bool) \<Rightarrow> ('s \<Rightarrow> bool) \<Rightarrow> ('w \<Rightarrow> 's \<Rightarrow> 's \<Rightarrow> bool) \<Rightarrow> ('r \<Rightarrow> bool) \<Rightarrow> ('s, 'w, 'r) act \<Rightarrow> bool" where
  "safe W I G R (Return r) \<longleftrightarrow> R r"
| "safe W I G R (Step g k) \<longleftrightarrow>
     (\<forall>w s. W w \<longrightarrow> I s \<longrightarrow> I (g w s) \<and> G w s (g w s) \<and> safe W I G R (k w s))"

lemma safe_atomic:
  "safe W I G R (atomic h) \<longleftrightarrow>
     (\<forall>w s. W w \<longrightarrow> I s \<longrightarrow> I (fst (h w s)) \<and> G w s (fst (h w s)) \<and> safe W I G R (snd (h w s)))"
  by (simp add: atomic_def)

lemma safe_atomicI:
  "(\<And>w s. W w \<Longrightarrow> I s \<Longrightarrow> I (fst (h w s)) \<and> G w s (fst (h w s)) \<and> safe W I G R (snd (h w s))) \<Longrightarrow>
    safe W I G R (atomic h)"
  by (simp add: safe_atomic)

lemma safe_bind:
  "safe W I G R a \<Longrightarrow> (\<And>r. R r \<Longrightarrow> safe W I G R' (f r)) \<Longrightarrow> safe W I G R' (bind_act a f)"
  by (induction a) auto

lemma safe_map: "safe W I G (\<lambda>r. R (f r)) a \<Longrightarrow> safe W I G R (map_act f a)"
  unfolding map_act_def by (rule safe_bind) simp_all

lemma safe_weaken:
  "safe W I G R a \<Longrightarrow> (\<And>r. R r \<Longrightarrow> R' r) \<Longrightarrow> safe W I G R' a"
  by (induction a) auto

section \<open>Bounded handlers\<close>

text \<open>At most so many sections, in states with \<open>P\<close>; the reply satisfies \<open>R\<close>.\<close>

primrec ends_within :: "('s \<Rightarrow> bool) \<Rightarrow> ('r \<Rightarrow> bool) \<Rightarrow> ('s, 'w, 'r) act \<Rightarrow> nat \<Rightarrow> bool" where
  "ends_within P R (Return r) n \<longleftrightarrow> R r"
| "ends_within P R (Step g k) n \<longleftrightarrow> 0 < n \<and> (\<forall>w s. P s \<longrightarrow> ends_within P R (k w s) (n - 1))"

lemma ends_atomic:
  "ends_within P R (atomic h) n \<longleftrightarrow> 0 < n \<and> (\<forall>w s. P s \<longrightarrow> ends_within P R (snd (h w s)) (n - 1))"
  by (simp add: atomic_def)

lemma ends_mono: "ends_within P R a n \<Longrightarrow> n \<le> m \<Longrightarrow> ends_within P R a m"
  by (induction a arbitrary: n m) (auto, meson diff_le_mono)

lemma ends_bind:
  "ends_within P R a n \<Longrightarrow> (\<And>r. R r \<Longrightarrow> ends_within P R' (f r) m) \<Longrightarrow>
    ends_within P R' (bind_act a f) (n + m)"
proof (induction a arbitrary: n)
  case (Return r)
  then show ?case using ends_mono [of P R' "f r" m "n + m"] by simp
next
  case (Step g k)
  then have n: "0 < n" and k: "\<And>w s. P s \<Longrightarrow> ends_within P R (k w s) (n - 1)" by auto
  have "ends_within P R' (bind_act (k w s) f) (n - 1 + m)" if "P s" for w s
    using Step.IH [OF k [OF that] Step.prems(2)] .
  moreover from n have "n - 1 + m = n + m - 1" by simp
  ultimately show ?case using n by simp
qed

lemma ends_weaken: "ends_within P R a n \<Longrightarrow> (\<And>r. R r \<Longrightarrow> R' r) \<Longrightarrow> ends_within P R' a n"
  by (induction a arbitrary: n) auto

section \<open>The pool\<close>

datatype ('q, 'w, 'e) sched = Arrive nat 'q | Run nat 'w | Change 'e | Crash

type_synonym ('s, 'w, 'q, 'r) pool = "nat \<rightharpoonup> 'q \<times> ('s, 'w, 'r) act"

text \<open>
  A request arrives under a number of its own; a handler runs its next section; the environment
  changes the state; a crash drops every handler in flight and leaves what survives a restart.
\<close>

fun pool_do ::
  "('q \<Rightarrow> ('s, 'w, 'r) act) \<Rightarrow> ('e \<Rightarrow> 's \<Rightarrow> 's) \<Rightarrow> ('s \<Rightarrow> 's) \<Rightarrow> ('q, 'w, 'e) sched \<Rightarrow>
   's \<times> ('s, 'w, 'q, 'r) pool \<Rightarrow> 's \<times> ('s, 'w, 'q, 'r) pool" where
  "pool_do start env reset (Arrive i q) (s, p) = (s, if p i = None then p(i \<mapsto> (q, start q)) else p)"
| "pool_do start env reset (Run i w) (s, p) =
     (case p i of Some (q, Step g k) \<Rightarrow> (g w s, p(i \<mapsto> (q, k w s))) | _ \<Rightarrow> (s, p))"
| "pool_do start env reset (Change e) (s, p) = (env e s, p)"
| "pool_do start env reset Crash (s, p) = (reset s, Map.empty)"

fun pool_run ::
  "('q \<Rightarrow> ('s, 'w, 'r) act) \<Rightarrow> ('e \<Rightarrow> 's \<Rightarrow> 's) \<Rightarrow> ('s \<Rightarrow> 's) \<Rightarrow> ('q, 'w, 'e) sched list \<Rightarrow>
   's \<times> ('s, 'w, 'q, 'r) pool \<Rightarrow> 's \<times> ('s, 'w, 'q, 'r) pool" where
  "pool_run start env reset [] c = c"
| "pool_run start env reset (x # xs) c = pool_run start env reset xs (pool_do start env reset x c)"

definition reply_of :: "'s \<times> ('s, 'w, 'q, 'r) pool \<Rightarrow> nat \<Rightarrow> ('q \<times> 'r) option" where
  "reply_of c i = (case snd c i of Some (q, Return r) \<Rightarrow> Some (q, r) | _ \<Rightarrow> None)"

lemma reply_of_Some [simp]: "reply_of (s, p) i = Some (q, r) \<longleftrightarrow> p i = Some (q, Return r)"
  by (auto simp: reply_of_def split: option.splits act.splits)

text \<open>What a schedule contains.\<close>

definition arrives :: "('q, 'w, 'e) sched list \<Rightarrow> 'q \<Rightarrow> bool" where
  "arrives xs q \<longleftrightarrow> (\<exists>i. Arrive i q \<in> set xs)"

definition runs_in :: "('q, 'w, 'e) sched list \<Rightarrow> 'w \<Rightarrow> bool" where
  "runs_in xs w \<longleftrightarrow> (\<exists>i. Run i w \<in> set xs)"

definition changes :: "('q, 'w, 'e) sched list \<Rightarrow> 'e \<Rightarrow> bool" where
  "changes xs e \<longleftrightarrow> Change e \<in> set xs"

fun sched_ok :: "('q \<Rightarrow> bool) \<Rightarrow> ('w \<Rightarrow> bool) \<Rightarrow> ('e \<Rightarrow> bool) \<Rightarrow> ('q, 'w, 'e) sched \<Rightarrow> bool" where
  "sched_ok Q W E (Arrive i q) \<longleftrightarrow> Q q"
| "sched_ok Q W E (Run i w) \<longleftrightarrow> W w"
| "sched_ok Q W E (Change e) \<longleftrightarrow> E e"
| "sched_ok Q W E Crash \<longleftrightarrow> True"

lemma sched_ok_True [simp]: "sched_ok (\<lambda>_. True) (\<lambda>_. True) (\<lambda>_. True) x"
  by (cases x) simp_all

lemma sched_ok_runs: "x \<in> set xs \<Longrightarrow> sched_ok (\<lambda>_. True) (runs_in xs) (\<lambda>_. True) x"
  by (cases x) (auto simp: runs_in_def)

lemma sched_ok_self: "x \<in> set xs \<Longrightarrow> sched_ok (arrives xs) (runs_in xs) (changes xs) x"
  by (cases x) (auto simp: arrives_def runs_in_def changes_def)

text \<open>The turns a handler gets, and that a bounded handler that gets enough of them has replied.\<close>

fun turns :: "nat \<Rightarrow> ('q, 'w, 'e) sched list \<Rightarrow> nat" where
  "turns i [] = 0"
| "turns i (Run j w # xs) = (if i = j then Suc (turns i xs) else turns i xs)"
| "turns i (x # xs) = turns i xs"

text \<open>Along the whole run, the state satisfies a predicate and the program does not crash.\<close>

fun stays ::
  "('s \<Rightarrow> bool) \<Rightarrow> ('q \<Rightarrow> ('s, 'w, 'r) act) \<Rightarrow> ('e \<Rightarrow> 's \<Rightarrow> 's) \<Rightarrow> ('s \<Rightarrow> 's) \<Rightarrow> ('q, 'w, 'e) sched list \<Rightarrow>
   's \<times> ('s, 'w, 'q, 'r) pool \<Rightarrow> bool" where
  "stays P start env reset [] c \<longleftrightarrow> P (fst c)"
| "stays P start env reset (x # xs) c \<longleftrightarrow>
     P (fst c) \<and> x \<noteq> Crash \<and> stays P start env reset xs (pool_do start env reset x c)"

lemma pool_do_step:
  assumes "p i = Some (q, a)" and "x \<noteq> Crash" and "P s" and "ends_within P R a n"
    and "pool_do start env reset x (s, p) = (s', p')"
  shows "\<exists>a'. p' i = Some (q, a') \<and> ends_within P R a' (n - turns i [x])"
proof (cases "\<exists>w. x = Run i w")
  case True
  with assms show ?thesis by (cases a) auto
next
  case False
  with assms have "p' i = Some (q, a)"
    by (cases x) (auto split: option.splits prod.splits act.splits if_splits)
  moreover from False have "turns i [x] = 0" by (cases x) auto
  ultimately show ?thesis using assms(4) by simp
qed

lemma turns_Cons: "turns i (x # xs) = turns i [x] + turns i xs"
  by (cases x) auto

lemma turns_replied:
  assumes "ends_within P R a n" and "p i = Some (q, a)" and "stays P start env reset xs (s, p)"
    and "n \<le> turns i xs"
  shows "\<exists>r. reply_of (pool_run start env reset xs (s, p)) i = Some (q, r) \<and> R r"
  using assms
proof (induction xs arbitrary: a n s p)
  case Nil
  then show ?case by (cases a) auto
next
  case (Cons x xs)
  obtain s1 p1 where 1: "pool_do start env reset x (s, p) = (s1, p1)" by fastforce
  from Cons.prems obtain a' where a': "p1 i = Some (q, a')" "ends_within P R a' (n - turns i [x])"
    using pool_do_step [OF Cons.prems(2) _ _ Cons.prems(1) 1] by auto
  from Cons.prems(4) have "n - turns i [x] \<le> turns i xs" by (simp add: turns_Cons [of i x xs])
  moreover from Cons.prems(3) have "stays P start env reset xs (s1, p1)" by (simp add: 1)
  ultimately show ?case using Cons.IH [of a' "n - turns i [x]" p1 s1] a' by (simp add: 1)
qed

text \<open>A handler that gets turns alone, in one world.\<close>

lemma run_alone:
  "\<exists>n. pool_run start env reset (replicate n (Run i w)) (s, p(i \<mapsto> (q, a))) =
    (fst (alone w a s), p(i \<mapsto> (q, Return (snd (alone w a s)))))"
proof (induction a arbitrary: s)
  case (Return r)
  show ?case by (intro exI [of _ 0]) simp
next
  case (Step g k)
  then obtain n where "pool_run start env reset (replicate n (Run i w)) (g w s, p(i \<mapsto> (q, k w s))) =
    (fst (alone w (k w s) (g w s)), p(i \<mapsto> (q, Return (snd (alone w (k w s) (g w s))))))" by blast
  then show ?case by (intro exI [of _ "Suc n"]) (simp del: fun_upd_apply add: fun_upd_same)
qed

lemma run_bind:
  "\<exists>n. pool_run start env reset (replicate n (Run i w)) (s, p(i \<mapsto> (q, bind_act a f))) =
    (fst (alone w a s), p(i \<mapsto> (q, f (snd (alone w a s)))))"
proof (induction a arbitrary: s)
  case (Return r)
  show ?case by (intro exI [of _ 0]) simp
next
  case (Step g k)
  then obtain n where "pool_run start env reset (replicate n (Run i w)) (g w s, p(i \<mapsto> (q, bind_act (k w s) f))) =
    (fst (alone w (k w s) (g w s)), p(i \<mapsto> (q, f (snd (alone w (k w s) (g w s))))))" by blast
  then show ?case by (intro exI [of _ "Suc n"]) (simp del: fun_upd_apply add: fun_upd_same)
qed

lemma pool_run_append:
  "pool_run start env reset (xs @ ys) c = pool_run start env reset ys (pool_run start env reset xs c)"
  by (induction xs arbitrary: c) simp_all

text \<open>
  The contract of the handlers that share a state: each one is safe, and the environment and a
  crash keep the invariant.
\<close>

locale shared_state =
  fixes start :: "'q \<Rightarrow> ('s, 'w, 'r) act" and env :: "'e \<Rightarrow> 's \<Rightarrow> 's" and reset :: "'s \<Rightarrow> 's"
    and Q :: "'q \<Rightarrow> bool" and W :: "'w \<Rightarrow> bool" and E :: "'e \<Rightarrow> bool" and I :: "'s \<Rightarrow> bool"
    and G :: "'w \<Rightarrow> 's \<Rightarrow> 's \<Rightarrow> bool" and R :: "'q \<Rightarrow> 'r \<Rightarrow> bool"
  assumes start_safe: "Q q \<Longrightarrow> safe W I G (R q) (start q)"
    and env_keeps: "E e \<Longrightarrow> I s \<Longrightarrow> I (env e s)"
    and reset_keeps: "I s \<Longrightarrow> I (reset s)"
begin

definition pool_ok :: "('s, 'w, 'q, 'r) pool \<Rightarrow> bool" where
  "pool_ok p \<longleftrightarrow> (\<forall>i q a. p i = Some (q, a) \<longrightarrow> Q q \<and> safe W I G (R q) a)"

lemma pool_ok_empty [simp]: "pool_ok Map.empty"
  by (simp add: pool_ok_def)

lemma pool_do_ok:
  assumes "pool_do start env reset x (s, p) = (s', p')" and "sched_ok Q W E x" and "I s" and "pool_ok p"
  shows "I s' \<and> pool_ok p'"
proof (cases x)
  case (Run i w)
  with assms show ?thesis
    by (auto simp: pool_ok_def split: option.splits prod.splits act.splits if_splits) (force+)
qed (use assms in \<open>auto simp: pool_ok_def start_safe env_keeps reset_keeps split: if_splits\<close>)

lemma pool_run_ok:
  "pool_run start env reset xs (s, p) = (s', p') \<Longrightarrow> \<forall>x \<in> set xs. sched_ok Q W E x \<Longrightarrow> I s \<Longrightarrow>
    pool_ok p \<Longrightarrow> I s' \<and> pool_ok p'"
proof (induction xs arbitrary: s p)
  case (Cons x xs)
  obtain s1 p1 where 1: "pool_do start env reset x (s, p) = (s1, p1)" by fastforce
  with Cons pool_do_ok [OF 1] show ?case by simp
qed simp

text \<open>From a state with the invariant and no handler in flight.\<close>

lemma run_keeps:
  assumes "\<forall>x \<in> set xs. sched_ok Q W E x" and "I s"
  shows "I (fst (pool_run start env reset xs (s, Map.empty)))"
  using pool_run_ok [OF _ assms, of Map.empty] by (cases "pool_run start env reset xs (s, Map.empty)") simp

lemma reply_ok:
  assumes "\<forall>x \<in> set xs. sched_ok Q W E x" and "I s"
    and "reply_of (pool_run start env reset xs (s, Map.empty)) i = Some (q, r)"
  shows "Q q \<and> R q r"
proof -
  obtain s' p' where 1: "pool_run start env reset xs (s, Map.empty) = (s', p')" by fastforce
  from pool_run_ok [OF 1 assms(1,2)] assms(3) show ?thesis by (fastforce simp: pool_ok_def 1)
qed

text \<open>A predicate that every guaranteed change, the environment and a crash keep stays true.\<close>

lemma stable_run:
  assumes "pool_run start env reset xs (s, p) = (s', p')" and "\<forall>x \<in> set xs. sched_ok Q W E x"
    and "I s" and "pool_ok p" and "J s"
    and "\<And>w t t'. W w \<Longrightarrow> G w t t' \<Longrightarrow> J t \<Longrightarrow> J t'" and "\<And>e t. E e \<Longrightarrow> J t \<Longrightarrow> J (env e t)"
    and "\<And>t. J t \<Longrightarrow> J (reset t)"
  shows "J s'"
  using assms(1-5)
proof (induction xs arbitrary: s p)
  case (Cons x xs)
  obtain s1 p1 where 1: "pool_do start env reset x (s, p) = (s1, p1)" by fastforce
  have "J s1"
  proof (cases x)
    case (Run i w)
    with 1 Cons.prems assms(6) show ?thesis
      by (fastforce simp: pool_ok_def split: option.splits prod.splits act.splits)
  qed (use 1 Cons.prems assms(7,8) in auto)
  with Cons 1 pool_do_ok [OF 1] show ?case by simp
qed simp

end

text \<open>A safe handler stays safe under a stronger invariant that its changes keep.\<close>

lemma safe_restrict:
  "safe W I G R a \<Longrightarrow> (\<And>w. W' w \<Longrightarrow> W w) \<Longrightarrow> (\<And>s. I' s \<Longrightarrow> I s) \<Longrightarrow>
    (\<And>w s s'. W' w \<Longrightarrow> I' s \<Longrightarrow> G w s s' \<Longrightarrow> I' s') \<Longrightarrow> safe W' I' G R a"
  by (induction a) auto

text \<open>Handlers of a group with a property of its own; the others are only safe.\<close>

lemma group_run:
  assumes "pool_run start env reset xs (s, p) = (s', p')" and "\<forall>x \<in> set xs. sched_ok Q W E x" and "I s"
    and "\<And>q. Q q \<Longrightarrow> safe W I G (R q) (start q)"
    and "\<And>e s. E e \<Longrightarrow> I s \<Longrightarrow> I (env e s)" and "\<And>s. I s \<Longrightarrow> I (reset s)"
    and "\<And>i q a. p i = Some (q, a) \<Longrightarrow> safe W I G (\<lambda>r. i \<in> F \<longrightarrow> R q r) a"
    and "p' i = Some (q, Return r)" and "i \<in> F"
  shows "R q r"
  using assms(1-3,7)
proof (induction xs arbitrary: s p)
  case Nil
  then show ?case using assms(8,9) by fastforce
next
  case (Cons x xs)
  obtain s1 p1 where 1: "pool_do start env reset x (s, p) = (s1, p1)" by fastforce
  have s: "safe W I G (\<lambda>r. i \<in> F \<longrightarrow> R q r) (start q)" if "Q q" for i q
    by (rule safe_weaken [OF assms(4) [OF that]]) simp
  have "I s1 \<and> (\<forall>i q a. p1 i = Some (q, a) \<longrightarrow> safe W I G (\<lambda>r. i \<in> F \<longrightarrow> R q r) a)"
  proof (cases x)
    case (Run j w)
    show ?thesis
    proof (cases "\<exists>q g k. p j = Some (q, Step g k)")
      case True
      then obtain q g k where j: "p j = Some (q, Step g k)" by blast
      from Cons.prems(2) Run have "W w" by simp
      with Cons.prems(4) [OF j] Cons.prems(3) have "I (g w s)" "safe W I G (\<lambda>r. j \<in> F \<longrightarrow> R q r) (k w s)" by auto
      with 1 Run j Cons.prems(4) show ?thesis by (auto split: if_splits)
    next
      case False
      with 1 Run have "s1 = s \<and> p1 = p" by (auto split: option.splits act.splits)
      with Cons.prems show ?thesis by blast
    qed
  qed (use 1 Cons.prems assms(5,6) s in \<open>auto split: if_splits\<close>)
  with Cons.IH [of s1 p1] Cons.prems(1,2) 1 show ?case by simp
qed

end
