(* ===== verification/Auth_Sections.thy ===== *)
theory Auth_Sections
  imports Auth_Main Sections
begin

text \<open>
  The handlers of \<^verbatim>\<open>auth/src/main.rs\<close> as they run on the server: concurrently, and each
  one in sections that end where the source awaits or releases a lock (the verifier's
  \<^verbatim>\<open>RwLock\<close>, the mutex of the sessions, the mutex of the store).  A section may see
  another clock, another answer of the provider and another database than the one before it.
  Run without interruption in one world, a handler is the step of \<^const>\<open>serve\<close>.
\<close>

type_synonym ('k, 'r) auth_act = "('k auth_state, 'k outside, 'r) act"

named_theorems section_defs \<open>the handlers as sections\<close>

section \<open>Verification\<close>

text \<open>The keys are fetched without a lock; the token is verified against them before the cache's lock is
  awaited, and the verdict returned once they are written.\<close>

definition fetch_act :: "string \<Rightarrow> ('k, verify_error + 'k) auth_act" where
  "fetch_act issuer = atomic (\<lambda>w st. (st, Return (oidc_fetch (o_jwt w) (o_http w) (o_serde w) issuer)))"

definition keep_keys_act :: "oidc_verifier \<Rightarrow> string \<Rightarrow> 'k \<Rightarrow> ('k, verify_error + identity_claims) auth_act" where
  "keep_keys_act ov token fetched =
     atomic (\<lambda>w st. (st,
       let result = verify_with_jwks (o_jwt w) (o_now w) token fetched (ov_issuer ov) (ov_audiences ov) in
       atomic (\<lambda>w st. (st\<lparr>as_cache := Some fetched\<rparr>, Return result))))"

definition oidc_verify_act :: "oidc_verifier \<Rightarrow> string \<Rightarrow> ('k, verify_error + identity_claims) auth_act" where
  "oidc_verify_act ov token =
     atomic (\<lambda>w st. (st,
       case token_kid (o_jwt w) token of
         Inl e \<Rightarrow> Return (Inl e)
       | Inr k \<Rightarrow>
           (case opt_filter (\<lambda>ks. jwks_find (o_jwt w) ks k \<noteq> None) (as_cache st) of
              Some ks \<Rightarrow>
                Return (verify_with_jwks (o_jwt w) (o_now w) token ks (ov_issuer ov) (ov_audiences ov))
            | None \<Rightarrow>
                bind_act (fetch_act (ov_issuer ov))
                  (\<lambda>r. case r of Inl e \<Rightarrow> Return (Inl e) | Inr fetched \<Rightarrow> keep_keys_act ov token fetched))))"

definition claims_act :: "'k identity \<Rightarrow> string \<Rightarrow> ('k, verify_error + identity_claims) auth_act" where
  "claims_act ident token =
     atomic (\<lambda>w st. (st,
       case self_claims (o_jwt w) (o_now w) (id_self ident) token of
         Some c \<Rightarrow> Return (Inr c)
       | None \<Rightarrow> oidc_verify_act (id_oidc ident) token))"

definition caller_act :: "'k auth_config \<Rightarrow> string option \<Rightarrow> ('k, verify_error + string) auth_act" where
  "caller_act cfg md =
     atomic (\<lambda>w st. (st, map_act (map_sum id ic_sub)
       (claims_act (ac_identity cfg) (bearer (o_to_str w) md))))"

text \<open>\<^verbatim>\<open>.map_err(|_| status)?\<close>.\<close>

definition require ::
  "('s, 'w, 'e + 'a) act \<Rightarrow> status \<Rightarrow> ('a \<Rightarrow> ('s, 'w, status + 'b) act) \<Rightarrow> ('s, 'w, status + 'b) act" where
  "require a refusal f = bind_act a (\<lambda>r. case r of Inl e \<Rightarrow> Return (Inl refusal) | Inr x \<Rightarrow> f x)"

section \<open>The ReBAC API\<close>

definition create_resource_act ::
  "'k auth_config \<Rightarrow> string option \<Rightarrow> string \<Rightarrow> string \<Rightarrow> ('k, status + unit) auth_act" where
  "create_resource_act cfg md rid rname =
     require (caller_act cfg md) (Unauthenticated ''invalid token'')
       (\<lambda>sub. atomic (\<lambda>w st.
          case record_owner (o_sql w) (int (o_now w)) sub rid rname (as_db st) of
            (d, Inl e) \<Rightarrow> (st\<lparr>as_db := d\<rparr>, Return (Inl (Internal ''store error'')))
          | (d, Inr _) \<Rightarrow> (st\<lparr>as_db := d\<rparr>, Return (Inr ()))))"

definition delete_resource_act ::
  "'k auth_config \<Rightarrow> string option \<Rightarrow> string \<Rightarrow> ('k, status + unit) auth_act" where
  "delete_resource_act cfg md rid =
     require (caller_act cfg md) (Unauthenticated ''invalid token'')
       (\<lambda>sub. atomic (\<lambda>w st. (st,
          if role_for (o_sql w) sub rid (as_db st) \<noteq> Some Owner
          then Return (Inl (PermissionDenied ''not an owner of this resource''))
          else atomic (\<lambda>w st.
            case delete_resource (o_sql w) rid (as_db st) of
              (d, Inl e) \<Rightarrow> (st\<lparr>as_db := d\<rparr>, Return (Inl (Internal ''store error'')))
            | (d, Inr _) \<Rightarrow> (st\<lparr>as_db := d\<rparr>, Return (Inr ()))))))"

fun check_ids_act ::
  "string \<Rightarrow> string list \<Rightarrow> resource_permission list \<Rightarrow> resource_permission list \<Rightarrow>
   ('k, status + (resource_permission list \<times> resource_permission list)) auth_act" where
  "check_ids_act sub [] allowed denied = Return (Inr (allowed, denied))"
| "check_ids_act sub (rid # ids) allowed denied =
     atomic (\<lambda>w st. (st,
       case role_for (o_sql w) sub rid (as_db st) of
         Some r \<Rightarrow> check_ids_act sub ids (allowed @ [grant rid r]) denied
       | None \<Rightarrow> check_ids_act sub ids allowed (denied @ [\<lparr>rp_resource_id = rid, rp_permission = []\<rparr>])))"

definition check_user_permission_act ::
  "'k auth_config \<Rightarrow> string option \<Rightarrow> string list \<Rightarrow>
   ('k, status + (resource_permission list \<times> resource_permission list)) auth_act" where
  "check_user_permission_act cfg md ids =
     require (caller_act cfg md) (Unauthenticated ''invalid token'') (\<lambda>sub. check_ids_act sub ids [] [])"

text \<open>The listing reads the ids, and then the role on each of them.\<close>

fun list_roles_act ::
  "string \<Rightarrow> string list \<Rightarrow> resource_permission list \<Rightarrow> ('k, status + resource_permission list) auth_act" where
  "list_roles_act sub [] acc = Return (Inr acc)"
| "list_roles_act sub (rid # ids) acc =
     atomic (\<lambda>w st. (st, list_roles_act sub ids
       (acc @ [grant rid (case role_for (o_sql w) sub rid (as_db st) of Some r \<Rightarrow> r | None \<Rightarrow> Member)])))"

definition lookup_user_permissions_act ::
  "'k auth_config \<Rightarrow> string option \<Rightarrow> ('k, status + resource_permission list) auth_act" where
  "lookup_user_permissions_act cfg md =
     require (caller_act cfg md) (Unauthenticated ''invalid token'')
       (\<lambda>sub. atomic (\<lambda>w st. (st, list_roles_act sub (accessible (o_sql w) sub (as_db st)) [])))"

section \<open>Login\<close>

definition start_auth_session_act :: "'k auth_config \<Rightarrow> string \<Rightarrow> ('k, status + (string \<times> string)) auth_act" where
  "start_auth_session_act cfg cs =
     require (atomic (\<lambda>w st. (st, Return (device_flow_start (o_http w) (o_serde w) (ac_device cfg)))))
       (Internal ''could not start login'')
       (\<lambda>start. atomic (\<lambda>w st.
          let session_code = random_id (o_random w);
              ttl = from_secs (clamp 60 600 (ds_expires_in start))
          in (st\<lparr>as_sessions := sessions_insert (o_instant1 w) (o_instant2 w) session_code
                    (ds_device_code start) (ds_token_endpoint start) cs ttl (as_sessions st)\<rparr>,
              Return (Inr (session_code, ds_login_url start)))))"

text \<open>A session is resolved, the provider polled, its token verified, and only then the session removed.\<close>

definition finish_session_act ::
  "'k auth_config \<Rightarrow> string \<Rightarrow> string \<Rightarrow> ('k, status + user_token option) auth_act" where
  "finish_session_act cfg code id_token =
     require (oidc_verify_act (id_oidc (ac_identity cfg)) id_token) (Internal ''login token invalid'')
       (\<lambda>c. atomic (\<lambda>w st.
          (st\<lparr>as_sessions := sessions_remove code (as_sessions st)\<rparr>,
           Return (case authn_token w cfg c of Inl s \<Rightarrow> Inl s | Inr ut \<Rightarrow> Inr (Some ut)))))"

definition poll_act ::
  "'k auth_config \<Rightarrow> string \<Rightarrow> string \<Rightarrow> string \<Rightarrow> ('k, status + user_token option) auth_act" where
  "poll_act cfg code dc te =
     atomic (\<lambda>w st. (st,
       case device_flow_poll (o_http w) (o_serde w) (ac_device cfg) te dc of
         Inr Pending \<Rightarrow> Return (Inr None)
       | Inr (Token id_token) \<Rightarrow> finish_session_act cfg code id_token
       | Inr (Denied e) \<Rightarrow>
           atomic (\<lambda>w st. (st\<lparr>as_sessions := sessions_remove code (as_sessions st)\<rparr>,
             Return (Inl (PermissionDenied (''login not completed: '' @ e)))))
       | Inl e \<Rightarrow> Return (Inl (Internal ''login poll failed''))))"

definition get_auth_session_act ::
  "'k auth_config \<Rightarrow> string \<Rightarrow> string \<Rightarrow> ('k, status + user_token option) auth_act" where
  "get_auth_session_act cfg code cs =
     atomic (\<lambda>w st.
       case sessions_resolve (o_instant1 w) (o_instant2 w) code cs (as_sessions st) of
         (m, None) \<Rightarrow> (st\<lparr>as_sessions := m\<rparr>, Return (Inl (NotFound ''unknown or expired login session'')))
       | (m, Some (dc, te)) \<Rightarrow> (st\<lparr>as_sessions := m\<rparr>, poll_act cfg code dc te))"

section \<open>Exchange\<close>

definition exchange_external_act :: "'k auth_config \<Rightarrow> string \<Rightarrow> ('k, status + user_token) auth_act" where
  "exchange_external_act cfg external =
     (if external = [] then Return (Inl (Unauthenticated ''missing external token''))
      else require (oidc_verify_act (id_oidc (ac_identity cfg)) external)
             (Unauthenticated ''invalid external token'')
             (\<lambda>c. atomic (\<lambda>w st. (st, Return (authn_token w cfg c)))))"

fun scope_act :: "string \<Rightarrow> string list \<Rightarrow> resource_grant list \<Rightarrow> ('k, resource_grant list) auth_act" where
  "scope_act sub [] acc = Return acc"
| "scope_act sub (rid # ids) acc =
     atomic (\<lambda>w st. (st, scope_act sub ids
       (case role_for (o_sql w) sub rid (as_db st) of
          None \<Rightarrow> acc
        | Some r \<Rightarrow> acc @ [\<lparr>resource_id = rid, permission = permissions r\<rparr>])))"

definition mint_scoped_act ::
  "'k auth_config \<Rightarrow> identity_claims \<Rightarrow> resource_grant list \<Rightarrow> ('k, status + user_token) auth_act" where
  "mint_scoped_act cfg c rs =
     atomic (\<lambda>w st. (st,
       let (shown, preferred) = display_names c in
       Return (case mint (o_jwt w) (o_now w) (ac_signer cfg) (ac_issuer cfg) (ac_audience cfg)
                       (ic_sub c) shown preferred (ic_exp c) rs of
                 Inl e \<Rightarrow> Inl (Internal ''token issuance failed'')
               | Inr minted \<Rightarrow> Inr \<lparr>ut_token = minted, ut_expires_at = sint (ic_exp c),
                                  ut_user_id = ic_sub c, ut_user_name = shown\<rparr>)))"

definition exchange_multiresource_act ::
  "'k auth_config \<Rightarrow> string option \<Rightarrow> string list \<Rightarrow> ('k, status + user_token) auth_act" where
  "exchange_multiresource_act cfg md requested =
     atomic (\<lambda>w st. (st,
       let token = bearer (o_to_str w) md in
       if token = [] then Return (Inl (Unauthenticated ''missing bearer token''))
       else require (claims_act (ac_identity cfg) token) (Unauthenticated ''invalid identity token'')
              (\<lambda>c. bind_act (scope_act (ic_sub c) requested []) (mint_scoped_act cfg c))))"

section \<open>The service\<close>

definition answer :: "('a \<Rightarrow> 'b) \<Rightarrow> ('s, 'w, status + 'a) act \<Rightarrow> ('s, 'w, status + 'b) act" where
  "answer f a = map_act (map_sum id f) a"

fun serve_act :: "'k auth_config \<Rightarrow> string option \<times> rpc \<Rightarrow> ('k, status + reply) auth_act" where
  "serve_act cfg (md, CreateResource rid rname) = answer (\<lambda>_. Done) (create_resource_act cfg md rid rname)"
| "serve_act cfg (md, DeleteResourceReq rid) = answer (\<lambda>_. Done) (delete_resource_act cfg md rid)"
| "serve_act cfg (md, HealthCheck) = answer Health (Return health_check)"
| "serve_act cfg (md, CheckUserPermission ids target) =
     answer (\<lambda>(al, de). Checked al de) (check_user_permission_act cfg md ids)"
| "serve_act cfg (md, LookupUserPermissions) = answer Listed (lookup_user_permissions_act cfg md)"
| "serve_act cfg (md, GetUserInfo) = answer Users (Return get_user_info)"
| "serve_act cfg (md, StartAuthSession cs) =
     answer (\<lambda>(code, url). Started code url) (start_auth_session_act cfg cs)"
| "serve_act cfg (md, GetAuthSession code cs) = answer Session (get_auth_session_act cfg code cs)"
| "serve_act cfg (md, RefreshAuthSession) = answer (\<lambda>_. Done) (Return refresh_auth_session)"
| "serve_act cfg (md, VerifyUser) = answer (\<lambda>_. Done) (Return verify_user)"
| "serve_act cfg (md, ExchangeExternal external) = answer Issued (exchange_external_act cfg external)"
| "serve_act cfg (md, ExchangeApiKey) = answer (\<lambda>_. Done) (Return exchange_api_key)"
| "serve_act cfg (md, ExchangeMultiresource ids) = answer Issued (exchange_multiresource_act cfg md ids)"
| "serve_act cfg (md, GetUserId) = answer (\<lambda>_. Done) (Return get_user_id)"
| "serve_act cfg (md, GetProviderUserId) = answer (\<lambda>_. Done) (Return get_provider_user_id)"

text \<open>The administrator's process changes the database between any two sections; a restart keeps only it.\<close>

fun admin_change :: "sql_env \<times> string \<times> string list \<Rightarrow> 'k auth_state \<Rightarrow> 'k auth_state" where
  "admin_change (env, cmd, args) st = st\<lparr>as_db := fst (run_admin env cmd args (as_db st))\<rparr>"

definition restarted :: "'k auth_state \<Rightarrow> 'k auth_state" where
  "restarted st = \<lparr>as_db = as_db st, as_sessions = sessions_new, as_cache = None\<rparr>"

section \<open>Without interruption\<close>

named_theorems alone_simps \<open>what a handler does when nothing interrupts it\<close>

lemma alone_require [alone_simps]:
  "alone w (require a m f) s =
    (case alone w a s of (s', Inl e) \<Rightarrow> (s', Inl m) | (s', Inr x) \<Rightarrow> alone w (f x) s')"
  by (simp add: require_def split: prod.split sum.split)

lemma alone_answer [alone_simps]: "alone w (answer f a) s = map_reply f (alone w a s)"
  by (auto simp: answer_def map_reply_def split: sum.split)

lemma alone_oidc_verify [alone_simps]:
  "alone w (oidc_verify_act (id_oidc (ac_identity cfg)) token) st = provider_claims w cfg token st"
  by (auto simp: oidc_verify_act_def fetch_act_def keep_keys_act_def Let_def provider_claims_def oidc_verify_def
      opt_filter_def split: sum.split option.split)

lemma alone_claims [alone_simps]:
  "alone w (claims_act (ac_identity cfg) token) st = caller_claims w cfg token st"
  by (auto simp: claims_act_def caller_claims_def id_claims_def alone_oidc_verify provider_claims_def
      split: option.split)

lemma alone_caller [alone_simps]: "alone w (caller_act cfg md) st = caller w cfg md st"
  by (auto simp: caller_act_def alone_claims caller_from_claims split: prod.split sum.split)

lemma alone_check_ids [alone_simps]:
  "alone w (check_ids_act sub ids al de) st =
    (st, Inr (check_ids (\<lambda>rid. role_for (o_sql w) sub rid (as_db st)) ids al de))"
  by (induction ids arbitrary: al de) (auto split: option.split)

lemma alone_list_roles [alone_simps]:
  "alone w (list_roles_act sub ids acc) st =
    (st, Inr (acc @ map (\<lambda>rid. grant rid (case role_for (o_sql w) sub rid (as_db st) of
        Some r \<Rightarrow> r | None \<Rightarrow> Member)) ids))"
  by (induction ids arbitrary: acc) auto

lemma alone_scope [alone_simps]:
  "alone w (scope_act sub ids acc) st = (st, acc @ resource_scope (o_sql w) sub (as_db st) ids)"
  by (induction ids arbitrary: acc) (auto simp: resource_scope_def split: option.split)

lemma alone_poll [alone_simps]:
  "alone w (poll_act cfg code dc te) st =
    (case device_flow_poll (o_http w) (o_serde w) (ac_device cfg) te dc of
       Inr Pending \<Rightarrow> (st, Inr None)
     | Inr (Token id_token) \<Rightarrow>
         (case provider_claims w cfg id_token st of
            (st2, Inl e) \<Rightarrow> (st2, Inl (Internal ''login token invalid''))
          | (st2, Inr c) \<Rightarrow>
              (st2\<lparr>as_sessions := sessions_remove code (as_sessions st2)\<rparr>,
               case authn_token w cfg c of Inl s \<Rightarrow> Inl s | Inr ut \<Rightarrow> Inr (Some ut)))
     | Inr (Denied e) \<Rightarrow>
         (st\<lparr>as_sessions := sessions_remove code (as_sessions st)\<rparr>,
          Inl (PermissionDenied (''login not completed: '' @ e)))
     | Inl e \<Rightarrow> (st, Inl (Internal ''login poll failed'')))"
  by (auto simp: poll_act_def finish_session_act_def alone_simps split: sum.split poll.split prod.split)

lemma alone_get_auth_session [alone_simps]:
  "alone w (get_auth_session_act cfg code cs) st = get_auth_session w cfg code cs st"
  by (auto simp: get_auth_session_act_def get_auth_session_def alone_poll Let_def
      split: prod.split option.split sum.split poll.split)

lemma alone_exchange_multiresource [alone_simps]:
  "alone w (exchange_multiresource_act cfg md ids) st = exchange_multiresource w cfg md ids st"
  by (auto simp: exchange_multiresource_act_def exchange_multiresource_def mint_scoped_act_def
      alone_simps Let_def split: prod.split sum.split)

lemma alone_resource_handlers [alone_simps]:
  "alone w (create_resource_act cfg md rid rname) st = create_resource w cfg md rid rname st"
  "alone w (delete_resource_act cfg md rid) st = delete_resource_rpc w cfg md rid st"
  "alone w (lookup_user_permissions_act cfg md) st = lookup_user_permissions w cfg md st"
  by (auto simp: create_resource_act_def create_resource_def delete_resource_act_def delete_resource_rpc_def
      lookup_user_permissions_act_def lookup_user_permissions_def alone_simps split: prod.split sum.split)

lemma alone_check_user_permission:
  "check_user_permission w cfg md ids target st = alone w (check_user_permission_act cfg md ids) st"
  by (auto simp: check_user_permission_act_def check_user_permission_def alone_simps
      split: prod.split sum.split)

lemma alone_login_handlers [alone_simps]:
  "alone w (start_auth_session_act cfg cs) st = start_auth_session w cfg cs st"
  "alone w (exchange_external_act cfg external) st = exchange_external_token w cfg external st"
  by (auto simp: start_auth_session_act_def start_auth_session_def exchange_external_act_def
      exchange_external_token_def alone_simps Let_def split: prod.split sum.split)

lemma serve_act_eq: "alone w (serve_act cfg (md, req)) st = serve w cfg md req st"
  by (cases req) (simp_all add: alone_simps alone_check_user_permission)

text \<open>A handler that nothing interrupts, in one world, does exactly what its step in the sequential
  model does: the same state and the same reply, for every request.\<close>

lemma serve_act_alone: "alone w (serve_act cfg (md, req)) st = serve w cfg md req st"
  by (rule serve_act_eq)

section \<open>Every request is answered\<close>

text \<open>The sections of a request, when the table of grants never has more than so many rows.\<close>

fun sections_of :: "nat \<Rightarrow> rpc \<Rightarrow> nat" where
  "sections_of rows (CreateResource rid rname) = 7"
| "sections_of rows (DeleteResourceReq rid) = 8"
| "sections_of rows (CheckUserPermission ids target) = 6 + length ids"
| "sections_of rows LookupUserPermissions = 7 + rows"
| "sections_of rows (StartAuthSession cs) = 2"
| "sections_of rows (GetAuthSession code cs) = 7"
| "sections_of rows (ExchangeExternal external) = 5"
| "sections_of rows (ExchangeMultiresource ids) = 7 + length ids"
| "sections_of rows _ = 0"

named_theorems ends_intros \<open>bounds of the handlers\<close>

lemma ends_require:
  assumes "ends_within P (\<lambda>_. True) a n" and "\<And>x. ends_within P (\<lambda>_. True) (f x) m"
  shows "ends_within P (\<lambda>_. True) (require a refusal f) (n + m)"
  unfolding require_def using assms by (auto intro: ends_bind split: sum.split)

lemma ends_map: "ends_within P (\<lambda>_. True) a n \<Longrightarrow> ends_within P (\<lambda>_. True) (map_act f a) n"
  using ends_bind [of P "\<lambda>_. True" a n "\<lambda>_. True" "\<lambda>r. Return (f r)" 0] by (simp add: map_act_def)

lemma ends_verify: "ends_within P (\<lambda>_. True) (oidc_verify_act ov token) 4"
  by (auto simp: oidc_verify_act_def fetch_act_def keep_keys_act_def ends_atomic Let_def split: sum.split option.split)

lemma ends_claims: "ends_within P (\<lambda>_. True) (claims_act ident token) 5"
  by (auto simp: claims_act_def ends_atomic ends_verify split: option.split)

lemma ends_caller: "ends_within P (\<lambda>_. True) (caller_act cfg md) 6"
  by (auto simp: caller_act_def ends_atomic intro!: ends_map ends_claims)

lemma ends_check_ids: "ends_within P (\<lambda>_. True) (check_ids_act sub ids al de) (length ids)"
  by (induction ids arbitrary: al de) (auto simp: ends_atomic split: option.split)

lemma ends_list_roles: "ends_within P (\<lambda>_. True) (list_roles_act sub ids acc) (length ids)"
  by (induction ids arbitrary: acc) (auto simp: ends_atomic)

lemma ends_scope: "ends_within P (\<lambda>_. True) (scope_act sub ids acc) (length ids)"
  by (induction ids arbitrary: acc) (auto simp: ends_atomic)

lemma length_accessible: "length (accessible env sub d) \<le> length (grants d)"
proof -
  have d: "distinct (accessible env sub d)" by (simp add: accessible_def distinct_deliver)
  have "set (accessible env sub d) \<subseteq> g_urc ` set (grants d)"
    using set_deliver_sub by (fastforce simp: accessible_def)
  then have "card (set (accessible env sub d)) \<le> length (grants d)"
    by (meson card_image_le card_length card_mono finite_imageI finite_set le_trans)
  then show ?thesis by (simp add: distinct_card [OF d])
qed

lemma ends_lookup:
  assumes "\<And>st. P st \<Longrightarrow> length (grants (as_db st)) \<le> rows"
  shows "ends_within P (\<lambda>_. True) (lookup_user_permissions_act cfg md) (6 + (Suc rows))"
  unfolding lookup_user_permissions_act_def
proof (rule ends_require [OF ends_caller], simp add: ends_atomic, intro allI impI)
  fix sub st and w :: "'a outside"
  assume "P st"
  with length_accessible [of "o_sql w" sub "as_db st"] assms
  have "length (accessible (o_sql w) sub (as_db st)) \<le> rows" by (meson le_trans)
  then show "ends_within P (\<lambda>_. True) (list_roles_act sub (accessible (o_sql w) sub (as_db st)) []) rows"
    by (rule ends_mono [OF ends_list_roles])
qed

lemma ends_create: "ends_within P (\<lambda>_. True) (create_resource_act cfg md rid rname) (6 + 1)"
  unfolding create_resource_act_def
  by (rule ends_require [OF ends_caller]) (auto simp: ends_atomic split: prod.split sum.split)

lemma ends_delete: "ends_within P (\<lambda>_. True) (delete_resource_act cfg md rid) (6 + 2)"
  unfolding delete_resource_act_def
  by (rule ends_require [OF ends_caller]) (auto simp: ends_atomic split: prod.split sum.split)

lemma ends_finish: "ends_within P (\<lambda>_. True) (finish_session_act cfg code token) (4 + 1)"
  unfolding finish_session_act_def by (rule ends_require [OF ends_verify]) (simp add: ends_atomic)

lemma ends_get_session: "ends_within P (\<lambda>_. True) (get_auth_session_act cfg code cs) 7"
proof -
  have "ends_within P (\<lambda>_. True) (poll_act cfg code dc te) 6" for dc te
    using ends_finish [of P cfg code] by (auto simp: poll_act_def ends_atomic split: sum.split poll.split)
  then show ?thesis by (auto simp: get_auth_session_act_def ends_atomic split: prod.split option.split)
qed

lemma ends_exchange: "ends_within P (\<lambda>_. True) (exchange_multiresource_act cfg md ids) (7 + length ids)"
proof -
  have "ends_within P (\<lambda>_. True) (bind_act (scope_act (ic_sub c) ids []) (mint_scoped_act cfg c)) (length ids + 1)"
    for c by (rule ends_bind [OF ends_scope]) (simp add: mint_scoped_act_def ends_atomic split: prod.split)
  from ends_require [OF ends_claims this]
  have "ends_within P (\<lambda>_. True) (require (claims_act ident token) m
      (\<lambda>c. bind_act (scope_act (ic_sub c) ids []) (mint_scoped_act cfg c))) (6 + length ids)"
    for ident token m by (simp add: add.commute)
  then show ?thesis by (auto simp: exchange_multiresource_act_def ends_atomic Let_def)
qed

lemma ends_serve:
  assumes "\<And>st. P st \<Longrightarrow> length (grants (as_db st)) \<le> rows"
  shows "ends_within P (\<lambda>_. True) (serve_act cfg (md, req)) (sections_of rows req)"
proof -
  have "ends_within P (\<lambda>_. True) (check_user_permission_act cfg md ids) (6 + length ids)" for ids
    unfolding check_user_permission_act_def by (rule ends_require [OF ends_caller ends_check_ids])
  moreover have "ends_within P (\<lambda>_. True) (start_auth_session_act cfg cs) (1 + 1)" for cs
    unfolding start_auth_session_act_def by (rule ends_require) (simp_all add: ends_atomic Let_def)
  moreover have "ends_within P (\<lambda>_. True) (exchange_external_act cfg external) (4 + 1)" for external
    unfolding exchange_external_act_def
    by (cases "external = []", simp, simp only: if_False, rule ends_require [OF ends_verify]) (simp add: ends_atomic)
  ultimately show ?thesis
    using ends_lookup [OF assms, where cfg = cfg and md = md] ends_create ends_delete ends_get_session ends_exchange
    by (cases req) (auto simp: answer_def eval_nat_numeral intro!: ends_map)
qed

text \<open>C10. Every request is answered: whatever other requests, administrator's commands and worlds come in
  between, a handler that has had its number of turns (a constant, one more per requested id, and
  for the listing one per row the grants table may have) has replied, unless the process stopped.\<close>

theorem requests_answered:
  assumes "stays (\<lambda>st. length (grants (as_db st)) \<le> rows) (serve_act cfg) admin_change restarted xs
      (st, p(i \<mapsto> ((md, req), serve_act cfg (md, req))))"
    and "sections_of rows req \<le> turns i xs"
  shows "\<exists>r. reply_of (pool_run (serve_act cfg) admin_change restarted xs
      (st, p(i \<mapsto> ((md, req), serve_act cfg (md, req))))) i = Some ((md, req), r)"
proof -
  have "ends_within (\<lambda>st. length (grants (as_db st)) \<le> rows) (\<lambda>_. True) (serve_act cfg (md, req)) (sections_of rows req)"
    by (rule ends_serve)
  from turns_replied [OF this _ assms, of "(md, req)"] show ?thesis by auto
qed

end
