(* ===== verification/Auth_Concurrency.thy ===== *)
theory Auth_Concurrency
  imports Auth_Sections
begin

text \<open>
  What the auth service guarantees when its handlers interleave, section by section, with each other
  and with the administrator's process.  A schedule is described by the requests that arrive
  (\<open>Q\<close>), the worlds its sections see (\<open>W\<close>) and the administrator's commands
  (\<open>E\<close>); the invariant says of every cached key, grant and membership which of them
  it comes from.
\<close>

section \<open>Where things come from\<close>

type_synonym command = "sql_env \<times> string \<times> string list"

definition keys_fetched :: "('k outside \<Rightarrow> bool) \<Rightarrow> 'k auth_config \<Rightarrow> 'k \<Rightarrow> bool" where
  "keys_fetched W cfg ks \<longleftrightarrow>
     (\<exists>w. W w \<and> oidc_fetch (o_jwt w) (o_http w) (o_serde w) (ov_issuer (id_oidc (ac_identity cfg))) = Inr ks)"

text \<open>The provider vouches for an identity: the token verifies under keys fetched from the provider.\<close>

definition provider_vouched :: "('k outside \<Rightarrow> bool) \<Rightarrow> 'k auth_config \<Rightarrow> string \<Rightarrow> identity_claims \<Rightarrow> bool" where
  "provider_vouched W cfg token c \<longleftrightarrow>
     (\<exists>w ks. W w \<and> keys_fetched W cfg ks \<and>
        verify_with_jwks (o_jwt w) (o_now w) token ks (ov_issuer (id_oidc (ac_identity cfg)))
          (ov_audiences (id_oidc (ac_identity cfg))) = Inr c)"

definition caller_vouched :: "('k outside \<Rightarrow> bool) \<Rightarrow> 'k auth_config \<Rightarrow> string option \<Rightarrow> identity_claims \<Rightarrow> bool" where
  "caller_vouched W cfg md c \<longleftrightarrow>
     (\<exists>w token. W w \<and> token = bearer (o_to_str w) md \<and>
        ((\<exists>w'. W w' \<and> self_claims (o_jwt w') (o_now w') (id_self (ac_identity cfg)) token = Some c) \<or>
         provider_vouched W cfg token c))"

text \<open>A grant row that a vouched caller's creation, or the administrator, writes.\<close>

definition written ::
  "(string option \<times> rpc \<Rightarrow> bool) \<Rightarrow> ('k outside \<Rightarrow> bool) \<Rightarrow> (command \<Rightarrow> bool) \<Rightarrow> 'k auth_config \<Rightarrow>
   string \<Rightarrow> string \<Rightarrow> string \<Rightarrow> bool" where
  "written Q W E cfg k u r \<longleftrightarrow>
     (\<exists>md rname c. Q (md, CreateResource u rname) \<and> caller_vouched W cfg md c \<and> k = ic_sub c \<and> r = ''owner'') \<or>
     (\<exists>env cmd args op. E (env, cmd, args) \<and> admin_op cmd args = Some op \<and> granted_by op = Some (k, u, r))"

definition enrolled :: "(command \<Rightarrow> bool) \<Rightarrow> string \<Rightarrow> string \<Rightarrow> bool" where
  "enrolled E g s \<longleftrightarrow> (\<exists>env cmd args. E (env, cmd, args) \<and> admin_op cmd args = Some (AddMember g s))"

text \<open>A role that a written grant gives to the subject, or to a group the administrator put it in.\<close>

definition justified ::
  "(string option \<times> rpc \<Rightarrow> bool) \<Rightarrow> ('k outside \<Rightarrow> bool) \<Rightarrow> (command \<Rightarrow> bool) \<Rightarrow> 'k auth_config \<Rightarrow>
   string \<Rightarrow> string \<Rightarrow> role \<Rightarrow> bool" where
  "justified Q W E cfg s u r \<longleftrightarrow>
     (\<exists>k t. (k = s \<or> (\<exists>g. k = ''group:'' @ g \<and> enrolled E g s)) \<and> written Q W E cfg k u t \<and> role_parse t = Some r)"

definition traced ::
  "(string option \<times> rpc \<Rightarrow> bool) \<Rightarrow> ('k outside \<Rightarrow> bool) \<Rightarrow> (command \<Rightarrow> bool) \<Rightarrow> 'k auth_config \<Rightarrow>
   'k auth_state \<Rightarrow> bool" where
  "traced Q W E cfg st \<longleftrightarrow>
     (\<forall>ks. as_cache st = Some ks \<longrightarrow> keys_fetched W cfg ks) \<and> store_inv (as_db st) \<and>
     (\<forall>k u r. p_granted (abs_db (as_db st)) (k, u) = Some r \<longrightarrow> written Q W E cfg k u r) \<and>
     (\<forall>g s. (g, s) \<in> p_members (abs_db (as_db st)) \<longrightarrow> enrolled E g s)"

section \<open>The invariant and the changes of the state\<close>

lemma traced_fresh: "traced Q W E cfg fresh_state"
  by (simp add: traced_def fresh_state_def abs_db_def new_db_def granted_map_def store_inv_def)

lemma traced_sessions [simp]: "traced Q W E cfg (st\<lparr>as_sessions := m\<rparr>) = traced Q W E cfg st"
  by (simp add: traced_def)

lemma traced_cache: "traced Q W E cfg st \<Longrightarrow> keys_fetched W cfg ks \<Longrightarrow> traced Q W E cfg (st\<lparr>as_cache := Some ks\<rparr>)"
  by (simp add: traced_def)

lemma execute_members:
  "gm \<in> p_members (abs_db (fst (execute env st d))) \<Longrightarrow>
    gm \<in> p_members (abs_db d) \<or> gm \<in> p_members (p_exec st (abs_db d))"
  using exec_stmt_abs [of st d] by (auto simp: execute_def split: option.splits prod.splits)

lemma p_exec_members:
  "gm \<in> p_members (p_exec st p) \<Longrightarrow> gm \<in> p_members p \<or> st = InsertMember (fst gm) (snd gm)"
  by (cases st) (auto split: if_splits)

lemma execute_new_member:
  "gm \<in> p_members (abs_db (fst (execute env st d))) \<Longrightarrow>
    gm \<in> p_members (abs_db d) \<or> st = InsertMember (fst gm) (snd gm)"
  using execute_members p_exec_members by blast

lemma apply_op_members:
  assumes "gm \<in> p_members (abs_db (apply_op env op d))"
  shows "gm \<in> p_members (abs_db d) \<or> op = AddMember (fst gm) (snd gm)"
proof (cases op)
  case (RecordOwner now own u n)
  then have "apply_op env op d \<in> {fst (execute env (InsertResource u n now) d),
      fst (execute env (InsertOwner own u) (fst (execute env (InsertResource u n now) d)))}"
    by (auto simp: record_owner_def split: prod.splits sum.splits)
  with assms show ?thesis by (auto dest!: execute_new_member)
next
  case (DeleteRes u)
  then have "apply_op env op d \<in> {fst (execute env (DeleteGrantsOf u) d),
      fst (execute env (DeleteResource u) (fst (execute env (DeleteGrantsOf u) d)))}"
    by (auto simp: delete_resource_def split: prod.splits sum.splits)
  with assms show ?thesis by (auto dest!: execute_new_member)
next
  case (Grant s u r)
  then have "apply_op env op d = fst (execute env (ReplaceGrant s u (as_str r)) d)"
    by (auto simp: store_grant_def split: prod.splits sum.splits)
  with assms show ?thesis by (auto dest!: execute_new_member)
next
  case (AddMember g s)
  then have "apply_op env op d = fst (execute env (InsertMember g s) d)"
    by (auto simp: add_group_member_def split: prod.splits sum.splits)
  with assms AddMember show ?thesis by (auto dest!: execute_new_member)
qed (use assms in \<open>auto simp: revoke_def remove_group_member_def dest!: execute_new_member\<close>)

lemma traced_op:
  assumes "traced Q W E cfg st"
    and "\<And>k u r. granted_by op = Some (k, u, r) \<Longrightarrow> written Q W E cfg k u r"
    and "\<And>g s. op = AddMember g s \<Longrightarrow> enrolled E g s"
  shows "traced Q W E cfg (st\<lparr>as_db := apply_op env op (as_db st)\<rparr>)"
  unfolding traced_def
proof (intro conjI allI impI)
  let ?st = "st\<lparr>as_db := apply_op env op (as_db st)\<rparr>"
  show "keys_fetched W cfg ks" if "as_cache ?st = Some ks" for ks
    using assms(1) that by (simp add: traced_def)
  show "store_inv (as_db ?st)" using assms(1) by (simp add: traced_def apply_op_inv)
  show "written Q W E cfg k u r" if "p_granted (abs_db (as_db ?st)) (k, u) = Some r" for k u r
    using apply_op_granted [of env op "as_db st" k u r] that assms(1,2) by (auto simp: traced_def)
  show "enrolled E g s" if "(g, s) \<in> p_members (abs_db (as_db ?st))" for g s
    using apply_op_members [of "(g, s)" env op "as_db st"] that assms(1,3) by (auto simp: traced_def)
qed

lemma traced_delete: "traced Q W E cfg st \<Longrightarrow> traced Q W E cfg (st\<lparr>as_db := fst (delete_resource env u (as_db st))\<rparr>)"
  using traced_op [where op = "DeleteRes u"] by simp

lemma traced_create:
  assumes "traced Q W E cfg st" and "Q (md, CreateResource u rname)" and "caller_vouched W cfg md c"
  shows "traced Q W E cfg (st\<lparr>as_db := fst (record_owner env now (ic_sub c) u rname (as_db st))\<rparr>)"
proof -
  have "written Q W E cfg (ic_sub c) u ''owner''" using assms(2,3) by (auto simp: written_def)
  with traced_op [OF assms(1), of "RecordOwner now (ic_sub c) u rname" env] show ?thesis by simp
qed

lemma traced_admin:
  assumes "E e" and "traced Q W E cfg st"
  shows "traced Q W E cfg (admin_change e st)"
proof (cases e)
  case (fields env cmd args)
  show ?thesis
  proof (cases "admin_op cmd args")
    case (Some op)
    then have "written Q W E cfg k u r" if "granted_by op = Some (k, u, r)" for k u r
      using assms(1) fields that unfolding written_def by blast
    moreover have "enrolled E g s" if "op = AddMember g s" for g s
      using assms(1) fields Some that unfolding enrolled_def by blast
    ultimately show ?thesis using traced_op [OF assms(2)] Some fields by (simp add: run_admin_op)
  qed (use assms fields in \<open>simp add: run_admin_op\<close>)
qed

lemma traced_restarted: "traced Q W E cfg st \<Longrightarrow> traced Q W E cfg (restarted st)"
  by (simp add: traced_def restarted_def)

text \<open>A role the store reports comes from a row.\<close>

lemma role_for_row:
  assumes "store_inv d" and "role_for env s u d = Some r"
  shows "\<exists>k \<in> policy_subjects (abs_db d) s. \<exists>t. p_granted (abs_db d) (k, u) = Some t \<and> role_parse t = Some r"
proof -
  let ?A = "insert None (role_parse ` set (deliver env (granted_roles s u d)))"
  have "Max ?A \<in> ?A" by (rule Max_in) auto
  with assms(2) obtain t where "t \<in> set (granted_roles s u d)" "role_parse t = Some r"
    using set_deliver_sub by (fastforce simp: role_for_Max)
  with assms(1) show ?thesis by (auto simp: granted_roles_def holds_for_iff granted_abs)
qed

lemma row_justified:
  assumes t: "traced Q W E cfg st" and k: "k \<in> policy_subjects (abs_db (as_db st)) s"
    and "p_granted (abs_db (as_db st)) (k, u) = Some t" and r: "role_parse t = Some r"
  shows "justified Q W E cfg s u r"
proof -
  from k have "k = s \<or> (\<exists>g. k = ''group:'' @ g \<and> (g, s) \<in> p_members (abs_db (as_db st)))"
    unfolding policy_subjects_def by fastforce
  with t have "k = s \<or> (\<exists>g. k = ''group:'' @ g \<and> enrolled E g s)" unfolding traced_def by blast
  moreover from t assms(3) have "written Q W E cfg k u t" by (simp only: traced_def)
  ultimately show ?thesis using r unfolding justified_def by blast
qed

lemma role_justified:
  "traced Q W E cfg st \<Longrightarrow> role_for env s u (as_db st) = Some r \<Longrightarrow> justified Q W E cfg s u r"
  using role_for_row [of "as_db st" env s u r] row_justified [of Q W E cfg st _ s u _ r]
  unfolding traced_def by blast

lemma accessible_justified:
  assumes "traced Q W E cfg st" and "u \<in> set (accessible env s (as_db st))"
  shows "\<exists>r. justified Q W E cfg s u r"
proof -
  from assms(2) obtain g where g: "g \<in> set (grants (as_db st))" "g_urc g = u" "holds_for s (as_db st) g"
    using set_deliver_sub by (fastforce simp: accessible_def)
  from assms(1) have i: "store_inv (as_db st)" by (simp add: traced_def)
  with g have "p_granted (abs_db (as_db st)) (g_subject g, u) = Some (g_role g)" by (auto simp: granted_abs)
  moreover from i g(1) obtain r where "role_parse (g_role g) = Some r"
    by (auto simp: store_inv_def role_parse_def)
  ultimately show ?thesis using row_justified [OF assms(1)] g(3) unfolding holds_for_iff by blast
qed

section \<open>Every section keeps the invariant\<close>

abbreviation any :: "'w \<Rightarrow> 's \<Rightarrow> 's \<Rightarrow> bool" where
  "any \<equiv> \<lambda>w s s'. True"

lemma safe_require:
  assumes "safe W I G (\<lambda>r. \<forall>x. r = Inr x \<longrightarrow> A x) a" and "\<And>x. A x \<Longrightarrow> safe W I G R (f x)"
    and "R (Inl refusal)"
  shows "safe W I G R (require a refusal f)"
  unfolding require_def by (rule safe_bind [OF assms(1)]) (auto split: sum.split intro: assms(2,3))

lemma safe_verify:
  "safe W (traced Q W E cfg) any (\<lambda>r. \<forall>c. r = Inr c \<longrightarrow> provider_vouched W cfg token c)
     (oidc_verify_act (id_oidc (ac_identity cfg)) token)"
proof -
  have keep: "safe W (traced Q W E cfg) any (\<lambda>r. \<forall>c. r = Inr c \<longrightarrow> provider_vouched W cfg token c)
      (keep_keys_act (id_oidc (ac_identity cfg)) token ks)" if "keys_fetched W cfg ks" for ks
    using that by (auto simp: keep_keys_act_def Let_def safe_atomic provider_vouched_def intro: traced_cache)
  have "safe W (traced Q W E cfg) any (\<lambda>r. \<forall>ks. r = Inr ks \<longrightarrow> keys_fetched W cfg ks)
      (fetch_act (ov_issuer (id_oidc (ac_identity cfg))))"
    by (auto simp: fetch_act_def safe_atomic keys_fetched_def)
  then have "safe W (traced Q W E cfg) any (\<lambda>r. \<forall>c. r = Inr c \<longrightarrow> provider_vouched W cfg token c)
      (bind_act (fetch_act (ov_issuer (id_oidc (ac_identity cfg))))
        (\<lambda>r. case r of Inl e \<Rightarrow> Return (Inl e) | Inr fetched \<Rightarrow> keep_keys_act (id_oidc (ac_identity cfg)) token fetched))"
    by (rule safe_bind) (auto split: sum.split intro: keep)
  then show ?thesis
    by (auto simp: oidc_verify_act_def safe_atomic provider_vouched_def traced_def split: sum.split option.split)
qed

lemma safe_claims:
  assumes "W w" and "token = bearer (o_to_str w) md"
  shows "safe W (traced Q W E cfg) any (\<lambda>r. \<forall>c. r = Inr c \<longrightarrow> caller_vouched W cfg md c)
     (claims_act (ac_identity cfg) token)"
proof -
  have "caller_vouched W cfg md c" if "W w'" "self_claims (o_jwt w') (o_now w') (id_self (ac_identity cfg)) token = Some c"
    for w' c using assms that unfolding caller_vouched_def by blast
  moreover have "caller_vouched W cfg md c" if "provider_vouched W cfg token c" for c
    using assms that unfolding caller_vouched_def by blast
  ultimately show ?thesis
    using safe_weaken [OF safe_verify, of W cfg token "\<lambda>r. \<forall>c. r = Inr c \<longrightarrow> caller_vouched W cfg md c"]
    by (auto simp: claims_act_def safe_atomic split: option.split)
qed

lemma safe_caller:
  "safe W (traced Q W E cfg) any (\<lambda>r. \<forall>s. r = Inr s \<longrightarrow> (\<exists>c. caller_vouched W cfg md c \<and> s = ic_sub c))
     (caller_act cfg md)"
  unfolding caller_act_def
proof (rule safe_atomicI)
  fix w and st :: "'a auth_state"
  assume w: "W w" and i: "traced Q W E cfg st"
  show "traced Q W E cfg (fst (st, map_act (map_sum id ic_sub) (claims_act (ac_identity cfg) (bearer (o_to_str w) md)))) \<and>
    True \<and> safe W (traced Q W E cfg) any (\<lambda>r. \<forall>s. r = Inr s \<longrightarrow> (\<exists>c. caller_vouched W cfg md c \<and> s = ic_sub c))
      (snd (st, map_act (map_sum id ic_sub) (claims_act (ac_identity cfg) (bearer (o_to_str w) md))))"
    unfolding fst_conv snd_conv
    by (intro conjI i TrueI safe_map, rule safe_weaken [OF safe_claims], rule w, rule refl)
      (auto simp: map_sum_def split: sum.splits)
qed

section \<open>What a reply may carry\<close>

text \<open>
  Permissions on resources that are justified; the subject and the grants of a token; that only an
  owner deletes.  The last permission of a listing may also be the fallback role of the code.
\<close>

fun reply_justified ::
  "(string option \<times> rpc \<Rightarrow> bool) \<Rightarrow> ('k outside \<Rightarrow> bool) \<Rightarrow> (command \<Rightarrow> bool) \<Rightarrow> 'k auth_config \<Rightarrow>
   string option \<times> rpc \<Rightarrow> status + reply \<Rightarrow> bool" where
  "reply_justified Q W E cfg (md, CreateResource rid rname) (Inr r) \<longleftrightarrow> (\<exists>c. caller_vouched W cfg md c)"
| "reply_justified Q W E cfg (md, DeleteResourceReq rid) (Inr r) \<longleftrightarrow>
     (\<exists>c. caller_vouched W cfg md c \<and> justified Q W E cfg (ic_sub c) rid Owner)"
| "reply_justified Q W E cfg (md, CheckUserPermission ids target) (Inr (Checked al de)) \<longleftrightarrow>
     (\<exists>c. caller_vouched W cfg md c \<and> (\<forall>p \<in> set al. rp_resource_id p \<in> set ids \<and>
        (\<exists>r. justified Q W E cfg (ic_sub c) (rp_resource_id p) r \<and> rp_permission p = permissions r)))"
| "reply_justified Q W E cfg (md, LookupUserPermissions) (Inr (Listed ps)) \<longleftrightarrow>
     (\<exists>c. caller_vouched W cfg md c \<and> (\<forall>p \<in> set ps.
        (\<exists>r. justified Q W E cfg (ic_sub c) (rp_resource_id p) r) \<and>
        (\<exists>r. (r = Member \<or> justified Q W E cfg (ic_sub c) (rp_resource_id p) r) \<and>
             rp_permission p = permissions r)))"
| "reply_justified Q W E cfg (md, GetAuthSession code cs) (Inr (Session (Some ut))) \<longleftrightarrow>
     (\<exists>w w' te dc id_token c. W w \<and> W w' \<and>
        device_flow_poll (o_http w') (o_serde w') (ac_device cfg) te dc = Inr (Token id_token) \<and>
        provider_vouched W cfg id_token c \<and> authn_token w cfg c = Inr ut)"
| "reply_justified Q W E cfg (md, ExchangeExternal external) (Inr (Issued ut)) \<longleftrightarrow>
     (\<exists>w c. W w \<and> provider_vouched W cfg external c \<and> authn_token w cfg c = Inr ut)"
| "reply_justified Q W E cfg (md, ExchangeMultiresource ids) (Inr (Issued ut)) \<longleftrightarrow>
     (\<exists>w c rs. W w \<and> caller_vouched W cfg md c \<and>
        mint (o_jwt w) (o_now w) (ac_signer cfg) (ac_issuer cfg) (ac_audience cfg) (ic_sub c)
          (fst (display_names c)) (snd (display_names c)) (ic_exp c) rs = Inr (ut_token ut) \<and>
        ut_user_id ut = ic_sub c \<and> ut_expires_at ut = sint (ic_exp c) \<and>
        (\<forall>g \<in> set rs. resource_id g \<in> set ids \<and>
           (\<exists>r. justified Q W E cfg (ic_sub c) (resource_id g) r \<and> permission g = permissions r)))"
| "reply_justified Q W E cfg q r \<longleftrightarrow> True"

lemma reply_justified_error [simp]: "reply_justified Q W E cfg q (Inl e)"
  by (cases q; cases "snd q") auto

lemma safe_answer:
  "safe W I G (\<lambda>r. R (map_sum id f r)) a \<Longrightarrow> safe W I G R (answer f a)"
  unfolding answer_def by (rule safe_map)

text \<open>A handler that starts by asking who calls.\<close>

lemma safe_called:
  assumes "\<And>c. caller_vouched W cfg md c \<Longrightarrow> safe W (traced Q W E cfg) any R (f (ic_sub c))" and "R (Inl m)"
  shows "safe W (traced Q W E cfg) any R (require (caller_act cfg md) m f)"
  by (rule safe_require [OF safe_caller]) (use assms in auto)

lemma safe_create:
  assumes "Q (md, CreateResource rid rname)"
  shows "safe W (traced Q W E cfg) any (\<lambda>r. \<forall>x. r = Inr x \<longrightarrow> (\<exists>c. caller_vouched W cfg md c))
    (create_resource_act cfg md rid rname)"
  unfolding create_resource_act_def
proof (rule safe_called)
  fix c
  assume c: "caller_vouched W cfg md c"
  show "safe W (traced Q W E cfg) any (\<lambda>r. \<forall>x. r = Inr x \<longrightarrow> (\<exists>c. caller_vouched W cfg md c))
    (atomic (\<lambda>w st. case record_owner (o_sql w) (int (o_now w)) (ic_sub c) rid rname (as_db st) of
        (d, Inl e) \<Rightarrow> (st\<lparr>as_db := d\<rparr>, Return (Inl (Internal ''store error'')))
      | (d, Inr _) \<Rightarrow> (st\<lparr>as_db := d\<rparr>, Return (Inr ()))))"
  proof (rule safe_atomicI, goal_cases)
    case (1 w st)
    from traced_create [OF 1(2) assms c, of "o_sql w" "int (o_now w)"] c show ?case
      by (auto split: prod.split sum.split)
  qed
qed simp

lemma safe_delete:
  "safe W (traced Q W E cfg) any
    (case_sum (\<lambda>_. True) (\<lambda>_. \<exists>c. caller_vouched W cfg md c \<and> justified Q W E cfg (ic_sub c) rid Owner))
    (delete_resource_act cfg md rid)" (is "safe _ _ _ ?R _")
  unfolding delete_resource_act_def
proof (rule safe_called)
  fix c
  assume c: "caller_vouched W cfg md c"
  have del: "safe W (traced Q W E cfg) any ?R
    (atomic (\<lambda>w st. case delete_resource (o_sql w) rid (as_db st) of
        (d, Inl e) \<Rightarrow> (st\<lparr>as_db := d\<rparr>, Return (Inl (Internal ''store error'')))
      | (d, Inr _) \<Rightarrow> (st\<lparr>as_db := d\<rparr>, Return (Inr ()))))" if "justified Q W E cfg (ic_sub c) rid Owner"
  proof (rule safe_atomicI, goal_cases)
    case (1 w st)
    from traced_delete [OF 1(2), of "o_sql w" rid] c that show ?case
      by (auto split: prod.split sum.split)
  qed
  show "safe W (traced Q W E cfg) any ?R (atomic (\<lambda>w st. (st,
      if role_for (o_sql w) (ic_sub c) rid (as_db st) \<noteq> Some Owner
      then Return (Inl (PermissionDenied ''not an owner of this resource''))
      else atomic (\<lambda>w st. case delete_resource (o_sql w) rid (as_db st) of
          (d, Inl e) \<Rightarrow> (st\<lparr>as_db := d\<rparr>, Return (Inl (Internal ''store error'')))
        | (d, Inr _) \<Rightarrow> (st\<lparr>as_db := d\<rparr>, Return (Inr ()))))))"
  proof (rule safe_atomicI, goal_cases)
    case (1 w st)
    then show ?case using del role_justified [OF 1(2), of "o_sql w" "ic_sub c" rid Owner] by auto
  qed
qed simp

lemma safe_check_ids:
  "\<forall>p \<in> set al. rp_resource_id p \<in> set all \<and>
      (\<exists>r. justified Q W E cfg sub (rp_resource_id p) r \<and> rp_permission p = permissions r) \<Longrightarrow>
   set ids \<subseteq> set all \<Longrightarrow>
   safe W (traced Q W E cfg) any
    (\<lambda>x. \<exists>al de. x = Inr (al, de) \<and> (\<forall>p \<in> set al. rp_resource_id p \<in> set all \<and>
      (\<exists>r. justified Q W E cfg sub (rp_resource_id p) r \<and> rp_permission p = permissions r)))
    (check_ids_act sub ids al de)"
proof (induction ids arbitrary: al de)
  case (Cons rid ids)
  show ?case unfolding check_ids_act.simps
  proof (rule safe_atomicI, goal_cases)
    case (1 w st)
    show ?case
    proof (cases "role_for (o_sql w) sub rid (as_db st)")
      case (Some r)
      with 1 have "justified Q W E cfg sub rid r" by (auto intro: role_justified)
      with Cons.prems have "\<forall>p \<in> set (al @ [grant rid r]). rp_resource_id p \<in> set all \<and>
          (\<exists>r. justified Q W E cfg sub (rp_resource_id p) r \<and> rp_permission p = permissions r)"
        by (auto simp: grant_def)
      with Cons.IH [OF this] Cons.prems(2) 1 Some show ?thesis by simp
    qed (use 1 Cons in simp)
  qed
qed auto

lemma safe_list_roles:
  "\<forall>rid \<in> set ids. \<exists>r. justified Q W E cfg sub rid r \<Longrightarrow>
   \<forall>p \<in> set acc. (\<exists>r. justified Q W E cfg sub (rp_resource_id p) r) \<and>
      (\<exists>r. (r = Member \<or> justified Q W E cfg sub (rp_resource_id p) r) \<and> rp_permission p = permissions r) \<Longrightarrow>
   safe W (traced Q W E cfg) any
    (\<lambda>x. \<exists>ps. x = Inr ps \<and> (\<forall>p \<in> set ps. (\<exists>r. justified Q W E cfg sub (rp_resource_id p) r) \<and>
      (\<exists>r. (r = Member \<or> justified Q W E cfg sub (rp_resource_id p) r) \<and> rp_permission p = permissions r)))
    (list_roles_act sub ids acc)"
proof (induction ids arbitrary: acc)
  case (Cons rid ids)
  show ?case unfolding list_roles_act.simps
  proof (rule safe_atomicI, goal_cases)
    case (1 w st)
    let ?g = "grant rid (case role_for (o_sql w) sub rid (as_db st) of Some r \<Rightarrow> r | None \<Rightarrow> Member)"
    from 1 have "\<exists>r. (r = Member \<or> justified Q W E cfg sub rid r) \<and> rp_permission ?g = permissions r"
      by (auto simp: grant_def split: option.split intro: role_justified)
    with Cons.prems have "\<forall>p \<in> set (acc @ [?g]). (\<exists>r. justified Q W E cfg sub (rp_resource_id p) r) \<and>
      (\<exists>r. (r = Member \<or> justified Q W E cfg sub (rp_resource_id p) r) \<and> rp_permission p = permissions r)"
      by (auto simp: grant_def)
    from Cons.IH [OF _ this] Cons.prems(1) 1 show ?case by simp
  qed
qed auto

lemma safe_scope:
  "\<forall>g \<in> set acc. resource_id g \<in> set all \<and>
      (\<exists>r. justified Q W E cfg sub (resource_id g) r \<and> permission g = permissions r) \<Longrightarrow>
   set ids \<subseteq> set all \<Longrightarrow>
   safe W (traced Q W E cfg) any
    (\<lambda>rs. \<forall>g \<in> set rs. resource_id g \<in> set all \<and>
      (\<exists>r. justified Q W E cfg sub (resource_id g) r \<and> permission g = permissions r))
    (scope_act sub ids acc)"
proof (induction ids arbitrary: acc)
  case (Cons rid ids)
  show ?case unfolding scope_act.simps
  proof (rule safe_atomicI, goal_cases)
    case (1 w st)
    show ?case
    proof (cases "role_for (o_sql w) sub rid (as_db st)")
      case (Some r)
      with 1 have "justified Q W E cfg sub rid r" by (auto intro: role_justified)
      with Cons.prems have "\<forall>g \<in> set (acc @ [\<lparr>resource_id = rid, permission = permissions r\<rparr>]). resource_id g \<in> set all \<and>
          (\<exists>r. justified Q W E cfg sub (resource_id g) r \<and> permission g = permissions r)"
        by auto
      with Cons.IH [OF this] Cons.prems(2) 1 Some show ?thesis by simp
    qed (use 1 Cons in simp)
  qed
qed auto

lemma safe_exchange:
  "safe W (traced Q W E cfg) any
    (\<lambda>r. \<forall>ut. r = Inr ut \<longrightarrow> reply_justified Q W E cfg (md, ExchangeMultiresource ids) (Inr (Issued ut)))
    (exchange_multiresource_act cfg md ids)" (is "safe _ _ _ ?R _")
proof -
  have mint: "safe W (traced Q W E cfg) any ?R (mint_scoped_act cfg c rs)"
    if "caller_vouched W cfg md c" and "\<forall>g \<in> set rs. resource_id g \<in> set ids \<and>
      (\<exists>r. justified Q W E cfg (ic_sub c) (resource_id g) r \<and> permission g = permissions r)" for c rs
    unfolding mint_scoped_act_def
  proof (rule safe_atomicI, goal_cases)
    case (1 w st)
    with that show ?case
      by (cases "mint (o_jwt w) (o_now w) (ac_signer cfg) (ac_issuer cfg) (ac_audience cfg) (ic_sub c)
          (fst (display_names c)) (snd (display_names c)) (ic_exp c) rs")
        (auto simp: case_prod_beta intro!: exI [of _ w] exI [of _ c] exI [of _ rs])
  qed
  have body: "safe W (traced Q W E cfg) any ?R (bind_act (scope_act (ic_sub c) ids []) (mint_scoped_act cfg c))"
    if "caller_vouched W cfg md c" for c
    by (rule safe_bind [OF safe_scope [where all = ids]], simp, simp, rule mint [OF that])
  show ?thesis unfolding exchange_multiresource_act_def
  proof (rule safe_atomicI, goal_cases)
    case (1 w st)
    have "safe W (traced Q W E cfg) any ?R
        (require (claims_act (ac_identity cfg) (bearer (o_to_str w) md)) (Unauthenticated ''invalid identity token'')
          (\<lambda>c. bind_act (scope_act (ic_sub c) ids []) (mint_scoped_act cfg c)))"
      by (rule safe_require [OF safe_claims [where w = w and W = W, OF 1(1) refl]])
        (auto simp del: reply_justified.simps intro: body)
    with 1 show ?case by (simp add: Let_def)
  qed
qed

lemma safe_start: "safe W (traced Q W E cfg) any (\<lambda>_. True) (start_auth_session_act cfg cs)"
  unfolding start_auth_session_act_def
  by (rule safe_require [where A = "\<lambda>_. True"]) (auto simp: safe_atomic Let_def)

lemma safe_external:
  "safe W (traced Q W E cfg) any
    (\<lambda>r. \<forall>ut. r = Inr ut \<longrightarrow> (\<exists>w c. W w \<and> provider_vouched W cfg external c \<and> authn_token w cfg c = Inr ut))
    (exchange_external_act cfg external)"
proof (cases "external = []")
  case False
  then show ?thesis unfolding exchange_external_act_def
    by (simp, intro safe_require [OF safe_verify]) (auto simp: safe_atomic)
qed (simp add: exchange_external_act_def)

lemma safe_get_session:
  "safe W (traced Q W E cfg) any
    (\<lambda>r. \<forall>ut. r = Inr (Some ut) \<longrightarrow> reply_justified Q W E cfg (md, GetAuthSession code cs) (Inr (Session (Some ut))))
    (get_auth_session_act cfg code cs)" (is "safe _ _ _ ?R _")
proof -
  have finish: "safe W (traced Q W E cfg) any ?R (finish_session_act cfg code id_token)"
    if "W w'" and "device_flow_poll (o_http w') (o_serde w') (ac_device cfg) te dc = Inr (Token id_token)"
    for w' te dc id_token
    unfolding finish_session_act_def
  proof (rule safe_require [OF safe_verify], rule safe_atomicI, goal_cases)
    case (1 c w st)
    have "\<forall>ut. authn_token w cfg c = Inr ut \<longrightarrow>
        reply_justified Q W E cfg (md, GetAuthSession code cs) (Inr (Session (Some ut)))"
      using that 1 unfolding reply_justified.simps by blast
    with 1 show ?case by (auto simp del: reply_justified.simps split: sum.split)
  qed simp
  have "safe W (traced Q W E cfg) any ?R (poll_act cfg code dc te)" for dc te
    unfolding poll_act_def
    by (rule safe_atomicI)
      (auto simp: safe_atomic simp del: reply_justified.simps split: sum.split poll.split intro: finish)
  then show ?thesis unfolding get_auth_session_act_def
    by (intro safe_atomicI) (auto simp del: reply_justified.simps split: prod.split option.split)
qed

lemma safe_serve:
  assumes "Q q"
  shows "safe W (traced Q W E cfg) any (reply_justified Q W E cfg q) (serve_act cfg q)"
proof (cases q)
  case (Pair md req)
  show ?thesis
  proof (cases req)
    case (CreateResource rid rname)
    with Pair assms show ?thesis
      by (auto intro!: safe_answer safe_weaken [OF safe_create [of Q md rid rname W E cfg]]
          simp: map_sum_def split: sum.splits)
  next
    case (DeleteResourceReq rid)
    with Pair show ?thesis
      by (auto intro!: safe_answer safe_weaken [OF safe_delete] simp: map_sum_def split: sum.splits)
  next
    case (CheckUserPermission ids target)
    show ?thesis unfolding Pair CheckUserPermission serve_act.simps check_user_permission_act_def
      by (intro safe_answer safe_called)
        (auto intro!: safe_weaken [OF safe_check_ids [where all = ids]], blast)
  next
    case LookupUserPermissions
    show ?thesis unfolding Pair LookupUserPermissions serve_act.simps lookup_user_permissions_act_def
      by (intro safe_answer safe_called safe_atomicI)
        (auto intro!: safe_weaken [OF safe_list_roles] accessible_justified)
  next
    case (StartAuthSession cs)
    with Pair show ?thesis by (auto intro!: safe_answer safe_weaken [OF safe_start])
  next
    case (GetAuthSession code cs)
    show ?thesis unfolding Pair GetAuthSession serve_act.simps
    proof (rule safe_answer, rule safe_weaken [OF safe_get_session [where md = md]], goal_cases)
      case (1 r)
      then show ?case by (cases r; cases "projr r") auto
    qed
  next
    case (ExchangeExternal external)
    show ?thesis unfolding Pair ExchangeExternal serve_act.simps
    proof (rule safe_answer, rule safe_weaken [OF safe_external], goal_cases)
      case (1 r)
      then show ?case by (cases r) auto
    qed
  next
    case (ExchangeMultiresource ids)
    show ?thesis unfolding Pair ExchangeMultiresource serve_act.simps
    proof (rule safe_answer, rule safe_weaken [OF safe_exchange [where md = md]], goal_cases)
      case (1 r)
      then show ?case by (cases r) auto
    qed
  qed (simp_all add: Pair answer_def map_act_def)
qed

interpretation service: shared_state "serve_act cfg" admin_change restarted Q W E "traced Q W E cfg" any
    "reply_justified Q W E cfg" for cfg Q W E
  by unfold_locales (auto simp: safe_serve traced_admin traced_restarted)

section \<open>Under every schedule\<close>

text \<open>C1. Access in the running service, whatever the interleaving: every role the store reports, after any
  schedule of handlers, administrator's commands and restarts from an empty database, was given by
  a grant that a caller with a verified token of that name wrote by creating the resource, or that
  the administrator wrote, to the subject or to a group in which the administrator put it.\<close>

theorem interleaved_access:
  assumes "pool_run (serve_act cfg) admin_change restarted xs (fresh_state, Map.empty) = (st, p)"
    and "role_for env s u (as_db st) = Some r"
  shows "justified (arrives xs) (runs_in xs) (changes xs) cfg s u r"
proof -
  have "traced (arrives xs) (runs_in xs) (changes xs) cfg st"
    using service.run_keeps [where Q = "arrives xs" and W = "runs_in xs" and E = "changes xs" and xs = xs
        and cfg = cfg, OF _ traced_fresh] assms(1) by (simp add: sched_ok_self)
  then show ?thesis using assms(2) by (rule role_justified)
qed

text \<open>C4. Replies of the running service, whatever the interleaving: a scoped token, a permission check or a
  listing goes to a caller with a verified token and carries only resources on which a written grant
  justifies a role of that caller (a token and a check: exactly the permissions of such a role), a
  login token is minted for an identity the provider vouches for, and a deletion is for a caller
  with a justified ownership.\<close>

theorem interleaved_replies:
  assumes "reply_of (pool_run (serve_act cfg) admin_change restarted xs (fresh_state, Map.empty)) i = Some (q, r)"
  shows "arrives xs q \<and> reply_justified (arrives xs) (runs_in xs) (changes xs) cfg q r"
  using service.reply_ok [where Q = "arrives xs" and W = "runs_in xs" and E = "changes xs" and xs = xs
      and cfg = cfg, OF _ traced_fresh assms] by (simp add: sched_ok_self)

end
