(* ===== verification/Auth_Races.thy ===== *)
theory Auth_Races
  imports Auth_Concurrency
begin

text \<open>
  What interleaving does break: two guarantees of the sequential handlers that a schedule of their
  sections violates, shown for every state and world in which the sequential handler succeeds.
\<close>

section \<open>Overlapping polls\<close>

text \<open>A token that verified once verifies again in the same world, with the keys that were kept.\<close>

lemma provider_claims_again:
  assumes "provider_claims w cfg token st = (st', Inr c)" and "as_cache st2 = as_cache st'"
  shows "provider_claims w cfg token st2 = (st2, Inr c)"
proof -
  have "verify_with_jwks J now token ks i a = Inr c \<Longrightarrow> token_kid J token = Inr k \<Longrightarrow>
      jwks_find J ks k \<noteq> None" for J :: "'a jwt" and now ks i a k
    by (auto simp: verify_with_jwks_def split: option.splits)
  with assms show ?thesis
    by (cases st2) (fastforce simp: provider_claims_def oidc_verify_def opt_filter_def
        split: prod.splits sum.splits option.splits if_splits)
qed

text \<open>C20. The single use of a login session rests on the polls not overlapping: when a poll would hand out a
  token, two polls of which both read the session before either removes it both hand out a token.\<close>

theorem double_poll:
  assumes "snd (get_auth_session w cfg code cs st) = Inr (Some ut)"
  shows "\<exists>n m. \<forall>i \<in> {0, 1}.
    reply_of (pool_run (serve_act cfg) admin_change restarted
        ([Arrive 0 (md, GetAuthSession code cs), Arrive 1 (md, GetAuthSession code cs), Run 1 w] @
         replicate n (Run 0 w) @ replicate m (Run 1 w)) (st, Map.empty)) i
      = Some ((md, GetAuthSession code cs), Inr (Session (Some ut)))"
proof -
  let ?q = "(md, GetAuthSession code cs)"
  obtain m dc te where r: "sessions_resolve (o_instant1 w) (o_instant2 w) code cs (as_sessions st) = (m, Some (dc, te))"
    using assms by (auto simp: get_auth_session_def split: prod.splits option.splits)
  let ?st = "st\<lparr>as_sessions := m\<rparr>"
  have m: "m = sweep (o_instant1 w) (as_sessions st)" using resolve_table [of "o_instant1 w" "o_instant2 w" code cs] r
    by (metis fst_conv)
  have again: "sessions_resolve (o_instant1 w) (o_instant2 w) code cs m = (m, Some (dc, te))"
    using r by (simp add: sessions_resolve_def Let_def m sweep_sweep)
  obtain id_token where t: "device_flow_poll (o_http w) (o_serde w) (ac_device cfg) te dc = Inr (Token id_token)"
    using assms r by (auto simp: get_auth_session_def Let_def split: sum.splits poll.splits)
  obtain st2 c where c: "provider_claims w cfg id_token ?st = (st2, Inr c)" "authn_token w cfg c = Inr ut"
    using assms r t by (auto simp: get_auth_session_def Let_def split: prod.splits sum.splits)
  let ?st3 = "st2\<lparr>as_sessions := sessions_remove code (as_sessions st2)\<rparr>"
  have first: "alone w (serve_act cfg ?q) ?st = (?st3, Inr (Session (Some ut)))"
    unfolding serve_act_eq by (simp add: get_auth_session_def again t c Let_def map_reply_def)
  have "provider_claims w cfg id_token ?st3 = (?st3, Inr c)" by (rule provider_claims_again [OF c(1)]) simp
  then have second: "snd (alone w (answer Session (poll_act cfg code dc te)) ?st3) = Inr (Session (Some ut))"
    by (simp add: alone_answer alone_poll t c map_reply_def)
  have "pool_run (serve_act cfg) admin_change restarted [Arrive 0 ?q, Arrive 1 ?q, Run 1 w] (st, Map.empty) =
    (?st, Map.empty(1 \<mapsto> (?q, answer Session (poll_act cfg code dc te)), 0 \<mapsto> (?q, serve_act cfg ?q)))"
    by (simp add: answer_def map_act_def get_auth_session_act_def atomic_def r fun_upd_twist)
  moreover obtain n where "pool_run (serve_act cfg) admin_change restarted (replicate n (Run 0 w))
      (?st, Map.empty(1 \<mapsto> (?q, answer Session (poll_act cfg code dc te)), 0 \<mapsto> (?q, serve_act cfg ?q))) =
    (?st3, Map.empty(1 \<mapsto> (?q, answer Session (poll_act cfg code dc te)), 0 \<mapsto> (?q, Return (Inr (Session (Some ut))))))"
    using run_alone [of "serve_act cfg" admin_change restarted 0 w ?st] first by (metis fst_conv snd_conv)
  moreover obtain k st4 where "pool_run (serve_act cfg) admin_change restarted (replicate k (Run 1 w))
      (?st3, Map.empty(0 \<mapsto> (?q, Return (Inr (Session (Some ut)))), 1 \<mapsto> (?q, answer Session (poll_act cfg code dc te)))) =
    (st4, Map.empty(0 \<mapsto> (?q, Return (Inr (Session (Some ut)))), 1 \<mapsto> (?q, Return (Inr (Session (Some ut))))))"
    using run_alone [of "serve_act cfg" admin_change restarted 1 w ?st3] second by metis
  ultimately have "\<forall>i \<in> {0, 1}. reply_of (pool_run (serve_act cfg) admin_change restarted
      ([Arrive 0 ?q, Arrive 1 ?q, Run 1 w] @ replicate n (Run 0 w) @ replicate k (Run 1 w)) (st, Map.empty)) i
      = Some (?q, Inr (Session (Some ut)))"
    unfolding pool_run_append by (simp add: fun_upd_twist)
  then show ?thesis by blast
qed

section \<open>A listing that outlives a grant\<close>

lemma list_roles_first:
  "\<exists>ps. snd (alone w (list_roles_act sub ids acc) st) = Inr ps \<and>
    (\<forall>rid \<in> set ids. role_for (o_sql w) sub rid (as_db st) = None \<longrightarrow> grant rid Member \<in> set ps)"
  by (auto simp: alone_list_roles intro!: image_eqI split: option.split)

text \<open>C21. The listing reads the caller's resources and then the role on each: when the administrator takes the
  last role on a resource away in between, the listing still reports it, with the fallback role and
  so with read and write permission, although the store gives the caller no role there any more.\<close>

theorem stale_listing:
  assumes "caller w cfg md st = (st1, Inr sub)"
    and "rid \<in> set (accessible (o_sql w) sub (as_db st))"
    and "role_for (o_sql w) sub rid (as_db (admin_change e st1)) = None"
  shows "\<exists>n m ps. reply_of (pool_run (serve_act cfg) admin_change restarted
        ([Arrive 0 (md, LookupUserPermissions)] @ replicate n (Run 0 w) @ [Run 0 w, Change e] @
         replicate m (Run 0 w)) (st, Map.empty)) 0
      = Some ((md, LookupUserPermissions), Inr (Listed ps)) \<and> grant rid Member \<in> set ps"
proof -
  let ?q = "(md, LookupUserPermissions)"
  let ?ids = "accessible (o_sql w) sub (as_db st1)"
  let ?lister = "\<lambda>ids. answer Listed (list_roles_act sub ids [])"
  have db: "as_db st1 = as_db st" using caller_frame [OF assms(1)] by simp
  have body: "serve_act cfg ?q = bind_act (caller_act cfg md)
      (\<lambda>r. case r of Inl e \<Rightarrow> Return (Inl (Unauthenticated ''invalid token''))
        | Inr sub \<Rightarrow> atomic (\<lambda>w st. (st, answer Listed (list_roles_act sub (accessible (o_sql w) sub (as_db st)) []))))"
    (is "_ = bind_act _ ?f")
    by (simp add: answer_def map_act_def lookup_user_permissions_act_def require_def bind_assoc
        cong: sum.case_cong) (rule arg_cong [where f = "bind_act (caller_act cfg md)"], auto split: sum.split)
  obtain n where n: "pool_run (serve_act cfg) admin_change restarted (replicate n (Run 0 w))
      (st, Map.empty(0 \<mapsto> (?q, serve_act cfg ?q))) = (st1, Map.empty(0 \<mapsto> (?q, ?f (Inr sub))))"
    using run_bind [of "serve_act cfg" admin_change restarted 0 w st Map.empty ?q "caller_act cfg md" ?f] assms(1)
    by (auto simp: body alone_caller simp del: serve_act.simps)
  have mid: "pool_run (serve_act cfg) admin_change restarted [Run 0 w, Change e]
      (st1, Map.empty(0 \<mapsto> (?q, ?f (Inr sub)))) = (admin_change e st1, Map.empty(0 \<mapsto> (?q, ?lister ?ids)))"
    by (simp add: atomic_def)
  obtain ps where "snd (alone w (list_roles_act sub ?ids []) (admin_change e st1)) = Inr ps"
    and g: "grant rid Member \<in> set ps"
    using list_roles_first [of w sub ?ids "[]" "admin_change e st1"] assms(2,3) db by auto
  then have "snd (alone w (?lister ?ids) (admin_change e st1)) = Inr (Listed ps)"
    by (simp add: alone_answer map_reply_def)
  then obtain k st2 where "pool_run (serve_act cfg) admin_change restarted (replicate k (Run 0 w))
      (admin_change e st1, Map.empty(0 \<mapsto> (?q, ?lister ?ids))) = (st2, Map.empty(0 \<mapsto> (?q, Return (Inr (Listed ps)))))"
    using run_alone [of "serve_act cfg" admin_change restarted 0 w "admin_change e st1"] by metis
  with n mid have "reply_of (pool_run (serve_act cfg) admin_change restarted
        ([Arrive 0 ?q] @ replicate n (Run 0 w) @ [Run 0 w, Change e] @ replicate k (Run 0 w)) (st, Map.empty)) 0
      = Some (?q, Inr (Listed ps))"
    unfolding pool_run_append by simp
  with g show ?thesis by blast
qed

end
