(* ===== verification/Web_Sections.thy ===== *)
theory Web_Sections
  imports Web_Properties Sections
begin

text \<open>
  The handlers of \<^verbatim>\<open>web/src/main.rs\<close> as they run on the server: concurrently, each
  in sections that end where the source awaits a remote service or releases the mutex of one of the
  two tables.  Between two sections other requests run and the remote auth service may change.
  Run without interruption in one world, a handler is the step of \<^const>\<open>web_serve\<close>.
\<close>

type_synonym ('k, 'u, 'a) web_steps = "('a web_state, ('k, 'u, 'a) web_outside, response) act"

section \<open>The handlers\<close>

definition redirect_act :: "string \<Rightarrow> string option \<Rightarrow> ('k, 'u, 'a) web_steps" where
  "redirect_act location set_cookie =
     atomic (\<lambda>w st. (st, Return (redirect (wo_header_value w) location set_cookie)))"

definition login_act :: "web_config \<Rightarrow> ('k, 'u, 'a) web_steps" where
  "login_act cfg =
     atomic (\<lambda>w st.
       let state = random_state (wo_random w);
           verifier = code_verifier (wo_crypto w) (wo_bytes w);
           challenge = code_challenge (wo_crypto w) verifier;
           s = wt_store st
       in (st\<lparr>wt_store := s\<lparr>w_pending :=
               start_login (wo_sweep w) (wo_clock w 1) state verifier (w_pending s)\<rparr>\<rparr>,
           atomic (\<lambda>w st. (st,
             case authorize_url (wo_http w) (wo_serde w) (wo_urls w) (wc_oidc cfg) state challenge of
               Inr url \<Rightarrow> Return (redirect (wo_header_value w) url None)
             | Inl e \<Rightarrow> Return (Response 502 [] (Text ''login unavailable''))))))"

text \<open>The session is created, in the frontend's own table, after the auth service has answered.\<close>

definition create_session_act :: "issued \<Rightarrow> ('k, 'u, 'a) web_steps" where
  "create_session_act i =
     atomic (\<lambda>w st.
       let expiry = session_expiry (wo_clock w 1) (wo_clock w 2) (is_expires_at i);
           sid = random_state (wo_random w);
           s = wt_store st
       in (st\<lparr>wt_store := s\<lparr>w_sessions := session_create (wo_sweep w) sid
               \<lparr>ws_token = is_token i, ws_user_name = is_user_name i,
                ws_sub = is_user_id i, ws_expires_at = expiry\<rparr> (w_sessions s)\<rparr>\<rparr>,
           Return (redirect (wo_header_value w) ''/''
             (Some (session_cookie sid (cookie_age expiry (wo_clock w 4)))))))"

definition issue_act :: "web_config \<Rightarrow> string \<Rightarrow> ('k, 'u, 'a) web_steps" where
  "issue_act cfg id_token =
     atomic (\<lambda>w st.
       case exchange_external (wo_auth w) (wc_auth_endpoint cfg) id_token (wt_auth st) of
         (a, Inl e) \<Rightarrow>
           (st\<lparr>wt_auth := a\<rparr>, Return (redirect (wo_header_value w) ''/?login=failed'' None))
       | (a, Inr i) \<Rightarrow> (st\<lparr>wt_auth := a\<rparr>, create_session_act i))"

definition finish_login_act :: "web_config \<Rightarrow> string \<Rightarrow> string \<Rightarrow> ('k, 'u, 'a) web_steps" where
  "finish_login_act cfg code verifier =
     atomic (\<lambda>w st. (st,
       case exchange_code (wo_http w) (wo_serde w) (wc_oidc cfg) code verifier of
         Inl e \<Rightarrow> Return (redirect (wo_header_value w) ''/?login=failed'' None)
       | Inr id_token \<Rightarrow> issue_act cfg id_token))"

definition take_act :: "web_config \<Rightarrow> string \<Rightarrow> string \<Rightarrow> ('k, 'u, 'a) web_steps" where
  "take_act cfg code state =
     atomic (\<lambda>w st.
       case take_pending (wo_clock w 0) state (w_pending (wt_store st)) of
         (m, None) \<Rightarrow>
           (st\<lparr>wt_store := (wt_store st)\<lparr>w_pending := m\<rparr>\<rparr>,
            Return (redirect (wo_header_value w) ''/?login=failed'' None))
       | (m, Some verifier) \<Rightarrow>
           (st\<lparr>wt_store := (wt_store st)\<lparr>w_pending := m\<rparr>\<rparr>, finish_login_act cfg code verifier))"

definition callback_act ::
  "web_config \<Rightarrow> string option \<Rightarrow> string option \<Rightarrow> string option \<Rightarrow> ('k, 'u, 'a) web_steps" where
  "callback_act cfg code state err =
     (case err of
        Some e \<Rightarrow> redirect_act ''/?login=failed'' None
      | None \<Rightarrow>
          (case (code, state) of
             (Some c, Some s) \<Rightarrow> take_act cfg c s
           | _ \<Rightarrow> redirect_act ''/?login=failed'' None))"

definition logout_act :: "string option \<Rightarrow> ('k, 'u, 'a) web_steps" where
  "logout_act cookies =
     atomic (\<lambda>w st.
       (case session_id (wo_to_str w) cookies of
          None \<Rightarrow> st
        | Some sid \<Rightarrow>
            st\<lparr>wt_store := (wt_store st)\<lparr>w_sessions := session_remove sid (w_sessions (wt_store st))\<rparr>\<rparr>,
        redirect_act ''/'' (Some clear_cookie)))"

definition me_act :: "string option \<Rightarrow> ('k, 'u, 'a) web_steps" where
  "me_act cookies = atomic (\<lambda>w st. (st, Return (me w cookies st)))"

text \<open>The lock on the sessions is released before loreserver is asked.\<close>

definition repos_act :: "web_config \<Rightarrow> string option \<Rightarrow> ('k, 'u, 'a) web_steps" where
  "repos_act cfg cookies =
     atomic (\<lambda>w st. (st,
       case live_session w cookies st of
         None \<Rightarrow> Return (Response 401 [] (Text ''not logged in''))
       | Some (token, _, _) \<Rightarrow>
           atomic (\<lambda>w st. (st, Return
             (case list_repos (wo_header_value w) (wo_lore w) (wc_lore_endpoint cfg) token of
                Inr l \<Rightarrow> Response 200 [] (JsonBody (JArr (map summary_json l)))
              | Inl e \<Rightarrow> Response 502 [] (Text ''could not list repositories''))))))"

definition web_act :: "web_config \<Rightarrow> web_request \<Rightarrow> ('k, 'u, 'a) web_steps" where
  "web_act cfg r =
     (if wr_path r = ''/healthz'' then Return (Response 200 [] (Text ''ok''))
      else if wr_path r = ''/auth/login'' then login_act cfg
      else if wr_path r = ''/auth/callback'' then callback_act cfg (wr_code r) (wr_state r) (wr_error r)
      else if wr_path r = ''/auth/logout'' then logout_act (wr_cookies r)
      else if wr_path r = ''/api/me'' then me_act (wr_cookies r)
      else if wr_path r = ''/api/repos'' then repos_act cfg (wr_cookies r)
      else atomic (\<lambda>w st. (st, Return (wo_static w (wr_path r)))))"

lemmas web_act_defs = redirect_act_def login_act_def create_session_act_def issue_act_def finish_login_act_def
  take_act_def callback_act_def logout_act_def me_act_def repos_act_def

text \<open>The remote auth service changes by itself; a restart of the frontend empties its tables.\<close>

definition remote_change :: "('a \<Rightarrow> 'a) \<Rightarrow> 'a web_state \<Rightarrow> 'a web_state" where
  "remote_change f st = st\<lparr>wt_auth := f (wt_auth st)\<rparr>"

definition web_restarted :: "'a web_state \<Rightarrow> 'a web_state" where
  "web_restarted st = web_initial (wt_auth st)"

section \<open>Without interruption\<close>

text \<open>A handler of the frontend that nothing interrupts, in one world, does exactly what its step in the
  sequential model does.\<close>

lemma web_act_alone: "alone w (web_act cfg r) st = web_serve w cfg r st"
proof -
  have "alone w (finish_login_act cfg c v) st = finish_login w cfg c v st" for c v st
    by (auto simp: web_act_defs finish_login_def Let_def split: sum.split prod.split)
  then have "alone w (callback_act cfg c s e) st = callback w cfg c s e st" for c s e
    by (auto simp: callback_act_def callback_def take_act_def redirect_act_def split: option.split prod.split)
  moreover have "alone w (login_act cfg) st = login w cfg st"
    by (auto simp: login_act_def login_def Let_def split: sum.split)
  ultimately show ?thesis
    by (auto simp: web_act_def web_serve_def logout_act_def logout_def redirect_act_def me_act_def
        repos_act_def repos_def Let_def split: option.split sum.split)
qed

end
