(* ===== verification/Web_Concurrency.thy ===== *)
theory Web_Concurrency
  imports Web_Sections
begin

text \<open>
  What the frontend guarantees when its handlers interleave: a login's state and a logged-out session
  stay dead, and every session comes from a completed login.
\<close>

section \<open>What a section may add\<close>

text \<open>A section adds an entry to a table only under the identifier it draws.\<close>

definition adds_drawn :: "('k, 'u, 'a) web_outside \<Rightarrow> 'a web_state \<Rightarrow> 'a web_state \<Rightarrow> bool" where
  "adds_drawn w st st' \<longleftrightarrow>
     (\<forall>s. s \<noteq> random_state (wo_random w) \<longrightarrow>
        (pendings st s = None \<longrightarrow> pendings st' s = None) \<and>
        (browser_sessions st s = None \<longrightarrow> browser_sessions st' s = None))"

lemma adds_drawn_refl [simp]: "adds_drawn w st st"
  by (simp add: adds_drawn_def)

lemma adds_drawn_ops [simp]:
  "adds_drawn w st (st\<lparr>wt_auth := a\<rparr>)"
  "adds_drawn w st (st\<lparr>wt_store := (wt_store st)\<lparr>w_pending := (pendings st)(s := None)\<rparr>\<rparr>)"
  "adds_drawn w st (st\<lparr>wt_store := (wt_store st)\<lparr>w_sessions := session_remove s (browser_sessions st)\<rparr>\<rparr>)"
  "adds_drawn w st (st\<lparr>wt_store := (wt_store st)\<lparr>w_pending :=
     start_login t1 t2 (random_state (wo_random w)) v (pendings st)\<rparr>\<rparr>)"
  "adds_drawn w st (st\<lparr>wt_store := (wt_store st)\<lparr>w_sessions :=
     session_create t1 (random_state (wo_random w)) x (browser_sessions st)\<rparr>\<rparr>)"
  by (auto simp: adds_drawn_def start_login_def web_session_defs)

lemma take_pending_None: "take_pending t s m = (m', v) \<Longrightarrow> m' = m(s := None)"
  by (simp add: take_pending_def)

lemma safe_redirect [simp]:
  "safe W I adds_drawn (\<lambda>r. \<exists>w. W w \<and> r = redirect (wo_header_value w) l c) (redirect_act l c)"
  by (auto simp: redirect_act_def safe_atomic)

text \<open>With every section of every handler, whatever the state.\<close>

lemma safe_any_state:
  "safe (\<lambda>_. True) (\<lambda>_. True) adds_drawn (\<lambda>_. True) (web_act cfg r)"
proof -
  have create: "safe (\<lambda>_. True) (\<lambda>_. True) adds_drawn (\<lambda>_. True) (create_session_act i)" for i
    by (simp add: create_session_act_def safe_atomic Let_def)
  have issue: "safe (\<lambda>_. True) (\<lambda>_. True) adds_drawn (\<lambda>_. True) (issue_act cfg t)" for t
    by (auto simp: issue_act_def safe_atomic create split: prod.split sum.split)
  have finish: "safe (\<lambda>_. True) (\<lambda>_. True) adds_drawn (\<lambda>_. True) (finish_login_act cfg c v)" for c v
    by (auto simp: finish_login_act_def safe_atomic issue split: sum.split)
  have "safe (\<lambda>_. True) (\<lambda>_. True) adds_drawn (\<lambda>_. True) (take_act cfg c s)" for c s
    by (auto simp: take_act_def safe_atomic finish dest!: take_pending_None split: prod.split option.split)
  then show ?thesis
    by (auto simp: web_act_def callback_act_def login_act_def logout_act_def me_act_def repos_act_def
        redirect_act_def safe_atomic Let_def split: option.split sum.split)
qed

interpretation frontend: shared_state "web_act cfg" remote_change web_restarted "\<lambda>_. True" "\<lambda>_. True"
    "\<lambda>_. True" "\<lambda>_. True" adds_drawn "\<lambda>_ _. True" for cfg
  by unfold_locales (simp_all add: safe_any_state)

section \<open>Dead identifiers stay dead\<close>

text \<open>
  An entry that a section of handler \<open>j\<close> made absent stays absent while nobody draws its
  identifier, and a request that arrives afterwards, or has not run yet, meets it absent.
\<close>

lemma absent_run:
  fixes I :: "'a web_state \<Rightarrow> bool" and w0 :: "('k, 'u, 'a) web_outside"
  assumes "pool_run (web_act cfg) remote_change web_restarted xs (web_initial a, Map.empty) = (st0, p0)"
    and "pool_run (web_act cfg) remote_change web_restarted (Run j w0 # ys) (st0, p0) = (st', p')"
    and absent: "I = (\<lambda>st. pendings st s = None) \<or> I = (\<lambda>st. browser_sessions st s = None)"
    and dead: "I (fst (pool_do (web_act cfg) remote_change web_restarted (Run j w0) (st0, p0)))"
    and "\<forall>w. runs_in ys w \<longrightarrow> random_state (wo_random w) \<noteq> s"
    and start: "\<And>q. safe (runs_in ys) I adds_drawn (R q) (web_act cfg q)"
    and "i \<noteq> j" and "p0 i = None \<or> (\<exists>r. p0 i = Some (r, web_act cfg r))"
    and "p' i = Some (q, Return resp)"
  shows "R q resp"
proof -
  obtain st p where 1: "pool_do (web_act cfg) remote_change web_restarted (Run j w0) (st0, p0) = (st, p)" by fastforce
  have keep: "I t'" if "runs_in ys w" "I t" "adds_drawn w t t'" for w t t'
    using absent assms(5) that by (fastforce simp: adds_drawn_def)
  have "frontend.pool_ok p0"
    using frontend.pool_run_ok [OF assms(1)] by (simp add: sched_ok_True)
  with frontend.pool_do_ok [OF 1] have ok: "frontend.pool_ok p" by simp
  have flight: "safe (runs_in ys) I adds_drawn (\<lambda>_. True) b" if "p k = Some (q, b)" for k q b
  proof (rule safe_restrict)
    show "safe (\<lambda>_. True) (\<lambda>_. True) adds_drawn (\<lambda>_. True) b"
      using ok that unfolding frontend.pool_ok_def by blast
  qed (simp_all add: keep)
  have same: "p i = p0 i" using 1 \<open>i \<noteq> j\<close> by (auto split: option.splits act.splits)
  have "safe (runs_in ys) I adds_drawn (\<lambda>r. k \<in> {i} \<longrightarrow> R q r) b" if "p k = Some (q, b)" for k q b
  proof (cases "k = i")
    case True
    with that same assms(8) have "b = web_act cfg q" by auto
    then show ?thesis by (auto intro: safe_weaken [OF start])
  qed (auto intro: safe_weaken [OF flight [OF that]])
  note flights = this
  have I1: "I (remote_change f t)" "I (web_restarted t)" if "I t" for f t
    using absent that by (auto simp: remote_change_def web_restarted_def web_initial_def web_store_default_def)
  show ?thesis
  proof (rule group_run [where start = "web_act cfg" and env = remote_change and reset = web_restarted
        and xs = ys and s = st and p = p and F = "{i}" and Q = "\<lambda>_. True" and W = "runs_in ys"
        and E = "\<lambda>_. True" and I = I and G = adds_drawn and R = R])
    show "pool_run (web_act cfg) remote_change web_restarted ys (st, p) = (st', p')" using assms(2) 1 by simp
    show "I st" using dead 1 by simp
  qed (use assms(9) start flights I1 in \<open>simp_all add: sched_ok_runs\<close>)
qed

lemma safe_unrelated:
  assumes "I = (\<lambda>st. pendings st s = None) \<or> I = (\<lambda>st. browser_sessions st s = None)"
    and "\<And>w. W w \<Longrightarrow> random_state (wo_random w) \<noteq> s"
  shows "safe W I adds_drawn (\<lambda>_. True) (web_act cfg r)"
proof (rule safe_restrict [OF safe_any_state])
  show "I t'" if "W w" and "I t" and "adds_drawn w t t'" for w t t'
    using assms(1) assms(2) [OF that(1)] that(2,3) by (fastforce simp: adds_drawn_def)
qed simp_all

lemma web_act_callback: "callback_state q = Some (c, s) \<Longrightarrow> web_act cfg q = take_act cfg c s"
  by (auto simp: callback_state_def web_act_def callback_act_def bind_eq_Some_conv split: if_splits option.splits)

text \<open>C12. A login's state works once, whatever the interleaving: as soon as one callback that presents it has
  run its first section, every other callback with it that had not begun yet is sent back as failed,
  until a login draws the same 128 random bits.\<close>

theorem interleaved_state_single_use:
  assumes "pool_run (web_act cfg) remote_change web_restarted xs (web_initial a, Map.empty) = (st0, p0)"
    and "p0 j = Some (r0, web_act cfg r0)" and "callback_state r0 = Some (c0, s)"
    and "pool_run (web_act cfg) remote_change web_restarted (Run j w0 # ys) (st0, p0) = (st', p')"
    and "\<forall>w. runs_in ys w \<longrightarrow> random_state (wo_random w) \<noteq> s"
    and "i \<noteq> j" and "p0 i = None \<or> (\<exists>r. p0 i = Some (r, web_act cfg r))"
    and "p' i = Some (r, Return resp)" and "callback_state r = Some (c, s)"
  shows "\<exists>w. runs_in ys w \<and> resp = redirect (wo_header_value w) ''/?login=failed'' None"
proof -
  let ?R = "\<lambda>q resp. (\<exists>d. callback_state q = Some (d, s)) \<longrightarrow>
    (\<exists>w. runs_in ys w \<and> resp = redirect (wo_header_value w) ''/?login=failed'' None)"
  have taken: "pendings (fst (pool_do (web_act cfg) remote_change web_restarted (Run j w0) (st0, p0))) s = None"
    using assms(2)
    by (auto simp: web_act_callback [OF assms(3)] take_act_def atomic_def dest!: take_pending_None split: prod.split option.split)
  have "?R r resp"
  proof (rule absent_run [where I = "\<lambda>st. pendings st s = None" and R = ?R, OF assms(1,4) _ taken assms(5) _ assms(6,7,8)])
    fix q :: web_request
    show "safe (runs_in ys) (\<lambda>st. pendings st s = None) adds_drawn (?R q) (web_act cfg q)"
    proof (cases "\<exists>d. callback_state q = Some (d, s)")
      case True
      then show ?thesis by (auto simp: web_act_callback take_act_def safe_atomic take_pending_def)
    next
      case False
      have "safe (runs_in ys) (\<lambda>st. pendings st s = None) adds_drawn (\<lambda>_. True) (web_act cfg q)"
        by (rule safe_unrelated) (use assms(5) in auto)
      then show ?thesis by (rule safe_weaken) (use False in blast)
    qed
  qed simp
  with assms(9) show ?thesis by blast
qed

text \<open>C18. Logging out is final, whatever the interleaving: as soon as a logout that carries a session's cookie
  has run its first section, every profile or repository request with that cookie that had not begun
  yet is refused with 401, until a login completes with the same 128 random bits.\<close>

theorem interleaved_logout:
  assumes "pool_run (web_act cfg) remote_change web_restarted xs (web_initial a, Map.empty) = (st0, p0)"
    and "p0 j = Some (r0, web_act cfg r0)" and "wr_path r0 = ''/auth/logout''"
    and "session_id (wo_to_str w0) (wr_cookies r0) = Some sid"
    and "pool_run (web_act cfg) remote_change web_restarted (Run j w0 # ys) (st0, p0) = (st', p')"
    and "\<forall>w. runs_in ys w \<longrightarrow> random_state (wo_random w) \<noteq> sid \<and>
          session_id (wo_to_str w) (wr_cookies r) = Some sid"
    and "i \<noteq> j" and "p0 i = None \<or> (\<exists>r. p0 i = Some (r, web_act cfg r))"
    and "p' i = Some (r, Return resp)" and "wr_path r \<in> {''/api/me'', ''/api/repos''}"
  shows "resp = Response 401 [] (Text ''not logged in'')"
proof -
  let ?R = "\<lambda>q resp. q = r \<longrightarrow> resp = Response 401 [] (Text ''not logged in'')"
  have gone: "browser_sessions (fst (pool_do (web_act cfg) remote_change web_restarted (Run j w0) (st0, p0))) sid = None"
    using assms(2-4) by (simp add: web_act_def logout_act_def atomic_def session_remove_def)
  have draws: "\<forall>w. runs_in ys w \<longrightarrow> random_state (wo_random w) \<noteq> sid" using assms(6) by blast
  have "?R r resp"
  proof (rule absent_run [where I = "\<lambda>st. browser_sessions st sid = None" and R = ?R, OF assms(1,5) _ gone draws _ assms(7,8,9)])
    fix q :: web_request
    show "safe (runs_in ys) (\<lambda>st. browser_sessions st sid = None) adds_drawn (?R q) (web_act cfg q)"
    proof (cases "q = r")
      case True
      with assms(6,10) show ?thesis
        by (auto simp: web_act_def me_act_def me_def repos_act_def safe_atomic live_session_def session_get_def)
    next
      case False
      have "safe (runs_in ys) (\<lambda>st. browser_sessions st sid = None) adds_drawn (\<lambda>_. True) (web_act cfg q)"
        by (rule safe_unrelated) (use draws in auto)
      then show ?thesis by (rule safe_weaken) (use False in blast)
    qed
  qed simp
  then show ?thesis by simp
qed

section \<open>Where sessions come from\<close>

text \<open>
  A token, name and subject that the auth service issued for an identity token for which the provider
  exchanged the code of a callback that arrived, with the verifier of a login whose state that
  callback presented.
\<close>

definition earned ::
  "(web_request \<Rightarrow> bool) \<Rightarrow> (('k, 'u, 'a) web_outside \<Rightarrow> bool) \<Rightarrow> web_config \<Rightarrow> string \<times> string \<times> string \<Rightarrow> bool" where
  "earned Q W cfg x \<longleftrightarrow>
     (\<exists>rl r c wl we wx t a a' i. Q rl \<and> wr_path rl = ''/auth/login'' \<and> Q r \<and>
        callback_state r = Some (c, random_state (wo_random wl)) \<and> W wl \<and> W we \<and> W wx \<and>
        exchange_code (wo_http we) (wo_serde we) (wc_oidc cfg) c (code_verifier (wo_crypto wl) (wo_bytes wl)) = Inr t \<and>
        exchange_external (wo_auth wx) (wc_auth_endpoint cfg) t a = (a', Inr i) \<and>
        x = (is_token i, is_user_name i, is_user_id i))"

definition drawn_by_login ::
  "(web_request \<Rightarrow> bool) \<Rightarrow> (('k, 'u, 'a) web_outside \<Rightarrow> bool) \<Rightarrow> string \<Rightarrow> string \<Rightarrow> bool" where
  "drawn_by_login Q W s v \<longleftrightarrow>
     (\<exists>rl wl. Q rl \<and> wr_path rl = ''/auth/login'' \<and> W wl \<and> s = random_state (wo_random wl) \<and>
        v = code_verifier (wo_crypto wl) (wo_bytes wl))"

definition web_traced ::
  "(web_request \<Rightarrow> bool) \<Rightarrow> (('k, 'u, 'a) web_outside \<Rightarrow> bool) \<Rightarrow> web_config \<Rightarrow> 'a web_state \<Rightarrow> bool" where
  "web_traced Q W cfg st \<longleftrightarrow>
     (\<forall>s p. pendings st s = Some p \<longrightarrow> drawn_by_login Q W s (pd_verifier p)) \<and>
     (\<forall>sid x. browser_sessions st sid = Some x \<longrightarrow> earned Q W cfg (ws_token x, ws_user_name x, ws_sub x))"

fun web_reply_justified ::
  "(web_request \<Rightarrow> bool) \<Rightarrow> (('k, 'u, 'a) web_outside \<Rightarrow> bool) \<Rightarrow> web_config \<Rightarrow> web_request \<Rightarrow> response \<Rightarrow> bool" where
  "web_reply_justified Q W cfg r (Response status hs (JsonBody b)) \<longleftrightarrow>
     (wr_path r = ''/api/me'' \<longrightarrow> (\<exists>tok name sub. earned Q W cfg (tok, name, sub) \<and>
        b = JObj [(''user_name'', JStr name), (''sub'', JStr sub)])) \<and>
     (wr_path r = ''/api/repos'' \<longrightarrow> (\<exists>tok name sub w ms. earned Q W cfg (tok, name, sub) \<and> W w \<and>
        la_repository_list (wo_lore w)
          \<lparr>md_ascii = [''authorization'' \<mapsto> ''Bearer '' @ tok], md_bin = Map.empty\<rparr> None = Inr (map Inr ms) \<and>
        b = JArr (map summary_json (filter_map (map_option summary_of) ms))))"
| "web_reply_justified Q W cfg r resp \<longleftrightarrow> True"

lemma redirect_justified [simp]: "web_reply_justified Q W cfg r (redirect hv l c)"
  by (simp add: redirect_def Let_def)

lemma web_traced_ops:
  assumes "web_traced Q W cfg st"
  shows "web_traced Q W cfg (st\<lparr>wt_auth := a\<rparr>)"
    and "web_traced Q W cfg (st\<lparr>wt_store := (wt_store st)\<lparr>w_pending := (pendings st)(s := None)\<rparr>\<rparr>)"
    and "web_traced Q W cfg (st\<lparr>wt_store := (wt_store st)\<lparr>w_sessions := session_remove s (browser_sessions st)\<rparr>\<rparr>)"
    and "drawn_by_login Q W s v \<Longrightarrow>
      web_traced Q W cfg (st\<lparr>wt_store := (wt_store st)\<lparr>w_pending := start_login t1 t2 s v (pendings st)\<rparr>\<rparr>)"
    and "earned Q W cfg (ws_token x, ws_user_name x, ws_sub x) \<Longrightarrow>
      web_traced Q W cfg (st\<lparr>wt_store := (wt_store st)\<lparr>w_sessions := session_create t1 s x (browser_sessions st)\<rparr>\<rparr>)"
  using assms by (auto simp: web_traced_def start_login_def web_session_defs)

lemma taken_drawn:
  "web_traced Q W cfg st \<Longrightarrow> take_pending t s (pendings st) = (m, Some v) \<Longrightarrow> drawn_by_login Q W s v"
  by (auto simp: web_traced_def take_pending_def)

lemma live_earned:
  "web_traced Q W cfg st \<Longrightarrow> live_session w h st = Some x \<Longrightarrow> earned Q W cfg x"
  by (auto simp: live_session_iff web_traced_def session_get_def)

lemma safe_callback:
  assumes "Q r" and "callback_state r = Some (c, s)"
  shows "safe W (web_traced Q W cfg) (\<lambda>_ _ _. True) (web_reply_justified Q W cfg r) (take_act cfg c s)"
proof -
  have create: "safe W (web_traced Q W cfg) (\<lambda>_ _ _. True) (web_reply_justified Q W cfg r) (create_session_act i)"
    if "earned Q W cfg (is_token i, is_user_name i, is_user_id i)" for i
    using that by (auto simp: create_session_act_def safe_atomic Let_def intro!: web_traced_ops(5))
  have issue: "safe W (web_traced Q W cfg) (\<lambda>_ _ _. True) (web_reply_justified Q W cfg r) (issue_act cfg t)"
    if "drawn_by_login Q W s v" and "W we"
      and "exchange_code (wo_http we) (wo_serde we) (wc_oidc cfg) c v = Inr t" for v we t
  proof -
    have "earned Q W cfg (is_token i, is_user_name i, is_user_id i)"
      if "W wx" "exchange_external (wo_auth wx) (wc_auth_endpoint cfg) t a = (a', Inr i)" for wx a a' i
      using \<open>drawn_by_login Q W s v\<close> \<open>W we\<close> \<open>exchange_code _ _ _ c v = Inr t\<close> assms that
      unfolding drawn_by_login_def earned_def by blast
    then show ?thesis
      by (auto simp: issue_act_def safe_atomic create web_traced_ops split: prod.split sum.split)
  qed
  have finish: "safe W (web_traced Q W cfg) (\<lambda>_ _ _. True) (web_reply_justified Q W cfg r) (finish_login_act cfg c v)"
    if "drawn_by_login Q W s v" for v
    using issue [OF that] by (auto simp: finish_login_act_def safe_atomic split: sum.split)
  show ?thesis unfolding take_act_def
  proof (rule safe_atomicI, goal_cases)
    case (1 w st)
    have "drawn_by_login Q W s v" if "snd (take_pending (wo_clock w 0) s (pendings st)) = Some v" for v
      using taken_drawn [OF 1(2)] that by (metis surjective_pairing)
    with web_traced_ops(2) [OF 1(2)] show ?case
      by (subst (1 2) take_pending_eq) (auto intro: finish split: option.split)
  qed
qed

lemma safe_web_act:
  assumes "Q r"
  shows "safe W (web_traced Q W cfg) (\<lambda>_ _ _. True) (web_reply_justified Q W cfg r) (web_act cfg r)"
proof (cases "callback_state r")
  case (Some cs)
  with assms show ?thesis by (cases cs) (simp add: web_act_callback safe_callback)
next
  case None
  have login: "safe W (web_traced Q W cfg) (\<lambda>_ _ _. True) (web_reply_justified Q W cfg r) (login_act cfg)"
    if "wr_path r = ''/auth/login''"
  proof -
    have "drawn_by_login Q W (random_state (wo_random w)) (code_verifier (wo_crypto w) (wo_bytes w))"
      if "W w" for w
      unfolding drawn_by_login_def using assms \<open>wr_path r = _\<close> that by blast
    then show ?thesis
      by (auto simp: login_act_def safe_atomic Let_def intro!: web_traced_ops(4) split: sum.split)
  qed
  have repos: "safe W (web_traced Q W cfg) (\<lambda>_ _ _. True) (web_reply_justified Q W cfg r) (repos_act cfg h)"
    if "wr_path r = ''/api/repos''" for h
    using that by (auto simp: repos_act_def safe_atomic list_repos_Inr split: option.split sum.split dest!: live_earned)
  have me: "safe W (web_traced Q W cfg) (\<lambda>_ _ _. True) (web_reply_justified Q W cfg r) (me_act h)"
    if "wr_path r = ''/api/me''" for h
    using that by (auto simp: me_act_def me_def safe_atomic split: option.split dest!: live_earned)
  have none: "callback_act cfg (wr_code r) (wr_state r) (wr_error r) = redirect_act ''/?login=failed'' None"
    if "wr_path r = ''/auth/callback''"
    using that None by (auto simp: callback_state_def callback_act_def bind_eq_None_conv split: option.splits)
  have static: "web_reply_justified Q W cfg r resp" if "wr_path r \<noteq> ''/api/me''" "wr_path r \<noteq> ''/api/repos''" for resp
    using that by (cases "(Q, W, cfg, r, resp)" rule: web_reply_justified.cases) auto
  show ?thesis
    by (auto simp: web_act_def login repos me none static logout_act_def redirect_act_def safe_atomic web_traced_ops
        split: option.split)
qed

interpretation sessions: shared_state "web_act cfg" remote_change web_restarted Q W "\<lambda>_. True"
    "web_traced Q W cfg" "\<lambda>_ _ _. True" "web_reply_justified Q W cfg" for cfg Q W
  by unfold_locales
    (auto simp: safe_web_act remote_change_def web_restarted_def web_initial_def web_store_default_def web_traced_def)

text \<open>C3. Sessions under any interleaving: whatever schedule of handlers, restarts and changes of the remote
  auth service leads to a state, every session in it has the token, name and subject that the auth
  service issued for the exchanged code of a callback presenting a login's state, exchanged with that
  login's own verifier; and every profile and every repository list that was answered is the one of
  such a session.\<close>

theorem interleaved_sessions:
  assumes "pool_run (web_act cfg) remote_change web_restarted xs (web_initial a, Map.empty) = (st, p)"
  shows "(session_get t sid (browser_sessions st) = Some x \<longrightarrow> earned (arrives xs) (runs_in xs) cfg x) \<and>
    (reply_of (st, p) i = Some (r, resp) \<longrightarrow> web_reply_justified (arrives xs) (runs_in xs) cfg r resp)"
proof -
  have ok: "\<forall>x \<in> set xs. sched_ok (arrives xs) (runs_in xs) (\<lambda>_. True) x"
  proof
    fix x assume "x \<in> set xs"
    from sched_ok_self [OF this] show "sched_ok (arrives xs) (runs_in xs) (\<lambda>_. True) x" by (cases x) auto
  qed
  have init: "web_traced (arrives xs) (runs_in xs) cfg (web_initial a)"
    by (simp add: web_traced_def web_initial_def web_store_default_def)
  have "web_traced (arrives xs) (runs_in xs) cfg st" using sessions.run_keeps [OF ok init] assms by simp
  then have "earned (arrives xs) (runs_in xs) cfg x" if "session_get t sid (browser_sessions st) = Some x"
    using that by (auto simp: web_traced_def session_get_def)
  moreover have "web_reply_justified (arrives xs) (runs_in xs) cfg r resp" if "reply_of (st, p) i = Some (r, resp)"
    using sessions.reply_ok [OF ok init] assms that by metis
  ultimately show ?thesis by blast
qed

end
