(* ===== verification/Web_Types.thy ===== *)
theory Web_Types
  imports Web_Concurrency
begin

text \<open>
  The type of the frontend's HTTP interface: which status, headers and body each route answers with,
  under any interleaving.  The page's script relies on it: it reads \<^verbatim>\<open>user_name\<close> of
  the profile and the name, description, id and default branch of each repository.
\<close>

fun profile_json :: "json \<Rightarrow> bool" where
  "profile_json (JObj [(k1, JStr name), (k2, JStr sub)]) \<longleftrightarrow> k1 = ''user_name'' \<and> k2 = ''sub''"
| "profile_json _ \<longleftrightarrow> False"

fun repo_json :: "json \<Rightarrow> bool" where
  "repo_json (JObj [(k1, JStr rid), (k2, JStr name), (k3, JStr desc), (k4, JStr branch)]) \<longleftrightarrow>
     [k1, k2, k3, k4] = [''id'', ''name'', ''description'', ''default_branch'']"
| "repo_json _ \<longleftrightarrow> False"

fun repos_json :: "json \<Rightarrow> bool" where
  "repos_json (JArr js) \<longleftrightarrow> list_all repo_json js"
| "repos_json _ \<longleftrightarrow> False"

definition refused_401 :: "response \<Rightarrow> bool" where
  "refused_401 resp \<longleftrightarrow> resp = Response 401 [] (Text ''not logged in'')"

definition ok_json :: "(json \<Rightarrow> bool) \<Rightarrow> response \<Rightarrow> bool" where
  "ok_json p resp \<longleftrightarrow> (\<exists>j. resp = Response 200 [] (JsonBody j) \<and> p j)"

text \<open>A redirect, with a cookie or without one.\<close>

definition redirects :: "string \<Rightarrow> string list \<Rightarrow> response \<Rightarrow> bool" where
  "redirects location cookies resp \<longleftrightarrow>
     resp = Response 303 ((''location'', location) # map (\<lambda>c. (''set-cookie'', c)) cookies) EmptyBody"

definition response_typed :: "web_request \<Rightarrow> response \<Rightarrow> bool" where
  "response_typed r resp \<longleftrightarrow>
     (if wr_path r = ''/healthz'' then resp = Response 200 [] (Text ''ok'')
      else if wr_path r = ''/auth/login'' then
        resp = Response 502 [] (Text ''login unavailable'') \<or> (\<exists>url. is_visible url \<and> redirects url [] resp)
      else if wr_path r = ''/auth/callback'' then
        redirects ''/?login=failed'' [] resp \<or>
        (\<exists>n age. 0 \<le> age \<and> redirects ''/'' [session_cookie (random_state n) age] resp)
      else if wr_path r = ''/auth/logout'' then redirects ''/'' [clear_cookie] resp
      else if wr_path r = ''/api/me'' then refused_401 resp \<or> ok_json profile_json resp
      else if wr_path r = ''/api/repos'' then
        refused_401 resp \<or> ok_json repos_json resp \<or>
        resp = Response 502 [] (Text ''could not list repositories'')
      else True)"

text \<open>The libraries: printable ASCII is a header value, and addresses print as printable ASCII.\<close>

definition printable_headers :: "('k, 'u, 'a) web_outside \<Rightarrow> bool" where
  "printable_headers w \<longleftrightarrow>
     (\<forall>s. is_visible s \<longrightarrow> wo_header_value w s) \<and> (\<forall>u. is_visible (url_to_string (wo_urls w) u))"

lemma redirect_typed:
  assumes "printable_headers w" and "is_visible l" and "list_all is_visible cs" and "length cs \<le> 1"
  shows "redirects l cs (redirect (wo_header_value w) l (if cs = [] then None else Some (hd cs)))"
  using assms by (cases cs) (auto simp: redirect_def redirects_def printable_headers_def)

lemma redirect_no_cookie: "printable_headers w \<Longrightarrow> is_visible l \<Longrightarrow> redirects l [] (redirect (wo_header_value w) l None)"
  using redirect_typed [of w l "[]"] by simp

lemma redirect_cookie:
  "printable_headers w \<Longrightarrow> is_visible l \<Longrightarrow> is_visible c \<Longrightarrow> redirects l [c] (redirect (wo_header_value w) l (Some c))"
  using redirect_typed [of w l "[c]"] by simp

lemma visible_locations: "is_visible ''/?login=failed''" "is_visible ''/''"
  by code_simp+

lemma typed_repos: "repos_json (JArr (map summary_json l))"
  by (simp add: list_all_iff summary_json_def)

abbreviation typed_act ::
  "web_request \<Rightarrow> ('a web_state, ('k, 'u, 'a) web_outside, response) act \<Rightarrow> bool" where
  "typed_act r a \<equiv> safe printable_headers (\<lambda>_. True) (\<lambda>_ _ _. True) (response_typed r) a"

lemma typed_failed:
  "wr_path r = ''/auth/callback'' \<Longrightarrow> printable_headers w \<Longrightarrow>
    response_typed r (redirect (wo_header_value w) ''/?login=failed'' None)"
  using redirect_no_cookie [OF _ visible_locations(1), of w] by (simp add: response_typed_def)

lemma typed_home:
  "wr_path r = ''/auth/callback'' \<Longrightarrow> printable_headers w \<Longrightarrow>
    response_typed r (redirect (wo_header_value w) ''/'' (Some (session_cookie (random_state n) (cookie_age e t))))"
  using redirect_cookie [OF _ visible_locations(2) is_visible_cookies(1), of w n "cookie_age e t"]
  by (auto simp: response_typed_def cookie_age_def)

lemma typed_url:
  assumes "wr_path r = ''/auth/login''" and "printable_headers w" and "authorize_url h sd (wo_urls w) oc s c = Inr url"
  shows "response_typed r (redirect (wo_header_value w) url None)"
proof -
  from assms(2,3) have "is_visible url"
    by (auto simp: authorize_url_def printable_headers_def split: sum.splits prod.splits)
  with assms(1,2) show ?thesis using redirect_no_cookie by (auto simp: response_typed_def)
qed

lemma typed_callback:
  assumes "wr_path r = ''/auth/callback''"
  shows "typed_act r (callback_act cfg code state err)"
proof -
  note t = typed_failed [OF assms] typed_home [OF assms]
  have create: "typed_act r (create_session_act i)" for i
    by (simp add: create_session_act_def safe_atomic Let_def t)
  have issue: "typed_act r (issue_act cfg t)" for t
    by (auto simp: issue_act_def safe_atomic create t split: prod.split sum.split)
  have finish: "typed_act r (finish_login_act cfg c v)" for c v
    by (auto simp: finish_login_act_def safe_atomic issue t split: sum.split)
  show ?thesis
    by (auto simp: callback_act_def take_act_def redirect_act_def safe_atomic finish t
        split: option.split prod.split)
qed

lemma typed_login:
  assumes "wr_path r = ''/auth/login''"
  shows "typed_act r (login_act cfg)"
proof -
  have "response_typed r (Response 502 [] (Text ''login unavailable''))"
    using assms by (simp add: response_typed_def)
  then show ?thesis by (auto simp: login_act_def safe_atomic Let_def typed_url [OF assms] split: sum.split)
qed

lemma typed_web_act: "typed_act r (web_act cfg r)"
proof -
  have logout: "typed_act r (logout_act h)" if "wr_path r = ''/auth/logout''" for h
    using that redirect_cookie [OF _ visible_locations(2) is_visible_cookies(2)]
    by (auto simp: logout_act_def redirect_act_def safe_atomic response_typed_def)
  have me: "typed_act r (me_act h)" if "wr_path r = ''/api/me''" for h
    using that by (auto simp: me_act_def me_def safe_atomic response_typed_def refused_401_def ok_json_def
        split: option.split)
  have repos: "typed_act r (repos_act cfg h)" if "wr_path r = ''/api/repos''" for h
    using that typed_repos
    by (auto simp: repos_act_def safe_atomic response_typed_def refused_401_def ok_json_def
        simp del: repos_json.simps split: option.split sum.split)
  show ?thesis
    by (auto simp: web_act_def typed_callback typed_login logout me repos safe_atomic)
      (auto simp: response_typed_def)
qed

interpretation typed: shared_state "web_act cfg" remote_change web_restarted "\<lambda>_. True" printable_headers
    "\<lambda>_. True" "\<lambda>_. True" "\<lambda>_ _ _. True" response_typed for cfg
  by unfold_locales (simp_all add: typed_web_act)

text \<open>C23. Every response has the type of its route, under any schedule: a login redirects to an address or
  answers 502; a callback redirects home with one session cookie of a non-negative age or back as
  failed without one; a logout redirects home and clears the cookie; the profile and the repository
  list are JSON of the fixed shape, or 401 (or 502).  In particular no handler panics.\<close>

theorem web_response_type:
  assumes "\<forall>w. runs_in xs w \<longrightarrow> printable_headers w"
    and "reply_of (pool_run (web_act cfg) remote_change web_restarted xs (st, Map.empty)) i = Some (r, resp)"
  shows "response_typed r resp"
proof -
  have "\<forall>x \<in> set xs. sched_ok (\<lambda>_. True) printable_headers (\<lambda>_. True) x"
  proof
    fix x assume "x \<in> set xs"
    with assms(1) show "sched_ok (\<lambda>_. True) printable_headers (\<lambda>_. True) x"
      by (cases x) (auto simp: runs_in_def)
  qed
  from typed.reply_ok [OF this _ assms(2)] show ?thesis by simp
qed

end
