(* ===== verification/Auth_Liveness.thy ===== *)
theory Auth_Liveness
  imports Auth_Main
begin

text \<open>
  That a login completes: a started login survives whatever the other clients, the administrator and
  its own early polls do, and the first poll after the user has approved hands out the token.
\<close>

section \<open>What leaves a login session alone\<close>

text \<open>
  Every event but a restart, a request at a time when the session has expired, a new login that draws
  the same code, and a poll of the session that the provider answers with a token or a refusal.
\<close>

fun leaves_login :: "'k auth_config \<Rightarrow> string \<Rightarrow> session \<Rightarrow> 'k event \<Rightarrow> bool" where
  "leaves_login cfg code s (Request w md req) \<longleftrightarrow>
     o_instant1 w < expires_at s \<and>
     (case req of
        StartAuthSession cs \<Rightarrow> random_id (o_random w) \<noteq> code
      | GetAuthSession code' cs \<Rightarrow> code' = code \<and> cs = client_state s \<longrightarrow>
          (case device_flow_poll (o_http w) (o_serde w) (ac_device cfg) (token_endpoint s) (device_code s) of
             Inr (Token t) \<Rightarrow> False | Inr (Denied e) \<Rightarrow> False | _ \<Rightarrow> True)
      | _ \<Rightarrow> True)"
| "leaves_login cfg code s (Admin env cmd args) \<longleftrightarrow> True"
| "leaves_login cfg code s Restart \<longleftrightarrow> False"

lemma sweep_keeps: "m code = Some s \<Longrightarrow> t < expires_at s \<Longrightarrow> sweep t m code = Some s"
  by (simp add: sweep_apply)

lemma poll_keeps:
  assumes "as_sessions st code = Some s" and "o_instant1 w < expires_at s"
    and "code' = code \<and> cs = client_state s \<longrightarrow>
      (case device_flow_poll (o_http w) (o_serde w) (ac_device cfg) (token_endpoint s) (device_code s) of
         Inr (Token t) \<Rightarrow> False | Inr (Denied e) \<Rightarrow> False | _ \<Rightarrow> True)"
  shows "as_sessions (fst (get_auth_session w cfg code' cs st)) code = Some s"
proof -
  have k: "sweep (o_instant1 w) (as_sessions st) code = Some s" using assms(1,2) by (rule sweep_keeps)
  obtain m r where mr: "sessions_resolve (o_instant1 w) (o_instant2 w) code' cs (as_sessions st) = (m, r)"
    by fastforce
  then have m: "m code = Some s" using resolve_table [of "o_instant1 w" "o_instant2 w" code' cs "as_sessions st"] k by simp
  show ?thesis
  proof (cases "code' = code")
    case True
    show ?thesis
    proof (cases r)
      case (Some x)
      with mr k True have "cs = client_state s" "x = (device_code s, token_endpoint s)"
        by (auto simp: sessions_resolve_def Let_def split: if_splits)
      with assms(3) True mr Some m show ?thesis
        by (auto simp: get_auth_session_def Let_def split: sum.splits poll.splits)
    qed (simp add: get_auth_session_def mr m)
  next
    case False
    with mr m show ?thesis
      by (auto simp: get_auth_session_def Let_def sessions_remove_def dest!: frames
          split: option.split sum.split poll.split prod.split)
  qed
qed

lemma event_keeps_login:
  assumes "as_sessions st code = Some s" and "leaves_login cfg code s ev"
  shows "as_sessions (do_event cfg ev st) code = Some s"
proof (cases ev)
  case (Request w md req)
  with assms show ?thesis
  proof (cases req)
    case (GetAuthSession code' cs)
    with assms Request show ?thesis
      by (simp add: map_reply_def poll_keeps)
  qed (auto simp: map_reply_def create_resource_def delete_resource_rpc_def check_user_permission_def
      lookup_user_permissions_def start_auth_session_def exchange_external_token_def sessions_insert_def
      exchange_multiresource_def Let_def sweep_keeps dest!: frames split: prod.splits sum.splits)
qed (use assms in auto)

lemma events_keep_login:
  "as_sessions st code = Some s \<Longrightarrow> \<forall>ev \<in> set evs. leaves_login cfg code s ev \<Longrightarrow>
    as_sessions (fold (do_event cfg) evs st) code = Some s"
  by (induction evs arbitrary: st) (auto intro: event_keeps_login)

lemma started_session:
  assumes "start_auth_session w cfg cs st = (st', Inr (code, url))"
  shows "\<exists>s. as_sessions st' code = Some s \<and> client_state s = cs \<and> o_instant2 w + from_secs 60 \<le> expires_at s"
  using assms from_secs_mono [of 60 "clamp 60 600 n" for n]
  by (auto simp: start_auth_session_def Let_def sessions_insert_def clamp_def from_secs_def split: sum.splits)

lemma poll_completes:
  assumes "as_sessions st code = Some s" and "client_state s = cs"
    and "o_instant1 w \<le> o_instant2 w" and "o_instant2 w < expires_at s"
    and "device_flow_poll (o_http w) (o_serde w) (ac_device cfg) (token_endpoint s) (device_code s) = Inr (Token t)"
    and "snd (provider_claims w cfg t st) = Inr c" and "authn_token w cfg c = Inr ut"
  shows "snd (get_auth_session w cfg code cs st) = Inr (Some ut)"
proof -
  obtain m where r: "sessions_resolve (o_instant1 w) (o_instant2 w) code cs (as_sessions st) =
      (m, Some (device_code s, token_endpoint s))"
    using assms(1-4) by (simp add: sessions_resolve_def Let_def sweep_apply)
  have "snd (provider_claims w cfg t (st\<lparr>as_sessions := m\<rparr>)) = Inr c"
    using assms(6) by (simp add: provider_claims_def split: prod.splits)
  then obtain st2 where "provider_claims w cfg t (st\<lparr>as_sessions := m\<rparr>) = (st2, Inr c)"
    by (metis prod.collapse)
  with r assms(5,7) show ?thesis by (simp add: get_auth_session_def Let_def)
qed

text \<open>C9. A login completes: for at least a minute after a login was started, whatever other requests,
  administrator's commands and early polls come in between (no restart, no refusal, no second login
  with the same random code), a poll with the same client state hands out the token as soon as
  the provider answers the device code with an identity token that verifies and can be turned into
  one of ours.\<close>

theorem login_completes:
  assumes "start_auth_session w0 cfg cs st0 = (st1, Inr (code, url))"
    and "auth_run cfg evs st1 st"
    and "\<forall>ev \<in> set evs. leaves_login cfg code (the (as_sessions st1 code)) ev"
    and "o_instant1 w \<le> o_instant2 w" and "o_instant2 w < o_instant2 w0 + from_secs 60"
    and "device_flow_start (o_http w0) (o_serde w0) (ac_device cfg) = Inr ds"
    and "device_flow_poll (o_http w) (o_serde w) (ac_device cfg) (ds_token_endpoint ds) (ds_device_code ds)
      = Inr (Token id_token)"
    and "snd (provider_claims w cfg id_token st) = Inr c" and "authn_token w cfg c = Inr ut"
  shows "snd (get_auth_session w cfg code cs st) = Inr (Some ut)"
proof -
  obtain s where s: "as_sessions st1 code = Some s" "client_state s = cs"
      "o_instant2 w0 + from_secs 60 \<le> expires_at s"
    using started_session [OF assms(1)] by blast
  have ends: "token_endpoint s = ds_token_endpoint ds" "device_code s = ds_device_code ds"
    using assms(1,6) s(1) by (auto simp: start_auth_session_def Let_def sessions_insert_def)
  from assms(2,3) s(1) have "as_sessions st code = Some s"
    by (simp add: auth_run_fold events_keep_login)
  then show ?thesis by (rule poll_completes) (use assms s ends in auto)
qed

end
