(* ===== verification/Row_Order.thy ===== *)
theory Row_Order
  imports Auth_Main
begin

text \<open>
  SQLite may return the rows of a query without an order in any order, and the service does not sort
  them.  An SQLite that fails no statement and delivers every row is compared here with \<open>healthy\<close>, which
  delivers them in the order of the table: the operations of the store, whole requests, and the history
  of the service.
\<close>

section \<open>The operations of the store\<close>

lemma execute_healthy: "no_faults env \<Longrightarrow> execute env = execute healthy"
  by (simp add: fun_eq_iff execute_no_faults)

lemma store_ops_healthy:
  assumes "no_faults env"
  shows "record_owner env now o' u n d = record_owner healthy now o' u n d"
    and "store_grant env s u r d = store_grant healthy s u r d"
    and "revoke env s u d = revoke healthy s u d"
    and "add_group_member env g s d = add_group_member healthy g s d"
    and "remove_group_member env g s d = remove_group_member healthy g s d"
    and "delete_resource env u d = delete_resource healthy u d"
  unfolding store_defs execute_healthy [OF assms] by (rule refl)+

lemma mset_accessible:
  assumes "full_rows env"
  shows "mset (accessible env s d) = mset (accessible healthy s d)"
proof -
  have "set (accessible env s d) = set (accessible healthy s d)"
    using assms by (simp add: accessible_def set_deliver)
  moreover have "distinct (accessible env s d)" "distinct (accessible healthy s d)"
    by (simp_all add: accessible_def distinct_deliver)
  ultimately show ?thesis by (simp add: set_eq_iff_mset_eq_distinct)
qed

lemma apply_op_healthy: "no_faults env \<Longrightarrow> apply_op env op d = apply_op healthy op d"
  by (cases op) (simp_all add: store_ops_healthy [of env])

section \<open>Requests and histories\<close>

text \<open>The same request to the same world, but for the order of the rows.\<close>

abbreviation in_table_order :: "'k outside \<Rightarrow> 'k outside" where
  "in_table_order w \<equiv> w\<lparr>o_sql := healthy\<rparr>"

fun event_in_order :: "'k event \<Rightarrow> 'k event" where
  "event_in_order (Request w md req) = Request (in_table_order w) md req"
| "event_in_order (Admin env cmd args) = Admin healthy cmd args"
| "event_in_order Restart = Restart"

fun sql_sound :: "'k event \<Rightarrow> bool" where
  "sql_sound (Request w md req) \<longleftrightarrow> no_faults (o_sql w) \<and> full_rows (o_sql w)"
| "sql_sound (Admin env cmd args) \<longleftrightarrow> no_faults env \<and> full_rows env"
| "sql_sound Restart \<longleftrightarrow> True"

text \<open>Replies that differ at most in the order of a listing.\<close>

fun same_answer :: "status + reply \<Rightarrow> status + reply \<Rightarrow> bool" where
  "same_answer (Inr (Listed ps)) (Inr (Listed qs)) \<longleftrightarrow> mset ps = mset qs"
| "same_answer r r' \<longleftrightarrow> r = r'"

lemma same_answer_refl [simp]: "same_answer r r"
  by (cases "(r, r)" rule: same_answer.cases) auto

lemma caller_in_order:
  "caller (in_table_order w) cfg md st = caller w cfg md st"
  "caller_claims (in_table_order w) cfg t st = caller_claims w cfg t st"
  "provider_claims (in_table_order w) cfg t st = provider_claims w cfg t st"
  "authn_token (in_table_order w) cfg c = authn_token w cfg c"
  by (simp_all add: caller_def caller_claims_def provider_claims_def authn_token_def)

lemma role_for_in_order: "full_rows (o_sql w) \<Longrightarrow> role_for (o_sql w) s u d = role_for healthy s u d"
  by (rule role_for_healthy)

lemma serve_in_order:
  assumes "no_faults (o_sql w)" and "full_rows (o_sql w)"
  shows "fst (serve w cfg md req st) = fst (serve (in_table_order w) cfg md req st) \<and>
    same_answer (snd (serve w cfg md req st)) (snd (serve (in_table_order w) cfg md req st))"
proof (cases req)
  case LookupUserPermissions
  show ?thesis
    by (simp add: LookupUserPermissions lookup_user_permissions_def caller_in_order map_reply_def
        role_for_in_order [OF assms(2)] mset_accessible [OF assms(2)] split: prod.split sum.split)
qed (simp_all add: create_resource_def delete_resource_rpc_def check_user_permission_def
      start_auth_session_def get_auth_session_def exchange_external_token_def exchange_multiresource_def
      resource_scope_def caller_in_order role_for_in_order [OF assms(2)] store_ops_healthy [OF assms(1)]
      cong: sum.case_cong prod.case_cong option.case_cong poll.case_cong if_cong)

lemma event_in_order:
  assumes "sql_sound ev"
  shows "do_event cfg ev st = do_event cfg (event_in_order ev) st"
proof (cases ev)
  case (Admin env cmd args)
  with assms show ?thesis by (simp add: run_admin_op apply_op_healthy [of env] split: option.split)
next
  case (Request w md req)
  with assms serve_in_order [of w cfg md req st] show ?thesis by simp
qed simp

text \<open>C22. The order in which SQLite returns the rows of an unordered query never matters: a history of requests,
  administrator's commands and restarts leads to the same state as the same history on an SQLite that
  returns rows in the order of the tables, and every further request is answered alike and leaves the
  same state, but for the order of the entries of a listing.\<close>

theorem row_order_irrelevant:
  assumes "auth_run cfg evs st0 st" and "\<forall>ev \<in> set evs. sql_sound ev"
    and "no_faults (o_sql w)" and "full_rows (o_sql w)"
  shows "auth_run cfg (map event_in_order evs) st0 st \<and>
    fst (serve w cfg md req st) = fst (serve (w\<lparr>o_sql := healthy\<rparr>) cfg md req st) \<and>
    same_answer (snd (serve w cfg md req st)) (snd (serve (w\<lparr>o_sql := healthy\<rparr>) cfg md req st))"
proof -
  have "fold (do_event cfg) evs st0 = fold (do_event cfg) (map event_in_order evs) st0"
    using assms(2) by (induction evs arbitrary: st0) (simp_all add: event_in_order)
  with assms(1) have "auth_run cfg (map event_in_order evs) st0 st" by (simp add: auth_run_fold)
  with serve_in_order [OF assms(3,4)] show ?thesis by blast
qed

end
