(* ===== verification/Unit_Tests.thy ===== *)
theory Unit_Tests
  imports Row_Order
begin

text \<open>
  The unit tests of the auth service, as Boolean functions of what the test run gets from outside: the
  SQLite library, the clock readings, the file system and the RSA library.  They pass for every SQLite
  that fails no statement and delivers every row, in any order, and for every run whose clock does not
  jump, not only on the machine that ran them.  An \<^verbatim>\<open>unwrap\<close> that would panic makes a test false.
\<close>

section \<open>The store\<close>

definition REPO :: string where "REPO = ''urc-0194b726b34e72b0b45550b88a967076''"
definition OTHER :: string where "OTHER = ''urc-0192ae48ccf17060bc1ba9d04f6acb2f''"

text \<open>\<^verbatim>\<open>.unwrap()\<close> of an operation on the store: the rest of the test runs on the new tables.\<close>

definition unwrap_in :: "db \<times> (string + 'a) \<Rightarrow> (db \<Rightarrow> 'a \<Rightarrow> bool) \<Rightarrow> bool" where
  "unwrap_in r rest = (case r of (d, Inl e) \<Rightarrow> False | (d, Inr x) \<Rightarrow> rest d x)"

definition creator_becomes_owner_and_re_create_keeps_first_owner :: "sql_env \<Rightarrow> int \<Rightarrow> bool" where
  "creator_becomes_owner_and_re_create_keeps_first_owner env now \<longleftrightarrow>
     unwrap_in (record_owner env now ''alice'' REPO ''test'' new_db) (\<lambda>d _.
       role_for env ''alice'' REPO d = Some Owner \<and>
       unwrap_in (record_owner env now ''mallory'' REPO ''test'' d) (\<lambda>d _.
         role_for env ''alice'' REPO d = Some Owner \<and> role_for env ''mallory'' REPO d = None))"

definition no_grant_means_no_access :: "sql_env \<Rightarrow> int \<Rightarrow> bool" where
  "no_grant_means_no_access env now \<longleftrightarrow>
     unwrap_in (record_owner env now ''alice'' REPO [] new_db) (\<lambda>d _.
       role_for env ''bob'' REPO d = None \<and> role_for env ''alice'' OTHER d = None)"

definition direct_member_grant_gives_access_but_not_ownership :: "sql_env \<Rightarrow> bool" where
  "direct_member_grant_gives_access_but_not_ownership env \<longleftrightarrow>
     unwrap_in (store_grant env ''bob'' REPO Member new_db) (\<lambda>d _.
       role_for env ''bob'' REPO d = Some Member \<and> ''owner'' \<notin> set (permissions Member))"

definition group_membership_confers_the_group_grant :: "sql_env \<Rightarrow> bool" where
  "group_membership_confers_the_group_grant env \<longleftrightarrow>
     unwrap_in (store_grant env ''group:eng'' REPO Member new_db) (\<lambda>d _.
     unwrap_in (add_group_member env ''eng'' ''carol'' d) (\<lambda>d _.
       role_for env ''carol'' REPO d = Some Member \<and>
       unwrap_in (remove_group_member env ''eng'' ''carol'' d) (\<lambda>d _.
         role_for env ''carol'' REPO d = None)))"

definition strongest_role_wins_across_paths :: "sql_env \<Rightarrow> bool" where
  "strongest_role_wins_across_paths env \<longleftrightarrow>
     unwrap_in (store_grant env ''dave'' REPO Member new_db) (\<lambda>d _.
     unwrap_in (store_grant env ''group:admins'' REPO Owner d) (\<lambda>d _.
     unwrap_in (add_group_member env ''admins'' ''dave'' d) (\<lambda>d _.
       role_for env ''dave'' REPO d = Some Owner)))"

definition accessible_lists_direct_and_group_resources :: "sql_env \<Rightarrow> int \<Rightarrow> bool" where
  "accessible_lists_direct_and_group_resources env now \<longleftrightarrow>
     unwrap_in (record_owner env now ''erin'' REPO [] new_db) (\<lambda>d _.
     unwrap_in (store_grant env ''group:eng'' OTHER Member d) (\<lambda>d _.
     unwrap_in (add_group_member env ''eng'' ''erin'' d) (\<lambda>d _.
       sort (accessible env ''erin'' d) = sort [REPO, OTHER])))"

definition revoke_and_delete_remove_access :: "sql_env \<Rightarrow> int \<Rightarrow> bool" where
  "revoke_and_delete_remove_access env now \<longleftrightarrow>
     unwrap_in (record_owner env now ''alice'' REPO [] new_db) (\<lambda>d _.
     unwrap_in (store_grant env ''bob'' REPO Member d) (\<lambda>d _.
     unwrap_in (revoke env ''bob'' REPO d) (\<lambda>d n. n = 1 \<and>
       role_for env ''bob'' REPO d = None \<and>
       unwrap_in (delete_resource env REPO d) (\<lambda>d _.
         role_for env ''alice'' REPO d = None \<and> accessible env ''alice'' d = []))))"

definition owner_permissions_carry_privileged_actions :: bool where
  "owner_permissions_carry_privileged_actions \<longleftrightarrow>
     list_all (\<lambda>action. action \<in> set (permissions Owner)) [''owner'', ''admin'', ''obliterate'', ''migrate'']"

definition store_tests :: "sql_env \<Rightarrow> int \<Rightarrow> bool" where
  "store_tests env now \<longleftrightarrow>
     creator_becomes_owner_and_re_create_keeps_first_owner env now \<and> no_grant_means_no_access env now \<and>
     direct_member_grant_gives_access_but_not_ownership env \<and> group_membership_confers_the_group_grant env \<and>
     strongest_role_wins_across_paths env \<and> accessible_lists_direct_and_group_resources env now \<and>
     revoke_and_delete_remove_access env now \<and> owner_permissions_carry_privileged_actions"

lemmas store_test_defs = creator_becomes_owner_and_re_create_keeps_first_owner_def
  no_grant_means_no_access_def direct_member_grant_gives_access_but_not_ownership_def
  group_membership_confers_the_group_grant_def strongest_role_wins_across_paths_def
  accessible_lists_direct_and_group_resources_def revoke_and_delete_remove_access_def

section \<open>The login sessions\<close>

text \<open>Two clock readings per operation, as in the model of the operations.\<close>

definition test_insert :: "instant \<Rightarrow> instant \<Rightarrow> string \<Rightarrow> string \<Rightarrow> duration \<Rightarrow> sessions \<Rightarrow> sessions" where
  "test_insert t1 t2 code state ttl s = sessions_insert t1 t2 code (''dc-'' @ code) ''https://idp/token'' state ttl s"

definition resolves_a_live_session_with_matching_state :: "instant \<Rightarrow> instant \<Rightarrow> instant \<Rightarrow> instant \<Rightarrow> bool" where
  "resolves_a_live_session_with_matching_state t1 t2 t3 t4 \<longleftrightarrow>
     (let s = test_insert t1 t2 ''sess1'' ''state-a'' (from_secs 300) sessions_new
      in snd (sessions_resolve t3 t4 ''sess1'' ''state-a'' s) = Some (''dc-sess1'', ''https://idp/token''))"

definition wrong_client_state_does_not_resolve :: "instant \<Rightarrow> instant \<Rightarrow> instant \<Rightarrow> instant \<Rightarrow> bool" where
  "wrong_client_state_does_not_resolve t1 t2 t3 t4 \<longleftrightarrow>
     (let s = test_insert t1 t2 ''sess1'' ''state-a'' (from_secs 300) sessions_new
      in snd (sessions_resolve t3 t4 ''sess1'' ''state-b'' s) = None)"

definition unknown_session_does_not_resolve :: "instant \<Rightarrow> instant \<Rightarrow> bool" where
  "unknown_session_does_not_resolve t3 t4 \<longleftrightarrow>
     snd (sessions_resolve t3 t4 ''nope'' ''state-a'' sessions_new) = None"

definition expired_session_does_not_resolve :: "instant \<Rightarrow> instant \<Rightarrow> instant \<Rightarrow> instant \<Rightarrow> bool" where
  "expired_session_does_not_resolve t1 t2 t3 t4 \<longleftrightarrow>
     (let s = test_insert t1 t2 ''sess1'' ''state-a'' 0 sessions_new
      in snd (sessions_resolve t3 t4 ''sess1'' ''state-a'' s) = None)"

definition removed_session_is_gone :: "instant \<Rightarrow> instant \<Rightarrow> instant \<Rightarrow> instant \<Rightarrow> bool" where
  "removed_session_is_gone t1 t2 t3 t4 \<longleftrightarrow>
     (let s = test_insert t1 t2 ''sess1'' ''state-a'' (from_secs 300) sessions_new;
          s = sessions_remove ''sess1'' s
      in snd (sessions_resolve t3 t4 ''sess1'' ''state-a'' s) = None)"

definition session_tests :: "instant \<Rightarrow> instant \<Rightarrow> instant \<Rightarrow> instant \<Rightarrow> bool" where
  "session_tests t1 t2 t3 t4 \<longleftrightarrow>
     resolves_a_live_session_with_matching_state t1 t2 t3 t4 \<and> wrong_client_state_does_not_resolve t1 t2 t3 t4 \<and>
     unknown_session_does_not_resolve t3 t4 \<and> expired_session_does_not_resolve t1 t2 t3 t4 \<and>
     removed_session_is_gone t1 t2 t3 t4"

section \<open>The device flow\<close>

definition id_token_is_preferred_and_is_success :: bool where
  "id_token_is_preferred_and_is_success \<longleftrightarrow> classify (Some ''idt'') (Some ''acc'') None = Token ''idt''"

definition access_token_is_used_when_no_id_token :: bool where
  "access_token_is_used_when_no_id_token \<longleftrightarrow> classify None (Some ''acc'') None = Token ''acc''"

definition authorization_pending_keeps_polling :: bool where
  "authorization_pending_keeps_polling \<longleftrightarrow>
     classify None None (Some ''authorization_pending'') = Pending \<and>
     classify None None (Some ''slow_down'') = Pending"

definition other_errors_are_terminal :: bool where
  "other_errors_are_terminal \<longleftrightarrow>
     classify None None (Some ''expired_token'') = Denied ''expired_token'' \<and>
     (case classify None None (Some ''access_denied'') of Denied _ \<Rightarrow> True | _ \<Rightarrow> False)"

definition empty_tokens_are_not_success :: bool where
  "empty_tokens_are_not_success \<longleftrightarrow> classify (Some []) (Some []) None = Pending"

definition device_tests :: bool where
  "device_tests \<longleftrightarrow>
     id_token_is_preferred_and_is_success \<and> access_token_is_used_when_no_id_token \<and>
     authorization_pending_keeps_polling \<and> other_errors_are_terminal \<and> empty_tokens_are_not_success"

section \<open>The canonical account\<close>

definition test_claims :: "string option \<Rightarrow> bool option \<Rightarrow> identity_claims" where
  "test_claims email verified =
     \<lparr>ic_sub = ''Cixxxxxxx'', ic_exp = 0, ic_preferred_username = None, ic_name = None,
      ic_email = email, ic_email_verified = verified\<rparr>"

definition verified_email_is_the_canonical_subject_lowercased :: "(string \<Rightarrow> string) \<Rightarrow> bool" where
  "verified_email_is_the_canonical_subject_lowercased uni \<longleftrightarrow>
     canonical_subject uni (test_claims (Some ''User@Example.com'') (Some True)) = ''user@example.com''"

definition unverified_or_missing_email_falls_back_to_the_connector_subject :: "(string \<Rightarrow> string) \<Rightarrow> bool" where
  "unverified_or_missing_email_falls_back_to_the_connector_subject uni \<longleftrightarrow>
     canonical_subject uni (test_claims (Some ''u@example.com'') (Some False)) = ''Cixxxxxxx'' \<and>
     canonical_subject uni (test_claims (Some ''u@example.com'') None) = ''Cixxxxxxx'' \<and>
     canonical_subject uni (test_claims None (Some True)) = ''Cixxxxxxx''"

definition subject_tests :: "(string \<Rightarrow> string) \<Rightarrow> bool" where
  "subject_tests uni \<longleftrightarrow>
     verified_email_is_the_canonical_subject_lowercased uni \<and>
     unverified_or_missing_email_falls_back_to_the_connector_subject uni"

section \<open>The key on disk and the published set\<close>

text \<open>The signer loaded twice from the same directory.\<close>

definition kid_is_stable_across_reload :: "'k crypto \<Rightarrow> fs_env \<Rightarrow> string \<Rightarrow> files \<Rightarrow> bool" where
  "kid_is_stable_across_reload C fe dir fs \<longleftrightarrow>
     (case load_or_generate C fe dir fs of
        (fs1, Inl e) \<Rightarrow> False
      | (fs1, Inr first) \<Rightarrow>
          (case load_or_generate C fe dir fs1 of
             (fs2, Inl e) \<Rightarrow> False
           | (fs2, Inr second) \<Rightarrow> kid first = kid second \<and> own_jwk first = own_jwk second))"

definition publishes_our_key_as_a_parseable_jwks :: "'k jwt \<Rightarrow> serde \<Rightarrow> fs_env \<Rightarrow> string \<Rightarrow> files \<Rightarrow> bool" where
  "publishes_our_key_as_a_parseable_jwks J sd fe dir fs \<longleftrightarrow>
     (let own = build_jwk ''ours'' ''AQAB'' ''AQAB''
      in case publish sd fe dir own fs of
           (fs1, Inl e) \<Rightarrow> False
         | (fs1, Inr _) \<Rightarrow>
             (case fs_read fe (path_join dir JWKS_FILE) fs1 of
                Inl e \<Rightarrow> False
              | Inr written \<Rightarrow>
                  (case parse_json sd written of
                     Inl e \<Rightarrow> False
                   | Inr j \<Rightarrow>
                       (case jwks_of_json J j of
                          Inl e \<Rightarrow> False
                        | Inr keyset \<Rightarrow>
                            (case field_values j ''keys'' of Some [JArr ks] \<Rightarrow> length ks = 1 | _ \<Rightarrow> False) \<and>
                            jwks_find J keyset ''ours'' \<noteq> None))))"

section \<open>The tests pass\<close>

text \<open>The tests sort what they list, so only the entries of a listing count (\<^verbatim>\<open>Row_Order\<close>).\<close>

lemma accessible_healthy:
  assumes "full_rows env"
  shows "sort (accessible env s d) = sort (accessible healthy s d)"
    and "accessible env s d = [] \<longleftrightarrow> accessible healthy s d = []"
proof -
  note m = mset_accessible [OF assms, of s d]
  show "sort (accessible env s d) = sort (accessible healthy s d)"
    by (intro properties_for_sort) (simp_all add: m)
  show "accessible env s d = [] \<longleftrightarrow> accessible healthy s d = []" using m by (metis mset_zero_iff)
qed

lemma store_tests_healthy: "store_tests healthy now"
proof -
  note strings = REPO_def OTHER_def
  have "creator_becomes_owner_and_re_create_keeps_first_owner healthy now" by code_simp
  moreover have "no_grant_means_no_access healthy now" by code_simp
  moreover have "accessible_lists_direct_and_group_resources healthy now" by code_simp
  moreover have "revoke_and_delete_remove_access healthy now" by code_simp
  ultimately show ?thesis
    unfolding store_tests_def by (intro conjI) (assumption | code_simp)+
qed

lemma store_tests_pass:
  assumes "no_faults env" and "full_rows env"
  shows "store_tests env now"
  using store_tests_healthy [of now] assms
  by (simp add: store_tests_def store_test_defs store_ops_healthy [OF assms(1)] role_for_healthy [OF assms(2)]
      accessible_healthy [OF assms(2)])

lemma session_tests_pass:
  assumes "t1 \<le> t2" "t2 \<le> t3" "t3 \<le> t4" and "t4 < t2 + from_secs 300"
  shows "session_tests t1 t2 t3 t4"
  using assms
  by (auto simp: session_tests_def resolves_a_live_session_with_matching_state_def
      wrong_client_state_does_not_resolve_def unknown_session_does_not_resolve_def
      expired_session_does_not_resolve_def removed_session_is_gone_def test_insert_def
      session_defs Let_def)

lemma device_tests_pass: device_tests
  by code_simp

lemma subject_tests_pass: "subject_tests uni"
proof -
  have "map ascii_lower ''User@Example.com'' = ''user@example.com''" "is_ascii ''User@Example.com''"
    by code_simp+
  then show ?thesis
    by (simp add: subject_tests_def verified_email_is_the_canonical_subject_lowercased_def
        unverified_or_missing_email_falls_back_to_the_connector_subject_def test_claims_def
        canonical_subject_def to_lowercase_def del: list.map)
qed

lemma reload_pass:
  assumes "load_or_generate C fe dir fs = (fs1, Inr sg)" and "fs_healthy fe"
  shows "kid_is_stable_across_reload C fe dir fs"
proof -
  from load_Inr_file [OF assms(1)] obtain pem where "fs1 (path_join dir KEY_FILE) = Some pem" "from_pkcs8_pem C pem = Inr sg"
    by blast
  with assms show ?thesis by (simp add: kid_is_stable_across_reload_def load_existing)
qed

lemma publish_pass:
  assumes "fs_healthy fe"
    and "parse_json sd (print_json sd (JObj [(''keys'', JArr [build_jwk ''ours'' ''AQAB'' ''AQAB''])])) =
      Inr (JObj [(''keys'', JArr [build_jwk ''ours'' ''AQAB'' ''AQAB''])])"
    and "jwks_of_json J (JObj [(''keys'', JArr [build_jwk ''ours'' ''AQAB'' ''AQAB''])]) = Inr ks"
    and "jwks_find J ks ''ours'' = Some k"
  shows "publishes_our_key_as_a_parseable_jwks J sd fe dir fs"
  using assms
  by (simp add: publishes_our_key_as_a_parseable_jwks_def publish_def fs_write_def fs_read_def fs_healthy_def)

text \<open>C39. The repository's unit tests of the store, the login sessions, the device flow, the canonical account,
  the key file and the published key set hold of the model: for every SQLite without faults, whatever
  order it delivers rows in; for every monotone clock that moves less than five minutes between two
  operations on a session; and for every healthy file system and key material.\<close>

theorem unit_tests_pass:
  assumes "no_faults env" and "full_rows env"
    and "t1 \<le> t2" and "t2 \<le> t3" and "t3 \<le> t4" and "t4 < t2 + from_secs 300"
    and "fs_healthy fe" and "load_or_generate C fe dir fs = (fs1, Inr sg)"
    and "parse_json sd (print_json sd (JObj [(''keys'', JArr [build_jwk ''ours'' ''AQAB'' ''AQAB''])])) =
      Inr (JObj [(''keys'', JArr [build_jwk ''ours'' ''AQAB'' ''AQAB''])])"
    and "jwks_of_json J (JObj [(''keys'', JArr [build_jwk ''ours'' ''AQAB'' ''AQAB''])]) = Inr ks"
    and "jwks_find J ks ''ours'' = Some k"
  shows "store_tests env now \<and> session_tests t1 t2 t3 t4 \<and> device_tests \<and> subject_tests uni \<and>
    kid_is_stable_across_reload C fe dir fs \<and> publishes_our_key_as_a_parseable_jwks J sd fe dir' fs'"
  by (intro conjI store_tests_pass session_tests_pass device_tests_pass subject_tests_pass
      reload_pass [OF assms(8,7)] publish_pass [OF assms(7,9,10,11)] assms)

end
