(* ===== verification/Schedule_Witnesses.thy ===== *)
theory Schedule_Witnesses
  imports Witnesses Auth_Races Web_Types Auth_Liveness Unit_Tests
begin

text \<open>
  The properties of schedules, of login completion and of the repository's tests, each applied in the
  example world, where its hypotheses hold.
\<close>

section \<open>Schedules of the auth service\<close>

text \<open>The first sections of a handler that ann's own token starts.\<close>

lemma ex_self: "self_claims ex_jwt 1000 (id_self (ac_identity ex_config)) ''tok1'' = Some (identity_of ex_minted)"
proof -
  have "accepts \<lparr>v_alg = RS256, v_issuers = [''S''], v_audiences = [''A''], v_validate_exp = True\<rparr> 1000 ex_header ex_minted"
    by (simp add: accepts_def ex_header_def ex_minted_def)
  then show ?thesis by (simp add: self_claims_def ex_jwt_def ex_decode_def ex_open_def)
qed

lemmas ex_self_simps = ex_self ex_self [simplified]

lemma ex_ann: "ic_sub (identity_of ex_minted) = ''ann@x''" "ic_exp (identity_of ex_minted) = 5000"
  "display_names (identity_of ex_minted) = (''Ann'', ''Ann@x'')"
  by (simp_all add: identity_of_def ex_minted_def display_names_def Let_def)

lemmas ex_act_simps = serve_act.simps answer_def map_act_def caller_act_def claims_act_def require_def
  ex_bearer ex_self_simps ex_ann

definition ex_create :: "string option \<times> rpc" where
  "ex_create = (Some ''Bearer tok1'', CreateResource ''urc-9'' ''nine'')"

definition ex_create_schedule :: "(string option \<times> rpc, string outside, command) sched list" where
  "ex_create_schedule = [Arrive 0 ex_create, Run 0 ex_outside, Run 0 ex_outside, Run 0 ex_outside]"

lemma ex_create_run:
  "pool_run (serve_act ex_config) admin_change restarted ex_create_schedule (fresh_state, Map.empty) =
    (fresh_state\<lparr>as_db := fst (record_owner healthy 1000 ''ann@x'' ''urc-9'' ''nine'' new_db)\<rparr>,
     [0 \<mapsto> (ex_create, Return (Inr Done))])"
proof -
  obtain d where "record_owner healthy 1000 ''ann@x'' ''urc-9'' ''nine'' new_db = (d, Inr ())"
    by (simp add: record_owner_ok)
  then show ?thesis
    by (simp add: ex_create_schedule_def ex_create_def ex_act_simps create_resource_act_def atomic_def fresh_state_def)
qed

lemma interleaved_access_witness:
  "justified (arrives ex_create_schedule) (runs_in ex_create_schedule) (changes ex_create_schedule) ex_config
     ''ann@x'' ''urc-9'' Owner"
proof (rule interleaved_access [OF ex_create_run])
  have "role_for healthy ''ann@x'' ''urc-9''
      (fst (record_owner healthy 1000 ''ann@x'' ''urc-9'' ''nine'' new_db)) = Some Owner"
    by code_simp
  then show "role_for healthy ''ann@x'' ''urc-9'' (as_db (fresh_state\<lparr>as_db :=
      fst (record_owner healthy 1000 ''ann@x'' ''urc-9'' ''nine'' new_db)\<rparr>)) = Some Owner"
    by simp
qed

lemma interleaved_replies_witness:
  "arrives ex_create_schedule ex_create \<and>
   reply_justified (arrives ex_create_schedule) (runs_in ex_create_schedule) (changes ex_create_schedule)
     ex_config ex_create (Inr Done)"
  by (rule interleaved_replies [where i = 0]) (simp add: ex_create_run)

lemma requests_answered_witness:
  "\<exists>r. reply_of (pool_run (serve_act ex_config) admin_change restarted
      [Run 0 ex_outside, Change (healthy, ''revoke'', [''ann@x'', ''urc-1'']), Run 0 ex_outside]
      (ex_state, Map.empty(0 \<mapsto> ((None, StartAuthSession ''cs''), serve_act ex_config (None, StartAuthSession ''cs''))))) 0
    = Some ((None, StartAuthSession ''cs''), r)"
proof (rule requests_answered [where rows = 1])
  have "length (grants (fst (run_admin healthy ''revoke'' [''ann@x'', ''urc-1''] ex_db))) \<le> 1"
    by code_simp
  then show "stays (\<lambda>st. length (grants (as_db st)) \<le> 1) (serve_act ex_config) admin_change restarted
      [Run 0 ex_outside, Change (healthy, ''revoke'', [''ann@x'', ''urc-1'']), Run 0 ex_outside]
      (ex_state, Map.empty(0 \<mapsto> ((None, StartAuthSession ''cs''), serve_act ex_config (None, StartAuthSession ''cs''))))"
    by (simp add: ex_act_simps start_auth_session_act_def atomic_def ex_start [simplified] ex_state_def ex_db_def Let_def)
qed simp

lemma double_poll_witness:
  "\<exists>n m. \<forall>i \<in> {0, 1}.
    reply_of (pool_run (serve_act ex_config) admin_change restarted
        ([Arrive 0 (None, GetAuthSession ''code'' ''cs''), Arrive 1 (None, GetAuthSession ''code'' ''cs''), Run 1 ex_outside] @
         replicate n (Run 0 ex_outside) @ replicate m (Run 1 ex_outside)) (ex_waiting, Map.empty)) i
      = Some ((None, GetAuthSession ''code'' ''cs''), Inr (Session (Some
          \<lparr>ut_token = ''tok1'', ut_expires_at = 5000, ut_user_id = ''ann@x'', ut_user_name = ''Ann''\<rparr>)))"
  by (rule double_poll [OF ex_login])

lemma stale_listing_witness:
  "\<exists>n m ps. reply_of (pool_run (serve_act ex_config) admin_change restarted
        ([Arrive 0 (Some ''Bearer tok1'', LookupUserPermissions)] @ replicate n (Run 0 ex_outside) @
         [Run 0 ex_outside, Change (healthy, ''revoke'', [''ann@x'', ''urc-1''])] @
         replicate m (Run 0 ex_outside)) (ex_state, Map.empty)) 0
      = Some ((Some ''Bearer tok1'', LookupUserPermissions), Inr (Listed ps)) \<and> grant ''urc-1'' Member \<in> set ps"
proof (rule stale_listing [OF ex_caller])
  have "''urc-1'' \<in> set (accessible healthy ''ann@x'' ex_db)"
    "role_for healthy ''ann@x'' ''urc-1'' (fst (run_admin healthy ''revoke'' [''ann@x'', ''urc-1''] ex_db)) = None"
    by code_simp+
  then show "''urc-1'' \<in> set (accessible (o_sql ex_outside) ''ann@x'' (as_db ex_state))"
    "role_for (o_sql ex_outside) ''ann@x'' ''urc-1''
       (as_db (admin_change (healthy, ''revoke'', [''ann@x'', ''urc-1'']) ex_state)) = None"
    by (simp_all add: ex_state_def)
qed

section \<open>The completion of a login\<close>

lemma ex_started_login:
  "start_auth_session ex_outside ex_config ''cs'' ex_state =
    (ex_state\<lparr>as_sessions := [random_id 7 \<mapsto> \<lparr>device_code = ''dc'', token_endpoint = ''T'', client_state = ''cs'',
       expires_at = 2 + from_secs 60\<rparr>]\<rparr>, Inr (random_id 7, ''page''))"
  by (simp add: start_auth_session_def ex_start [simplified] Let_def clamp_def sessions_insert_def sweep_def
      ex_state_def sessions_new_def retain_def)

lemma ex_provider_cached:
  "as_cache st = Some ''idp'' \<Longrightarrow> snd (provider_claims ex_outside ex_config ''idtok'' st) = Inr ex_claims"
  by (simp add: provider_claims_def oidc_verify_def token_kid_def verify_with_jwks_def ex_jwt_def ex_decode_def)

lemma login_completes_witness:
  "snd (get_auth_session ex_outside ex_config (random_id 7) ''cs'' (fst (start_auth_session ex_outside ex_config ''cs'' ex_state))) =
    Inr (Some \<lparr>ut_token = ''tok1'', ut_expires_at = 5000, ut_user_id = ''ann@x'', ut_user_name = ''Ann''\<rparr>)"
proof (rule login_completes [where evs = "[Request ex_outside None HealthCheck]" and ?w0.0 = ex_outside
      and id_token = "''idtok''" and c = ex_claims])
  let ?st = "fst (start_auth_session ex_outside ex_config ''cs'' ex_state)"
  show "start_auth_session ex_outside ex_config ''cs'' ex_state = (?st, Inr (random_id 7, ''page''))"
    by (simp add: ex_started_login)
  show "auth_run ex_config [Request ex_outside None HealthCheck] ?st ?st"
    by (simp add: auth_run_fold map_reply_def)
  show "device_flow_start (o_http ex_outside) (o_serde ex_outside) (ac_device ex_config) =
      Inr \<lparr>ds_device_code = ''dc'', ds_login_url = ''page'', ds_token_endpoint = ''T'', ds_expires_in = 0\<rparr>"
    by (simp add: ex_start [simplified])
  show "snd (provider_claims ex_outside ex_config ''idtok'' ?st) = Inr ex_claims"
    by (rule ex_provider_cached) (simp add: ex_started_login, simp add: ex_state_def)
qed (simp_all add: ex_started_login from_secs_def ex_poll ex_authn)

section \<open>Schedules of the frontend\<close>

lemma ex_draws: "random_state 7 \<noteq> random_state 5" "random_state 7 \<noteq> random_state 9"
  by code_simp+

lemma runs_in_simps [simp]:
  "runs_in [] w \<longleftrightarrow> False"
  "runs_in (Run i v # xs) w \<longleftrightarrow> w = v \<or> runs_in xs w"
  "runs_in (Arrive i q # xs) w \<longleftrightarrow> runs_in xs w"
  by (auto simp: runs_in_def)

text \<open>A login, then two callbacks with its state.\<close>

definition ex_login_schedule :: "(web_request, (string, string, unit) web_outside, unit \<Rightarrow> unit) sched list" where
  "ex_login_schedule = [Arrive 2 ex_login_request, Run 2 (ex_web ex_auth 5), Arrive 0 (ex_callback_request 5)]"

definition ex_pool :: "(unit web_state, (string, string, unit) web_outside, web_request, response) pool" where
  "ex_pool = snd (pool_run (web_act ex_web_config) remote_change web_restarted ex_login_schedule (web_initial (), Map.empty))"

definition ex_begun :: "unit web_state" where
  "ex_begun = fst (pool_run (web_act ex_web_config) remote_change web_restarted ex_login_schedule (web_initial (), Map.empty))"

lemma ex_login_run:
  "pool_run (web_act ex_web_config) remote_change web_restarted ex_login_schedule (web_initial (), Map.empty) = (ex_begun, ex_pool)"
  by (simp add: ex_begun_def ex_pool_def)

lemma ex_pool_at: "ex_pool 0 = Some (ex_callback_request 5, web_act ex_web_config (ex_callback_request 5))" "ex_pool 1 = None"
  by (simp_all add: ex_pool_def ex_login_schedule_def)
    (simp_all add: web_act_def ex_login_request_def login_act_def atomic_def Let_def)

lemma ex_begun_pendings: "pendings ex_begun = [random_state 5 \<mapsto> \<lparr>pd_verifier = ''bytes'', pd_expires_at = 1600\<rparr>]"
  by (simp add: ex_begun_def ex_login_schedule_def)
    (simp add: web_act_def ex_login_request_def login_act_def atomic_def Let_def start_login_def PENDING_TTL_def
      web_initial_def web_store_default_def code_verifier_def ex_crypto_def retain_def)

lemma ex_callback_act: "web_act cfg (ex_callback_request n) = take_act cfg ''ac'' (random_state n)"
  by (rule web_act_callback) simp

lemmas ex_pool_simps = ex_pool_at ex_pool_at(2) [simplified] ex_callback_act

definition ex_after_take :: "(web_request, (string, string, unit) web_outside, unit \<Rightarrow> unit) sched list" where
  "ex_after_take = [Arrive 1 (ex_callback_request 5), Run 1 (ex_web ex_auth 7)]"

lemma ex_second_take:
  "snd (pool_run (web_act ex_web_config) remote_change web_restarted (Run 0 (ex_web ex_auth 9) # ex_after_take) (ex_begun, ex_pool)) 1
    = Some (ex_callback_request 5, Return (redirect is_visible ''/?login=failed'' None))"
  by (simp add: ex_after_take_def ex_pool_simps)
    (simp add: ex_pool_simps take_act_def atomic_def take_pending_def ex_begun_pendings)

lemma interleaved_state_single_use_witness:
  "\<exists>w. runs_in ex_after_take w \<and>
    redirect is_visible ''/?login=failed'' None = redirect (wo_header_value w) ''/?login=failed'' None"
proof (rule interleaved_state_single_use [where j = 0 and i = 1 and ?w0.0 = "ex_web ex_auth 9",
      OF ex_login_run ex_pool_at(1) ex_callback_state _ _ _ _ _ ex_callback_state])
  show "pool_run (web_act ex_web_config) remote_change web_restarted (Run 0 (ex_web ex_auth 9) # ex_after_take) (ex_begun, ex_pool) =
    (fst (pool_run (web_act ex_web_config) remote_change web_restarted (Run 0 (ex_web ex_auth 9) # ex_after_take) (ex_begun, ex_pool)),
     snd (pool_run (web_act ex_web_config) remote_change web_restarted (Run 0 (ex_web ex_auth 9) # ex_after_take) (ex_begun, ex_pool)))"
    by simp
  show "\<forall>w. runs_in ex_after_take w \<longrightarrow> random_state (wo_random w) \<noteq> random_state 5"
    using ex_draws by (simp add: ex_after_take_def)
qed (rule ex_second_take | simp add: ex_pool_simps)+

text \<open>A whole login: the session it opens, and the answer to the callback.\<close>

definition ex_whole_login :: "(web_request, (string, string, unit) web_outside, unit \<Rightarrow> unit) sched list" where
  "ex_whole_login = ex_login_schedule @ replicate 4 (Run 0 (ex_web ex_auth 9))"

lemma ex_whole_state:
  "browser_sessions (fst (pool_run (web_act ex_web_config) remote_change web_restarted ex_whole_login (web_initial (), Map.empty)))
    = [random_state 9 \<mapsto> \<lparr>ws_token = ''tok1'', ws_user_name = ''Ann'', ws_sub = ''ann@x'', ws_expires_at = 5000\<rparr>]"
proof -
  have b: "browser_sessions ex_begun = Map.empty"
    by (simp add: ex_begun_def ex_login_schedule_def)
      (simp add: web_act_def ex_login_request_def login_act_def atomic_def Let_def web_initial_def web_store_default_def)
  have ext: "exchange_external ex_auth e ''idtok'' a = (a, Inr ex_issued)" for e a
    by (simp add: exchange_external_def auth_connect_def ex_auth_def ex_issued_def)
  show ?thesis
    by (simp add: ex_whole_login_def pool_run_append ex_login_run eval_nat_numeral ex_pool_simps)
      (simp add: take_act_def atomic_def take_pending_def ex_begun_pendings finish_login_act_def ex_code
        issue_act_def ext create_session_act_def Let_def b session_create_def session_expiry_def ex_issued_def)
qed

text \<open>A whole login, then a logout, then a profile request with the cookie of the session.\<close>

abbreviation ex_logout :: web_request where
  "ex_logout \<equiv> ex_cookie_request ''/auth/logout'' 9"

abbreviation ex_me :: web_request where
  "ex_me \<equiv> ex_cookie_request ''/api/me'' 9"

abbreviation ex_opened :: "unit web_state" where
  "ex_opened \<equiv> fst (pool_run (web_act ex_web_config) remote_change web_restarted ex_whole_login (web_initial (), Map.empty))"

abbreviation ex_opened_pool :: "(unit web_state, (string, string, unit) web_outside, web_request, response) pool" where
  "ex_opened_pool \<equiv> snd (pool_run (web_act ex_web_config) remote_change web_restarted ex_whole_login (web_initial (), Map.empty))"

definition ex_logout_run :: "(web_request, (string, string, unit) web_outside, unit \<Rightarrow> unit) sched list" where
  "ex_logout_run = [Arrive 3 ex_me, Run 3 (ex_web ex_auth 7)]"

lemma pool_run_absent:
  "\<forall>x \<in> set xs. \<forall>q. x \<noteq> Arrive i q \<Longrightarrow> p i = None \<Longrightarrow> snd (pool_run start env reset xs (s, p)) i = None"
proof (induction xs arbitrary: s p)
  case (Cons x xs)
  obtain s1 p1 where 1: "pool_do start env reset x (s, p) = (s1, p1)" by fastforce
  with Cons.prems have "p1 i = None"
    by (cases x) (auto split: option.splits act.splits prod.splits if_splits)
  with Cons 1 show ?case by simp
qed simp

lemma ex_opened_free: "ex_opened_pool 1 = None" "ex_opened_pool 3 = None"
  by (rule pool_run_absent; simp add: ex_whole_login_def ex_login_schedule_def)+

lemma interleaved_logout_witness:
  "live_session (ex_web ex_auth 1) (wr_cookies ex_me) ex_opened = Some (''tok1'', ''Ann'', ''ann@x'') \<and>
   reply_of (pool_run (web_act ex_web_config) remote_change web_restarted
       ((ex_whole_login @ [Arrive 1 ex_logout]) @ Run 1 (ex_web ex_auth 1) # ex_logout_run) (web_initial (), Map.empty)) 3
     = Some (ex_me, Response 401 [] (Text ''not logged in''))"
proof
  show "live_session (ex_web ex_auth 1) (wr_cookies ex_me) ex_opened = Some (''tok1'', ''Ann'', ''ann@x'')"
    by (simp add: live_session_def ex_cookie_request_def ex_cookie_simps ex_whole_state session_get_def)
  let ?go = "pool_run (web_act ex_web_config) remote_change web_restarted"
  let ?p = "ex_opened_pool(1 \<mapsto> (ex_logout, web_act ex_web_config ex_logout))"
  let ?after = "?go (Run 1 (ex_web ex_auth 1) # ex_logout_run) (ex_opened, ?p)"
  have begun: "?go (ex_whole_login @ [Arrive 1 ex_logout]) (web_initial (), Map.empty) = (ex_opened, ?p)"
    using ex_opened_free by (cases "?go ex_whole_login (web_initial (), Map.empty)") (simp add: pool_run_append)
  have acts: "web_act ex_web_config ex_logout = logout_act (wr_cookies ex_logout)"
    "web_act ex_web_config ex_me = me_act (wr_cookies ex_me)"
    by (simp_all add: web_act_def ex_cookie_request_def)
  obtain resp where resp: "snd ?after 3 = Some (ex_me, Return resp)"
    using ex_opened_free by (simp add: ex_logout_run_def acts) (simp add: acts logout_act_def me_act_def atomic_def)
  have "resp = Response 401 [] (Text ''not logged in'')"
  proof (rule interleaved_logout [where j = 1 and i = 3 and r = ex_me and ?r0.0 = ex_logout and sid = "random_state 9"
        and ?w0.0 = "ex_web ex_auth 1" and ys = ex_logout_run and cfg = ex_web_config and a = "()"])
    show "?after = (fst ?after, snd ?after)" by simp
    show "snd ?after 3 = Some (ex_me, Return resp)" by (rule resp)
    show "?go (ex_whole_login @ [Arrive 1 ex_logout]) (web_initial (), Map.empty) = (ex_opened, ?p)" by (rule begun)
    show "?p 3 = None \<or> (\<exists>r. ?p 3 = Some (r, web_act ex_web_config r))" using ex_opened_free by simp
  qed (simp_all add: ex_logout_run_def ex_draws ex_cookie_request_def ex_cookie_simps)
  with resp show "reply_of (?go ((ex_whole_login @ [Arrive 1 ex_logout]) @ Run 1 (ex_web ex_auth 1) # ex_logout_run)
      (web_initial (), Map.empty)) 3 = Some (ex_me, Response 401 [] (Text ''not logged in''))"
    unfolding pool_run_append [of _ _ _ "ex_whole_login @ [Arrive 1 ex_logout]"] begun
    by (simp add: reply_of_def del: pool_run.simps)
qed

lemma interleaved_sessions_witness:
  "earned (arrives ex_whole_login) (runs_in ex_whole_login) ex_web_config (''tok1'', ''Ann'', ''ann@x'')"
proof -
  let ?c = "pool_run (web_act ex_web_config) remote_change web_restarted ex_whole_login (web_initial (), Map.empty)"
  have "?c = (fst ?c, snd ?c)" by simp
  from interleaved_sessions [OF this, of 1000 "random_state 9"] show ?thesis
    by (simp add: ex_whole_state session_get_def)
qed

lemma web_response_type_witness:
  "response_typed (ex_callback_request 5) (redirect is_visible ''/?login=failed'' None)"
proof (rule web_response_type [where xs = "[Arrive 0 (ex_callback_request 5), Run 0 (ex_web ex_auth 7)]"
      and st = "web_initial ()" and i = 0 and cfg = ex_web_config])
  show "\<forall>w. runs_in [Arrive 0 (ex_callback_request 5), Run 0 (ex_web ex_auth 7)] w \<longrightarrow> printable_headers w"
    by (simp add: printable_headers_def ex_urls_def is_visible_def)
  show "reply_of (pool_run (web_act ex_web_config) remote_change web_restarted
      [Arrive 0 (ex_callback_request 5), Run 0 (ex_web ex_auth 7)] (web_initial (), Map.empty)) 0 =
      Some (ex_callback_request 5, redirect is_visible ''/?login=failed'' None)"
    by (simp add: ex_callback_act)
      (simp add: take_act_def atomic_def take_pending_def web_initial_def web_store_default_def)
qed

section \<open>The repository's tests\<close>

definition ex_round_trip :: serde where
  "ex_round_trip = ex_serde\<lparr>print_json := \<lambda>j. ''one key'',
     parse_json := \<lambda>s. Inr (JObj [(''keys'', JArr [build_jwk ''ours'' ''AQAB'' ''AQAB''])])\<rparr>"

lemma unit_tests_pass_witness:
  "store_tests healthy 1000 \<and> session_tests 1 2 3 4 \<and> device_tests \<and> subject_tests id \<and>
   kid_is_stable_across_reload ex_crypto ex_fs ''/keys'' Map.empty \<and>
   publishes_our_key_as_a_parseable_jwks (ex_jwt\<lparr>jwks_find := \<lambda>ks k. Some ks\<rparr>) ex_round_trip ex_fs ''/keys'' Map.empty"
  by (rule unit_tests_pass [OF _ _ _ _ _ _ ex_fs_healthy ex_load])
    (simp_all add: from_secs_def ex_round_trip_def ex_jwt_def)

end
