(* ===== verification/Section_Runs.thy ===== *)
theory Section_Runs
  imports Sections
begin

text \<open>
  Further rules on schedules: handlers whose sections meet only states with a property, and replies
  that leave the shared state with a property, which then stays.
\<close>

lemma safe_alone:
  "safe W I G R a \<Longrightarrow> W w \<Longrightarrow> I s \<Longrightarrow> I (fst (alone w a s)) \<and> R (snd (alone w a s))"
  by (induction a arbitrary: s) auto

lemma atomic_not_Return [simp]: "atomic h \<noteq> Return r"
  by (simp add: atomic_def)

section \<open>Handlers that meet a property\<close>

text \<open>The reply satisfies \<open>R\<close> when every section of the handler meets a state with \<open>P\<close>.\<close>

primrec sees :: "('w \<Rightarrow> bool) \<Rightarrow> ('s \<Rightarrow> bool) \<Rightarrow> ('r \<Rightarrow> bool) \<Rightarrow> ('s, 'w, 'r) act \<Rightarrow> bool" where
  "sees W P R (Return r) \<longleftrightarrow> R r"
| "sees W P R (Step g k) \<longleftrightarrow> (\<forall>w s. W w \<longrightarrow> P s \<longrightarrow> sees W P R (k w s))"

lemma sees_atomic [simp]:
  "sees W P R (atomic h) \<longleftrightarrow> (\<forall>w s. W w \<longrightarrow> P s \<longrightarrow> sees W P R (snd (h w s)))"
  by (simp add: atomic_def)

lemma sees_bind:
  "sees W P R a \<Longrightarrow> (\<And>r. R r \<Longrightarrow> sees W P R' (f r)) \<Longrightarrow> sees W P R' (bind_act a f)"
  by (induction a) auto

lemma sees_any: "sees W P (\<lambda>_. True) a"
  by (induction a) auto

lemma sees_weaken: "sees W P R a \<Longrightarrow> (\<And>r. R r \<Longrightarrow> R' r) \<Longrightarrow> sees W P R' a"
  by (induction a) auto

lemma sees_map: "sees W P (\<lambda>r. R (f r)) a \<Longrightarrow> sees W P R (map_act f a)"
  unfolding map_act_def by (rule sees_bind) simp_all

lemma safe_sees:
  "safe W I G R a \<Longrightarrow> (\<And>w. W' w \<Longrightarrow> W w) \<Longrightarrow> (\<And>s. P s \<Longrightarrow> I s) \<Longrightarrow> sees W' P R a"
  by (induction a) auto

lemma sees_run:
  assumes "stays P start env reset xs (s, p)" and "p i = Some (q, a)" and "sees W P R a"
    and "\<forall>w. runs_in xs w \<longrightarrow> W w"
    and "reply_of (pool_run start env reset xs (s, p)) i = Some (q', r)"
  shows "q' = q \<and> R r"
  using assms
proof (induction xs arbitrary: s p a)
  case (Cons x xs)
  obtain s1 p1 where 1: "pool_do start env reset x (s, p) = (s1, p1)" by fastforce
  have "\<exists>b. p1 i = Some (q, b) \<and> sees W P R b"
  proof (cases "\<exists>w. x = Run i w")
    case True
    then obtain w where x: "x = Run i w" by blast
    with Cons.prems(4) have "W w" by (auto simp: runs_in_def)
    with x 1 Cons.prems(1-3) show ?thesis by (cases a) auto
  next
    case False
    with 1 Cons.prems(1-3) show ?thesis
      by (cases x) (auto split: option.splits prod.splits act.splits if_splits)
  qed
  then obtain b where b: "p1 i = Some (q, b)" "sees W P R b" by blast
  have "\<forall>w. runs_in xs w \<longrightarrow> W w" using Cons.prems(4) by (auto simp: runs_in_def)
  with Cons.IH [of s1 p1 b] b Cons.prems(1,5) show ?case by (simp add: 1)
qed auto

lemma stays_with:
  assumes "shared_state start env reset Q W E I G R" and "I s0"
    and "pool_run start env reset xs (s0, Map.empty) = (s, p)" and "stays P start env reset ys (s, p)"
    and "\<forall>x \<in> set (xs @ ys). sched_ok Q W E x"
  shows "stays (\<lambda>t. I t \<and> P t) start env reset ys (s, p)"
  using assms(3-5)
proof (induction ys arbitrary: xs s p)
  case Nil
  with shared_state.pool_run_ok [OF assms(1) Nil(1)] assms(2) show ?case
    by (simp add: shared_state.pool_ok_empty [OF assms(1)])
next
  case (Cons y ys)
  obtain s1 p1 where 1: "pool_do start env reset y (s, p) = (s1, p1)" by fastforce
  with Cons.prems(1) have "pool_run start env reset (xs @ [y]) (s0, Map.empty) = (s1, p1)"
    by (simp add: pool_run_append)
  with Cons.IH [of "xs @ [y]" s1 p1] Cons.prems 1 have "stays (\<lambda>t. I t \<and> P t) start env reset ys (s1, p1)"
    by simp
  moreover have "I s" using shared_state.pool_run_ok [OF assms(1) Cons.prems(1)] assms(2) Cons.prems(3)
    by (simp add: shared_state.pool_ok_empty [OF assms(1)])
  ultimately show ?case using Cons.prems(2) 1 by simp
qed

section \<open>Replies that leave a property behind\<close>

text \<open>The section that returns a reply with \<open>R\<close> leaves a state with \<open>D\<close>.\<close>

primrec leaves :: "('w \<Rightarrow> bool) \<Rightarrow> ('r \<Rightarrow> bool) \<Rightarrow> ('s \<Rightarrow> bool) \<Rightarrow> ('s, 'w, 'r) act \<Rightarrow> bool" where
  "leaves W R D (Return r) \<longleftrightarrow> True"
| "leaves W R D (Step g k) \<longleftrightarrow>
     (\<forall>w s. W w \<longrightarrow> (\<forall>r. k w s = Return r \<longrightarrow> R r \<longrightarrow> D (g w s)) \<and> leaves W R D (k w s))"

lemma leaves_atomic:
  "leaves W R D (atomic h) \<longleftrightarrow>
     (\<forall>w s. W w \<longrightarrow> (\<forall>r. snd (h w s) = Return r \<longrightarrow> R r \<longrightarrow> D (fst (h w s))) \<and> leaves W R D (snd (h w s)))"
  by (simp add: atomic_def)

lemma leaves_never: "(\<And>r. \<not> R r) \<Longrightarrow> leaves W R D a"
  by (induction a) auto

lemma leaves_bind:
  "(\<And>r. leaves W R D (f r)) \<Longrightarrow> (\<And>r r'. f r = Return r' \<Longrightarrow> \<not> R r') \<Longrightarrow> leaves W R D (bind_act a f)"
proof (induction a)
  case (Step g k)
  have "\<not> R r" if "bind_act (k w s) f = Return r" for w s r
    using that Step.prems(2) by (cases "k w s") auto
  with Step show ?case by auto
qed auto

lemma leaves_map: "leaves W (\<lambda>r. R (f r)) D a \<Longrightarrow> leaves W R D (map_act f a)"
proof (induction a)
  case (Step g k)
  have "D (g w s)" if "bind_act (k w s) (\<lambda>r. Return (f r)) = Return r" "R r" "W w" for w s r
    using that Step.prems by (cases "k w s") auto
  with Step show ?case by (auto simp: map_act_def)
qed (simp add: map_act_def)

lemma leaves_run:
  assumes "pool_run start env reset xs (s, Map.empty) = (s', p')" and "\<forall>x \<in> set xs. sched_ok Q W E x"
    and "\<And>q. Q q \<Longrightarrow> leaves W (R q) D (start q)" and "\<And>q r. Q q \<Longrightarrow> start q = Return r \<Longrightarrow> \<not> R q r"
    and "\<And>q. Q q \<Longrightarrow> safe W (\<lambda>_. True) G (\<lambda>_. True) (start q)"
    and "\<And>w t t'. W w \<Longrightarrow> G w t t' \<Longrightarrow> D t \<Longrightarrow> D t'" and "\<And>e t. E e \<Longrightarrow> D t \<Longrightarrow> D (env e t)"
    and "\<And>t. D t \<Longrightarrow> D (reset t)"
    and "p' i = Some (q, Return r)" and "R q r"
  shows "D s'"
proof -
  define ok where "ok = (\<lambda>t (p :: nat \<Rightarrow> _). \<forall>i q a. p i = Some (q, a) \<longrightarrow>
    safe W (\<lambda>_. True) G (\<lambda>_. True) a \<and> leaves W (R q) D a \<and> (\<forall>r. a = Return r \<longrightarrow> R q r \<longrightarrow> D t))"
  have "ok s' p'" if "pool_run start env reset xs (t, p) = (s', p')" "\<forall>x \<in> set xs. sched_ok Q W E x" "ok t p" for t p
    using that
  proof (induction xs arbitrary: t p)
    case (Cons x xs)
    obtain t1 p1 where 1: "pool_do start env reset x (t, p) = (t1, p1)" by fastforce
    have "ok t1 p1"
    proof (cases x)
      case (Run j w)
      show ?thesis
      proof (cases "\<exists>q g k. p j = Some (q, Step g k)")
        case True
        then obtain q g k where j: "p j = Some (q, Step g k)" by blast
        from Cons.prems(2) Run have w: "W w" by simp
        with Cons.prems(3) j have now: "G w t (g w t)" "safe W (\<lambda>_. True) G (\<lambda>_. True) (k w t)"
            "leaves W (R q) D (k w t)" "\<And>r. k w t = Return r \<Longrightarrow> R q r \<Longrightarrow> D (g w t)"
          unfolding ok_def by fastforce+
        from 1 Run j have 2: "t1 = g w t" "p1 = p(j \<mapsto> (q, k w t))" by auto
        show ?thesis unfolding ok_def 2
          using Cons.prems(3) now assms(6) [OF w now(1)] by (auto simp: ok_def)
      next
        case False
        with 1 Run have "t1 = t \<and> p1 = p" by (auto split: option.splits act.splits)
        with Cons.prems show ?thesis by blast
      qed
    qed (use 1 Cons.prems assms(3-5,7,8) in \<open>fastforce simp: ok_def split: if_splits\<close>)+
    with Cons.IH [of t1 p1] Cons.prems(1,2) 1 show ?case by simp
  qed simp
  from this [OF assms(1,2)] assms(9,10) show ?thesis by (simp add: ok_def)
qed

end
