(* ===== verification/Auth_Single_Use.thy ===== *)
theory Auth_Single_Use
  imports Auth_Concurrency Section_Runs
begin

text \<open>
  A login session of the auth service that has ended stays ended, whatever runs next to it: what
  \<^verbatim>\<open>get_auth_session\<close> guarantees of its single use when polls overlap.
\<close>

section \<open>What a section may add\<close>

text \<open>A section adds a login session only under the code it draws.\<close>

definition adds_session :: "'k outside \<Rightarrow> 'k auth_state \<Rightarrow> 'k auth_state \<Rightarrow> bool" where
  "adds_session w st st' \<longleftrightarrow>
     (\<forall>code. code \<noteq> random_id (o_random w) \<longrightarrow> as_sessions st code = None \<longrightarrow> as_sessions st' code = None)"

lemma adds_session_ops [simp]:
  "adds_session w st st"
  "adds_session w st (st\<lparr>as_db := d\<rparr>)"
  "adds_session w st (st\<lparr>as_cache := c\<rparr>)"
  "adds_session w st (st\<lparr>as_sessions := sessions_remove code (as_sessions st)\<rparr>)"
  "adds_session w st (st\<lparr>as_sessions := sweep t (as_sessions st)\<rparr>)"
  "adds_session w st (st\<lparr>as_sessions :=
     sessions_insert t1 t2 (random_id (o_random w)) dc te cs ttl (as_sessions st)\<rparr>)"
  by (auto simp: adds_session_def session_defs)

abbreviation tidy :: "('k, 'r) auth_act \<Rightarrow> bool" where
  "tidy \<equiv> safe (\<lambda>_. True) (\<lambda>_. True) adds_session (\<lambda>_. True)"

lemma tidy_bind: "tidy a \<Longrightarrow> (\<And>r. tidy (f r)) \<Longrightarrow> tidy (bind_act a f)"
  by (rule safe_bind)

lemma tidy_map: "tidy a \<Longrightarrow> tidy (map_act f a)"
  by (rule safe_map) simp

lemma tidy_require: "tidy a \<Longrightarrow> (\<And>x. tidy (f x)) \<Longrightarrow> tidy (require a m f)"
  unfolding require_def by (rule tidy_bind) (auto split: sum.split)

lemma tidy_verify: "tidy (oidc_verify_act ov token)"
  by (auto simp: oidc_verify_act_def fetch_act_def keep_keys_act_def Let_def safe_atomic split: sum.split option.split)

lemma tidy_claims: "tidy (claims_act ident token)"
  by (auto simp: claims_act_def safe_atomic tidy_verify split: option.split)

lemma tidy_caller: "tidy (caller_act cfg md)"
  by (auto simp: caller_act_def safe_atomic intro: tidy_map tidy_claims)

lemma tidy_loops:
  "tidy (check_ids_act sub ids al de)" "tidy (list_roles_act sub ids acc)" "tidy (scope_act sub ids gs)"
  by (induction ids arbitrary: al de acc gs) (auto simp: safe_atomic split: option.split)

lemma resolved_table: "sessions_resolve t1 t2 code cs m = (m', r) \<Longrightarrow> m' = sweep t1 m"
  using resolve_table [of t1 t2 code cs m] by simp

lemma tidy_get_session: "tidy (get_auth_session_act cfg code cs)"
proof -
  have "tidy (finish_session_act cfg code t)" for t
    unfolding finish_session_act_def by (rule tidy_require [OF tidy_verify]) (simp add: safe_atomic)
  then have "tidy (poll_act cfg code dc te)" for dc te
    by (auto simp: poll_act_def safe_atomic split: sum.split poll.split)
  then show ?thesis
    by (auto simp: get_auth_session_act_def safe_atomic dest!: resolved_table split: prod.split option.split)
qed

lemma tidy_serve: "tidy (serve_act cfg q)"
proof (cases q)
  case (Pair md req)
  have "tidy (create_resource_act cfg md rid rname)" for rid rname
    unfolding create_resource_act_def
    by (rule tidy_require [OF tidy_caller]) (auto simp: safe_atomic split: prod.split sum.split)
  moreover have "tidy (delete_resource_act cfg md rid)" for rid
    unfolding delete_resource_act_def
    by (rule tidy_require [OF tidy_caller]) (auto simp: safe_atomic split: prod.split sum.split)
  moreover have "tidy (check_user_permission_act cfg md ids)" for ids
    unfolding check_user_permission_act_def by (rule tidy_require [OF tidy_caller tidy_loops(1)])
  moreover have "tidy (lookup_user_permissions_act cfg md)"
    unfolding lookup_user_permissions_act_def
    by (rule tidy_require [OF tidy_caller]) (simp add: safe_atomic tidy_loops(2))
  moreover have "tidy (start_auth_session_act cfg cs)" for cs
    unfolding start_auth_session_act_def by (rule tidy_require) (simp_all add: safe_atomic Let_def)
  moreover have "tidy (exchange_external_act cfg e)" for e
  proof (cases "e = []")
    case False
    then show ?thesis unfolding exchange_external_act_def if_not_P [OF False]
      by (intro tidy_require [OF tidy_verify]) (simp add: safe_atomic)
  qed (simp add: exchange_external_act_def)
  moreover have "tidy (exchange_multiresource_act cfg md ids)" for ids
  proof -
    have "tidy (mint_scoped_act cfg c rs)" for c rs
      by (simp add: mint_scoped_act_def safe_atomic case_prod_beta)
    then have "tidy (bind_act (scope_act (ic_sub c) ids []) (mint_scoped_act cfg c))" for c
      by (rule tidy_bind [OF tidy_loops(3)])
    then show ?thesis
      by (auto simp: exchange_multiresource_act_def safe_atomic Let_def intro!: tidy_require tidy_claims)
  qed
  ultimately show ?thesis
    by (cases req) (simp_all add: Pair answer_def tidy_map tidy_get_session)
qed

interpretation tidied: shared_state "serve_act cfg" admin_change restarted "\<lambda>_. True" "\<lambda>_. True"
    "\<lambda>_. True" "\<lambda>_. True" adds_session "\<lambda>_ _. True" for cfg
  by unfold_locales (simp_all add: tidy_serve)

section \<open>The end of a login session\<close>

text \<open>The replies that end a session: the token, a failure to issue it, or the provider's refusal.\<close>

fun ends_session :: "string \<Rightarrow> string option \<times> rpc \<Rightarrow> status + reply \<Rightarrow> bool" where
  "ends_session code (md, GetAuthSession code' cs) (Inr (Session (Some ut))) \<longleftrightarrow> code' = code"
| "ends_session code (md, GetAuthSession code' cs) (Inl (Internal m)) \<longleftrightarrow> code' = code \<and> m = ''token issuance failed''"
| "ends_session code (md, GetAuthSession code' cs) (Inl (PermissionDenied m)) \<longleftrightarrow> code' = code"
| "ends_session code q r \<longleftrightarrow> False"

lemma ends_session_code: "ends_session code (md, GetAuthSession code' cs) r \<Longrightarrow> code' = code"
  by (cases "(code, (md, GetAuthSession code' cs), r)" rule: ends_session.cases) auto

lemma leaves_get_session:
  "leaves W (\<lambda>r. ends_session code (md, GetAuthSession code' cs) (map_sum id Session r))
     (\<lambda>st. as_sessions st code = None) (get_auth_session_act cfg code' cs)" (is "leaves W ?R ?D _")
proof -
  have finish: "leaves W ?R ?D (finish_session_act cfg code' t)" for t
    unfolding finish_session_act_def require_def
    by (rule leaves_bind)
      (auto simp: leaves_atomic sessions_remove_def split: sum.splits if_splits dest: ends_session_code)
  have poll: "leaves W ?R ?D (poll_act cfg code' dc te)" for dc te
    unfolding poll_act_def leaves_atomic
    using finish
    by (auto simp: leaves_atomic sessions_remove_def finish_session_act_def require_def
        oidc_verify_act_def dest!: ends_session_code split: sum.splits poll.splits)
  have "poll_act cfg code' dc te \<noteq> Return r" for dc te r
    by (simp add: poll_act_def)
  with poll show ?thesis
    by (auto simp: get_auth_session_act_def leaves_atomic split: prod.splits option.splits)
qed

lemma leaves_serve: "leaves W (ends_session code q) (\<lambda>st. as_sessions st code = None) (serve_act cfg q)"
proof (cases q)
  case (Pair md req)
  show ?thesis
  proof (cases "\<exists>code' cs. req = GetAuthSession code' cs")
    case True
    then show ?thesis by (auto simp: Pair answer_def intro!: leaves_map leaves_get_session)
  next
    case False
    then have "\<not> ends_session code q r" for r
      using Pair by (cases "(code, q, r)" rule: ends_session.cases) auto
    then show ?thesis by (rule leaves_never)
  qed
qed

lemma serve_not_ended: "serve_act cfg q = Return r \<Longrightarrow> \<not> ends_session code q r"
  by (cases "(code, q, r)" rule: ends_session.cases)
    (auto simp: answer_def map_act_def get_auth_session_act_def)

lemma ended_absent: "as_sessions (admin_change e st) = as_sessions st" "as_sessions (restarted st) code = None"
  by (cases e) (simp_all add: restarted_def sessions_new_def)

text \<open>C26. A login session ends once and for all, whatever the interleaving: as soon as one poll has been
  answered with the token, with the provider's refusal or with a failure to issue the token, every poll
  with that session code that had not begun by then is answered as unknown, through any schedule of
  requests, administrator's commands and restarts in which the code is not drawn again.\<close>

theorem interleaved_single_use:
  assumes "pool_run (serve_act cfg) admin_change restarted xs (st, Map.empty) = (st0, p0)"
    and "p0 j = Some (q, Return ended)" and "ends_session code q ended"
    and "pool_run (serve_act cfg) admin_change restarted ys (st0, p0) = (st', p')"
    and "\<forall>w. runs_in (xs @ ys) w \<longrightarrow> random_id (o_random w) \<noteq> code"
    and "p0 i = None \<or> (\<exists>q'. p0 i = Some (q', serve_act cfg q'))"
    and "p' i = Some ((md, GetAuthSession code cs), Return r)"
  shows "r = Inl (NotFound ''unknown or expired login session'')"
proof -
  let ?D = "\<lambda>st. as_sessions st code = None"
  let ?R = "\<lambda>q r. (\<exists>md cs. q = (md, GetAuthSession code cs)) \<longrightarrow> r = Inl (NotFound ''unknown or expired login session'')"
  have keep: "?D t'" if "random_id (o_random w) \<noteq> code" "adds_session w t t'" "?D t" for w t t'
    using that by (auto simp: adds_session_def)
  have xs: "\<forall>x \<in> set xs. sched_ok (\<lambda>_. True) (runs_in xs) (\<lambda>_. True) x" by (simp add: sched_ok_runs)
  have tidy: "safe W (\<lambda>_. True) adds_session (\<lambda>_. True) (serve_act cfg q)" for W q
    by (rule safe_restrict [OF tidy_serve]) simp_all
  have gone: "?D st0"
    by (rule leaves_run [OF assms(1) xs leaves_serve serve_not_ended tidy _ _ _ assms(2,3)])
      (use assms(5) keep in \<open>auto simp: ended_absent runs_in_def\<close>)
  have draws: "random_id (o_random w) \<noteq> code" if "runs_in ys w" for w
    using assms(5) that by (auto simp: runs_in_def)
  have ok: "tidied.pool_ok p0" using tidied.pool_run_ok [OF assms(1)] by simp
  have flight: "safe (runs_in ys) ?D adds_session (\<lambda>_. True) b" if "p0 k = Some (q, b)" for k q b
  proof (rule safe_restrict)
    show "safe (\<lambda>_. True) (\<lambda>_. True) adds_session (\<lambda>_. True) b"
      using ok that unfolding tidied.pool_ok_def by blast
  qed (simp_all add: keep [OF draws])
  have unknown: "safe (runs_in ys) ?D adds_session (?R (md, GetAuthSession code cs)) (serve_act cfg (md, GetAuthSession code cs))"
    for md cs
    by (auto simp: answer_def map_act_def get_auth_session_act_def safe_atomic sessions_resolve_def Let_def sweep_apply)
  have start: "safe (runs_in ys) ?D adds_session (?R q) (serve_act cfg q)" for q
  proof (cases "\<exists>md cs. q = (md, GetAuthSession code cs)")
    case False
    have "safe (runs_in ys) ?D adds_session (\<lambda>_. True) (serve_act cfg q)"
      by (rule safe_restrict [OF tidy_serve]) (simp_all add: keep [OF draws])
    then show ?thesis by (rule safe_weaken) (use False in blast)
  qed (use unknown in blast)
  have flights: "safe (runs_in ys) ?D adds_session (\<lambda>r. k \<in> {i} \<longrightarrow> ?R q r) b" if "p0 k = Some (q, b)" for k q b
  proof (cases "k = i")
    case True
    with that assms(6) have "b = serve_act cfg q" by auto
    then show ?thesis by (auto intro: safe_weaken [OF start])
  qed (auto intro: safe_weaken [OF flight [OF that]])
  have "?R (md, GetAuthSession code cs) r"
    by (rule group_run [where F = "{i}" and Q = "\<lambda>_. True" and W = "runs_in ys" and E = "\<lambda>_. True"
          and I = ?D and G = adds_session and R = ?R, OF assms(4) _ gone start _ _ flights assms(7)])
      (simp_all add: ended_absent sched_ok_runs)
  then show ?thesis by blast
qed

end
