(* ===== verification/Auth_Provenance.thy ===== *)
theory Auth_Provenance
  imports Auth_Concurrency Section_Runs
begin

text \<open>
  Where ownership comes from in a history of whole requests, administrator's commands and restarts:
  the event that wrote the grant, at its position in the history, and for a creation how its caller was
  identified there.
\<close>

section \<open>Identities in a history\<close>

text \<open>
  A bearer names an identity: the service's own key verifies it, or it verifies, for the configured
  issuer and audiences, under a key set that some request of the history had fetched from the provider.
\<close>

definition identified :: "'k auth_config \<Rightarrow> 'k event list \<Rightarrow> 'k outside \<Rightarrow> string \<Rightarrow> identity_claims \<Rightarrow> bool" where
  "identified cfg past w token c \<longleftrightarrow>
     self_claims (o_jwt w) (o_now w) (id_self (ac_identity cfg)) token = Some c \<or>
     (\<exists>w' md req ks. Request w' md req \<in> set past \<and>
        oidc_fetch (o_jwt w') (o_http w') (o_serde w') (ov_issuer (id_oidc (ac_identity cfg))) = Inr ks \<and>
        verify_with_jwks (o_jwt w) (o_now w) token ks (ov_issuer (id_oidc (ac_identity cfg)))
          (ov_audiences (id_oidc (ac_identity cfg))) = Inr c)"

definition worlds_of :: "'k event list \<Rightarrow> 'k outside \<Rightarrow> bool" where
  "worlds_of evs w \<longleftrightarrow> (\<exists>md req. Request w md req \<in> set evs)"

lemma run_traced:
  assumes "auth_run cfg evs fresh_state st" and "\<And>w. worlds_of evs w \<Longrightarrow> W w"
  shows "traced (\<lambda>_. True) W (\<lambda>_. True) cfg st"
  using assms
proof (induction "fresh_state :: 'a auth_state" st rule: auth_run.induct)
  case stop
  show ?case by (rule traced_fresh)
next
  case (step evs st1 ev st2)
  from step have t: "traced (\<lambda>_. True) W (\<lambda>_. True) cfg st1" by (simp add: worlds_of_def) blast
  show ?case
  proof (cases ev)
    case (Request w md req)
    with step.prems have "W w" by (auto simp: worlds_of_def)
    with safe_alone [OF safe_serve [of "\<lambda>_. True" "(md, req)"] _ t] step.hyps(3) Request show ?thesis
      by (simp add: auth_step_iff serve_act_eq)
  next
    case (Admin env cmd args)
    with traced_admin [OF _ t, of "(env, cmd, args)"] step.hyps(3) show ?thesis by (simp add: auth_step_iff)
  next
    case Restart
    with traced_restarted [OF t] step.hyps(3) show ?thesis by (simp add: auth_step_iff restarted_def)
  qed
qed

lemma caller_identified:
  assumes "auth_run cfg pre fresh_state st" and "snd (caller w cfg md st) = Inr sub"
  shows "\<exists>c. identified cfg (pre @ [Request w md req]) w (bearer (o_to_str w) md) c \<and> sub = ic_sub c"
proof -
  let ?past = "pre @ [Request w md req]"
  have cached: "keys_fetched (worlds_of pre) cfg ks" if "as_cache st = Some ks" for ks
    using run_traced [OF assms(1), of "worlds_of pre"] that by (simp add: traced_def)
  obtain c where c: "snd (caller_claims w cfg (bearer (o_to_str w) md) st) = Inr c" "sub = ic_sub c"
    using assms(2) by (auto simp: caller_from_claims split: prod.splits sum.splits)
  have now: "\<exists>w' md' req'. Request w' md' req' \<in> set ?past \<and> oidc_fetch (o_jwt w') (o_http w') (o_serde w') i = Inr ks"
    if "oidc_fetch (o_jwt w) (o_http w) (o_serde w) i = Inr ks" for i ks
    using that by fastforce
  from c(1) have "identified cfg ?past w (bearer (o_to_str w) md) c"
    unfolding caller_claims_def id_claims_def oidc_verify_def identified_def
    using cached now by (fastforce simp: keys_fetched_def worlds_of_def opt_filter_def
        split: prod.splits sum.splits option.splits if_splits)
  with c(2) show ?thesis by blast
qed

section \<open>Where ownership comes from\<close>

definition owner_event :: "'k auth_config \<Rightarrow> 'k event list \<Rightarrow> 'k event \<Rightarrow> 'k auth_state \<Rightarrow> string \<Rightarrow> string \<Rightarrow> bool" where
  "owner_event cfg pre ev st k u \<longleftrightarrow>
     (\<exists>w md rname c. ev = Request w md (CreateResource u rname) \<and> u \<notin> p_created (abs_db (as_db st)) \<and>
        identified cfg (pre @ [ev]) w (bearer (o_to_str w) md) c \<and> k = ic_sub c) \<or>
     (\<exists>env name. ev = Admin env ''grant'' [k, u, name] \<and> role_parse name = Some Owner)"

lemma admin_granted:
  assumes "admin_op cmd args = Some op" and "granted_by op = Some (k, u, ''owner'')"
  shows "\<exists>name. cmd = ''grant'' \<and> args = [k, u, name] \<and> role_parse name = Some Owner"
proof -
  have owner: "as_str r = ''owner'' \<longleftrightarrow> r = Owner" for r by (cases r) simp_all
  show ?thesis using assms
    by (cases op) (auto simp: admin_op_def owner split: list.splits if_splits)
qed

lemma step_granted:
  assumes "auth_run cfg pre fresh_state st1" and "auth_step cfg ev st1 st2"
    and "p_granted (abs_db (as_db st2)) (k, u) = Some ''owner''"
    and "p_granted (abs_db (as_db st1)) (k, u) \<noteq> Some ''owner''"
  shows "owner_event cfg pre ev st1 k u"
proof -
  from auth_step_db [OF assms(2)] assms(3,4) obtain env op where op: "event_op cfg ev st1 env op"
    and db: "as_db st2 = apply_op env op (as_db st1)" by auto
  from assms(3,4) have g: "granted_by op = Some (k, u, ''owner'')"
    unfolding db using apply_op_granted by blast
  from op show ?thesis
  proof cases
    case (created w md sub rid rname)
    with g have k: "k = sub" "rid = u" by simp_all
    have "u \<notin> p_created (abs_db (as_db st1))"
      using record_owner_existing [of u "as_db st1"] assms(3,4) created k by (auto simp: db)
    with caller_identified [OF assms(1) created(4), of "CreateResource u rname"] created k show ?thesis
      unfolding owner_event_def by blast
  next
    case (administered cmd args)
    with admin_granted [OF administered(2) g] show ?thesis unfolding owner_event_def by blast
  qed (use g in simp)
qed

text \<open>C2. Ownership in the running service: whoever is reported as an owner in a state reached from an empty
  database is so by a grant, to that subject or to a group it is in by then, that one event of the
  history wrote: a creation of that resource, in the state that the events before it lead to and where
  the resource was not recorded, by a caller whose bearer named the grant's subject (verified by the
  service's own key, or under a key set that this or an earlier request fetched from the configured
  provider), or the administrator's command that grants ownership.\<close>

theorem ownership_in_service:
  assumes "auth_run cfg evs fresh_state st" and "role_for env s u (as_db st) = Some Owner"
  shows "\<exists>k \<in> policy_subjects (abs_db (as_db st)) s. \<exists>pre ev post st1.
    evs = pre @ ev # post \<and> auth_run cfg pre fresh_state st1 \<and> owner_event cfg pre ev st1 k u"
proof -
  have prov: "p_granted (abs_db (as_db st)) (k, u) = Some ''owner'' \<Longrightarrow>
      \<exists>pre ev post st1. evs = pre @ ev # post \<and> auth_run cfg pre fresh_state st1 \<and> owner_event cfg pre ev st1 k u" for k
    using assms(1)
  proof (induction "fresh_state :: 'a auth_state" st rule: auth_run.induct)
    case stop
    then show ?case by (simp add: fresh_state_def abs_db_def new_db_def granted_map_def)
  next
    case (step evs st1 ev st2)
    show ?case
    proof (cases "p_granted (abs_db (as_db st1)) (k, u) = Some ''owner''")
      case True
      from step.hyps(2) [OF this] show ?thesis by (metis append.assoc append_Cons)
    next
      case False
      from step_granted [OF step.hyps(1,3) step.prems False] step.hyps(1) show ?thesis by blast
    qed
  qed
  have "auth_inv (fresh_state :: 'a auth_state)"
    by (simp add: auth_inv_def fresh_state_def codes_ok_ops)
  from auth_run_keeps [OF assms(1) this] have "store_inv (as_db st)" by (simp add: auth_inv_def)
  from role_for_le_policy [OF this, of env s u] assms(2)
  have "policy_role (abs_db (as_db st)) s u = Some Owner" by (simp add: Some_Owner_le)
  then obtain k where "k \<in> policy_subjects (abs_db (as_db st)) s"
    "p_granted (abs_db (as_db st)) (k, u) = Some ''owner''"
    by (auto simp: policy_role_Owner_iff)
  with prov show ?thesis by blast
qed

end
