(* ===== verification/Auth_Reads.thy ===== *)
theory Auth_Reads
  imports Auth_Concurrency Section_Runs
begin

text \<open>
  What the two requests that report permissions answer, section by section, while nobody changes the
  tables: every one of their sections takes the store's lock anew, so the exact answer rests on the
  tables staying the same from the first to the last of them (\<^verbatim>\<open>Auth_Races\<close> shows that it must).
  Other requests, fetches of keys and logins may run in between.
\<close>

section \<open>The sections on unchanged tables\<close>

text \<open>The states a reading handler meets: traced, and with the tables \<open>d\<close>.\<close>

definition reading :: "('k outside \<Rightarrow> bool) \<Rightarrow> 'k auth_config \<Rightarrow> db \<Rightarrow> 'k auth_state \<Rightarrow> bool" where
  "reading W cfg d st \<longleftrightarrow> traced (\<lambda>_. True) W (\<lambda>_. True) cfg st \<and> as_db st = d"

lemma reading_run:
  assumes "pool_run (serve_act cfg) admin_change restarted xs (fresh_state, Map.empty) = (st, p)"
    and "p i = Some (q, serve_act cfg q)"
    and "stays (\<lambda>st. as_db st = d) (serve_act cfg) admin_change restarted ys (st, p)"
    and "\<forall>w. runs_in ys w \<longrightarrow> full_rows (o_sql w)"
    and "reply_of (pool_run (serve_act cfg) admin_change restarted ys (st, p)) i = Some (q', r)"
    and "sees (\<lambda>w. runs_in (xs @ ys) w \<and> full_rows (o_sql w)) (reading (runs_in (xs @ ys)) cfg d) (R q) (serve_act cfg q)"
  shows "store_inv d \<and> q' = q \<and> R q r"
proof -
  let ?W = "runs_in (xs @ ys)"
  have xs: "\<forall>x \<in> set xs. sched_ok (\<lambda>_. True) ?W (\<lambda>_. True) x" and ys: "\<forall>x \<in> set ys. sched_ok (\<lambda>_. True) ?W (\<lambda>_. True) x"
    using sched_ok_runs [of _ "xs @ ys"] by auto
  note ok = service.pool_run_ok [where Q = "\<lambda>_. True" and E = "\<lambda>_. True", OF assms(1) xs traced_fresh]
  have "stays (\<lambda>t. traced (\<lambda>_. True) ?W (\<lambda>_. True) cfg t \<and> as_db t = d) (serve_act cfg) admin_change restarted ys (st, p)"
    by (rule stays_with [OF service.shared_state_axioms traced_fresh assms(1,3)]) (use xs ys in auto)
  then have s: "stays (reading ?W cfg d) (serve_act cfg) admin_change restarted ys (st, p)"
    unfolding reading_def [abs_def] .
  have "\<forall>w. runs_in ys w \<longrightarrow> ?W w \<and> full_rows (o_sql w)" using assms(4) by (auto simp: runs_in_def)
  from sees_run [OF s assms(2,6) this assms(5)] have "q' = q \<and> R q r" .
  moreover have "as_db st = d" using assms(3) by (cases ys) simp_all
  then have "store_inv d" using ok by (simp add: traced_def)
  ultimately show ?thesis by blast
qed

lemma sees_called:
  assumes "\<And>c. caller_vouched W cfg md c \<Longrightarrow> sees W' (reading W cfg d) R (f (ic_sub c))" and "R (Inl m)"
    and "\<And>w. W' w \<Longrightarrow> W w"
  shows "sees W' (reading W cfg d) R (require (caller_act cfg md) m f)"
  unfolding require_def
  by (rule sees_bind [OF safe_sees [OF safe_caller [of W "\<lambda>_. True" "\<lambda>_. True" cfg md]]])
    (use assms in \<open>auto simp: reading_def split: sum.split\<close>)

lemma reading_role:
  assumes "full_rows (o_sql w)" and "reading W cfg d st"
  shows "role_for (o_sql w) s u (as_db st) = role_for healthy s u d"
  using assms(2) role_for_healthy [OF assms(1)] by (simp add: reading_def)

lemma sees_list_roles:
  "sees (\<lambda>w. W w \<and> full_rows (o_sql w)) (reading W cfg d)
    (\<lambda>r. r = Inr (acc @ map (\<lambda>rid. grant rid (case role_for healthy sub rid d of Some r \<Rightarrow> r | None \<Rightarrow> Member)) ids))
    (list_roles_act sub ids acc)"
proof (induction ids arbitrary: acc)
  case (Cons rid ids)
  let ?g = "\<lambda>rid. grant rid (case role_for healthy sub rid d of Some r \<Rightarrow> r | None \<Rightarrow> Member)"
  from Cons [of "acc @ [?g rid]"] show ?case by (simp add: reading_role)
qed simp

lemma sees_check_ids:
  "sees (\<lambda>w. W w \<and> full_rows (o_sql w)) (reading W cfg d)
    (\<lambda>r. r = Inr (check_ids (\<lambda>rid. role_for healthy sub rid d) ids al de))
    (check_ids_act sub ids al de)"
  by (induction ids arbitrary: al de) (simp_all add: reading_role split: option.split)

section \<open>The answers\<close>

lemma sees_lookup:
  assumes "store_inv d"
  shows "sees (\<lambda>w. W w \<and> full_rows (o_sql w)) (reading W cfg d)
    (\<lambda>r. \<forall>ps. r = Inr ps \<longrightarrow> (\<exists>c rids. caller_vouched W cfg md c \<and> distinct rids \<and>
       set rids = {rid. role_for healthy (ic_sub c) rid d \<noteq> None} \<and>
       ps = map (\<lambda>rid. grant rid (the (role_for healthy (ic_sub c) rid d))) rids))
    (lookup_user_permissions_act cfg md)" (is "sees _ _ ?R _")
  unfolding lookup_user_permissions_act_def
proof (rule sees_called)
  fix c
  assume c: "caller_vouched W cfg md c"
  show "sees (\<lambda>w. W w \<and> full_rows (o_sql w)) (reading W cfg d) ?R
    (atomic (\<lambda>w st. (st, list_roles_act (ic_sub c) (accessible (o_sql w) (ic_sub c) (as_db st)) [])))"
    unfolding sees_atomic snd_conv
  proof (intro allI impI)
    fix w st
    assume w: "W w \<and> full_rows (o_sql w)" and st: "reading W cfg d st"
    let ?rids = "accessible (o_sql w) (ic_sub c) (as_db st)"
    have d: "as_db st = d" using st by (simp add: reading_def)
    have r: "distinct ?rids" "set ?rids = {rid. role_for healthy (ic_sub c) rid d \<noteq> None}"
      using accessible_iff_role [OF assms, of "o_sql w" "ic_sub c"] w role_for_healthy [of "o_sql w" "ic_sub c" _ d]
      by (auto simp: d)
    then have "map (\<lambda>rid. grant rid (case role_for healthy (ic_sub c) rid d of Some r \<Rightarrow> r | None \<Rightarrow> Member)) ?rids
        = map (\<lambda>rid. grant rid (the (role_for healthy (ic_sub c) rid d))) ?rids"
      by (intro map_cong refl) auto
    with c r have "?R (Inr (map (\<lambda>rid. grant rid (case role_for healthy (ic_sub c) rid d of Some r \<Rightarrow> r | None \<Rightarrow> Member)) ?rids))"
      by blast
    then show "sees (\<lambda>w. W w \<and> full_rows (o_sql w)) (reading W cfg d) ?R (list_roles_act (ic_sub c) ?rids [])"
      by (intro sees_weaken [OF sees_list_roles]) simp
  qed
qed auto

lemma sees_check:
  "sees (\<lambda>w. W w \<and> full_rows (o_sql w)) (reading W cfg d)
    (\<lambda>r. \<forall>al de. r = Inr (al, de) \<longrightarrow> (\<exists>c. caller_vouched W cfg md c \<and>
       al = filter_map (\<lambda>rid. map_option (grant rid) (role_for healthy (ic_sub c) rid d)) ids \<and>
       de = map (\<lambda>rid. \<lparr>rp_resource_id = rid, rp_permission = []\<rparr>)
              (filter (\<lambda>rid. role_for healthy (ic_sub c) rid d = None) ids)))
    (check_user_permission_act cfg md ids)"
  unfolding check_user_permission_act_def
  by (rule sees_called) (auto intro!: sees_weaken [OF sees_check_ids] simp: check_ids_eq)

text \<open>C29. The listing is exact while the tables stay as they are: a caller that is answered is one whose bearer
  was verified, and the answer holds exactly the resources on which the tables give that caller a role,
  once each, with the permissions of that role (so the code's fallback role is not used), whatever other
  requests run between its sections and whatever order SQLite delivers rows in.\<close>

theorem listing_exact:
  assumes "pool_run (serve_act cfg) admin_change restarted xs (fresh_state, Map.empty) = (st, p)"
    and "p i = Some ((md, LookupUserPermissions), serve_act cfg (md, LookupUserPermissions))"
    and "stays (\<lambda>st. as_db st = d) (serve_act cfg) admin_change restarted ys (st, p)"
    and "\<forall>w. runs_in ys w \<longrightarrow> full_rows (o_sql w)"
    and "reply_of (pool_run (serve_act cfg) admin_change restarted ys (st, p)) i = Some (q, Inr (Listed ps))"
  shows "\<exists>c rids. caller_vouched (runs_in (xs @ ys)) cfg md c \<and> distinct rids \<and>
    set rids = {rid. role_for healthy (ic_sub c) rid d \<noteq> None} \<and>
    ps = map (\<lambda>rid. grant rid (the (role_for healthy (ic_sub c) rid d))) rids"
proof -
  let ?W = "runs_in (xs @ ys)"
  let ?R = "\<lambda>(q :: string option \<times> rpc) r. \<forall>ps. r = Inr (Listed ps) \<longrightarrow> (\<exists>c rids. caller_vouched ?W cfg md c \<and> distinct rids \<and>
      set rids = {rid. role_for healthy (ic_sub c) rid d \<noteq> None} \<and>
      ps = map (\<lambda>rid. grant rid (the (role_for healthy (ic_sub c) rid d))) rids)"
  have "store_inv d" using reading_run [OF assms(1-5), of "\<lambda>_ _. True"] sees_any by blast
  then have "sees (\<lambda>w. ?W w \<and> full_rows (o_sql w)) (reading ?W cfg d) (?R (md, LookupUserPermissions))
      (serve_act cfg (md, LookupUserPermissions))"
    unfolding serve_act.simps answer_def
    by (intro sees_map sees_weaken [OF sees_lookup [of d ?W cfg md]]) (auto simp: map_sum_def split: sum.splits)
  from reading_run [OF assms(1-5) this] show ?thesis by blast
qed

text \<open>C11. A permission check is exact while the tables stay as they are: every requested resource is answered,
  in the order of the request, as allowed with exactly the permissions of the role the tables give the
  verified caller there, or as denied, without permissions, when they give none; the target user named
  in the request plays no part.\<close>

theorem check_exact:
  assumes "pool_run (serve_act cfg) admin_change restarted xs (fresh_state, Map.empty) = (st, p)"
    and "p i = Some ((md, CheckUserPermission ids target), serve_act cfg (md, CheckUserPermission ids target))"
    and "stays (\<lambda>st. as_db st = d) (serve_act cfg) admin_change restarted ys (st, p)"
    and "\<forall>w. runs_in ys w \<longrightarrow> full_rows (o_sql w)"
    and "reply_of (pool_run (serve_act cfg) admin_change restarted ys (st, p)) i = Some (q, Inr (Checked allowed denied))"
  shows "\<exists>c. caller_vouched (runs_in (xs @ ys)) cfg md c \<and>
    allowed = filter_map (\<lambda>rid. map_option (grant rid) (role_for healthy (ic_sub c) rid d)) ids \<and>
    denied = map (\<lambda>rid. \<lparr>rp_resource_id = rid, rp_permission = []\<rparr>)
      (filter (\<lambda>rid. role_for healthy (ic_sub c) rid d = None) ids)"
proof -
  let ?W = "runs_in (xs @ ys)"
  let ?R = "\<lambda>(q :: string option \<times> rpc) r. \<forall>al de. r = Inr (Checked al de) \<longrightarrow> (\<exists>c. caller_vouched ?W cfg md c \<and>
      al = filter_map (\<lambda>rid. map_option (grant rid) (role_for healthy (ic_sub c) rid d)) ids \<and>
      de = map (\<lambda>rid. \<lparr>rp_resource_id = rid, rp_permission = []\<rparr>)
             (filter (\<lambda>rid. role_for healthy (ic_sub c) rid d = None) ids))"
  have "sees (\<lambda>w. ?W w \<and> full_rows (o_sql w)) (reading ?W cfg d) (?R (md, CheckUserPermission ids target))
      (serve_act cfg (md, CheckUserPermission ids target))"
    unfolding serve_act.simps answer_def
    by (intro sees_map sees_weaken [OF sees_check [of ?W cfg d md ids]]) (auto simp: map_sum_def split: sum.splits)
  from reading_run [OF assms(1-5) this] show ?thesis by blast
qed

end
