(* ===== verification/History_Witnesses.thy ===== *)
theory History_Witnesses
  imports Schedule_Witnesses Auth_Single_Use Auth_Provenance Auth_Reads Row_Order
begin

text \<open>
  Concrete inputs for the properties of histories: the origin of ownership, the end of a login session,
  the exact answers on unchanged tables, and the order of rows.
\<close>

section \<open>Ownership\<close>

lemma ownership_in_service_witness:
  "\<exists>k \<in> policy_subjects (abs_db (as_db ex_created)) ''ann@x''. \<exists>pre ev post st1.
    [ex_creation] = pre @ ev # post \<and> auth_run ex_config pre fresh_state st1 \<and>
    owner_event ex_config pre ev st1 k ''urc-9''"
proof (rule ownership_in_service [OF ex_creation_run])
  have "role_for healthy ''ann@x'' ''urc-9''
      (fst (record_owner healthy 1000 ''ann@x'' ''urc-9'' ''nine'' new_db)) = Some Owner"
    by code_simp
  then show "role_for healthy ''ann@x'' ''urc-9'' (as_db ex_created) = Some Owner"
    by (simp only: ex_created_db)
qed

section \<open>The end of a login session\<close>

abbreviation ex_poll_request :: "string option \<times> rpc" where
  "ex_poll_request \<equiv> (None, GetAuthSession ''code'' ''cs'')"

abbreviation ex_ann_token :: user_token where
  "ex_ann_token \<equiv> \<lparr>ut_token = ''tok1'', ut_expires_at = 5000, ut_user_id = ''ann@x'', ut_user_name = ''Ann''\<rparr>"

lemma interleaved_single_use_witness:
  "\<exists>n. reply_of (pool_run (serve_act ex_config) admin_change restarted
        (Arrive 0 ex_poll_request # replicate n (Run 0 ex_outside)) (ex_waiting, Map.empty)) 0
      = Some (ex_poll_request, Inr (Session (Some ex_ann_token))) \<and>
    reply_of (pool_run (serve_act ex_config) admin_change restarted
        ((Arrive 0 ex_poll_request # replicate n (Run 0 ex_outside)) @ [Arrive 1 ex_poll_request, Run 1 ex_outside])
        (ex_waiting, Map.empty)) 1
      = Some (ex_poll_request, Inl (NotFound ''unknown or expired login session''))"
proof -
  let ?go = "pool_run (serve_act ex_config) admin_change restarted"
  let ?st = "fst (serve ex_outside ex_config None (GetAuthSession ''code'' ''cs'') ex_waiting)"
  let ?p = "[0 \<mapsto> (ex_poll_request, Return (Inr (Session (Some ex_ann_token)))) ]"
  have alone: "alone ex_outside (serve_act ex_config ex_poll_request) ex_waiting = (?st, Inr (Session (Some ex_ann_token)))"
    unfolding serve_act_eq by (rule prod_eqI) (simp_all add: map_reply_def ex_login)
  obtain n where "?go (replicate n (Run 0 ex_outside)) (ex_waiting, Map.empty(0 \<mapsto> (ex_poll_request, serve_act ex_config ex_poll_request))) =
      (?st, ?p)"
    using run_alone [of "serve_act ex_config" admin_change restarted 0 ex_outside ex_waiting Map.empty ex_poll_request
        "serve_act ex_config ex_poll_request"] unfolding alone by auto
  then have first: "?go (Arrive 0 ex_poll_request # replicate n (Run 0 ex_outside)) (ex_waiting, Map.empty) = (?st, ?p)"
    by simp
  have gone: "as_sessions ?st ''code'' = None"
    using get_auth_session_code [OF disjI1 [OF ex_login]] by (simp add: map_reply_def)
  let ?ys = "[Arrive 1 ex_poll_request, Run 1 ex_outside]"
  have ends: "\<exists>r. snd (?go ?ys (?st, ?p)) 1 = Some (ex_poll_request, Return r)"
    using gone by (simp add: answer_def map_act_def get_auth_session_act_def)
      (simp add: atomic_def sessions_resolve_def Let_def sweep_apply)
  then obtain r where r: "snd (?go ?ys (?st, ?p)) 1 = Some (ex_poll_request, Return r)" by blast
  have "r = Inl (NotFound ''unknown or expired login session'')"
  proof (rule interleaved_single_use [where j = 0 and i = 1 and ys = ?ys and st = ex_waiting and code = "''code''"
        and xs = "Arrive 0 ex_poll_request # replicate n (Run 0 ex_outside)"])
    show "?go (Arrive 0 ex_poll_request # replicate n (Run 0 ex_outside)) (ex_waiting, Map.empty) = (?st, ?p)"
      by (rule first)
    show "?go ?ys (?st, ?p) = (fst (?go ?ys (?st, ?p)), snd (?go ?ys (?st, ?p)))" by simp
    show "snd (?go ?ys (?st, ?p)) 1 = Some (ex_poll_request, Return r)" by (rule r)
    show "?p 0 = Some (ex_poll_request, Return (Inr (Session (Some ex_ann_token))))" by simp
    show "ends_session ''code'' ex_poll_request (Inr (Session (Some ex_ann_token)))" by simp
    have "random_id 7 \<noteq> ''code''" by code_simp
    then show "\<forall>w. runs_in ((Arrive 0 ex_poll_request # replicate n (Run 0 ex_outside)) @ ?ys) w \<longrightarrow>
        random_id (o_random w) \<noteq> ''code''"
      by (auto simp: runs_in_def)
  qed simp_all
  with r have "reply_of (?go ?ys (?st, ?p)) 1 = Some (ex_poll_request, Inl (NotFound ''unknown or expired login session''))"
    by (simp add: reply_of_def del: pool_run.simps)
  moreover have "?go ((Arrive 0 ex_poll_request # replicate n (Run 0 ex_outside)) @ ?ys) (ex_waiting, Map.empty) = ?go ?ys (?st, ?p)"
    by (simp only: pool_run_append first)
  moreover have "reply_of (?st, ?p) 0 = Some (ex_poll_request, Inr (Session (Some ex_ann_token)))" by simp
  ultimately show ?thesis by (intro exI [of _ n]) (simp only: first simp_thms)
qed

section \<open>Exact answers\<close>

text \<open>The administrator has granted ann a repository; ann asks.\<close>

definition ex_granted :: db where
  "ex_granted = fst (run_admin healthy ''grant'' [''ann@x'', ''urc-1'', ''owner''] new_db)"

definition ex_asked :: "rpc \<Rightarrow> (string option \<times> rpc, string outside, command) sched list" where
  "ex_asked req = [Change (healthy, ''grant'', [''ann@x'', ''urc-1'', ''owner'']), Arrive 0 (Some ''Bearer tok1'', req)]"

lemma ex_asked_run:
  "pool_run (serve_act ex_config) admin_change restarted (ex_asked req) (fresh_state, Map.empty) =
    (fresh_state\<lparr>as_db := ex_granted\<rparr>, [0 \<mapsto> ((Some ''Bearer tok1'', req), serve_act ex_config (Some ''Bearer tok1'', req))])"
  by (simp add: ex_asked_def ex_granted_def fresh_state_def)

lemma ex_granted_simps:
  "role_for healthy ''ann@x'' ''urc-1'' ex_granted = Some Owner"
  "role_for healthy ''ann@x'' ''urc-2'' ex_granted = None"
  "accessible healthy ''ann@x'' ex_granted = [''urc-1'']"
  by code_simp+

abbreviation ex_turns :: "(string option \<times> rpc, string outside, command) sched list" where
  "ex_turns \<equiv> [Run 0 ex_outside, Run 0 ex_outside, Run 0 ex_outside, Run 0 ex_outside]"

lemma listing_exact_witness:
  "\<exists>c rids. caller_vouched (runs_in (ex_asked LookupUserPermissions @ ex_turns)) ex_config
      (Some ''Bearer tok1'') c \<and> distinct rids \<and>
    set rids = {rid. role_for healthy (ic_sub c) rid ex_granted \<noteq> None} \<and>
    [grant ''urc-1'' Owner] = map (\<lambda>rid. grant rid (the (role_for healthy (ic_sub c) rid ex_granted))) rids"
proof (rule listing_exact [OF ex_asked_run, where i = 0])
  let ?s = "(fresh_state\<lparr>as_db := ex_granted\<rparr>, [0 \<mapsto> ((Some ''Bearer tok1'', LookupUserPermissions),
      serve_act ex_config (Some ''Bearer tok1'', LookupUserPermissions))])"
  show "stays (\<lambda>st. as_db st = ex_granted) (serve_act ex_config) admin_change restarted (ex_turns) ?s"
    by (simp add: ex_act_simps lookup_user_permissions_act_def atomic_def ex_granted_simps)
  show "reply_of (pool_run (serve_act ex_config) admin_change restarted (ex_turns) ?s) 0 =
      Some ((Some ''Bearer tok1'', LookupUserPermissions), Inr (Listed [grant ''urc-1'' Owner]))"
    by (simp add: ex_act_simps lookup_user_permissions_act_def atomic_def ex_granted_simps)
qed (auto simp: runs_in_def)

lemma check_exact_witness:
  "\<exists>c. caller_vouched (runs_in (ex_asked (CheckUserPermission [''urc-2'', ''urc-1''] None) @ ex_turns)) ex_config
      (Some ''Bearer tok1'') c \<and>
    [grant ''urc-1'' Owner] = filter_map (\<lambda>rid. map_option (grant rid) (role_for healthy (ic_sub c) rid ex_granted)) [''urc-2'', ''urc-1''] \<and>
    [\<lparr>rp_resource_id = ''urc-2'', rp_permission = []\<rparr>] = map (\<lambda>rid. \<lparr>rp_resource_id = rid, rp_permission = []\<rparr>)
      (filter (\<lambda>rid. role_for healthy (ic_sub c) rid ex_granted = None) [''urc-2'', ''urc-1''])"
proof (rule check_exact [OF ex_asked_run, where i = 0])
  let ?q = "(Some ''Bearer tok1'', CheckUserPermission [''urc-2'', ''urc-1''] None)"
  let ?s = "(fresh_state\<lparr>as_db := ex_granted\<rparr>, [0 \<mapsto> (?q, serve_act ex_config ?q)])"
  show "stays (\<lambda>st. as_db st = ex_granted) (serve_act ex_config) admin_change restarted ex_turns ?s"
    by (simp add: ex_act_simps check_user_permission_act_def atomic_def ex_granted_simps)
  show "reply_of (pool_run (serve_act ex_config) admin_change restarted ex_turns ?s) 0 =
      Some (?q, Inr (Checked [grant ''urc-1'' Owner] [\<lparr>rp_resource_id = ''urc-2'', rp_permission = []\<rparr>]))"
    by (simp add: ex_act_simps check_user_permission_act_def atomic_def ex_granted_simps)
qed (auto simp: runs_in_def)

section \<open>The order of rows\<close>

text \<open>An SQLite that returns rows last first, and ann with two grants.\<close>

definition ex_reversed :: sql_env where
  "ex_reversed = \<lparr>sql_fails = (\<lambda>_ _. None), sql_order = (\<lambda>n. rev [0..<n])\<rparr>"

definition ex_reversed_world :: "string outside" where
  "ex_reversed_world = ex_outside\<lparr>o_sql := ex_reversed\<rparr>"

definition ex_two_grants :: "string event list" where
  "ex_two_grants = [Admin ex_reversed ''grant'' [''ann@x'', ''urc-1'', ''owner''],
     Admin ex_reversed ''grant'' [''ann@x'', ''urc-2'', ''member'']]"

definition ex_two :: "string auth_state" where
  "ex_two = fold (do_event ex_config) ex_two_grants fresh_state"

lemma row_order_irrelevant_witness:
  "auth_run ex_config (map event_in_order ex_two_grants) fresh_state ex_two \<and>
   snd (serve ex_reversed_world ex_config (Some ''Bearer tok1'') LookupUserPermissions ex_two) =
     Inr (Listed [grant ''urc-2'' Member, grant ''urc-1'' Owner]) \<and>
   same_answer (Inr (Listed [grant ''urc-2'' Member, grant ''urc-1'' Owner]))
     (snd (serve ex_outside ex_config (Some ''Bearer tok1'') LookupUserPermissions ex_two))"
proof -
  have env: "no_faults ex_reversed" "full_rows ex_reversed"
    by (auto simp: no_faults_def full_rows_def ex_reversed_def)
  have w: "o_sql ex_reversed_world = ex_reversed" "ex_reversed_world\<lparr>o_sql := healthy\<rparr> = ex_outside"
    by (simp_all add: ex_reversed_world_def ex_outside_def)
  have "caller ex_reversed_world ex_config (Some ''Bearer tok1'') ex_two = (ex_two, Inr ''ann@x'')"
    using caller_in_order(1) [of ex_reversed_world] unfolding w by (metis ex_caller)
  moreover have "as_db ex_two = fst (run_admin ex_reversed ''grant'' [''ann@x'', ''urc-2'', ''member'']
      (fst (run_admin ex_reversed ''grant'' [''ann@x'', ''urc-1'', ''owner''] new_db)))"
    by (simp add: ex_two_def ex_two_grants_def fresh_state_def)
  moreover have "map (\<lambda>rid. grant rid (case role_for ex_reversed ''ann@x'' rid (fst (run_admin ex_reversed ''grant'' [''ann@x'', ''urc-2'', ''member'']
        (fst (run_admin ex_reversed ''grant'' [''ann@x'', ''urc-1'', ''owner''] new_db)))) of Some r \<Rightarrow> r | None \<Rightarrow> Member))
      (accessible ex_reversed ''ann@x'' (fst (run_admin ex_reversed ''grant'' [''ann@x'', ''urc-2'', ''member'']
        (fst (run_admin ex_reversed ''grant'' [''ann@x'', ''urc-1'', ''owner''] new_db)))))
      = [grant ''urc-2'' Member, grant ''urc-1'' Owner]"
    by code_simp
  ultimately have "snd (serve ex_reversed_world ex_config (Some ''Bearer tok1'') LookupUserPermissions ex_two) =
      Inr (Listed [grant ''urc-2'' Member, grant ''urc-1'' Owner])"
    by (simp add: map_reply_def lookup_user_permissions_def w)
  moreover have "auth_run ex_config ex_two_grants fresh_state ex_two" by (simp add: auth_run_fold ex_two_def)
  from row_order_irrelevant [OF this, of ex_reversed_world "Some ''Bearer tok1''" LookupUserPermissions] env
  have "auth_run ex_config (map event_in_order ex_two_grants) fresh_state ex_two \<and>
      same_answer (snd (serve ex_reversed_world ex_config (Some ''Bearer tok1'') LookupUserPermissions ex_two))
        (snd (serve ex_outside ex_config (Some ''Bearer tok1'') LookupUserPermissions ex_two))"
    unfolding w by (simp add: ex_two_grants_def del: serve.simps)
  ultimately show ?thesis by metis
qed

end
