(* ===== verification/Token_Witnesses.thy ===== *)
theory Token_Witnesses
  imports Witnesses Token_Tests
begin

text \<open>
  Concrete inputs for the tests of token signing and verification.
\<close>



























end
