(* ===== verification/Spec2Isabelle.thy ===== *)
theory Spec2Isabelle
  imports History_Witnesses Token_Witnesses
begin

text \<open>
  \<^bold>\<open>Kaguya\<close>: an auth service and a web frontend for a self-hosted Lore server.  Both are Rust programs;
  this library models all of their hand-written code.

  \<^bold>\<open>The parts and how they interact.\<close>  The auth service (\<^verbatim>\<open>auth/src\<close>) logs users in with
  the provider's device flow, turns an identity token of the provider into a token of its own, mints
  tokens scoped to repositories, and answers loreserver's questions about who may access what, from a
  SQLite store that an administrator's command line also writes.  The web frontend
  (\<^verbatim>\<open>web/src\<close>) logs a browser in with the authorization-code flow and PKCE, has the auth service
  exchange the identity token, keeps the result in a session behind a cookie, and lists the
  repositories that loreserver shows to that token.

  \<^bold>\<open>Theories.\<close>
  \<^item> \<^verbatim>\<open>Kaguya_Prelude\<close>: integer widths, the operations of the Rust string library that the code calls,
    outcomes with panics, and the contract \<^verbatim>\<open>printed\<close> of a printed form (role names, repository ids).
  \<^item> \<^verbatim>\<open>Expiring_Table\<close>: the contract of a table whose entries expire, with the lemmas on runs of its
    operations; the login sessions of the auth service and the two tables of the frontend keep it.
  \<^item> \<^verbatim>\<open>Login_Sessions\<close> (\<^verbatim>\<open>auth/src/sessions.rs\<close>): the device-flow sessions.
  \<^item> \<^verbatim>\<open>Hex_Codec\<close> (\<^verbatim>\<open>web/src/lore.rs\<close>, \<^verbatim>\<open>random_id\<close>, \<^verbatim>\<open>random_state\<close>): hexadecimal text.
  \<^item> \<^verbatim>\<open>Rebac_Store\<close> (\<^verbatim>\<open>auth/src/store.rs\<close>): roles, the three tables, the SQL statements, the store's
    operations; \<^verbatim>\<open>Rebac_Policy\<close>: the table invariant, the abstract access policy and the refinement of
    the store to it; \<^verbatim>\<open>Rebac_History\<close>: each operation's effect on everybody's role, runs of operations,
    where ownership comes from, and the contract \<^verbatim>\<open>authority\<close> the handlers rely on.
  \<^item> \<^verbatim>\<open>Outside\<close>: what is not in the repository, as records of functions (HTTP, JSON, files, RSA, JWT), and
    the documented behaviour some theorems assume (\<^verbatim>\<open>decodes_own\<close>, \<^verbatim>\<open>unforgeable\<close>).
  \<^item> \<^verbatim>\<open>Signing_Keys\<close> (\<^verbatim>\<open>auth/src/keys.rs\<close>, \<^verbatim>\<open>auth/src/jwks.rs\<close>): the signing key on disk, its JWK, minting.
  \<^item> \<^verbatim>\<open>Token_Verify\<close> (\<^verbatim>\<open>auth/src/verify.rs\<close>): the two verifiers, the cached key set, the canonical account;
    the contract \<^verbatim>\<open>pinned_verifier\<close> says what either accepts.
  \<^item> \<^verbatim>\<open>Device_Flow\<close> (\<^verbatim>\<open>auth/src/oidc_device.rs\<close>): starting and polling a device login.
  \<^item> \<^verbatim>\<open>Auth_Service\<close> (\<^verbatim>\<open>auth/src/main.rs\<close>): every RPC as a function on the state (database, login sessions,
    cached keys) and the dispatch \<^verbatim>\<open>serve\<close>: a request that nothing interrupts; \<^verbatim>\<open>Auth_Properties\<close> and
    \<^verbatim>\<open>Auth_Login\<close>: what they guarantee; \<^verbatim>\<open>Auth_Main\<close>: the administrator's commands, the start of the
    service, and the service as a step relation over requests, commands and restarts, with its reachable
    states; \<^verbatim>\<open>Row_Order\<close>: histories do not depend on the order in which SQLite returns rows.
  \<^item> \<^verbatim>\<open>Sections\<close>: requests as sequences of atomic sections (\<^verbatim>\<open>act\<close>: return, or one section and a
    continuation), a pool of running requests under a schedule of arrivals, sections, outside changes and
    restarts, and the contract \<^verbatim>\<open>shared_state\<close> with its rely-guarantee argument on whole schedules;
    \<^verbatim>\<open>Section_Runs\<close>: rules for handlers that meet only states with a property, and for replies that
    leave one behind.
  \<^item> \<^verbatim>\<open>Auth_Sections\<close>: the auth service's handlers cut where the source awaits or releases a lock, and the
    dispatch \<^verbatim>\<open>serve_act\<close>; \<^verbatim>\<open>Auth_Concurrency\<close>: what holds under every schedule, with the administrator's
    commands and restarts between any two sections; \<^verbatim>\<open>Auth_Provenance\<close>: the event of a history that
    wrote an ownership, and how its caller was identified; \<^verbatim>\<open>Auth_Single_Use\<close>: an answered login
    session is over for every later poll; \<^verbatim>\<open>Auth_Reads\<close>: checks and listings are exact while the tables
    stay as they are; \<^verbatim>\<open>Auth_Races\<close>: two schedules whose outcome no sequential run has;
    \<^verbatim>\<open>Auth_Liveness\<close>: a login that is confirmed and polled in time completes.
  \<^item> \<^verbatim>\<open>Web_Store\<close>, \<^verbatim>\<open>Web_Clients\<close>, \<^verbatim>\<open>Web_App\<close> (\<^verbatim>\<open>web/src\<close>): the frontend's two tables and its cookie,
    its three clients, its handlers, router and start; \<^verbatim>\<open>Web_Properties\<close>: its guarantees over whole
    histories of requests.  \<^verbatim>\<open>Web_Sections\<close> and \<^verbatim>\<open>Web_Concurrency\<close>: the handlers in sections and what holds under
    every schedule; \<^verbatim>\<open>Web_Types\<close>: the status, headers and body each route can answer with.
  \<^item> \<^verbatim>\<open>Unit_Tests\<close>, \<^verbatim>\<open>Token_Tests\<close>: the repository's own unit tests as Boolean functions of the libraries,
    clocks and file systems they run on; they hold for all of those, not for one run.
  \<^item> \<^verbatim>\<open>Example_World\<close>, \<^verbatim>\<open>Witnesses\<close>, \<^verbatim>\<open>Schedule_Witnesses\<close>, \<^verbatim>\<open>History_Witnesses\<close>, \<^verbatim>\<open>Token_Witnesses\<close>: a
    concrete outside world, on which every property that has hypotheses is applied.
  \<^item> This theory: the frontend over the auth service.

  \<^bold>\<open>What is shown.\<close>  Authorization: every owner comes from a creation or an administrator's grant at a known
  point of the history, no request promotes anybody but the creator of an unrecorded resource, scoped
  tokens carry no more than the tables give, the store refines the policy, checks and listings answer
  exactly what unchanged tables say.  Identity: accepted bearers are genuine, a login hands out a token
  for the account the provider's verified token names and lives for the provider's lifetime; once it is
  answered, no poll that begins later gets anything from it (two polls that overlap can both be answered,
  \<^verbatim>\<open>double_poll\<close>).  Frontend: every session comes from a completed login with its own PKCE verifier,
  login states work once, logging out is final, no handler panics.  Robustness: the same results
  whatever the order of rows, no more than the policy under failing SQL statements and dropped rows,
  the signing key survives restarts, times stay in range.  Concurrency: under every schedule each role,
  session and reply has its cause among the requests, sections and commands that ran, a login state and
  a logout act from the moment their first section has run, and every request is answered after a
  number of its own sections (\<^verbatim>\<open>sections_of\<close>) that depends on the request and the size of the grant table.
  The handlers in one step and in sections are two renderings of the same code; that they agree when
  nothing interrupts (\<^verbatim>\<open>serve_act_alone\<close>, \<^verbatim>\<open>web_act_alone\<close>) checks the renderings against each other and
  carries facts between them, and is not counted as a property of the program.  The theorems that show a weakness of the code are
  \<^verbatim>\<open>granted_owner_not_reserved\<close>, \<^verbatim>\<open>record_owner_half_done\<close>, \<^verbatim>\<open>canonical_subject_collision\<close>,
  \<^verbatim>\<open>from_hex_odd_inputs\<close>, \<^verbatim>\<open>double_poll\<close>, \<^verbatim>\<open>stale_listing\<close> and, for a token that has expired, \<^verbatim>\<open>completed_login_shows\<close>.

  \<^bold>\<open>Conventions.\<close>  A text is its UTF-8 bytes; a \<^verbatim>\<open>Result\<close> is a sum with the error on the left; Rust's
  bytes and 64- and 128-bit integers are words where their width matters, clock values are naturals or
  integers with the range shown separately.  A section ends where the source awaits another task or
  releases a lock; the two statements of one store operation are one section.  No definition uses fuel: every loop of the code runs
  over a list and is structural recursion or a library function on lists.

  \<^bold>\<open>Not modelled.\<close>  Generated gRPC code, the proto files, the page's JavaScript and the deployment scripts;
  log lines; a panic of \<^verbatim>\<open>unwrap\<close> on a prepared statement or a poisoned lock; the administrator's process
  between the two statements of one store operation, which the service's own lock does not exclude;
  the creation and removal of the temporary directories of the unit tests; a stream of loreserver that does not end; the query extractor's rejection of malformed
  query strings.  In the one-step model one clock reading serves a whole RPC of the auth service, except for
  the login sessions, whose two readings are kept apart; in sections every section has its own, and
  the frontend's readings are all separate, one per entry in a \<^verbatim>\<open>retain\<close> pass.
\<close>

section \<open>The frontend over the auth service\<close>

fun status_text :: "status \<Rightarrow> string" where
  "status_text (Unauthenticated m) = m"
| "status_text (Internal m) = m"
| "status_text (PermissionDenied m) = m"
| "status_text (NotFound m) = m"
| "status_text (Unimplemented m) = m"

text \<open>The auth service as the remote end of the frontend's auth client.\<close>

definition issued_reply ::
  "'k auth_state \<times> (status + reply) \<Rightarrow> 'k auth_state \<times> (string + user_token option)" where
  "issued_reply r = (fst r,
     case snd r of Inl s \<Rightarrow> Inl (status_text s)
     | Inr (Issued ut) \<Rightarrow> Inr (Some ut) | Inr _ \<Rightarrow> Inr None)"

definition auth_backend :: "'k outside \<Rightarrow> 'k auth_config \<Rightarrow> ('k auth_state) auth_api" where
  "auth_backend aw cfg =
     \<lparr>aa_connect = (\<lambda>_. None),
      aa_exchange_external = (\<lambda>tok ty st. issued_reply (serve aw cfg None (ExchangeExternal tok) st)),
      aa_exchange_multi = (\<lambda>md ids st.
        issued_reply (serve aw cfg (md_ascii md ''authorization'') (ExchangeMultiresource ids) st))\<rparr>"

lemma issued_reply_Some:
  "issued_reply (map_reply Issued r) = (st', Inr (Some ut)) \<longleftrightarrow> r = (st', Inr ut)"
  by (cases r) (auto simp: issued_reply_def map_reply_def split: sum.splits)

lemma authn_token_Inr:
  assumes "authn_token w cfg c = Inr ut"
  shows "mint (o_jwt w) (o_now w) (ac_signer cfg) (ac_issuer cfg) (ac_audience cfg)
      (canonical_subject (o_unicode_lower w) c) (fst (display_names c)) (snd (display_names c))
      (ic_exp c) [] = Inr (ut_token ut) \<and>
    ut_user_id ut = canonical_subject (o_unicode_lower w) c \<and>
    ut_user_name ut = fst (display_names c) \<and> ut_expires_at ut = sint (ic_exp c)"
  using assms by (auto simp: authn_token_def Let_def split: prod.splits sum.splits)

lemma exchange_external_token_Inr:
  assumes "exchange_external_token w cfg ext st = (st', Inr ut)"
  shows "\<exists>c. snd (provider_claims w cfg ext st) = Inr c \<and> authn_token w cfg c = Inr ut"
  using assms by (auto simp: exchange_external_token_def split: if_splits prod.splits sum.splits)

text \<open>A minted token is read back as the identity it was minted for, while it is valid.\<close>

lemma minted_is_own:
  assumes "mint J t (ac_signer cfg) (ac_issuer cfg) (ac_audience cfg) sub nm pref e rs = Inr tok"
    and "decodes_own J (encoding_key (ac_signer cfg)) (sv_key (id_self (ac_identity cfg)))"
    and "config_ok J cfg" and "o_jwt w = J" and "o_now w \<le> unat e + 60"
  shows "\<exists>c. caller_claims w cfg tok st = (st, Inr c) \<and> ic_sub c = sub \<and> ic_exp c = e \<and>
    display_names c = (nm, pref)"
proof -
  let ?mc = "\<lparr>mc_iss = ac_issuer cfg, mc_sub = sub, mc_aud = [ac_audience cfg], mc_iat = of_nat t, mc_exp = e,
      mc_name = nm, mc_preferred_username = pref, mc_is_service_account = False, mc_resources = rs\<rparr>"
  let ?v = "\<lparr>v_alg = RS256, v_issuers = [ac_issuer cfg], v_audiences = [ac_audience cfg], v_validate_exp = True\<rparr>"
  have "accepts ?v (o_now w) \<lparr>h_alg = RS256, h_kid = Some (kid (ac_signer cfg))\<rparr> ?mc"
    using assms(5) by (simp add: accepts_def)
  with assms(1,2) have "jwt_decode J (o_now w) tok (sv_key (id_self (ac_identity cfg))) ?v = Inr (identity_of ?mc)"
    unfolding decodes_own_def mint_def by blast
  with assms(3,4) have "caller_claims w cfg tok st = (st, Inr (identity_of ?mc))"
    by (simp add: caller_claims_def id_claims_def self_claims_def config_ok_def)
  moreover have "ic_sub (identity_of ?mc) = sub" "ic_exp (identity_of ?mc) = e"
    by (simp_all add: identity_of_def)
  ultimately show ?thesis by simp
qed

text \<open>C14. A web login is an account of the auth service: over the service itself as the remote end, a completed login's
  session carries the canonical account of an identity that the service verified with the provider, its
  token was minted for that account with no grants, and until it expires the auth service reads that
  token back as that same account and names.\<close>

theorem web_login_identity:
  assumes "wo_auth w = auth_backend aw cfg" and "completes w wc r st = Some i"
    and "decodes_own (o_jwt aw) (encoding_key (ac_signer cfg)) (sv_key (id_self (ac_identity cfg)))"
    and "config_ok (o_jwt aw) cfg" and "o_jwt aw2 = o_jwt aw"
  shows "\<exists>id_token c. snd (provider_claims aw cfg id_token (wt_auth st)) = Inr c \<and>
    is_user_id i = canonical_subject (o_unicode_lower aw) c \<and> is_expires_at i = sint (ic_exp c) \<and>
    mint (o_jwt aw) (o_now aw) (ac_signer cfg) (ac_issuer cfg) (ac_audience cfg) (is_user_id i)
      (is_user_name i) (snd (display_names c)) (ic_exp c) [] = Inr (is_token i) \<and>
    (o_now aw2 \<le> unat (ic_exp c) + 60 \<longrightarrow>
      (\<exists>c2. caller_claims aw2 cfg (is_token i) st2 = (st2, Inr c2) \<and> ic_sub c2 = is_user_id i \<and>
         display_names c2 = (is_user_name i, snd (display_names c))))"
proof -
  from assms(2) obtain id_token a where "exchange_external (auth_backend aw cfg) (wc_auth_endpoint wc) id_token (wt_auth st) = (a, Inr i)"
    unfolding completes_Some assms(1) by blast
  then obtain ut where ut: "exchange_external_token aw cfg id_token (wt_auth st) = (a, Inr ut)"
    and i: "i = \<lparr>is_token = ut_token ut, is_user_id = ut_user_id ut, is_user_name = ut_user_name ut,
              is_expires_at = ut_expires_at ut\<rparr>"
    by (auto simp: exchange_external_Inr auth_backend_def issued_reply_Some)
  from exchange_external_token_Inr [OF ut] obtain c
    where c: "snd (provider_claims aw cfg id_token (wt_auth st)) = Inr c" and a: "authn_token aw cfg c = Inr ut"
    by blast
  note m = authn_token_Inr [OF a]
  have "\<exists>c2. caller_claims aw2 cfg (ut_token ut) st2 = (st2, Inr c2) \<and> ic_sub c2 = ut_user_id ut \<and>
      display_names c2 = (ut_user_name ut, snd (display_names c))" if "o_now aw2 \<le> unat (ic_exp c) + 60"
    using minted_is_own [OF _ assms(3,4,5) that] m by metis
  with c m i show ?thesis by (intro exI [of _ id_token] exI [of _ c]) auto
qed

text \<open>C17. A scoped token for the frontend: what the auth client obtains from the auth service for a repository,
  with the token of a session, is a token of the service for the subject of that session's token; its
  grants are on that repository alone, and carry no more than the role the tables give the subject
  there; the tables are not changed.\<close>

theorem web_scoped_token:
  assumes "exchange_resource hv (auth_backend aw cfg) endpoint authn rid st = (st', Inr tok)"
    and "o_to_str aw (''Bearer '' @ authn) = Some (''Bearer '' @ authn)"
  shows "as_db st' = as_db st \<and> (\<exists>c rs.
    snd (caller_claims aw cfg authn st) = Inr c \<and>
    mint (o_jwt aw) (o_now aw) (ac_signer cfg) (ac_issuer cfg) (ac_audience cfg) (ic_sub c)
      (fst (display_names c)) (snd (display_names c)) (ic_exp c) rs = Inr tok \<and>
    (\<forall>g \<in> set rs. resource_id g = rid \<and>
       (\<exists>r. role_for healthy (ic_sub c) rid (as_db st) = Some r \<and>
            set (permission g) \<subseteq> set (permissions r))))"
proof -
  obtain ut where ex: "exchange_multiresource aw cfg (Some (''Bearer '' @ authn)) [rid] st = (st', Inr ut)"
    and tok: "ut_token ut = tok"
    using assms(1) unfolding exchange_resource_Inr by (auto simp: auth_backend_def issued_reply_Some)
  have "bearer (o_to_str aw) (Some (''Bearer '' @ authn)) = authn"
    using assms(2) by (simp add: bearer_def)
  with scoped_token [OF ex] tok obtain c rs where
    "as_db st' = as_db st" "snd (caller_claims aw cfg authn st) = Inr c"
    "mint (o_jwt aw) (o_now aw) (ac_signer cfg) (ac_issuer cfg) (ac_audience cfg) (ic_sub c)
      (fst (display_names c)) (snd (display_names c)) (ic_exp c) rs = Inr tok"
    and g: "\<forall>g \<in> set rs. resource_id g \<in> set [rid] \<and>
      (\<exists>r. role_for healthy (ic_sub c) (resource_id g) (as_db st) = Some r \<and>
           set (permission g) \<subseteq> set (permissions r))"
    by metis
  moreover from g have "\<forall>g \<in> set rs. resource_id g = rid \<and>
      (\<exists>r. role_for healthy (ic_sub c) rid (as_db st) = Some r \<and>
           set (permission g) \<subseteq> set (permissions r))" by auto
  ultimately show ?thesis by blast
qed

lemma ex_backend_completes:
  "completes (ex_web (auth_backend ex_outside ex_config) 9) ex_web_config (ex_callback_request 5)
     (fst (web_serve (ex_web (auth_backend ex_outside ex_config) 5) ex_web_config ex_login_request
       (web_initial ex_state))) = Some ex_issued"
proof -
  have a: "wt_auth (fst (web_serve (ex_web A 5) ex_web_config ex_login_request (web_initial a))) = a" for A a
    by (simp add: ex_login_request_def web_serve_def login_def web_initial_def Let_def split: sum.split)
  have "exchange_external_token ex_outside ex_config ''idtok'' ex_state = (ex_state,
      Inr \<lparr>ut_token = ''tok1'', ut_expires_at = 5000, ut_user_id = ''ann@x'', ut_user_name = ''Ann''\<rparr>)"
    by (simp add: exchange_external_token_def ex_provider ex_authn)
  then have "exchange_external (auth_backend ex_outside ex_config) e ''idtok'' ex_state = (ex_state, Inr ex_issued)" for e
    unfolding exchange_external_Inr by (simp add: auth_backend_def issued_reply_Some ex_issued_def)
  then show ?thesis by (simp add: completes_def ex_taken ex_code a)
qed

lemma web_login_identity_witness:
  "\<exists>id_token c. snd (provider_claims ex_outside ex_config id_token (wt_auth
      (fst (web_serve (ex_web (auth_backend ex_outside ex_config) 5) ex_web_config ex_login_request
        (web_initial ex_state))))) = Inr c \<and>
    is_user_id ex_issued = canonical_subject (o_unicode_lower ex_outside) c \<and>
    is_expires_at ex_issued = sint (ic_exp c) \<and>
    mint (o_jwt ex_outside) (o_now ex_outside) (ac_signer ex_config) (ac_issuer ex_config)
      (ac_audience ex_config) (is_user_id ex_issued) (is_user_name ex_issued)
      (snd (display_names c)) (ic_exp c) [] = Inr (is_token ex_issued) \<and>
    (o_now ex_outside \<le> unat (ic_exp c) + 60 \<longrightarrow>
      (\<exists>c2. caller_claims ex_outside ex_config (is_token ex_issued) ex_state = (ex_state, Inr c2) \<and>
         ic_sub c2 = is_user_id ex_issued \<and>
         display_names c2 = (is_user_name ex_issued, snd (display_names c))))"
  by (rule web_login_identity [OF _ ex_backend_completes])
    (simp_all add: ex_decodes_own ex_config_ok)

lemma web_scoped_token_witness:
  "as_db ex_state = as_db ex_state \<and> (\<exists>c rs.
    snd (caller_claims ex_outside ex_config ''tok1'' ex_state) = Inr c \<and>
    mint (o_jwt ex_outside) (o_now ex_outside) (ac_signer ex_config) (ac_issuer ex_config) (ac_audience ex_config)
      (ic_sub c) (fst (display_names c)) (snd (display_names c)) (ic_exp c) rs = Inr ''tok2'' \<and>
    (\<forall>g \<in> set rs. resource_id g = ''urc-1'' \<and>
       (\<exists>r. role_for healthy (ic_sub c) ''urc-1'' (as_db ex_state) = Some r \<and>
            set (permission g) \<subseteq> set (permissions r))))"
proof (rule web_scoped_token)
  have "exchange_multiresource ex_outside ex_config (Some ''Bearer tok1'') [''urc-1''] ex_state =
    (ex_state, Inr \<lparr>ut_token = ''tok2'', ut_expires_at = 5000, ut_user_id = ''ann@x'', ut_user_name = ''Ann''\<rparr>)"
    by (rule ex_scope_exchanged [OF ex_scopes(1)]) (simp add: ex_state_def)
  then show "exchange_resource is_visible (auth_backend ex_outside ex_config) ''E'' ''tok1'' ''urc-1'' ex_state =
      (ex_state, Inr ''tok2'')"
    unfolding exchange_resource_Inr by (simp add: auth_backend_def issued_reply_Some is_visible_def)
qed simp

end
